(* ===== verification/Error_Codes.thy ===== *)
theory Error_Codes
  imports Prelude
begin

text \<open>
  Error values.

  \<^item> \<open>proto/vairedb/v1/error.proto\<close>: the error code enumeration with its discriminants.
  \<^item> \<open>crates/vairedb-common/src/error/sqlstate.rs\<close>: the SQLSTATE of a code.
  \<^item> \<open>crates/vairedb-coordinator/src/error/error.rs\<close>: the coordinator's error type and the
    code it reports. The payload of a redb error or of a gRPC transport error is its text; a
    gRPC status is its code and its text.
  \<^item> \<open>crates/vairedb-core/src/error/error.rs\<close>: the storage node's error type, the
    classification of a DuckDB message and the code reported.
\<close>

section \<open>Codes\<close>

text \<open>The constructors carry the prefix \<open>V_\<close>; the discriminants are the proto file's.\<close>

datatype vdb_error_code =
  V_Unspecified
| V_TableNotFound
| V_ColumnNotFound
| V_TypeMismatch
| V_SqlSyntaxError
| V_FeatureNotSupported
| V_TableAlreadyExists
| V_ColumnAlreadyExists
| V_WrongObjectType
| V_InFailedTransaction
| V_NoActiveTransaction
| V_InvalidSavepoint
| V_ReadOnlyTransaction
| V_PartialCommit
| V_SchemaNotFound
| V_SchemaAlreadyExists
| V_DependentObjectsExist
| V_UndefinedObject
| V_InvalidParameterValue
| V_CantChangeRuntimeParam
| V_NumericValueOutOfRange
| V_DivisionByZero
| V_InvalidTextRepresentation
| V_GroupingError
| V_WindowingError
| V_InvalidArgumentForNthValue
| V_UndefinedFunction
| V_NullValueNotAllowed
| V_DatetimeFieldOverflow
| V_ShardNotFound
| V_WriteConflict
| V_EngineError
| V_WriteQueueFull
| V_NodeNotFound
| V_NodeUnavailable
| V_NodeShuttingDown
| V_QuorumNotReached
| V_NoAliveNodes
| V_ShardNotAssigned
| V_ShardUnavailable
| V_NodeCommunicationError
| V_CatalogStorageError
| V_CatalogTransactionError
| V_CatalogCommitError
| V_CatalogAccessError
| V_SerializationError
| V_InternalError

fun vdb_code_i32 :: "vdb_error_code \<Rightarrow> int" where
  "vdb_code_i32 V_Unspecified = 0"
| "vdb_code_i32 V_TableNotFound = 1000"
| "vdb_code_i32 V_ColumnNotFound = 1001"
| "vdb_code_i32 V_TypeMismatch = 1002"
| "vdb_code_i32 V_SqlSyntaxError = 1003"
| "vdb_code_i32 V_FeatureNotSupported = 1004"
| "vdb_code_i32 V_TableAlreadyExists = 1005"
| "vdb_code_i32 V_ColumnAlreadyExists = 1006"
| "vdb_code_i32 V_WrongObjectType = 1007"
| "vdb_code_i32 V_InFailedTransaction = 1008"
| "vdb_code_i32 V_NoActiveTransaction = 1009"
| "vdb_code_i32 V_InvalidSavepoint = 1010"
| "vdb_code_i32 V_ReadOnlyTransaction = 1011"
| "vdb_code_i32 V_PartialCommit = 1012"
| "vdb_code_i32 V_SchemaNotFound = 1013"
| "vdb_code_i32 V_SchemaAlreadyExists = 1014"
| "vdb_code_i32 V_DependentObjectsExist = 1015"
| "vdb_code_i32 V_UndefinedObject = 1016"
| "vdb_code_i32 V_InvalidParameterValue = 1017"
| "vdb_code_i32 V_CantChangeRuntimeParam = 1018"
| "vdb_code_i32 V_NumericValueOutOfRange = 1019"
| "vdb_code_i32 V_DivisionByZero = 1020"
| "vdb_code_i32 V_InvalidTextRepresentation = 1021"
| "vdb_code_i32 V_GroupingError = 1022"
| "vdb_code_i32 V_WindowingError = 1023"
| "vdb_code_i32 V_InvalidArgumentForNthValue = 1024"
| "vdb_code_i32 V_UndefinedFunction = 1025"
| "vdb_code_i32 V_NullValueNotAllowed = 1026"
| "vdb_code_i32 V_DatetimeFieldOverflow = 1027"
| "vdb_code_i32 V_ShardNotFound = 2000"
| "vdb_code_i32 V_WriteConflict = 2001"
| "vdb_code_i32 V_EngineError = 2002"
| "vdb_code_i32 V_WriteQueueFull = 2003"
| "vdb_code_i32 V_NodeNotFound = 3000"
| "vdb_code_i32 V_NodeUnavailable = 3001"
| "vdb_code_i32 V_NodeShuttingDown = 3002"
| "vdb_code_i32 V_QuorumNotReached = 3003"
| "vdb_code_i32 V_NoAliveNodes = 3004"
| "vdb_code_i32 V_ShardNotAssigned = 3005"
| "vdb_code_i32 V_ShardUnavailable = 3006"
| "vdb_code_i32 V_NodeCommunicationError = 3007"
| "vdb_code_i32 V_CatalogStorageError = 4000"
| "vdb_code_i32 V_CatalogTransactionError = 4001"
| "vdb_code_i32 V_CatalogCommitError = 4002"
| "vdb_code_i32 V_CatalogAccessError = 4003"
| "vdb_code_i32 V_SerializationError = 5000"
| "vdb_code_i32 V_InternalError = 5001"

definition vdb_codes :: "vdb_error_code list" where
  "vdb_codes = [V_Unspecified,
     V_TableNotFound,
     V_ColumnNotFound,
     V_TypeMismatch,
     V_SqlSyntaxError,
     V_FeatureNotSupported,
     V_TableAlreadyExists,
     V_ColumnAlreadyExists,
     V_WrongObjectType,
     V_InFailedTransaction,
     V_NoActiveTransaction,
     V_InvalidSavepoint,
     V_ReadOnlyTransaction,
     V_PartialCommit,
     V_SchemaNotFound,
     V_SchemaAlreadyExists,
     V_DependentObjectsExist,
     V_UndefinedObject,
     V_InvalidParameterValue,
     V_CantChangeRuntimeParam,
     V_NumericValueOutOfRange,
     V_DivisionByZero,
     V_InvalidTextRepresentation,
     V_GroupingError,
     V_WindowingError,
     V_InvalidArgumentForNthValue,
     V_UndefinedFunction,
     V_NullValueNotAllowed,
     V_DatetimeFieldOverflow,
     V_ShardNotFound,
     V_WriteConflict,
     V_EngineError,
     V_WriteQueueFull,
     V_NodeNotFound,
     V_NodeUnavailable,
     V_NodeShuttingDown,
     V_QuorumNotReached,
     V_NoAliveNodes,
     V_ShardNotAssigned,
     V_ShardUnavailable,
     V_NodeCommunicationError,
     V_CatalogStorageError,
     V_CatalogTransactionError,
     V_CatalogCommitError,
     V_CatalogAccessError,
     V_SerializationError,
     V_InternalError]"

definition vdb_code_try_from :: "int \<Rightarrow> vdb_error_code option" where
  "vdb_code_try_from v = find (\<lambda>c. vdb_code_i32 c = v) vdb_codes"

fun sqlstate_for_code :: "vdb_error_code \<Rightarrow> string" where
  "sqlstate_for_code V_Unspecified = ''XX000''"
| "sqlstate_for_code V_TableNotFound = ''42P01''"
| "sqlstate_for_code V_ColumnNotFound = ''42703''"
| "sqlstate_for_code V_TypeMismatch = ''42804''"
| "sqlstate_for_code V_SqlSyntaxError = ''42601''"
| "sqlstate_for_code V_FeatureNotSupported = ''0A000''"
| "sqlstate_for_code V_TableAlreadyExists = ''42P07''"
| "sqlstate_for_code V_ColumnAlreadyExists = ''42701''"
| "sqlstate_for_code V_WrongObjectType = ''42809''"
| "sqlstate_for_code V_InFailedTransaction = ''25P02''"
| "sqlstate_for_code V_NoActiveTransaction = ''25P01''"
| "sqlstate_for_code V_InvalidSavepoint = ''3B001''"
| "sqlstate_for_code V_ReadOnlyTransaction = ''25006''"
| "sqlstate_for_code V_PartialCommit = ''40003''"
| "sqlstate_for_code V_SchemaNotFound = ''3F000''"
| "sqlstate_for_code V_SchemaAlreadyExists = ''42P06''"
| "sqlstate_for_code V_DependentObjectsExist = ''2BP01''"
| "sqlstate_for_code V_UndefinedObject = ''42704''"
| "sqlstate_for_code V_InvalidParameterValue = ''22023''"
| "sqlstate_for_code V_CantChangeRuntimeParam = ''55P02''"
| "sqlstate_for_code V_NumericValueOutOfRange = ''22003''"
| "sqlstate_for_code V_DivisionByZero = ''22012''"
| "sqlstate_for_code V_InvalidTextRepresentation = ''22P02''"
| "sqlstate_for_code V_GroupingError = ''42803''"
| "sqlstate_for_code V_WindowingError = ''42P20''"
| "sqlstate_for_code V_InvalidArgumentForNthValue = ''22016''"
| "sqlstate_for_code V_UndefinedFunction = ''42883''"
| "sqlstate_for_code V_NullValueNotAllowed = ''22004''"
| "sqlstate_for_code V_DatetimeFieldOverflow = ''22008''"
| "sqlstate_for_code V_ShardNotFound = ''42P01''"
| "sqlstate_for_code V_WriteConflict = ''40001''"
| "sqlstate_for_code V_EngineError = ''XX000''"
| "sqlstate_for_code V_WriteQueueFull = ''53000''"
| "sqlstate_for_code V_NodeNotFound = ''58000''"
| "sqlstate_for_code V_NodeUnavailable = ''08001''"
| "sqlstate_for_code V_NodeShuttingDown = ''57P01''"
| "sqlstate_for_code V_QuorumNotReached = ''53000''"
| "sqlstate_for_code V_NoAliveNodes = ''53000''"
| "sqlstate_for_code V_ShardNotAssigned = ''55000''"
| "sqlstate_for_code V_ShardUnavailable = ''08001''"
| "sqlstate_for_code V_NodeCommunicationError = ''08006''"
| "sqlstate_for_code V_CatalogStorageError = ''58030''"
| "sqlstate_for_code V_CatalogTransactionError = ''53000''"
| "sqlstate_for_code V_CatalogCommitError = ''40000''"
| "sqlstate_for_code V_CatalogAccessError = ''XX000''"
| "sqlstate_for_code V_SerializationError = ''XX000''"
| "sqlstate_for_code V_InternalError = ''XX000''"

lemma vdb_codes_complete: "c \<in> set vdb_codes"
  by (cases c) (simp_all add: vdb_codes_def)

lemma vdb_code_try_from_i32 [simp]: "vdb_code_try_from (vdb_code_i32 c) = Some c"
  by (cases c) (simp_all add: vdb_code_try_from_def vdb_codes_def)

lemma vdb_code_i32_inject [simp]: "vdb_code_i32 c = vdb_code_i32 d \<longleftrightarrow> c = d"
  by (metis option.inject vdb_code_try_from_i32)

lemma vdb_code_i32_range: "0 \<le> vdb_code_i32 c \<and> vdb_code_i32 c < 2 ^ 31"
  by (cases c) simp_all

lemma vdb_code_try_from_Some: "vdb_code_try_from v = Some c \<longleftrightarrow> v = vdb_code_i32 c"
proof
  assume "vdb_code_try_from v = Some c"
  then show "v = vdb_code_i32 c"
    using find_SomeD [of "\<lambda>c. vdb_code_i32 c = v" vdb_codes c]
    by (simp add: vdb_code_try_from_def)
qed simp

section \<open>Coordinator errors\<close>

record node_error =
  ne_message :: string
  ne_error_code :: int
  ne_shard_id :: string
  ne_node_id :: string

datatype grpc_code =
  GOk | GCancelled | GUnknown | GInvalidArgument | GDeadlineExceeded | GNotFound
| GAlreadyExists | GPermissionDenied | GResourceExhausted | GFailedPrecondition | GAborted
| GOutOfRange | GUnimplemented | GInternal | GUnavailable | GDataLoss | GUnauthenticated

datatype coordinator_error =
  ErrCatalog string
| CatalogTransaction string
| CatalogTable string
| CatalogStorage string
| CatalogCommit string
| SqlParse string
| Unsupported string
| InvalidValue string vdb_error_code
| TableNotFound string
| NodeNotFound string
| ShardNotAssigned string
| NullShardKey string
| UnroutableShardKey string
| QuorumNotReached nat nat
| ShardUnavailable string
| Grpc grpc_code string
| GrpcTransport string
| Serialization string
| NoAliveNodes
| Anonymization string
| InternalErr string
| NodeExecFailed node_error

fun coordinator_vdb_error_code :: "coordinator_error \<Rightarrow> vdb_error_code" where
  "coordinator_vdb_error_code (TableNotFound _) = V_TableNotFound"
| "coordinator_vdb_error_code (NodeNotFound _) = V_NodeNotFound"
| "coordinator_vdb_error_code (ShardNotAssigned _) = V_ShardNotAssigned"
| "coordinator_vdb_error_code (NullShardKey _) = V_FeatureNotSupported"
| "coordinator_vdb_error_code (UnroutableShardKey _) = V_FeatureNotSupported"
| "coordinator_vdb_error_code (QuorumNotReached _ _) = V_QuorumNotReached"
| "coordinator_vdb_error_code (ShardUnavailable _) = V_ShardUnavailable"
| "coordinator_vdb_error_code NoAliveNodes = V_NoAliveNodes"
| "coordinator_vdb_error_code (Anonymization _) = V_FeatureNotSupported"
| "coordinator_vdb_error_code (SqlParse _) = V_SqlSyntaxError"
| "coordinator_vdb_error_code (Unsupported _) = V_FeatureNotSupported"
| "coordinator_vdb_error_code (InvalidValue _ code) = code"
| "coordinator_vdb_error_code (Serialization _) = V_SerializationError"
| "coordinator_vdb_error_code (InternalErr _) = V_InternalError"
| "coordinator_vdb_error_code (Grpc code _) =
     (case code of
        GNotFound \<Rightarrow> V_ShardNotFound
      | GUnavailable \<Rightarrow> V_NodeUnavailable
      | GDeadlineExceeded \<Rightarrow> V_NodeUnavailable
      | GResourceExhausted \<Rightarrow> V_WriteQueueFull
      | _ \<Rightarrow> V_InternalError)"
| "coordinator_vdb_error_code (GrpcTransport _) = V_NodeCommunicationError"
| "coordinator_vdb_error_code (NodeExecFailed e) =
     (case vdb_code_try_from (ne_error_code e) of Some c \<Rightarrow> c | None \<Rightarrow> V_EngineError)"
| "coordinator_vdb_error_code (ErrCatalog _) = V_CatalogAccessError"
| "coordinator_vdb_error_code (CatalogTransaction _) = V_CatalogTransactionError"
| "coordinator_vdb_error_code (CatalogTable _) = V_CatalogAccessError"
| "coordinator_vdb_error_code (CatalogStorage _) = V_CatalogStorageError"
| "coordinator_vdb_error_code (CatalogCommit _) = V_CatalogCommitError"

section \<open>Storage node errors\<close>

datatype core_error =
  Engine string
| ShardNotFound string
| WriteConflict string
| TypeMismatch string
| DivisionByZero
| WriteQueueError string
| HeartbeatError string

definition core_engine :: "string \<Rightarrow> string \<Rightarrow> core_error" where
  "core_engine ctxt cause = Engine (ctxt @ '': '' @ cause)"

definition core_heartbeat :: "string \<Rightarrow> string \<Rightarrow> core_error" where
  "core_heartbeat ctxt cause = HeartbeatError (ctxt @ '': '' @ cause)"

text \<open>The argument is the text of the \<open>duckdb::Error\<close>.\<close>

definition from_duckdb :: "string \<Rightarrow> core_error" where
  "from_duckdb msg =
     (let lower = to_ascii_lowercase msg in
      if contains lower ''table''
         \<and> (contains lower ''does not exist'' \<or> contains lower ''not found'')
      then ShardNotFound msg
      else if contains lower ''division by zero'' \<or> contains lower ''divide by zero''
      then DivisionByZero
      else if contains lower ''unique constraint'' \<or> contains lower ''duplicate key''
         \<or> contains lower ''primary key constraint''
      then WriteConflict msg
      else if contains lower ''conversion error'' \<or> contains lower ''cannot cast''
         \<or> contains lower ''type mismatch''
      then TypeMismatch msg
      else Engine (''write execution failed: '' @ msg))"

fun core_vdb_error_code :: "core_error \<Rightarrow> vdb_error_code" where
  "core_vdb_error_code (ShardNotFound _) = V_ShardNotFound"
| "core_vdb_error_code (WriteConflict _) = V_WriteConflict"
| "core_vdb_error_code (TypeMismatch _) = V_TypeMismatch"
| "core_vdb_error_code DivisionByZero = V_DivisionByZero"
| "core_vdb_error_code (WriteQueueError _) = V_WriteQueueFull"
| "core_vdb_error_code (Engine _) = V_EngineError"
| "core_vdb_error_code (HeartbeatError _) = V_InternalError"

fun core_error_display :: "core_error \<Rightarrow> string" where
  "core_error_display (Engine m) = ''engine error: '' @ m"
| "core_error_display (ShardNotFound m) = ''shard not found: '' @ m"
| "core_error_display (WriteConflict m) = ''write conflict: '' @ m"
| "core_error_display (TypeMismatch m) = ''type mismatch: '' @ m"
| "core_error_display DivisionByZero = ''division by zero''"
| "core_error_display (WriteQueueError m) = ''write queue error: '' @ m"
| "core_error_display (HeartbeatError m) = ''heartbeat error: '' @ m"

end
