(* ===== verification/Error_Text.thy ===== *)
theory Error_Text
  imports Error_Codes
begin

text \<open>
  Error text on its way to the client: \<open>crates/vairedb-common/src/error\<close>.

  \<^item> \<open>tag.rs\<close>: the \<open>[VDB-code]\<close> tag written into a message and read back.
  \<^item> \<open>scan.rs\<close>: the end of a nested structure and of a string literal, one level of
    unescaping.
  \<^item> \<open>sanitize.rs\<close>: the scrubbing of engine and transport detail.
  \<^item> \<open>transported.rs\<close>: the recovery of the error variant from its rendering.

  A \<open>str\<close> is its list of bytes, so the byte offsets of the source are list positions.
  Rust's Unicode predicates (\<open>is_whitespace\<close>, \<open>trim\<close>) are taken on ASCII text. Every loop
  of these files is a total function; the two bounded loops run the source's eight rounds.
\<close>

section \<open>Tags\<close>

definition TAG_OPEN :: string where
  "TAG_OPEN = ''[VDB-''"

definition tagged_message :: "vdb_error_code \<Rightarrow> string \<Rightarrow> string" where
  "tagged_message code message = TAG_OPEN @ show_nat (nat (vdb_code_i32 code)) @ ''] '' @ message"

lemma find_sub_drop_bound:
  "find_sub (drop start msg) p = Some found \<Longrightarrow> p \<noteq> [] \<Longrightarrow> start + found + length p \<le> length msg"
  using find_sub_Some [of "drop start msg" p found] by (cases "start \<le> length msg") auto

function tag_digits_from :: "string \<Rightarrow> nat \<Rightarrow> (nat \<times> string) option" where
  "tag_digits_from msg start =
     (case find_sub (drop start msg) TAG_OPEN of
        None \<Rightarrow> None
      | Some found \<Rightarrow>
          (let at = start + found;
               rest = drop (at + length TAG_OPEN) msg
           in case position (\<lambda>c. c = CHR '']'') rest of
                None \<Rightarrow> None
              | Some e \<Rightarrow>
                  (let digits = take e rest in
                   if digits \<noteq> [] \<and> list_all is_ascii_digit digits then Some (at, digits)
                   else tag_digits_from msg (at + length TAG_OPEN))))"
  by pat_completeness auto

termination
  by (relation "measure (\<lambda>(msg, start). length msg - start)")
    (auto simp: TAG_OPEN_def dest!: find_sub_drop_bound)

definition tag_digits :: "string \<Rightarrow> (nat \<times> string) option" where
  "tag_digits msg = tag_digits_from msg 0"

definition i32_bound :: nat where
  "i32_bound = 2 ^ 31"

definition code_of_tagged_message :: "string \<Rightarrow> vdb_error_code option" where
  "code_of_tagged_message msg =
     Option.bind (tag_digits msg) (\<lambda>(_, digits).
       Option.bind (parse_unsigned i32_bound digits) (\<lambda>n.
         Option.bind (vdb_code_try_from (int n)) (\<lambda>code.
           if code \<noteq> V_Unspecified then Some code else None)))"

declare tag_digits_from.simps [simp del]

lemma tag_digits_from_bound:
  "tag_digits_from msg start = Some (at, digits) \<Longrightarrow> at + length TAG_OPEN + length digits < length msg"
proof (induction msg start rule: tag_digits_from.induct)
  case (1 msg start)
  obtain found where found: "find_sub (drop start msg) TAG_OPEN = Some found"
    using "1.prems" by (subst (asm) tag_digits_from.simps) (auto split: option.splits)
  define rest where "rest = drop (start + found + length TAG_OPEN) msg"
  obtain e where e: "position (\<lambda>c. c = CHR '']'') rest = Some e"
    using "1.prems" found
    by (subst (asm) tag_digits_from.simps) (auto simp: Let_def rest_def split: option.splits)
  have len: "e < length rest" using e by (auto simp: position_Some)
  show ?case
  proof (cases "take e rest \<noteq> [] \<and> list_all is_ascii_digit (take e rest)")
    case True
    then have "at = start + found" "digits = take e rest"
      using "1.prems" found e by (auto simp: tag_digits_from.simps [of msg start] Let_def rest_def)
    then show ?thesis using len by (simp add: rest_def)
  next
    case False
    then have "tag_digits_from msg (start + found + length TAG_OPEN) = Some (at, digits)"
      using "1.prems" found e by (auto simp: tag_digits_from.simps [of msg start] Let_def rest_def)
    then show ?thesis using "1.IH" [OF found refl] e False by (simp add: rest_def)
  qed
qed

lemma strip_prefix_length: "strip_prefix p s = Some r \<Longrightarrow> length r \<le> length s"
  by (auto simp: strip_prefix_Some)

function strip_code_tags :: "string \<Rightarrow> string" where
  "strip_code_tags rest =
     (case tag_digits rest of
        None \<Rightarrow> rest
      | Some (at, digits) \<Rightarrow>
          (let after = drop (at + length TAG_OPEN + length digits + 1) rest in
           take at rest
             @ strip_code_tags (case strip_prefix '' '' after of Some r \<Rightarrow> r | None \<Rightarrow> after)))"
  by pat_completeness auto

termination
proof (relation "measure length")
  show "wf (measure length)" by simp
next
  fix rest x2 at digits after
  assume "tag_digits rest = Some x2" "(at, digits) = x2"
    and after: "after = drop (at + length TAG_OPEN + length digits + 1) rest"
  then have "tag_digits_from rest 0 = Some (at, digits)" by (simp add: tag_digits_def)
  then have "at + length TAG_OPEN + length digits < length rest" by (rule tag_digits_from_bound)
  then have "length after < length rest" by (simp add: after)
  then show "(case strip_prefix '' '' after of None \<Rightarrow> after | Some r \<Rightarrow> r, rest) \<in> measure length"
    by (auto dest: strip_prefix_length split: option.splits)
qed

declare strip_code_tags.simps [simp del]

section \<open>Scanning\<close>

definition MAX_TRANSPORT_LAYERS :: nat where
  "MAX_TRANSPORT_LAYERS = 8"

datatype quoting = Ignored | Respected

record delimiter_pair =
  dp_open :: char
  dp_close :: char

definition BRACES :: delimiter_pair where
  "BRACES = \<lparr>dp_open = CHR ''{'', dp_close = CHR ''}''\<rparr>"

definition PARENS :: delimiter_pair where
  "PARENS = \<lparr>dp_open = CHR ''('', dp_close = CHR '')''\<rparr>"

definition backslash :: char where
  "backslash = CHR 0x5C"

definition quote_char :: char where
  "quote_char = CHR 0x22"

text \<open>
  The loop of \<open>end_of_nesting\<close>, with its three mutable variables as arguments: the
  nesting depth, whether the scan is inside a string, whether the last character was an
  escape. The result is the offset from the current position.
\<close>

fun nesting_scan :: "delimiter_pair \<Rightarrow> quoting \<Rightarrow> nat \<Rightarrow> bool \<Rightarrow> bool \<Rightarrow> string \<Rightarrow> nat option" where
  "nesting_scan pair q depth in_string escaped [] = None"
| "nesting_scan pair q depth in_string escaped (c # cs) =
     (if escaped then map_option Suc (nesting_scan pair q depth in_string False cs)
      else if c = backslash \<and> in_string then
        map_option Suc (nesting_scan pair q depth in_string True cs)
      else if c = quote_char \<and> q = Respected then
        map_option Suc (nesting_scan pair q depth (\<not> in_string) False cs)
      else if in_string then map_option Suc (nesting_scan pair q depth in_string False cs)
      else if c = dp_open pair then
        map_option Suc (nesting_scan pair q (depth + 1) in_string False cs)
      else if c = dp_close pair then
        (if depth - 1 = 0 then Some 0
         else map_option Suc (nesting_scan pair q (depth - 1) in_string False cs))
      else map_option Suc (nesting_scan pair q depth in_string False cs))"

definition end_of_nesting :: "string \<Rightarrow> delimiter_pair \<Rightarrow> quoting \<Rightarrow> nat option" where
  "end_of_nesting after_open pair q = nesting_scan pair q 1 False False after_open"

fun literal_scan :: "bool \<Rightarrow> string \<Rightarrow> nat option" where
  "literal_scan escaped [] = None"
| "literal_scan escaped (c # cs) =
     (if escaped then map_option Suc (literal_scan False cs)
      else if c = backslash then map_option Suc (literal_scan True cs)
      else if c = quote_char then Some 0
      else map_option Suc (literal_scan False cs))"

definition string_literal_end :: "string \<Rightarrow> nat option" where
  "string_literal_end s = literal_scan False s"

definition newline :: char where "newline = CHR 0x0A"

definition tab :: char where "tab = CHR 0x09"

definition carriage_return :: char where "carriage_return = CHR 0x0D"

fun unescape :: "string \<Rightarrow> string" where
  "unescape [] = []"
| "unescape [c] = [c]"
| "unescape (c # d # cs) =
     (if c \<noteq> backslash then c # unescape (d # cs)
      else (if d = CHR ''n'' then newline
            else if d = CHR ''t'' then tab
            else if d = CHR ''r'' then carriage_return
            else d) # unescape cs)"

section \<open>Sanitizing\<close>

definition PREFIXES_TO_STRIP :: "string list" where
  "PREFIXES_TO_STRIP =
    [''Arrow error: '',
     ''Parquet error: '',
     ''Object Store error: '',
     ''IO error: '',
     ''SQL error: '',
     ''This feature is not implemented: '',
     ''Internal error: '',
     ''Error during planning: '',
     ''Invalid or Unsupported Configuration: '',
     ''Schema error: '',
     ''Execution error: '',
     ''ExecutionJoin error: '',
     ''Resources exhausted: '',
     ''External error: '',
     ''Substrait error: '',
     ''FFI error: '',
     ''Not implemented: '',
     ''General error: '',
     ''DataFusion error: '',
     ''Tonic error: '',
     ''Grpc error: '',
     ''Grpc connection error: '',
     ''Grpc Execute Action error: '',
     ''Internal Ballista error: '',
     ''Tokio join error: '',
     ''Configuration error: '',
     ''Could not parse plan: '',
     ''DuckDB error: '',
     ''Catalog Error: '',
     ''Parser Error: '',
     ''Binder Error: '',
     ''Conversion Error: '',
     ''IO Error: '',
     ''Runtime Error: '',
     ''Invalid Input Error: '',
     ''Constraint Error: '',
     ''Out of Range Error: '',
     ''engine error: '',
     ''shard not found: '',
     ''write conflict: '',
     ''type mismatch: '',
     ''write queue error: '',
     ''write execution failed: '']"

definition ellipsis :: string where
  "ellipsis = [CHR 0xE2, CHR 0x80, CHR 0xA6]"

definition ELIDED_SIGNATURE :: string where
  "ELIDED_SIGNATURE = ''Signature { '' @ ellipsis @ '' }''"

definition SIGNATURE_MARKER :: string where
  "SIGNATURE_MARKER = ''Signature {''"

function elide_signature_dumps :: "string \<Rightarrow> string" where
  "elide_signature_dumps rest =
     (case find_sub rest SIGNATURE_MARKER of
        None \<Rightarrow> rest
      | Some start \<Rightarrow>
          (let brace = start + length SIGNATURE_MARKER - 1 in
           case end_of_nesting (drop (brace + 1) rest) BRACES Ignored of
             None \<Rightarrow> rest
           | Some e \<Rightarrow>
               (let close = brace + 1 + e in
                take start rest @ ELIDED_SIGNATURE
                  @ elide_signature_dumps (drop (close + 1) rest))))"
  by pat_completeness auto
termination
proof (relation "measure length")
  show "wf (measure length)" by simp
next
  fix rest :: string and start brace e close :: nat
  assume "find_sub rest SIGNATURE_MARKER = Some start"
  then have "start + length SIGNATURE_MARKER \<le> length rest" by (auto dest: find_sub_Some)
  then have "rest \<noteq> []" by (auto simp: SIGNATURE_MARKER_def)
  then show "(drop (close + 1) rest, rest) \<in> measure length" by simp
qed

declare elide_signature_dumps.simps [simp del]

definition STATUS_MARKER :: string where
  "STATUS_MARKER = ''Status {''"

definition STATUS_MESSAGE_FIELD :: string where
  "STATUS_MESSAGE_FIELD = ''message: '' @ [quote_char]"

definition grpc_status_message :: "string \<Rightarrow> string option" where
  "grpc_status_message msg =
     Option.bind (find_sub msg STATUS_MARKER) (\<lambda>start.
       let brace = start + length STATUS_MARKER - 1 in
       Option.bind (find_sub (drop brace msg) STATUS_MESSAGE_FIELD) (\<lambda>f.
         let field = brace + f + length STATUS_MESSAGE_FIELD in
         Option.bind (string_literal_end (drop field msg)) (\<lambda>len.
           Option.bind (end_of_nesting (drop (brace + 1) msg) BRACES Respected) (\<lambda>e.
             let close = brace + 1 + e in
             Some (take start msg @ unescape (take len (drop field msg))
                     @ drop (close + 1) msg)))))"

definition unwrap_grpc_status :: "string \<Rightarrow> string" where
  "unwrap_grpc_status msg = (case grpc_status_message msg of Some m \<Rightarrow> m | None \<Rightarrow> msg)"

definition is_ascii_alphanumeric :: "char \<Rightarrow> bool" where
  "is_ascii_alphanumeric c \<longleftrightarrow>
     is_ascii_digit c \<or> is_ascii_uppercase c \<or> is_ascii_uppercase (ascii_upper_char c)"

definition unwrap_debug_wrapper :: "string \<Rightarrow> string option" where
  "unwrap_debug_wrapper msg =
     Option.bind (find_sub msg ''('') (\<lambda>open_at.
       let name = take open_at msg in
       if name = [] \<or> \<not> is_ascii_uppercase (hd name) \<or> \<not> list_all is_ascii_alphanumeric name
       then None
       else Option.bind (strip_suffix '')'' (drop (open_at + 1) msg)) (\<lambda>body.
         Option.bind (strip_prefix [quote_char] body) (\<lambda>inner.
           Option.bind (string_literal_end inner) (\<lambda>len.
             if len + 1 \<noteq> length inner then None
             else Some (unescape (take len inner))))))"

definition strip_prefix_or_keep :: "string \<Rightarrow> string \<Rightarrow> string" where
  "strip_prefix_or_keep p rest = (case strip_prefix p rest of Some r \<Rightarrow> r | None \<Rightarrow> rest)"

definition strip_prefixes_once :: "string \<Rightarrow> string" where
  "strip_prefixes_once rest = fold strip_prefix_or_keep PREFIXES_TO_STRIP rest"

lemma strip_prefix_or_keep_length: "length (strip_prefix_or_keep p s) \<le> length s"
  by (auto simp: strip_prefix_or_keep_def dest: strip_prefix_length split: option.splits)

lemma fold_strip_length: "length (fold strip_prefix_or_keep ps s) \<le> length s"
  by (induction ps arbitrary: s) (auto intro: order_trans strip_prefix_or_keep_length)

function strip_known_prefixes :: "string \<Rightarrow> string" where
  "strip_known_prefixes rest =
     (let stripped = strip_prefixes_once rest in
      if length stripped = length rest then stripped else strip_known_prefixes stripped)"
  by pat_completeness auto
termination
  by (relation "measure length")
    (auto simp: strip_prefixes_once_def intro: le_neq_implies_less fold_strip_length)

declare strip_known_prefixes.simps [simp del]

definition unwrap_transport_layer :: "string \<Rightarrow> string" where
  "unwrap_transport_layer m0 =
     (let m1 = unwrap_grpc_status m0;
          m2 = elide_signature_dumps m1;
          m3 = strip_known_prefixes m2;
          m4 = strip_code_tags m3
      in case unwrap_debug_wrapper m4 of Some inner \<Rightarrow> inner | None \<Rightarrow> m4)"

definition strip_executor_wrapper :: "string \<Rightarrow> string" where
  "strip_executor_wrapper msg =
     (case find_sub msg ''failed on executor'' of
        None \<Rightarrow> msg
      | Some idx \<Rightarrow>
          (case find_sub (drop idx msg) '': '' of
             None \<Rightarrow> msg
           | Some colon_idx \<Rightarrow> drop (idx + colon_idx + 2) msg))"

definition http_marker :: string where
  "http_marker = ''http://''"

text \<open>A URL is seven non-blank bytes at least, and its replacement is six.\<close>

lemma http_span:
  assumes "find_sub msg http_marker = Some start"
    and "position is_space (drop start msg) = Some i"
  shows "length http_marker \<le> i"
proof (rule ccontr)
  assume "\<not> length http_marker \<le> i"
  then have less: "i < length http_marker" by simp
  have pre: "take (length http_marker) (drop start msg) = http_marker"
    using assms(1) by (auto dest: find_sub_Some)
  have "drop start msg ! i = take (length http_marker) (drop start msg) ! i"
    using less by simp
  then have "is_space (http_marker ! i)"
    using assms(2) less unfolding pre by (auto simp: position_Some)
  then have "\<exists>c\<in>set http_marker. is_space c" using less nth_mem by blast
  then show False by (simp add: http_marker_def is_space_def)
qed

lemma scrub_shrinks:
  assumes "find_sub msg http_marker = Some start"
  shows "length (take start msg @ ''[node]'' @ drop (case position is_space (drop start msg) of
           Some i \<Rightarrow> start + i | None \<Rightarrow> length msg) msg) < length msg"
proof -
  have "start + length http_marker \<le> length msg"
    using assms by (auto dest: find_sub_Some)
  then show ?thesis
    using http_span [OF assms] by (auto simp: http_marker_def split: option.splits)
qed

function scrub_node_addresses :: "string \<Rightarrow> string" where
  "scrub_node_addresses msg =
     (case find_sub msg http_marker of
        None \<Rightarrow> msg
      | Some start \<Rightarrow>
          (let e = (case position is_space (drop start msg) of
                      Some i \<Rightarrow> start + i
                    | None \<Rightarrow> length msg)
           in scrub_node_addresses (take start msg @ ''[node]'' @ drop e msg)))"
  by pat_completeness auto

termination
  by (relation "measure length") (use scrub_shrinks in \<open>auto simp: Let_def\<close>)

declare scrub_node_addresses.simps [simp del]

fun unwrap_layers :: "nat \<Rightarrow> string \<Rightarrow> string" where
  "unwrap_layers 0 msg = msg"
| "unwrap_layers (Suc n) msg =
     (let unwrapped = unwrap_transport_layer msg in
      if unwrapped = msg then msg else unwrap_layers n unwrapped)"

definition sanitize_message :: "string \<Rightarrow> string" where
  "sanitize_message raw =
     scrub_node_addresses (strip_executor_wrapper (unwrap_layers MAX_TRANSPORT_LAYERS raw))"

section \<open>Recovering a transported error\<close>

datatype transported_variant =
  TV_Arrow | TV_Configuration | TV_Execution | TV_ExecutionJoin | TV_Internal | TV_Io | TV_NotImplemented | TV_Plan | TV_ResourcesExhausted | TV_Schema | TV_Sql | TV_Substrait

record transported_error =
  te_variant :: transported_variant
  te_message :: string

record marker =
  mk_variant :: transported_variant
  mk_debug :: string
  mk_display :: string

datatype spelling = SpDebug | SpDisplay

definition MARKERS :: "marker list" where
  "MARKERS =
    [\<lparr>mk_variant = TV_Arrow, mk_debug = ''ArrowError('', mk_display = ''Arrow error: ''\<rparr>,
     \<lparr>mk_variant = TV_Configuration, mk_debug = ''Configuration('', mk_display = ''Invalid or Unsupported Configuration: ''\<rparr>,
     \<lparr>mk_variant = TV_Execution, mk_debug = ''Execution('', mk_display = ''Execution error: ''\<rparr>,
     \<lparr>mk_variant = TV_ExecutionJoin, mk_debug = ''ExecutionJoin('', mk_display = ''ExecutionJoin error: ''\<rparr>,
     \<lparr>mk_variant = TV_Internal, mk_debug = ''Internal('', mk_display = ''Internal error: ''\<rparr>,
     \<lparr>mk_variant = TV_Io, mk_debug = ''IoError('', mk_display = ''IO error: ''\<rparr>,
     \<lparr>mk_variant = TV_NotImplemented, mk_debug = ''NotImplemented('', mk_display = ''This feature is not implemented: ''\<rparr>,
     \<lparr>mk_variant = TV_Plan, mk_debug = ''Plan('', mk_display = ''Error during planning: ''\<rparr>,
     \<lparr>mk_variant = TV_ResourcesExhausted, mk_debug = ''ResourcesExhausted('', mk_display = ''Resources exhausted: ''\<rparr>,
     \<lparr>mk_variant = TV_Schema, mk_debug = ''SchemaError('', mk_display = ''Schema error: ''\<rparr>,
     \<lparr>mk_variant = TV_Sql, mk_debug = ''SQL('', mk_display = ''SQL error: ''\<rparr>,
     \<lparr>mk_variant = TV_Substrait, mk_debug = ''Substrait('', mk_display = ''Substrait error: ''\<rparr>]"

fun needle :: "spelling \<Rightarrow> marker \<Rightarrow> string" where
  "needle SpDebug m = mk_debug m"
| "needle SpDisplay m = mk_display m"

definition is_structural :: "string \<Rightarrow> nat \<Rightarrow> bool" where
  "is_structural text_in at =
     (if at = 0 then True
      else (case rev (take at text_in) of
              [] \<Rightarrow> False
            | c # before \<Rightarrow>
                if c = CHR ''('' \<or> c = CHR ''['' \<or> c = newline \<or> c = CHR '','' then True
                else if c = CHR '' '' then
                  (case before of [] \<Rightarrow> False | d # _ \<Rightarrow> d = CHR '':'' \<or> d = CHR '','')
                else False))"

function first_structural_from :: "string \<Rightarrow> string \<Rightarrow> nat \<Rightarrow> nat option" where
  "first_structural_from text_in p start =
     (case find_sub (drop start text_in) p of
        None \<Rightarrow> None
      | Some found \<Rightarrow>
          (let at = start + found in
           if is_structural text_in at then Some at
           else if p = [] then None
           else first_structural_from text_in p (at + length p)))"
  by pat_completeness auto
termination
  by (relation "measure (\<lambda>(t, p, start). length t - start)")
    (auto simp: neq_Nil_conv dest!: find_sub_drop_bound)

declare first_structural_from.simps [simp del]

definition first_structural :: "string \<Rightarrow> string \<Rightarrow> nat option" where
  "first_structural text_in p = first_structural_from text_in p 0"

fun better_marker ::
  "string \<Rightarrow> marker \<times> spelling \<Rightarrow> (nat \<times> marker \<times> spelling \<times> nat) option
     \<Rightarrow> (nat \<times> marker \<times> spelling \<times> nat) option" where
  "better_marker text_in (m, sp) best =
     (case first_structural text_in (needle sp m) of
        None \<Rightarrow> best
      | Some at \<Rightarrow>
          if (case best of None \<Rightarrow> True | Some (found, _) \<Rightarrow> at < found)
          then Some (at, m, sp, at + length (needle sp m)) else best)"

definition marker_spellings :: "(marker \<times> spelling) list" where
  "marker_spellings = concat (map (\<lambda>m. [(m, SpDebug), (m, SpDisplay)]) MARKERS)"

definition outermost_marker :: "string \<Rightarrow> (marker \<times> spelling \<times> nat) option" where
  "outermost_marker text_in =
     map_option (\<lambda>(_, m, sp, after). (m, sp, after))
       (fold (better_marker text_in) marker_spellings None)"

definition debug_payload :: "string \<Rightarrow> string option" where
  "debug_payload rest =
     (case strip_prefix [quote_char] rest of
        Some literal \<Rightarrow>
          map_option (\<lambda>e. unescape (take e literal)) (string_literal_end literal)
      | None \<Rightarrow> map_option (\<lambda>e. take e rest) (end_of_nesting rest PARENS Respected))"

fun payload :: "spelling \<Rightarrow> string \<Rightarrow> string option" where
  "payload SpDebug rest = debug_payload rest"
| "payload SpDisplay rest = Some (trim rest)"

definition peel :: "string \<Rightarrow> transported_error option" where
  "peel text_in =
     Option.bind (outermost_marker text_in) (\<lambda>(m, sp, after).
       Option.bind (payload sp (drop after text_in)) (\<lambda>message.
         if message \<noteq> [] then Some \<lparr>te_variant = mk_variant m, te_message = message\<rparr>
         else None))"

fun recover_layers :: "nat \<Rightarrow> string \<Rightarrow> transported_error option \<Rightarrow> transported_error option" where
  "recover_layers 0 current recovered = recovered"
| "recover_layers (Suc n) current recovered =
     (case peel current of
        None \<Rightarrow> recovered
      | Some peeled \<Rightarrow> recover_layers n (te_message peeled) (Some peeled))"

definition recover_transported_error :: "string \<Rightarrow> transported_error option" where
  "recover_transported_error text_in = recover_layers MAX_TRANSPORT_LAYERS text_in None"

section \<open>Tags are read back and removed\<close>

lemma show_nat_no_bracket: "CHR '']'' \<notin> set (show_nat n)"
  using show_nat_digits [of "CHR '']''" n] by (auto simp: is_ascii_digit_def)

lemma find_sub_prefix: "find_sub (p @ s) p = Some 0"
  by (subst find_sub.simps) simp

lemma tag_digits_tagged:
  "tag_digits (tagged_message c m) = Some (0, show_nat (nat (vdb_code_i32 c)))"
proof -
  let ?n = "show_nat (nat (vdb_code_i32 c))"
  have "position (\<lambda>x. x = CHR '']'') (?n @ CHR '']'' # '' '' @ m) = Some (length ?n)"
    using show_nat_no_bracket by (intro position_append_Cons) auto
  moreover have "list_all is_ascii_digit ?n"
    using show_nat_digits by (auto simp: list_all_iff)
  ultimately show ?thesis
    unfolding tag_digits_def tagged_message_def
    by (subst tag_digits_from.simps) (simp add: find_sub_prefix)
qed

lemma code_of_tagged:
  assumes "c \<noteq> V_Unspecified"
  shows "code_of_tagged_message (tagged_message c m) = Some c"
proof -
  have "nat (vdb_code_i32 c) < i32_bound"
    using vdb_code_i32_range [of c] by (simp add: i32_bound_def nat_less_iff)
  then have "parse_unsigned i32_bound (show_nat (nat (vdb_code_i32 c))) = Some (nat (vdb_code_i32 c))"
    by (rule parse_unsigned_show_nat)
  then show ?thesis
    using assms vdb_code_i32_range [of c]
    by (simp add: code_of_tagged_message_def tag_digits_tagged)
qed

lemma strip_code_tags_tagged: "strip_code_tags (tagged_message c m) = strip_code_tags m"
proof -
  let ?n = "show_nat (nat (vdb_code_i32 c))"
  have "drop (length TAG_OPEN + length ?n + 1) (tagged_message c m) = '' '' @ m"
    by (simp add: tagged_message_def TAG_OPEN_def)
  then show ?thesis
    by (subst strip_code_tags.simps) (simp add: tag_digits_tagged strip_prefix_def)
qed

lemma strip_code_tags_untagged: "tag_digits m = None \<Longrightarrow> strip_code_tags m = m"
  by (subst strip_code_tags.simps) simp

section \<open>Escapes\<close>

text \<open>
  What \<open>{:?}\<close> of the standard library writes for a string of printable ASCII text and
  the three control characters \<open>\n\<close>, \<open>\t\<close> and \<open>\r\<close>.
\<close>

definition debug_escape_char :: "char \<Rightarrow> string" where
  "debug_escape_char c =
     (if c = newline then [backslash, CHR ''n'']
      else if c = tab then [backslash, CHR ''t'']
      else if c = carriage_return then [backslash, CHR ''r'']
      else if c = quote_char \<or> c = backslash then [backslash, c]
      else [c])"

definition debug_escape :: "string \<Rightarrow> string" where
  "debug_escape s = concat (map debug_escape_char s)"

lemmas control_chars = newline_def tab_def carriage_return_def quote_char_def backslash_def

lemma control_chars_distinct [simp]:
  "newline \<noteq> backslash" "tab \<noteq> backslash" "carriage_return \<noteq> backslash" "quote_char \<noteq> backslash"
  "newline \<noteq> quote_char" "tab \<noteq> quote_char" "carriage_return \<noteq> quote_char"
  "backslash \<noteq> newline" "backslash \<noteq> tab" "backslash \<noteq> carriage_return" "backslash \<noteq> quote_char"
  "CHR ''n'' \<noteq> backslash" "CHR ''t'' \<noteq> backslash" "CHR ''r'' \<noteq> backslash"
  "quote_char \<noteq> CHR ''n''" "quote_char \<noteq> CHR ''t''" "quote_char \<noteq> CHR ''r''"
  "backslash \<noteq> CHR ''n''" "backslash \<noteq> CHR ''t''" "backslash \<noteq> CHR ''r''"
  by (simp_all add: control_chars)

lemma unescape_plain: "c \<noteq> backslash \<Longrightarrow> unescape (c # s) = c # unescape s"
  by (cases s) auto

lemma unescape_debug_escape: "unescape (debug_escape s @ t) = s @ unescape t"
  by (induction s) (auto simp: debug_escape_def debug_escape_char_def unescape_plain)

lemma literal_end_debug_escape:
  "string_literal_end (debug_escape s @ quote_char # t) = Some (length (debug_escape s))"
  unfolding string_literal_end_def
  by (induction s) (auto simp: debug_escape_def debug_escape_char_def)

lemma unescape_escape [simp]: "unescape (debug_escape s) = s"
  using unescape_debug_escape [of s "[]"] by simp

section \<open>What sanitizing guarantees\<close>

lemma strip_prefix_or_keep_same: "\<not> prefix p s \<Longrightarrow> strip_prefix_or_keep p s = s"
  using strip_prefix_None [of p s] by (simp add: strip_prefix_or_keep_def)

lemma strip_prefix_or_keep_fixed:
  assumes "length (strip_prefix_or_keep p s) = length s" and "p \<noteq> []"
  shows "\<not> prefix p s"
proof
  assume "prefix p s"
  then obtain r where r: "s = p @ r" by (rule prefixE)
  then have "strip_prefix_or_keep p s = r"
    using strip_prefix_Some [of p s r] by (simp add: strip_prefix_or_keep_def)
  then show False using assms r by simp
qed

lemma fold_strip_fixed:
  "length (fold strip_prefix_or_keep ps s) = length s \<Longrightarrow> [] \<notin> set ps
     \<Longrightarrow> (\<forall>p\<in>set ps. \<not> prefix p s) \<and> fold strip_prefix_or_keep ps s = s"
proof (induction ps arbitrary: s)
  case Nil
  then show ?case by simp
next
  case (Cons p ps)
  let ?s' = "strip_prefix_or_keep p s"
  have "length (fold strip_prefix_or_keep ps ?s') \<le> length ?s'" by (rule fold_strip_length)
  then have eq: "length ?s' = length s"
    using Cons.prems(1) strip_prefix_or_keep_length [of p s] by simp
  then have np: "\<not> prefix p s"
    using Cons.prems(2) by (intro strip_prefix_or_keep_fixed) auto
  then show ?case
    using Cons.IH [of s] Cons.prems by (simp add: strip_prefix_or_keep_same)
qed

lemma strip_known_prefixes_none:
  "\<forall>p\<in>set PREFIXES_TO_STRIP. \<not> prefix p (strip_known_prefixes msg)"
proof (induction msg rule: strip_known_prefixes.induct)
  case (1 rest)
  show ?case
  proof (cases "length (strip_prefixes_once rest) = length rest")
    case True
    have "[] \<notin> set PREFIXES_TO_STRIP" by (simp add: PREFIXES_TO_STRIP_def)
    then show ?thesis
      using True fold_strip_fixed [of PREFIXES_TO_STRIP rest]
      by (subst strip_known_prefixes.simps) (simp add: strip_prefixes_once_def)
  next
    case False
    then show ?thesis using 1 by (subst strip_known_prefixes.simps) simp
  qed
qed

lemma scrub_no_http: "\<not> sublist http_marker (scrub_node_addresses msg)"
proof (induction msg rule: scrub_node_addresses.induct)
  case (1 msg)
  show ?case
  proof (cases "find_sub msg http_marker")
    case None
    then have "\<not> sublist http_marker msg" by (simp add: find_sub_None)
    then show ?thesis unfolding scrub_node_addresses.simps [of msg] None by simp
  next
    case (Some start)
    show ?thesis
      unfolding scrub_node_addresses.simps [of msg] Some option.case Let_def
      by (rule "1.IH" [OF Some refl])
  qed
qed

lemma sanitize_no_http: "\<not> sublist http_marker (sanitize_message raw)"
  by (simp add: sanitize_message_def scrub_no_http)

section \<open>What recovery guarantees\<close>

lemma first_structural_zero: "prefix p t \<Longrightarrow> first_structural t p = Some 0"
  unfolding first_structural_def
  by (subst first_structural_from.simps) (auto simp: is_structural_def find_sub_prefix elim!: prefixE)

lemma first_structural_from_le: "first_structural_from t p k = Some at \<Longrightarrow> k \<le> at"
proof (induction t p k rule: first_structural_from.induct)
  case (1 t p k)
  obtain found where f: "find_sub (drop k t) p = Some found"
    using "1.prems" by (subst (asm) first_structural_from.simps) (auto split: option.splits)
  have "at = k + found \<or> first_structural_from t p (k + found + length p) = Some at \<and>
          \<not> is_structural t (k + found) \<and> p \<noteq> []"
    using "1.prems" f by (subst (asm) first_structural_from.simps) (auto simp: Let_def split: if_splits)
  then show ?case using "1.IH" [OF f refl] by auto
qed

lemma first_structural_prefix: "first_structural t p = Some 0 \<longleftrightarrow> prefix p t"
proof
  assume a: "first_structural t p = Some 0"
  then obtain found where f: "find_sub t p = Some found"
    unfolding first_structural_def
    by (subst (asm) first_structural_from.simps) (auto split: option.splits)
  have "found = 0 \<or> p \<noteq> [] \<and> first_structural_from t p (found + length p) = Some 0"
    using a f unfolding first_structural_def
    by (subst (asm) first_structural_from.simps) (auto simp: Let_def split: if_splits)
  then have "found = 0" by (auto dest: first_structural_from_le)
  then show "prefix p t"
    using find_sub_Some [OF f] by (simp add: take_length_prefix)
qed (rule first_structural_zero)

lemma better_marker_keeps_zero:
  "fold (better_marker t) ms (Some (0, x)) = Some (0, x)"
  by (induction ms) (auto split: option.splits)

lemma better_marker_first_zero:
  assumes "first_structural t (needle sp m) = Some 0" and "(m, sp) \<in> set ms"
    and "\<forall>(m', sp')\<in>set ms. first_structural t (needle sp' m') = Some 0 \<longrightarrow> (m', sp') = (m, sp)"
    and "best = None \<or> (\<exists>at x. best = Some (at, x) \<and> 0 < at)"
  shows "fold (better_marker t) ms best = Some (0, m, sp, length (needle sp m))"
  using assms(2-4)
proof (induction ms arbitrary: best)
  case Nil
  then show ?case by simp
next
  case (Cons q ms)
  show ?case
  proof (cases "q = (m, sp)")
    case True
    then have "better_marker t q best = Some (0, m, sp, length (needle sp m))"
      using assms(1) Cons.prems(3) by auto
    then show ?thesis by (simp add: better_marker_keeps_zero)
  next
    case False
    obtain m' sp' where q: "q = (m', sp')" by (cases q)
    have "better_marker t q best = None \<or> (\<exists>at x. better_marker t q best = Some (at, x) \<and> 0 < at)"
      using Cons.prems(2,3) False q by (auto split: option.splits)
    then show ?thesis using Cons.IH Cons.prems False q by auto
  qed
qed

lemma markers_disjoint:
  "list_all (\<lambda>m. list_all (\<lambda>(m', sp').
     prefix (needle sp' m') (mk_debug m) \<or> prefix (mk_debug m) (needle sp' m')
       \<longrightarrow> (m', sp') = (m, SpDebug)) marker_spellings) MARKERS"
  by code_simp

lemma marker_unique:
  assumes "m \<in> set MARKERS" and "(m', sp') \<in> set marker_spellings"
    and "prefix (needle sp' m') (mk_debug m @ t)"
  shows "(m', sp') = (m, SpDebug)"
proof -
  have "prefix (needle sp' m') (mk_debug m) \<or> prefix (mk_debug m) (needle sp' m')"
    using assms(3) prefix_same_cases [of "needle sp' m'" "mk_debug m @ t" "mk_debug m"] by auto
  moreover have "list_all (\<lambda>(m', sp').
     prefix (needle sp' m') (mk_debug m) \<or> prefix (mk_debug m) (needle sp' m')
       \<longrightarrow> (m', sp') = (m, SpDebug)) marker_spellings"
    using markers_disjoint assms(1) unfolding list_all_iff by (rule bspec)
  ultimately show ?thesis
    using assms(2) unfolding list_all_iff by fastforce
qed

lemma outermost_marker_debug:
  assumes "m \<in> set MARKERS"
  shows "outermost_marker (mk_debug m @ t) = Some (m, SpDebug, length (mk_debug m))"
proof -
  have "(m, SpDebug) \<in> set marker_spellings" using assms by (auto simp: marker_spellings_def)
  then have "fold (better_marker (mk_debug m @ t)) marker_spellings None
             = Some (0, m, SpDebug, length (needle SpDebug m))"
    using marker_unique [OF assms, of _ _ t]
    by (intro better_marker_first_zero) (auto simp: first_structural_prefix)
  then show ?thesis by (simp add: outermost_marker_def)
qed

lemma peel_debug:
  assumes "m \<in> set MARKERS" and "msg \<noteq> []"
  shows "peel (mk_debug m @ [quote_char] @ debug_escape msg @ [quote_char] @ t)
           = Some \<lparr>te_variant = mk_variant m, te_message = msg\<rparr>"
  using assms outermost_marker_debug [OF assms(1)]
  by (simp add: peel_def debug_payload_def strip_prefix_def literal_end_debug_escape)

lemma recover_debug:
  assumes "m \<in> set MARKERS" and "msg \<noteq> []" and "peel msg = None"
  shows "recover_transported_error (mk_debug m @ [quote_char] @ debug_escape msg @ [quote_char] @ t)
           = Some \<lparr>te_variant = mk_variant m, te_message = msg\<rparr>"
  unfolding recover_transported_error_def MAX_TRANSPORT_LAYERS_def
  using peel_debug [OF assms(1,2), of t] assms(3)
  by (simp add: eval_nat_numeral)

section \<open>Properties\<close>

text \<open>
  C14. A tag round-trips: the code written into a message is the code read back, and removing
  the tags of a tagged message is removing the tags of the message.
\<close>

theorem tag_round_trip:
  assumes "code \<noteq> V_Unspecified"
  shows "code_of_tagged_message (tagged_message code msg) = Some code
       \<and> strip_code_tags (tagged_message code msg) = strip_code_tags msg"
  using code_of_tagged [OF assms] strip_code_tags_tagged by simp

theorem tag_round_trip_witness:
  "code_of_tagged_message (tagged_message V_DivisionByZero ''division by zero'') = Some V_DivisionByZero"
  using tag_round_trip [of V_DivisionByZero "''division by zero''"] by simp

text \<open>
  C15. Stripping leaves none of the known engine prefixes in front, however many were stacked.
\<close>

theorem no_known_prefix_remains:
  "list_all (\<lambda>p. \<not> prefix p (strip_known_prefixes msg)) PREFIXES_TO_STRIP"
  using strip_known_prefixes_none by (auto simp: list_all_iff)

end
