(* ===== verification/Write_Node.thy ===== *)
theory Write_Node
  imports Error_Text "HOL-Library.Word"
begin

text \<open>
  The write path of a core node: \<open>crates/vairedb-core/src\<close>.

  \<^item> \<open>write_service/dedup_cache.rs\<close>: the bounded cache that makes a write idempotent.
  \<^item> \<open>write_service/param_conversion.rs\<close>: bind values.
  \<^item> \<open>write_queue/write_queue.rs\<close> and \<open>bulk_insert.rs\<close>: the statements the writer thread
    executes, one entry at a time.
  \<^item> \<open>write_service/write_service.rs\<close>: the gRPC handler.

  DuckDB and Arrow are not part of the repository: the calls the node makes on a connection
  are the fields of a record \<open>duckdb\<close> over an abstract connection state, the reads of an Arrow
  IPC stream the fields of a record \<open>arrow\<close>. The writer thread handles one entry at a time,
  so the model applies a request to the connection in one piece; the cache is read before
  and written after, which are separate critical sections and separate steps here.
\<close>

section \<open>Messages\<close>

datatype write_param_value =
  IsNull bool | BoolVal bool | IntVal int | DoubleVal "64 word" | StringVal string | BytesVal string

type_synonym write_param = "write_param_value option"

record bulk_rows =
  br_table :: string
  br_columns :: "string list"
  br_arrow_ipc :: string

datatype write_operation = OpUnspecified | OpInsert | OpUpdate | OpDelete

record write_statement =
  ws_sql :: string
  ws_shard_id :: string
  ws_operation :: write_operation
  ws_params :: "write_param list"
  ws_bulk_rows :: "bulk_rows option"

record execute_write_request =
  ew_write_id :: string
  ew_statements :: "write_statement list"
  ew_atomic :: bool

record error_detail =
  ed_code :: int
  ed_message :: string

record write_result =
  wr_success :: bool
  wr_rows_affected :: int
  wr_error :: "error_detail option"

section \<open>The dedup cache\<close>

record dedup_cache =
  dc_results :: "string \<Rightarrow> write_result list option"
  dc_order :: "string list"
  dc_capacity :: nat

definition dedup_new :: "nat \<Rightarrow> dedup_cache" where
  "dedup_new capacity = \<lparr>dc_results = Map.empty, dc_order = [], dc_capacity = capacity\<rparr>"

definition dedup_get :: "dedup_cache \<Rightarrow> string \<Rightarrow> write_result list option" where
  "dedup_get c write_id = dc_results c write_id"

definition dedup_evict :: "dedup_cache \<Rightarrow> dedup_cache" where
  "dedup_evict c =
     (if length (dc_order c) \<ge> dc_capacity c then
        (case dc_order c of
           [] \<Rightarrow> c
         | evicted # rest \<Rightarrow>
             c\<lparr>dc_order := rest, dc_results := (dc_results c)(evicted := None)\<rparr>)
      else c)"

definition dedup_insert :: "string \<Rightarrow> write_result list \<Rightarrow> dedup_cache \<Rightarrow> dedup_cache" where
  "dedup_insert write_id results c =
     (if dc_results c write_id \<noteq> None then c
      else
        (let c' = dedup_evict c in
         c'\<lparr>dc_order := dc_order c' @ [write_id],
            dc_results := (dc_results c')(write_id \<mapsto> results)\<rparr>))"

section \<open>Bind values\<close>

datatype duckdb_value =
  DNull | DBoolean bool | DBigInt int | DDouble "64 word" | DText string | DBlob string

fun write_param_to_duckdb_value :: "write_param \<Rightarrow> duckdb_value" where
  "write_param_to_duckdb_value None = DNull"
| "write_param_to_duckdb_value (Some (IsNull _)) = DNull"
| "write_param_to_duckdb_value (Some (BoolVal b)) = DBoolean b"
| "write_param_to_duckdb_value (Some (IntVal i)) = DBigInt i"
| "write_param_to_duckdb_value (Some (DoubleVal d)) = DDouble d"
| "write_param_to_duckdb_value (Some (StringVal s)) = DText s"
| "write_param_to_duckdb_value (Some (BytesVal b)) = DBlob b"

section \<open>The engine and Arrow\<close>

record ('d, 'rb) duckdb =
  dk_execute :: "'d \<Rightarrow> string \<Rightarrow> duckdb_value list \<Rightarrow> (string, nat) result \<times> 'd"
  dk_execute_batch :: "'d \<Rightarrow> string \<Rightarrow> (string, unit) result \<times> 'd"
  dk_appender :: "'d \<Rightarrow> string \<Rightarrow> (string, unit) result \<times> 'd"
  dk_append_batch :: "'d \<Rightarrow> 'rb \<Rightarrow> (string, unit) result \<times> 'd"
  dk_flush :: "'d \<Rightarrow> (string, unit) result \<times> 'd"

datatype arrow_type =
  ABoolean | AInt8 | AInt16 | AInt32 | AInt64 | AUInt8 | AUInt16 | AUInt32 | AUInt64 | AUtf8
| AOther string

record 'rb arrow =
  ar_read_ipc :: "string \<Rightarrow> (string, 'rb) result"
  ar_num_rows :: "'rb \<Rightarrow> nat"
  ar_types :: "'rb \<Rightarrow> arrow_type list"

section \<open>Bulk inserts\<close>

record 'rb bulk_insert =
  bi_table :: string
  bi_columns :: "string list"
  bi_rows :: 'rb

definition STAGING_TABLE :: string where
  "STAGING_TABLE = ''vairedb_bulk_rows''"

definition bulk_decode :: "'rb arrow \<Rightarrow> bulk_rows \<Rightarrow> (core_error, 'rb bulk_insert) result" where
  "bulk_decode A bulk =
     (case ar_read_ipc A (br_arrow_ipc bulk) of
        Inl cause \<Rightarrow>
          Inl (Engine (''bulk insert into '' @ br_table bulk
                @ '' is not a readable Arrow IPC stream: '' @ cause))
      | Inr rows \<Rightarrow>
          if length (ar_types A rows) \<noteq> length (br_columns bulk) then
            Inl (Engine (''bulk insert into '' @ br_table bulk @ '' names ''
                  @ show_nat (length (br_columns bulk)) @ '' column(s) but carries ''
                  @ show_nat (length (ar_types A rows))))
          else Inr \<lparr>bi_table = br_table bulk, bi_columns = br_columns bulk, bi_rows = rows\<rparr>)"

fun staging_type :: "arrow_type \<Rightarrow> string option" where
  "staging_type ABoolean = Some ''BOOLEAN''"
| "staging_type AInt8 = Some ''TINYINT''"
| "staging_type AInt16 = Some ''SMALLINT''"
| "staging_type AInt32 = Some ''INTEGER''"
| "staging_type AInt64 = Some ''BIGINT''"
| "staging_type AUInt8 = Some ''UTINYINT''"
| "staging_type AUInt16 = Some ''USMALLINT''"
| "staging_type AUInt32 = Some ''UINTEGER''"
| "staging_type AUInt64 = Some ''UBIGINT''"
| "staging_type AUtf8 = Some ''VARCHAR''"
| "staging_type (AOther _) = None"

fun arrow_type_name :: "arrow_type \<Rightarrow> string" where
  "arrow_type_name ABoolean = ''Boolean''"
| "arrow_type_name AInt8 = ''Int8''"
| "arrow_type_name AInt16 = ''Int16''"
| "arrow_type_name AInt32 = ''Int32''"
| "arrow_type_name AInt64 = ''Int64''"
| "arrow_type_name AUInt8 = ''UInt8''"
| "arrow_type_name AUInt16 = ''UInt16''"
| "arrow_type_name AUInt32 = ''UInt32''"
| "arrow_type_name AUInt64 = ''UInt64''"
| "arrow_type_name AUtf8 = ''Utf8''"
| "arrow_type_name (AOther n) = n"

definition staging_column :: "nat \<times> arrow_type \<Rightarrow> (core_error, string) result" where
  "staging_column p =
     (case p of (i, ty) \<Rightarrow>
        case staging_type ty of
          Some name \<Rightarrow> Inr (''c'' @ show_nat i @ '' '' @ name)
        | None \<Rightarrow>
            Inl (Engine (''bulk insert column '' @ show_nat i @ '' has type '' @ arrow_type_name ty
                  @ '', which a bulk insert does not carry'')))"

definition staging_columns :: "arrow_type list \<Rightarrow> (core_error, string) result" where
  "staging_columns types =
     r_bind (collect_results staging_column (zip [0..<length types] types))
       (\<lambda>columns. Inr (join '', '' columns))"

definition quote_ident :: "string \<Rightarrow> string" where
  "quote_ident i =
     [quote_char]
       @ concat (map (\<lambda>c. if c = quote_char then [quote_char, quote_char] else [c]) i)
       @ [quote_char]"

definition bulk_insert_sql :: "'rb bulk_insert \<Rightarrow> string" where
  "bulk_insert_sql b =
     ''INSERT INTO '' @ quote_ident (bi_table b)
       @ '' ('' @ join '', '' (map quote_ident (bi_columns b))
       @ '') SELECT '' @ join '', '' (map (\<lambda>i. ''c'' @ show_nat i) [0..<length (bi_columns b)])
       @ '' FROM temp.main.'' @ STAGING_TABLE"

text \<open>One engine call: its error text is classified, and the connection moves on.\<close>

definition step_conn ::
  "(string, 'a) result \<times> 'd \<Rightarrow> ('a \<Rightarrow> 'd \<Rightarrow> (core_error, 'b) result \<times> 'd)
     \<Rightarrow> (core_error, 'b) result \<times> 'd" where
  "step_conn out f =
     (case out of (Inl msg, d) \<Rightarrow> (Inl (from_duckdb msg), d) | (Inr v, d) \<Rightarrow> f v d)"

definition bulk_execute ::
  "('d, 'rb) duckdb \<Rightarrow> 'rb arrow \<Rightarrow> 'rb bulk_insert \<Rightarrow> 'd \<Rightarrow> (core_error, nat) result \<times> 'd" where
  "bulk_execute K A b d =
     (if ar_num_rows A (bi_rows b) = 0 then (Inr 0, d)
      else
        (case staging_columns (ar_types A (bi_rows b)) of
           Inl e \<Rightarrow> (Inl e, d)
         | Inr cols \<Rightarrow>
             step_conn (dk_execute_batch K d
               (''CREATE OR REPLACE TEMP TABLE '' @ STAGING_TABLE @ '' ('' @ cols @ '')'')) (\<lambda>_ d.
             step_conn (dk_appender K d STAGING_TABLE) (\<lambda>_ d.
             step_conn (dk_append_batch K d (bi_rows b)) (\<lambda>_ d.
             step_conn (dk_flush K d) (\<lambda>_ d.
             step_conn (dk_execute K d (bulk_insert_sql b) []) (\<lambda>inserted d.
             step_conn (dk_execute_batch K d (''DROP TABLE temp.main.'' @ STAGING_TABLE)) (\<lambda>_ d.
               (Inr inserted, d))))))))) "

section \<open>The write queue\<close>

datatype 'rb queued_statement = QSql string "duckdb_value list" | QBulk "'rb bulk_insert"

definition execute_sql ::
  "('d, 'rb) duckdb \<Rightarrow> string \<Rightarrow> duckdb_value list \<Rightarrow> 'd \<Rightarrow> (core_error, nat) result \<times> 'd" where
  "execute_sql K sql params d = step_conn (dk_execute K d sql params) (\<lambda>rows d. (Inr rows, d))"

fun execute_one ::
  "('d, 'rb) duckdb \<Rightarrow> 'rb arrow \<Rightarrow> 'rb queued_statement \<Rightarrow> 'd \<Rightarrow> (core_error, nat) result \<times> 'd" where
  "execute_one K A (QSql sql params) d = execute_sql K sql params d"
| "execute_one K A (QBulk b) d = bulk_execute K A b d"

fun run_statements ::
  "('d, 'rb) duckdb \<Rightarrow> 'rb arrow \<Rightarrow> 'rb queued_statement list \<Rightarrow> 'd
     \<Rightarrow> (core_error, nat list) result \<times> 'd" where
  "run_statements K A [] d = (Inr [], d)"
| "run_statements K A (s # ss) d =
     (case execute_one K A s d of
        (Inl e, d') \<Rightarrow> (Inl e, d')
      | (Inr rows, d') \<Rightarrow>
          (case run_statements K A ss d' of
             (Inl e, d'') \<Rightarrow> (Inl e, d'')
           | (Inr rs, d'') \<Rightarrow> (Inr (rows # rs), d'')))"

definition execute_atomically ::
  "('d, 'rb) duckdb \<Rightarrow> 'rb arrow \<Rightarrow> 'rb queued_statement list \<Rightarrow> 'd
     \<Rightarrow> (core_error, nat list) result \<times> 'd" where
  "execute_atomically K A statements d =
     (if statements = [] then (Inr [], d)
      else
        step_conn (dk_execute_batch K d ''BEGIN TRANSACTION'') (\<lambda>_ d1.
          case run_statements K A statements d1 of
            (Inl e, d2) \<Rightarrow> (Inl e, snd (dk_execute_batch K d2 ''ROLLBACK''))
          | (Inr rows, d2) \<Rightarrow>
              step_conn (dk_execute_batch K d2 ''COMMIT'') (\<lambda>_ d3. (Inr rows, d3))))"

fun execute_single ::
  "('d, 'rb) duckdb \<Rightarrow> 'rb arrow \<Rightarrow> 'rb queued_statement \<Rightarrow> 'd \<Rightarrow> (core_error, nat) result \<times> 'd" where
  "execute_single K A (QSql sql params) d = execute_sql K sql params d"
| "execute_single K A (QBulk b) d =
     (case execute_atomically K A [QBulk b] d of
        (Inl e, d') \<Rightarrow> (Inl e, d')
      | (Inr rows, d') \<Rightarrow> (Inr (case rows of [] \<Rightarrow> 0 | r # _ \<Rightarrow> r), d'))"

section \<open>The write service\<close>

record 'd core_node =
  nd_conn :: 'd
  nd_queue_open :: bool
  nd_dedup :: dedup_cache

definition DEFAULT_DEDUP_CAPACITY :: nat where
  "DEFAULT_DEDUP_CAPACITY = 10000"

definition core_node_new :: "'d \<Rightarrow> 'd core_node" where
  "core_node_new d =
     \<lparr>nd_conn = d, nd_queue_open = True, nd_dedup = dedup_new DEFAULT_DEDUP_CAPACITY\<rparr>"

definition queue_closed :: core_error where
  "queue_closed = WriteQueueError ''write queue closed''"

definition submit ::
  "('d \<Rightarrow> (core_error, 'a) result \<times> 'd) \<Rightarrow> 'd core_node \<Rightarrow> (core_error, 'a) result \<times> 'd core_node" where
  "submit job n =
     (if nd_queue_open n then
        (case job (nd_conn n) of (res, d) \<Rightarrow> (res, n\<lparr>nd_conn := d\<rparr>))
      else (Inl queue_closed, n))"

definition duckdb_params :: "write_statement \<Rightarrow> duckdb_value list" where
  "duckdb_params stmt = map write_param_to_duckdb_value (ws_params stmt)"

definition queued :: "'rb arrow \<Rightarrow> write_statement \<Rightarrow> (core_error, 'rb queued_statement) result" where
  "queued A stmt =
     (case ws_bulk_rows stmt of
        Some bulk \<Rightarrow> r_bind (bulk_decode A bulk) (\<lambda>b. Inr (QBulk b))
      | None \<Rightarrow> Inr (QSql (ws_sql stmt) (duckdb_params stmt)))"

definition succeeded :: "nat \<Rightarrow> write_result" where
  "succeeded rows = \<lparr>wr_success = True, wr_rows_affected = as_i64 rows, wr_error = None\<rparr>"

definition failed :: "core_error \<Rightarrow> write_result" where
  "failed e =
     \<lparr>wr_success = False, wr_rows_affected = 0,
      wr_error = Some \<lparr>ed_code = vdb_code_i32 (core_vdb_error_code e),
                       ed_message = sanitize_message (core_error_display e)\<rparr>\<rparr>"

definition result_of :: "(core_error, nat) result \<Rightarrow> write_result" where
  "result_of r = (case r of Inr rows \<Rightarrow> succeeded rows | Inl e \<Rightarrow> failed e)"

fun apply_one_by_one ::
  "('d, 'rb) duckdb \<Rightarrow> 'rb arrow \<Rightarrow> write_statement list \<Rightarrow> 'd core_node
     \<Rightarrow> write_result list \<times> 'd core_node" where
  "apply_one_by_one K A [] n = ([], n)"
| "apply_one_by_one K A (stmt # stmts) n =
     (case (case queued A stmt of
              Inr q \<Rightarrow> submit (execute_single K A q) n
            | Inl e \<Rightarrow> (Inl e, n)) of
        (res, n') \<Rightarrow>
          (case apply_one_by_one K A stmts n' of (rs, n'') \<Rightarrow> (result_of res # rs, n'')))"

definition apply_atomically ::
  "('d, 'rb) duckdb \<Rightarrow> 'rb arrow \<Rightarrow> write_statement list \<Rightarrow> 'd core_node
     \<Rightarrow> write_result list \<times> 'd core_node" where
  "apply_atomically K A stmts n =
     (case (case collect_results (queued A) stmts of
              Inr qs \<Rightarrow> submit (execute_atomically K A qs) n
            | Inl e \<Rightarrow> (Inl e, n)) of
        (Inr rows, n') \<Rightarrow> (map succeeded rows, n')
      | (Inl e, n') \<Rightarrow> ([failed e], n'))"

definition check_dedup :: "execute_write_request \<Rightarrow> 'd core_node \<Rightarrow> write_result list option" where
  "check_dedup req n =
     (if ew_write_id req \<noteq> [] then dedup_get (nd_dedup n) (ew_write_id req) else None)"

definition apply_request ::
  "('d, 'rb) duckdb \<Rightarrow> 'rb arrow \<Rightarrow> execute_write_request \<Rightarrow> 'd core_node
     \<Rightarrow> write_result list \<times> 'd core_node" where
  "apply_request K A req n =
     (if ew_atomic req then apply_atomically K A (ew_statements req) n
      else apply_one_by_one K A (ew_statements req) n)"

definition record_dedup ::
  "execute_write_request \<Rightarrow> write_result list \<Rightarrow> 'd core_node \<Rightarrow> 'd core_node" where
  "record_dedup req results n =
     (if ew_write_id req \<noteq> []
      then n\<lparr>nd_dedup := dedup_insert (ew_write_id req) results (nd_dedup n)\<rparr> else n)"

definition execute_write ::
  "('d, 'rb) duckdb \<Rightarrow> 'rb arrow \<Rightarrow> execute_write_request \<Rightarrow> 'd core_node
     \<Rightarrow> write_result list \<times> 'd core_node" where
  "execute_write K A req n =
     (case check_dedup req n of
        Some cached \<Rightarrow> (cached, n)
      | None \<Rightarrow>
          (case apply_request K A req n of
             (results, n') \<Rightarrow> (results, record_dedup req results n')))"

section \<open>Replay caches\<close>

text \<open>
  What the write service relies on: a cache in which an entry, once inserted, answers until
  its remaining life is used up, every insertion costing each other entry one unit at most.
\<close>

locale replay_cache =
  fixes ok :: "'c \<Rightarrow> bool"
    and get :: "'c \<Rightarrow> 'k \<Rightarrow> 'v option"
    and ins :: "'k \<Rightarrow> 'v \<Rightarrow> 'c \<Rightarrow> 'c"
    and life :: "'c \<Rightarrow> 'k \<Rightarrow> nat"
    and cap :: "'c \<Rightarrow> nat"
  assumes ok_ins: "ok c \<Longrightarrow> ok (ins k v c)"
    and cap_ins: "cap (ins k v c) = cap c"
    and get_ins_new: "ok c \<Longrightarrow> get c k = None \<Longrightarrow> get (ins k v c) k = Some v"
    and life_ins_new: "ok c \<Longrightarrow> get c k = None \<Longrightarrow> cap c \<le> Suc (life (ins k v c) k)"
    and get_ins_keep: "ok c \<Longrightarrow> get c k = Some v \<Longrightarrow> 0 < life c k \<Longrightarrow> get (ins k' v' c) k = Some v"
    and life_ins_keep: "ok c \<Longrightarrow> get c k = Some v \<Longrightarrow> 0 < life c k \<Longrightarrow> life c k \<le> Suc (life (ins k' v' c) k)"
begin

lemma ok_many: "ok c \<Longrightarrow> ok (fold (\<lambda>(k, v). ins k v) kvs c)"
  by (induction kvs arbitrary: c) (auto intro: ok_ins)

lemma get_many:
  assumes "ok c" "get c k = Some v" "length kvs \<le> life c k"
  shows "get (fold (\<lambda>(k, v). ins k v) kvs c) k = Some v"
  using assms
proof (induction kvs arbitrary: c)
  case (Cons kv kvs)
  obtain k' v' where kv: "kv = (k', v')" by (cases kv)
  have pos: "0 < life c k" using Cons.prems(3) by simp
  have "length kvs \<le> life (ins k' v' c) k"
    using life_ins_keep [OF Cons.prems(1,2) pos, of k' v'] Cons.prems(3) by simp
  then show ?case
    using Cons.IH [OF ok_ins [OF Cons.prems(1)] get_ins_keep [OF Cons.prems(1,2) pos]] kv by simp
qed simp

lemma get_window:
  assumes "ok c" "get c k = None" "length kvs < cap c"
  shows "get (fold (\<lambda>(k, v). ins k v) kvs (ins k v c)) k = Some v"
  using assms life_ins_new [OF assms(1,2), of v]
  by (intro get_many ok_ins get_ins_new) auto

end

definition dedup_ok :: "dedup_cache \<Rightarrow> bool" where
  "dedup_ok c \<longleftrightarrow>
     distinct (dc_order c)
   \<and> list_all (\<lambda>i. dc_results c i \<noteq> None) (dc_order c)
   \<and> (\<forall>i. dc_results c i \<noteq> None \<longrightarrow> i \<in> set (dc_order c))
   \<and> length (dc_order c) \<le> max 1 (dc_capacity c)"

text \<open>How many more insertions an entry survives: the free places and the entries older than it.\<close>

definition dedup_life :: "dedup_cache \<Rightarrow> string \<Rightarrow> nat" where
  "dedup_life c i =
     (dc_capacity c - length (dc_order c)) + length (takeWhile (\<lambda>j. j \<noteq> i) (dc_order c))"

lemma dedup_ok_new: "dedup_ok (dedup_new capacity)"
  by (simp add: dedup_ok_def dedup_new_def)

lemma takeWhile_notin: "i \<notin> set xs \<Longrightarrow> takeWhile (\<lambda>j. j \<noteq> i) (xs @ [i]) = xs"
  by (induction xs) auto

lemma takeWhile_in: "i \<in> set xs \<Longrightarrow> takeWhile (\<lambda>j. j \<noteq> i) (xs @ ys) = takeWhile (\<lambda>j. j \<noteq> i) xs"
  by (induction xs) auto

lemma dedup_capacity [simp]:
  "dc_capacity (dedup_insert i r c) = dc_capacity c" "dc_capacity (dedup_evict c) = dc_capacity c"
  by (auto simp: dedup_insert_def dedup_evict_def Let_def split: list.splits)

lemma dedup_evict_ok:
  assumes "dedup_ok c"
  shows "dedup_ok (dedup_evict c)"
    and "length (dc_order (dedup_evict c)) \<le> max 1 (dc_capacity c) - 1"
    and "dc_results c i = None \<Longrightarrow> dc_results (dedup_evict c) i = None"
  using assms
  by (auto simp: dedup_ok_def dedup_evict_def list_all_iff split: list.splits)

lemma dedup_ok_insert:
  assumes "dedup_ok c"
  shows "dedup_ok (dedup_insert i r c)"
proof (cases "dc_results c i = None")
  case True
  note ev = dedup_evict_ok [OF assms]
  have "i \<notin> set (dc_order (dedup_evict c))"
    using ev(1) ev(3) [OF True] by (auto simp: dedup_ok_def list_all_iff)
  moreover have "length (dc_order (dedup_evict c)) + 1 \<le> max 1 (dc_capacity c)" using ev(2) by linarith
  ultimately show ?thesis
    using ev(1) True by (auto simp: dedup_ok_def dedup_insert_def Let_def list_all_iff)
next
  case False
  then show ?thesis using assms by (simp add: dedup_insert_def)
qed

lemma dedup_get_insert_new:
  "dedup_get c i = None \<Longrightarrow> dedup_get (dedup_insert i r c) i = Some r"
  by (simp add: dedup_get_def dedup_insert_def Let_def)

lemma dedup_life_insert_new:
  assumes "dedup_ok c" "dedup_get c i = None"
  shows "dc_capacity c \<le> Suc (dedup_life (dedup_insert i r c) i)"
proof -
  have none: "dc_results c i = None" using assms(2) by (simp add: dedup_get_def)
  note ev = dedup_evict_ok [OF assms(1)]
  have "i \<notin> set (dc_order (dedup_evict c))"
    using ev(1) ev(3) [OF none] by (auto simp: dedup_ok_def list_all_iff)
  then show ?thesis
    using none ev(2) by (simp add: dedup_life_def dedup_insert_def Let_def takeWhile_notin)
qed

lemma dedup_keep:
  assumes "dedup_ok c" "dedup_get c i = Some r" "0 < dedup_life c i"
  shows "dedup_get (dedup_insert j r' c) i = Some r
       \<and> dedup_life c i \<le> Suc (dedup_life (dedup_insert j r' c) i)"
proof (cases "dc_results c j = None")
  case False
  then show ?thesis using assms by (simp add: dedup_insert_def dedup_get_def)
next
  case True
  have ri: "dc_results c i = Some r" using assms(2) by (simp add: dedup_get_def)
  then have i: "i \<in> set (dc_order c)" "i \<noteq> j" using assms(1) True by (auto simp: dedup_ok_def)
  show ?thesis
  proof (cases "length (dc_order c) \<ge> dc_capacity c")
    case full: True
    then obtain e rest where o: "dc_order c = e # rest" "e \<noteq> i"
      using assms(3) i(1) by (cases "dc_order c") (auto simp: dedup_life_def split: if_splits)
    then have "i \<in> set rest" using i(1) by simp
    then show ?thesis
      using full o True ri i(2)
      by (auto simp: dedup_get_def dedup_insert_def dedup_evict_def dedup_life_def Let_def takeWhile_in)
  next
    case False
    then show ?thesis
      using True ri i
      by (auto simp: dedup_get_def dedup_insert_def dedup_evict_def dedup_life_def Let_def takeWhile_in)
  qed
qed

interpretation dedup: replay_cache dedup_ok dedup_get dedup_insert dedup_life dc_capacity
proof unfold_locales
  fix c k k' v v'
  show "dedup_ok c \<Longrightarrow> dedup_ok (dedup_insert k v c)" by (rule dedup_ok_insert)
  show "dc_capacity (dedup_insert k v c) = dc_capacity c" by simp
  show "dedup_ok c \<Longrightarrow> dedup_get c k = None \<Longrightarrow> dedup_get (dedup_insert k v c) k = Some v"
    by (rule dedup_get_insert_new)
  show "dedup_ok c \<Longrightarrow> dedup_get c k = None \<Longrightarrow> dc_capacity c \<le> Suc (dedup_life (dedup_insert k v c) k)"
    by (rule dedup_life_insert_new)
  show "dedup_ok c \<Longrightarrow> dedup_get c k = Some v \<Longrightarrow> 0 < dedup_life c k
      \<Longrightarrow> dedup_get (dedup_insert k' v' c) k = Some v"
    using dedup_keep by blast
  show "dedup_ok c \<Longrightarrow> dedup_get c k = Some v \<Longrightarrow> 0 < dedup_life c k
      \<Longrightarrow> dedup_life c k \<le> Suc (dedup_life (dedup_insert k' v' c) k)"
    using dedup_keep by blast
qed

section \<open>Idempotence of the write service\<close>

lemma apply_one_by_one_dedup [simp]: "nd_dedup (snd (apply_one_by_one K A ss n)) = nd_dedup n"
  by (induction ss arbitrary: n) (auto simp: submit_def split_beta split: sum.splits)

lemma apply_atomically_dedup [simp]: "nd_dedup (snd (apply_atomically K A ss n)) = nd_dedup n"
  by (auto simp: apply_atomically_def submit_def split: sum.splits prod.splits if_splits)

lemma apply_request_dedup [simp]: "nd_dedup (snd (apply_request K A req n)) = nd_dedup n"
  by (simp add: apply_request_def)

lemma execute_write_miss:
  assumes "check_dedup req n = None"
  shows "execute_write K A req n =
    (fst (apply_request K A req n),
     record_dedup req (fst (apply_request K A req n)) (snd (apply_request K A req n)))"
  using assms by (simp add: execute_write_def split_beta)

lemma execute_write_hit:
  "check_dedup req n = Some rs \<Longrightarrow> execute_write K A req n = (rs, n)"
  by (simp add: execute_write_def)

lemma execute_write_dedup:
  "nd_dedup (snd (execute_write K A req n)) = nd_dedup n
   \<or> (\<exists>rs. nd_dedup (snd (execute_write K A req n)) = dedup_insert (ew_write_id req) rs (nd_dedup n))"
  by (cases "check_dedup req n") (auto simp: execute_write_miss execute_write_hit record_dedup_def)

definition serve_all ::
  "('d, 'rb) duckdb \<Rightarrow> 'rb arrow \<Rightarrow> execute_write_request list \<Rightarrow> 'd core_node \<Rightarrow> 'd core_node" where
  "serve_all K A reqs n = fold (\<lambda>req n. snd (execute_write K A req n)) reqs n"

lemma serve_all_inserts:
  "\<exists>kvs. length kvs \<le> length reqs
     \<and> nd_dedup (serve_all K A reqs n) = fold (\<lambda>(k, v). dedup_insert k v) kvs (nd_dedup n)"
proof (induction reqs arbitrary: n)
  case Nil
  show ?case by (rule exI [of _ "[]"]) (simp add: serve_all_def)
next
  case (Cons req reqs)
  let ?n = "snd (execute_write K A req n)"
  obtain kvs where kvs: "length kvs \<le> length reqs"
    "nd_dedup (serve_all K A reqs ?n) = fold (\<lambda>(k, v). dedup_insert k v) kvs (nd_dedup ?n)"
    using Cons.IH [of ?n] by blast
  from execute_write_dedup [of K A req n] show ?case
  proof
    assume "nd_dedup ?n = nd_dedup n"
    then show ?thesis using kvs by (intro exI [of _ kvs]) (simp add: serve_all_def)
  next
    assume "\<exists>rs. nd_dedup ?n = dedup_insert (ew_write_id req) rs (nd_dedup n)"
    then obtain rs where "nd_dedup ?n = dedup_insert (ew_write_id req) rs (nd_dedup n)" by blast
    then show ?thesis
      using kvs by (intro exI [of _ "(ew_write_id req, rs) # kvs"]) (simp add: serve_all_def)
  qed
qed

lemma replay_window:
  assumes "dedup_ok (nd_dedup n)" "ew_write_id req \<noteq> []" "check_dedup req n = None"
    and "length reqs < dc_capacity (nd_dedup n)" "ew_write_id req' = ew_write_id req"
  shows "execute_write K A req' (serve_all K A reqs (snd (execute_write K A req n)))
       = (fst (execute_write K A req n), serve_all K A reqs (snd (execute_write K A req n)))"
proof -
  let ?i = "ew_write_id req" and ?rs = "fst (apply_request K A req n)"
  let ?n1 = "snd (execute_write K A req n)" and ?n2 = "serve_all K A reqs (snd (execute_write K A req n))"
  have none: "dedup_get (nd_dedup n) ?i = None" using assms(2,3) by (simp add: check_dedup_def)
  have n1: "nd_dedup ?n1 = dedup_insert ?i ?rs (nd_dedup n)"
    using assms(2) by (simp add: execute_write_miss [OF assms(3)] record_dedup_def)
  obtain kvs where kvs: "length kvs \<le> length reqs"
    "nd_dedup ?n2 = fold (\<lambda>(k, v). dedup_insert k v) kvs (nd_dedup ?n1)"
    using serve_all_inserts [of reqs K A ?n1] by blast
  have "dedup_get (nd_dedup ?n2) ?i = Some ?rs"
    unfolding kvs(2) n1 by (rule dedup.get_window [OF assms(1) none]) (use kvs(1) assms(4) in simp)
  then have "check_dedup req' ?n2 = Some ?rs" using assms(2,5) by (simp add: check_dedup_def)
  then have "execute_write K A req' ?n2 = (?rs, ?n2)" by (rule execute_write_hit)
  then show ?thesis by (simp add: execute_write_miss [OF assms(3)])
qed

section \<open>What the node relies on of DuckDB\<close>

text \<open>
  \<open>view\<close> is the content a statement on the connection sees, \<open>saved\<close> the content to return to
  while a transaction is open, \<open>plain\<close> the statements that do not control transactions. The
  clauses are DuckDB's transaction semantics: \<open>BEGIN\<close> remembers the content, \<open>ROLLBACK\<close>
  restores it, \<open>COMMIT\<close> keeps the changes or fails and restores it, and a statement that
  fails outside a transaction changes nothing.
\<close>

definition duckdb_ok ::
  "('d, 'rb) duckdb \<Rightarrow> ('d \<Rightarrow> 'v) \<Rightarrow> ('d \<Rightarrow> 'v option) \<Rightarrow> (string \<Rightarrow> bool) \<Rightarrow> bool" where
  "duckdb_ok K view saved plain \<longleftrightarrow>
     (\<forall>d r d'. saved d = None \<longrightarrow> dk_execute_batch K d ''BEGIN TRANSACTION'' = (r, d') \<longrightarrow>
        view d' = view d \<and> saved d' = (case r of Inr _ \<Rightarrow> Some (view d) | Inl _ \<Rightarrow> None))
   \<and> (\<forall>d v r d'. saved d = Some v \<longrightarrow> dk_execute_batch K d ''COMMIT'' = (r, d') \<longrightarrow>
        saved d' = None \<and> view d' = (case r of Inr _ \<Rightarrow> view d | Inl _ \<Rightarrow> v))
   \<and> (\<forall>d v. saved d = Some v \<longrightarrow>
        saved (snd (dk_execute_batch K d ''ROLLBACK'')) = None
        \<and> view (snd (dk_execute_batch K d ''ROLLBACK'')) = v)
   \<and> (\<forall>d sql ps r d'. plain sql \<longrightarrow> dk_execute K d sql ps = (r, d') \<longrightarrow>
        saved d' = saved d \<and> (\<forall>e. r = Inl e \<longrightarrow> saved d = None \<longrightarrow> view d' = view d))
   \<and> (\<forall>d sql. plain sql \<longrightarrow> saved (snd (dk_execute_batch K d sql)) = saved d)
   \<and> (\<forall>d t. saved (snd (dk_appender K d t)) = saved d)
   \<and> (\<forall>d rb. saved (snd (dk_append_batch K d rb)) = saved d)
   \<and> (\<forall>d. saved (snd (dk_flush K d)) = saved d)
   \<and> (\<forall>types cols. staging_columns types = Inr cols \<longrightarrow>
        plain (''CREATE OR REPLACE TEMP TABLE '' @ STAGING_TABLE @ '' ('' @ cols @ '')''))
   \<and> plain (''DROP TABLE temp.main.'' @ STAGING_TABLE)
   \<and> (\<forall>b :: 'rb bulk_insert. plain (bulk_insert_sql b))"

fun plain_statement :: "(string \<Rightarrow> bool) \<Rightarrow> 'rb queued_statement \<Rightarrow> bool" where
  "plain_statement plain (QSql sql ps) = plain sql"
| "plain_statement plain (QBulk b) = True"

lemma duckdb_okD:
  assumes "duckdb_ok K view saved plain"
  shows "\<forall>d r d'. saved d = None \<longrightarrow> dk_execute_batch K d ''BEGIN TRANSACTION'' = (r, d') \<longrightarrow>
        view d' = view d \<and> saved d' = (case r of Inr _ \<Rightarrow> Some (view d) | Inl _ \<Rightarrow> None)"
    and "\<forall>d v r d'. saved d = Some v \<longrightarrow> dk_execute_batch K d ''COMMIT'' = (r, d') \<longrightarrow>
        saved d' = None \<and> view d' = (case r of Inr _ \<Rightarrow> view d | Inl _ \<Rightarrow> v)"
    and "\<forall>d v. saved d = Some v \<longrightarrow>
        saved (snd (dk_execute_batch K d ''ROLLBACK'')) = None
        \<and> view (snd (dk_execute_batch K d ''ROLLBACK'')) = v"
    and "\<forall>d sql ps r d'. plain sql \<longrightarrow> dk_execute K d sql ps = (r, d') \<longrightarrow>
        saved d' = saved d \<and> (\<forall>e. r = Inl e \<longrightarrow> saved d = None \<longrightarrow> view d' = view d)"
  using assms unfolding duckdb_ok_def by - (elim conjE, assumption)+

lemma duckdb_stagingD:
  fixes K :: "('d, 'rb) duckdb"
  assumes "duckdb_ok K view saved plain"
  shows "\<forall>d sql. plain sql \<longrightarrow> saved (snd (dk_execute_batch K d sql)) = saved d"
    and "\<forall>d t. saved (snd (dk_appender K d t)) = saved d"
    and "\<forall>d rb. saved (snd (dk_append_batch K d rb)) = saved d"
    and "\<forall>d. saved (snd (dk_flush K d)) = saved d"
    and "\<forall>types cols. staging_columns types = Inr cols \<longrightarrow>
        plain (''CREATE OR REPLACE TEMP TABLE '' @ STAGING_TABLE @ '' ('' @ cols @ '')'')"
    and "plain (''DROP TABLE temp.main.'' @ STAGING_TABLE)"
    and "\<forall>b :: 'rb bulk_insert. plain (bulk_insert_sql b)"
  using assms unfolding duckdb_ok_def by - (elim conjE, assumption)+

lemmas duckdb_staging = duckdb_stagingD [rule_format]

lemma duckdb_execute:
  assumes "duckdb_ok K view saved plain" "plain sql" "dk_execute K d sql ps = (r, d')"
  shows "saved d' = saved d" and "r = Inl e \<Longrightarrow> saved d = None \<Longrightarrow> view d' = view d"
  using duckdb_okD(4) [OF assms(1), rule_format, OF assms(2,3)] by auto

section \<open>All or nothing\<close>

lemma step_conn_saved:
  assumes "\<And>v d. saved (snd (f v d)) = saved d" "saved (snd out) = s"
  shows "saved (snd (step_conn out f)) = s"
  using assms by (cases out) (auto simp: step_conn_def split: sum.splits)

lemma execute_saved:
  assumes "duckdb_ok K view saved plain" "plain sql"
  shows "saved (snd (dk_execute K d sql ps)) = saved d"
  using duckdb_execute(1) [OF assms] by (cases "dk_execute K d sql ps") simp

lemma bulk_execute_saved:
  assumes K: "duckdb_ok K view saved plain"
  shows "saved (snd (bulk_execute K A b d)) = saved d"
proof (cases "staging_columns (ar_types A (bi_rows b))")
  case (Inl e)
  then show ?thesis by (simp add: bulk_execute_def)
next
  case (Inr cols)
  note calls = duckdb_staging(1) [OF K duckdb_staging(5) [OF K Inr]]
    duckdb_staging(1) [OF K duckdb_staging(6) [OF K]] duckdb_staging(2-4) [OF K]
    execute_saved [OF K duckdb_staging(7) [OF K]]
  show ?thesis
  proof (cases "ar_num_rows A (bi_rows b) = 0")
    case True
    then show ?thesis by (simp add: bulk_execute_def)
  next
    case False
    show ?thesis
      unfolding bulk_execute_def if_not_P [OF False] Inr sum.case
      by (intro step_conn_saved [of saved]) (simp_all only: calls snd_conv)
  qed
qed

lemma execute_one_saved:
  assumes K: "duckdb_ok K view saved plain" and "plain_statement plain q"
  shows "saved (snd (execute_one K A q d)) = saved d"
proof (cases q)
  case (QSql sql ps)
  have "plain sql" using assms(2) QSql by simp
  then show ?thesis
    unfolding QSql execute_one.simps execute_sql_def
    by (intro step_conn_saved [of saved] execute_saved [OF K]) (simp_all only: snd_conv)
next
  case (QBulk b)
  show ?thesis unfolding QBulk execute_one.simps by (rule bulk_execute_saved [OF K])
qed

lemma run_statements_saved:
  assumes "duckdb_ok K view saved plain" "list_all (plain_statement plain) qs"
  shows "saved (snd (run_statements K A qs d)) = saved d"
  using assms(2)
proof (induction qs arbitrary: d)
  case (Cons q qs)
  then show ?case
    using execute_one_saved [OF assms(1), of q A d]
    by (auto split: prod.splits sum.splits) (metis snd_conv)+
qed simp

lemma run_statements_length:
  "run_statements K A qs d = (Inr rows, d') \<Longrightarrow> length rows = length qs"
  by (induction qs arbitrary: d rows) (auto split: prod.splits sum.splits)

lemma execute_atomically_all_or_nothing:
  assumes K: "duckdb_ok K view saved plain" and "saved d = None"
    and "list_all (plain_statement plain) qs"
    and ex: "execute_atomically K A qs d = (res, d')"
  shows "saved d' = None"
    and "res = Inl e \<Longrightarrow> view d' = view d"
    and "res = Inr rows \<Longrightarrow> qs \<noteq> [] \<Longrightarrow>
      \<exists>d1 d2. view d1 = view d \<and> run_statements K A qs d1 = (Inr rows, d2) \<and> view d' = view d2"
proof -
  have "saved d' = None \<and> (\<forall>e. res = Inl e \<longrightarrow> view d' = view d) \<and> (\<forall>rows. res = Inr rows \<longrightarrow> qs \<noteq> []
      \<longrightarrow> (\<exists>d1 d2. view d1 = view d \<and> run_statements K A qs d1 = (Inr rows, d2) \<and> view d' = view d2))"
  proof (cases "qs = []")
    case True
    then show ?thesis using ex assms(2) by (auto simp: execute_atomically_def)
  next
    case False
    obtain r0 d1 where b: "dk_execute_batch K d ''BEGIN TRANSACTION'' = (r0, d1)" by fastforce
    obtain r2 d2 where run: "run_statements K A qs d1 = (r2, d2)" by fastforce
    obtain r3 d3 where c: "dk_execute_batch K d2 ''COMMIT'' = (r3, d3)" by fastforce
    note began = duckdb_okD(1) [OF K, rule_format, OF assms(2) b]
    show ?thesis
    proof (cases r0)
      case (Inl e)
      then show ?thesis
        using ex False b began by (auto simp: execute_atomically_def step_conn_def)
    next
      case (Inr u)
      then have s2: "saved d2 = Some (view d)"
        using run_statements_saved [OF K assms(3), of A d1] run began by simp
      show ?thesis
      proof (cases r2)
        case (Inl e)
        then show ?thesis
          using ex False b run Inr duckdb_okD(3) [OF K, rule_format, OF s2]
          by (auto simp: execute_atomically_def step_conn_def)
      next
        case (Inr rows2)
        then show ?thesis
          using ex False b run c \<open>r0 = Inr u\<close> duckdb_okD(2) [OF K, rule_format, OF s2 c] began
          by (auto simp: execute_atomically_def step_conn_def split: sum.splits)
      qed
    qed
  qed
  then show "saved d' = None" "res = Inl e \<Longrightarrow> view d' = view d"
    "res = Inr rows \<Longrightarrow> qs \<noteq> [] \<Longrightarrow>
      \<exists>d1 d2. view d1 = view d \<and> run_statements K A qs d1 = (Inr rows, d2) \<and> view d' = view d2"
    by auto
qed

section \<open>A concrete engine\<close>

text \<open>
  An engine that satisfies \<open>duckdb_ok\<close>: the content is the list of statements applied, and
  the statement \<open>FAIL\<close> fails. It shows that the hypothesis can hold and is what the witnesses
  evaluate.
\<close>

type_synonym log_conn = "string list \<times> string list option"

definition log_control :: "string list" where
  "log_control = [''BEGIN TRANSACTION'', ''COMMIT'', ''ROLLBACK'']"

fun log_batch :: "log_conn \<Rightarrow> string \<Rightarrow> (string, unit) result \<times> log_conn" where
  "log_batch (c, s) sql =
     (if sql = ''BEGIN TRANSACTION'' then
        (case s of None \<Rightarrow> (Inr (), (c, Some c)) | Some v \<Rightarrow> (Inl ''in a transaction'', (c, s)))
      else if sql = ''COMMIT'' then (Inr (), (c, None))
      else if sql = ''ROLLBACK'' then (Inr (), (case s of None \<Rightarrow> c | Some v \<Rightarrow> v, None))
      else (Inr (), (c @ [sql], s)))"

fun log_execute :: "log_conn \<Rightarrow> string \<Rightarrow> duckdb_value list \<Rightarrow> (string, nat) result \<times> log_conn" where
  "log_execute (c, s) sql ps =
     (if sql = ''FAIL'' then (Inl ''Constraint Error: duplicate key'', (c, s))
      else (Inr 1, (c @ [sql], s)))"

definition log_duckdb :: "(log_conn, unit) duckdb" where
  "log_duckdb =
    \<lparr>dk_execute = log_execute, dk_execute_batch = log_batch,
     dk_appender = (\<lambda>d _. (Inr (), d)), dk_append_batch = (\<lambda>d _. (Inr (), d)),
     dk_flush = (\<lambda>d. (Inr (), d))\<rparr>"

definition log_arrow :: "unit arrow" where
  "log_arrow = \<lparr>ar_read_ipc = (\<lambda>_. Inr ()), ar_num_rows = (\<lambda>_. 1), ar_types = (\<lambda>_. [AInt64])\<rparr>"

definition log_plain :: "string \<Rightarrow> bool" where
  "log_plain sql \<longleftrightarrow> sql \<notin> set log_control"

lemma log_duckdb_ok: "duckdb_ok log_duckdb fst snd log_plain"
  unfolding duckdb_ok_def log_duckdb_def
  by (simp add: log_plain_def log_control_def bulk_insert_sql_def STAGING_TABLE_def split: option.splits)

section \<open>Properties\<close>

text \<open>
  C18. The dedup cache keeps its invariant under every insertion: the insertion order lists
  the cached ids once each and nothing else, and never more than its capacity (one, for a
  capacity of zero).
\<close>

theorem dedup_cache_bounded:
  assumes "dedup_ok c"
  shows "dedup_ok (dedup_insert i rs c)
       \<and> length (dc_order (dedup_insert i rs c)) \<le> max 1 (dc_capacity c)"
  using dedup_ok_insert [OF assms, of i rs] by (simp add: dedup_ok_def)

theorem dedup_cache_bounded_witness:
  "dedup_ok (dedup_insert ''w2'' [] (dedup_insert ''w1'' [] (dedup_new 1)))"
  using dedup_cache_bounded [of "dedup_insert ''w1'' [] (dedup_new 1)" "''w2''" "[]"]
    dedup_cache_bounded [OF dedup_ok_new, of "''w1''" "[]" 1] by blast

text \<open>
  C3. A write is idempotent within the window of the dedup cache: after a request with a
  write id ran, any request with that id gets the same results and leaves the node, engine
  included, exactly as it was, as long as fewer requests than the cache's capacity came in
  between.
\<close>

theorem execute_write_idempotent:
  assumes "dedup_ok (nd_dedup n)" and "ew_write_id req \<noteq> []" and "check_dedup req n = None"
    and "length reqs < dc_capacity (nd_dedup n)" and "ew_write_id req' = ew_write_id req"
  shows "execute_write K A req' (serve_all K A reqs (snd (execute_write K A req n)))
       = (fst (execute_write K A req n), serve_all K A reqs (snd (execute_write K A req n)))"
  using assms by (rule replay_window)

definition demo_statement :: "string \<Rightarrow> write_statement" where
  "demo_statement sql =
     \<lparr>ws_sql = sql, ws_shard_id = ''t_shard0'', ws_operation = OpInsert, ws_params = [],
      ws_bulk_rows = None\<rparr>"

definition demo_request :: "string \<Rightarrow> string list \<Rightarrow> execute_write_request" where
  "demo_request i sqls = \<lparr>ew_write_id = i, ew_statements = map demo_statement sqls, ew_atomic = False\<rparr>"

definition demo_node :: "log_conn core_node" where
  "demo_node = core_node_new ([], None)"

lemma demo_node_dedup: "dedup_ok (nd_dedup demo_node)" "dc_capacity (nd_dedup demo_node) = 10000"
  "dedup_get (nd_dedup demo_node) i = None"
  by (simp_all add: demo_node_def core_node_new_def dedup_ok_new DEFAULT_DEDUP_CAPACITY_def)
    (simp_all add: dedup_new_def dedup_get_def)

theorem execute_write_idempotent_witness:
  "nd_conn (snd (execute_write log_duckdb log_arrow (demo_request ''w1'' [''A''])
      (snd (execute_write log_duckdb log_arrow (demo_request ''w1'' [''A'']) demo_node))))
   = nd_conn (snd (execute_write log_duckdb log_arrow (demo_request ''w1'' [''A'']) demo_node))"
  using execute_write_idempotent [of demo_node "demo_request ''w1'' [''A'']" "[]" "demo_request ''w1'' [''A'']"
      log_duckdb log_arrow]
  by (simp add: demo_node_dedup check_dedup_def demo_request_def serve_all_def)



text \<open>
  C4. An atomic batch is all or nothing: run on a connection with no open transaction, it
  leaves none open; when it reports an error the content is the one before, and when it
  reports row counts, one per statement, the content is what running the statements in order
  from that content gives.
\<close>

theorem atomic_batch_all_or_nothing:
  assumes "duckdb_ok K view saved plain" and "saved d = None"
    and "list_all (plain_statement plain) qs" and "qs \<noteq> []"
    and "execute_atomically K A qs d = (res, d')"
  shows "saved d' = None
   \<and> (case res of
        Inl e \<Rightarrow> view d' = view d
      | Inr rows \<Rightarrow> length rows = length qs
          \<and> (\<exists>d1 d2. view d1 = view d \<and> run_statements K A qs d1 = (Inr rows, d2) \<and> view d' = view d2))"
proof (cases res)
  case (Inl e)
  then show ?thesis using execute_atomically_all_or_nothing(1,2) [OF assms(1-3,5)] by simp
next
  case (Inr rows)
  obtain d1 d2 where "view d1 = view d" "run_statements K A qs d1 = (Inr rows, d2)" "view d' = view d2"
    using execute_atomically_all_or_nothing(3) [OF assms(1-3,5) Inr assms(4)] by blast
  then show ?thesis
    using Inr run_statements_length execute_atomically_all_or_nothing(1) [OF assms(1-3,5)] by fastforce
qed

theorem atomic_batch_all_or_nothing_witness:
  "snd (execute_atomically log_duckdb log_arrow [QSql ''A'' [], QSql ''FAIL'' []] ([''Z''], None)) = ([''Z''], None)"
proof -
  let ?x = "execute_atomically log_duckdb log_arrow [QSql ''A'' [], QSql ''FAIL'' []] ([''Z''], None)"
  have plain: "list_all (plain_statement log_plain) [QSql ''A'' [], QSql ''FAIL'' [] :: unit queued_statement]"
    by (simp add: log_plain_def log_control_def)
  have "\<exists>e. fst ?x = Inl e"
    by (simp add: execute_atomically_def step_conn_def execute_sql_def log_duckdb_def)
  then show ?thesis
    using atomic_batch_all_or_nothing [OF log_duckdb_ok _ plain, of "([''Z''], None)" log_arrow "fst ?x" "snd ?x"]
    by (auto simp: prod_eq_iff)
qed

end
