(* ===== verification/Names.thy ===== *)
theory Names
  imports Prelude
begin

text \<open>
  Identifiers, catalog keys and physical names.

  \<^item> \<open>crates/vairedb-coordinator/src/pgwire_handler/query_router.rs\<close>: the folding of a
    parsed identifier and of a schema-qualified name into the canonical catalog key.
  \<^item> \<open>crates/vairedb-coordinator/src/util.rs\<close>: the physical, shard-local table name built
    from a catalog key, the logical shard id, the label of a node state.
  \<^item> \<open>crates/vairedb-coordinator/src/write_sql_cl/mod.rs\<close>: the same physical name reached
    from the statement's syntax tree, and the positional index of a \<open>$N\<close> placeholder.

  The syntax tree is sqlparser's: an \<open>Ident\<close> is its text with an optional quote
  character, an \<open>ObjectName\<close> is a list of parts of which only identifiers are read.
\<close>

section \<open>Identifiers and object names\<close>

record ident =
  id_value :: string
  id_quote_style :: "char option"

datatype object_name_part = NIdentifier ident | NFunction string

type_synonym object_name = "object_name_part list"

fun as_ident :: "object_name_part \<Rightarrow> ident option" where
  "as_ident (NIdentifier i) = Some i"
| "as_ident (NFunction _) = None"

definition ident_new :: "string \<Rightarrow> ident" where
  "ident_new v = \<lparr>id_value = v, id_quote_style = None\<rparr>"

definition ident_with_quote :: "char \<Rightarrow> string \<Rightarrow> ident" where
  "ident_with_quote q v = \<lparr>id_value = v, id_quote_style = Some q\<rparr>"

definition canonicalize_ident :: "ident \<Rightarrow> string" where
  "canonicalize_ident i =
     (case id_quote_style i of
        Some _ \<Rightarrow> id_value i
      | None \<Rightarrow> to_ascii_lowercase (id_value i))"

definition dquote :: char where
  "dquote = CHR 0x22"

definition canonicalize_ident_str :: "string \<Rightarrow> string" where
  "canonicalize_ident_str name =
     (case Option.bind (strip_prefix [dquote] name) (strip_suffix [dquote]) of
        Some quoted \<Rightarrow> quoted
      | None \<Rightarrow> to_ascii_lowercase name)"

definition quoted_if_folded :: "string \<Rightarrow> string" where
  "quoted_if_folded name =
     (if list_ex is_ascii_uppercase name then [dquote] @ name @ [dquote] else name)"

definition DEFAULT_SCHEMA :: string where
  "DEFAULT_SCHEMA = ''public''"

definition qualified_name :: "string \<Rightarrow> string \<Rightarrow> string" where
  "qualified_name schema relation =
     (if schema = DEFAULT_SCHEMA then relation else schema @ ''.'' @ relation)"

definition canonical_schema_and_table :: "object_name \<Rightarrow> (string \<times> string) option" where
  "canonical_schema_and_table name =
     (case rev name of
        [] \<Rightarrow> None
      | p # ps \<Rightarrow>
          (case as_ident p of
             None \<Rightarrow> None
           | Some i \<Rightarrow>
               (let relation = canonicalize_ident i in
                case ps of
                  [] \<Rightarrow> Some (DEFAULT_SCHEMA, relation)
                | q # _ \<Rightarrow>
                    map_option (\<lambda>j. (canonicalize_ident j, relation)) (as_ident q))))"

definition canonical_table_name :: "object_name \<Rightarrow> string option" where
  "canonical_table_name name =
     map_option (\<lambda>(schema, relation). qualified_name schema relation)
       (canonical_schema_and_table name)"

definition schema_of :: "string \<Rightarrow> string" where
  "schema_of key =
     (case split_once (CHR ''.'') key of Some (schema, _) \<Rightarrow> schema | None \<Rightarrow> DEFAULT_SCHEMA)"

definition relation_of :: "string \<Rightarrow> string" where
  "relation_of key =
     (case split_once (CHR ''.'') key of Some (_, relation) \<Rightarrow> relation | None \<Rightarrow> key)"

datatype table_reference = TRPartial string string | TRBare string

definition table_reference :: "string \<Rightarrow> table_reference" where
  "table_reference key =
     (case split_once (CHR ''.'') key of
        Some (schema, relation) \<Rightarrow>
          if CHR ''.'' \<in> set relation then TRBare key else TRPartial schema relation
      | None \<Rightarrow> TRBare key)"

definition insert_column_ident :: "object_name \<Rightarrow> ident option" where
  "insert_column_ident column = (case column of [part] \<Rightarrow> as_ident part | _ \<Rightarrow> None)"

definition column_name_is :: "object_name \<Rightarrow> string \<Rightarrow> bool" where
  "column_name_is name column =
     (case rev name of
        [] \<Rightarrow> False
      | part # _ \<Rightarrow>
          (case as_ident part of
             Some i \<Rightarrow> canonicalize_ident i = column
           | None \<Rightarrow> False))"

definition quoted_column_names :: "string list \<Rightarrow> object_name list" where
  "quoted_column_names names = map (\<lambda>n. [NIdentifier (ident_with_quote dquote n)]) names"

section \<open>Physical names\<close>

definition physical_base_name :: "string \<Rightarrow> string" where
  "physical_base_name table_name = replace_char (CHR ''.'') (CHR ''_'') table_name"

definition shard_table_name :: "string \<Rightarrow> nat \<Rightarrow> string" where
  "shard_table_name table_name hash_bucket =
     physical_base_name table_name @ ''_shard'' @ show_nat hash_bucket"

definition logical_shard_id :: "nat \<Rightarrow> string" where
  "logical_shard_id index = ''shard'' @ show_nat index"

definition shard_local_name :: "object_name \<Rightarrow> string \<Rightarrow> object_name option" where
  "shard_local_name relation shard_suffix =
     map_option
       (\<lambda>key. [NIdentifier (ident_new (physical_base_name key @ ''_'' @ shard_suffix))])
       (canonical_table_name relation)"

definition usize_bound :: nat where
  "usize_bound = 2 ^ 64"

definition placeholder_index :: "string \<Rightarrow> nat option" where
  "placeholder_index name =
     Option.bind (strip_prefix ''$'' name) (\<lambda>digits.
       Option.bind (parse_unsigned usize_bound digits) (\<lambda>n.
         if n < 1 then None else Some (n - 1)))"

section \<open>Node states\<close>

datatype node_state = Unspecified | Alive | Suspect | Dead

fun node_state_i32 :: "node_state \<Rightarrow> int" where
  "node_state_i32 Unspecified = 0"
| "node_state_i32 Alive = 1"
| "node_state_i32 Suspect = 2"
| "node_state_i32 Dead = 3"

definition node_state_try_from :: "int \<Rightarrow> node_state option" where
  "node_state_try_from v =
     (if v = 0 then Some Unspecified else if v = 1 then Some Alive
      else if v = 2 then Some Suspect else if v = 3 then Some Dead else None)"

definition node_state_str :: "int \<Rightarrow> string" where
  "node_state_str value =
     (case node_state_try_from value of
        Some Alive \<Rightarrow> ''ALIVE''
      | Some Suspect \<Rightarrow> ''SUSPECT''
      | Some Dead \<Rightarrow> ''DEAD''
      | _ \<Rightarrow> ''UNSPECIFIED'')"

lemma node_state_i32_inject [simp]: "node_state_i32 a = node_state_i32 b \<longleftrightarrow> a = b"
  by (cases a; cases b) auto

lemma node_state_try_from_i32 [simp]: "node_state_try_from (node_state_i32 s) = Some s"
  by (cases s) (auto simp: node_state_try_from_def)

section \<open>Folding\<close>

lemma canonicalize_ident_quoted [simp]: "canonicalize_ident (ident_with_quote q v) = v"
  by (simp add: canonicalize_ident_def ident_with_quote_def)

lemma canonicalize_ident_unquoted [simp]:
  "canonicalize_ident (ident_new v) = to_ascii_lowercase v"
  by (simp add: canonicalize_ident_def ident_new_def)

lemma to_ascii_lowercase_id:
  "\<not> list_ex is_ascii_uppercase s \<Longrightarrow> to_ascii_lowercase s = s"
  by (induction s) (auto simp: to_ascii_lowercase_def ascii_lower_char_def)

lemma schema_of_qualified_name:
  assumes "CHR ''.'' \<notin> set schema" and "schema = DEFAULT_SCHEMA \<Longrightarrow> CHR ''.'' \<notin> set relation"
  shows "schema_of (qualified_name schema relation) = schema"
    and "relation_of (qualified_name schema relation) = relation"
proof -
  have "split_once (CHR ''.'') (schema @ ''.'' @ relation) = Some (schema, relation)"
    using assms(1) by (simp add: split_once_Some)
  moreover have "schema = DEFAULT_SCHEMA \<Longrightarrow> split_once (CHR ''.'') relation = None"
    using assms(2) by (simp add: split_once_None)
  ultimately show "schema_of (qualified_name schema relation) = schema"
    and "relation_of (qualified_name schema relation) = relation"
    by (auto simp: schema_of_def relation_of_def qualified_name_def)
qed

lemma strip_prefix_quote: "strip_prefix [c] (c # s) = Some s"
  by (simp add: strip_prefix_Some)

lemma strip_suffix_quote: "strip_suffix [c] (s @ [c]) = Some s"
  by (simp add: strip_suffix_Some)

lemma not_wrapped:
  assumes "\<not> (prefix [q] s \<and> suffix [q] s \<and> 2 \<le> length s)"
  shows "Option.bind (strip_prefix [q] s) (strip_suffix [q]) = None"
proof (rule ccontr)
  assume "Option.bind (strip_prefix [q] s) (strip_suffix [q]) \<noteq> None"
  then obtain t u where "strip_prefix [q] s = Some t" "strip_suffix [q] t = Some u"
    by (auto simp: bind_eq_Some_conv)
  then have "s = [q] @ u @ [q]" by (simp add: strip_prefix_Some strip_suffix_Some)
  then show False using assms by (auto simp: prefix_def suffix_def)
qed

section \<open>Physical shard names\<close>

text \<open>A digit run after a non-digit is read back from the right.\<close>

lemma digits_suffix_unique:
  assumes "a @ x # ds = b @ y # es"
    and "\<not> is_ascii_digit x" "\<not> is_ascii_digit y"
    and "list_all is_ascii_digit ds" "list_all is_ascii_digit es"
  shows "a @ [x] = b @ [y] \<and> ds = es"
proof -
  have "takeWhile is_ascii_digit (rev (a @ x # ds)) = rev ds"
    using assms(2,4) takeWhile_append2 [of "rev ds" is_ascii_digit "x # rev a"]
    by (simp add: list_all_iff)
  moreover have "takeWhile is_ascii_digit (rev (b @ y # es)) = rev es"
    using assms(3,5) takeWhile_append2 [of "rev es" is_ascii_digit "y # rev b"]
    by (simp add: list_all_iff)
  ultimately have "ds = es" using assms(1) by simp
  then show ?thesis using assms(1) by simp
qed

lemma shard_table_name_inject:
  "shard_table_name t i = shard_table_name u j
     \<longleftrightarrow> physical_base_name t = physical_base_name u \<and> i = j"
proof
  assume eq: "shard_table_name t i = shard_table_name u j"
  have d: "list_all is_ascii_digit (show_nat n)" for n
    using show_nat_digits by (auto simp: list_all_iff)
  have "(physical_base_name t @ ''_shar'') @ CHR ''d'' # show_nat i
      = (physical_base_name u @ ''_shar'') @ CHR ''d'' # show_nat j"
    using eq by (simp add: shard_table_name_def)
  from digits_suffix_unique [OF this _ _ d d]
  have "(physical_base_name t @ ''_shar'') @ [CHR ''d''] = (physical_base_name u @ ''_shar'') @ [CHR ''d'']
      \<and> show_nat i = show_nat j"
    by (simp add: is_ascii_digit_def)
  then show "physical_base_name t = physical_base_name u \<and> i = j" by simp
next
  assume "physical_base_name t = physical_base_name u \<and> i = j"
  then show "shard_table_name t i = shard_table_name u j"
    by (simp add: shard_table_name_def)
qed

lemma logical_shard_id_inject [simp]: "logical_shard_id i = logical_shard_id j \<longleftrightarrow> i = j"
  by (simp add: logical_shard_id_def)

lemma shard_local_name_agrees:
  assumes "canonical_table_name relation = Some key"
  shows "shard_local_name relation (logical_shard_id bucket)
       = Some [NIdentifier (ident_new (shard_table_name key bucket))]"
  using assms by (simp add: shard_local_name_def shard_table_name_def logical_shard_id_def)

lemma physical_base_name_no_dot: "CHR ''.'' \<notin> set (physical_base_name t)"
  by (simp add: physical_base_name_def replace_char_notin)

section \<open>Placeholders\<close>

lemma placeholder_index_show:
  assumes "n < usize_bound"
  shows "placeholder_index (''$'' @ show_nat n) = (if n = 0 then None else Some (n - 1))"
  using assms
  by (simp add: placeholder_index_def strip_prefix_def parse_unsigned_show_nat)

section \<open>Properties\<close>

text \<open>
  C16. Physical shard tables do not collide: two tables and buckets share a shard-local name
  exactly when the physical base names and the buckets are equal. So the only collision
  between two logical tables is the one \<open>CREATE TABLE\<close> has to refuse.
\<close>

theorem shard_names_collide_only_on_base_name:
  "shard_table_name t i = shard_table_name u j
     \<longleftrightarrow> physical_base_name t = physical_base_name u \<and> i = j"
  by (rule shard_table_name_inject)

text \<open>
  C17. The write path and the catalog agree on the physical name byte for byte: rewriting a
  relation with the suffix of a bucket gives the single unquoted identifier that
  \<open>shard_table_name\<close> computes from the relation's catalog key, and it carries no dot.
\<close>

theorem rewrite_and_catalog_agree_on_physical_name:
  assumes "canonical_table_name relation = Some key"
  shows "shard_local_name relation (logical_shard_id bucket)
           = Some [NIdentifier (ident_new (shard_table_name key bucket))]
       \<and> CHR ''.'' \<notin> set (shard_table_name key bucket)"
  using shard_local_name_agrees [OF assms] physical_base_name_no_dot [of key]
    show_nat_digits [of "CHR ''.''" bucket]
  by (auto simp: shard_table_name_def is_ascii_digit_def)

theorem rewrite_and_catalog_agree_on_physical_name_witness:
  "shard_local_name [NIdentifier (ident_new ''Sales''), NIdentifier (ident_new ''Orders'')]
       (logical_shard_id 3)
     = Some [NIdentifier (ident_new ''sales_orders_shard3'')]"
proof -
  have key: "canonical_table_name [NIdentifier (ident_new ''Sales''), NIdentifier (ident_new ''Orders'')]
      = Some ''sales.orders''"
    by code_simp
  have "shard_table_name ''sales.orders'' 3 = ''sales_orders_shard3''" by code_simp
  then show ?thesis
    using rewrite_and_catalog_agree_on_physical_name [OF key, of 3] by simp
qed

text \<open>
  A catalog key reads back as the schema and relation it was built from, provided the
  schema has no dot and a relation of the default schema has none.
\<close>

lemma qualified_name_round_trip:
  assumes "CHR ''.'' \<notin> set schema" and "schema = DEFAULT_SCHEMA \<Longrightarrow> CHR ''.'' \<notin> set relation"
  shows "schema_of (qualified_name schema relation) = schema
       \<and> relation_of (qualified_name schema relation) = relation"
  using schema_of_qualified_name [OF assms] by simp

text \<open>
  Rendering a canonical identifier and canonicalizing the rendering gives it back, for
  every name that is not itself wrapped in double quotes.
\<close>

lemma quoted_if_folded_round_trip:
  assumes "\<not> (prefix [dquote] name \<and> suffix [dquote] name \<and> 2 \<le> length name)"
  shows "canonicalize_ident_str (quoted_if_folded name) = name"
proof (cases "list_ex is_ascii_uppercase name")
  case True
  then show ?thesis
    by (simp add: quoted_if_folded_def canonicalize_ident_str_def strip_prefix_quote strip_suffix_quote)
next
  case False
  have "Option.bind (strip_prefix [dquote] name) (strip_suffix [dquote]) = None"
    using assms by (rule not_wrapped)
  then show ?thesis
    using False by (simp add: quoted_if_folded_def canonicalize_ident_str_def to_ascii_lowercase_id)
qed

end
