(* ===== verification/Record_Store.thy ===== *)
theory Record_Store
  imports Names Error_Codes
begin

text \<open>
  The generic record layer of \<open>crates/vairedb-coordinator/src/catalog/catalog.rs\<close>: storing,
  fetching, deleting, listing and range-scanning protobuf records in redb tables.

  redb and prost are not part of the repository. A redb table is a value of an abstract type
  \<open>'t\<close> and the operations the catalog calls on it are the fields of a record \<open>redb\<close>; the
  encoding of one message type is a record \<open>codec\<close>. What the catalog relies on is stated by
  \<open>redb_ok\<close> (a table is an ordered map from string keys to byte values, iterated in key
  order) and \<open>codec_ok\<close> (decoding an encoded message gives it back). The storage errors of
  redb are not modelled; a decoding failure is.
\<close>

section \<open>The interfaces of redb and prost\<close>

record ('t, 'b) redb =
  rd_empty :: 't
  rd_get :: "'t \<Rightarrow> string \<Rightarrow> 'b option"
  rd_insert :: "string \<Rightarrow> 'b \<Rightarrow> 't \<Rightarrow> 't"
  rd_remove :: "string \<Rightarrow> 't \<Rightarrow> 't"
  rd_iter :: "'t \<Rightarrow> (string \<times> 'b) list"
  rd_range :: "string \<Rightarrow> string \<Rightarrow> 't \<Rightarrow> (string \<times> 'b) list"
  rd_retain_in :: "string \<Rightarrow> string \<Rightarrow> (string \<Rightarrow> 'b \<Rightarrow> bool) \<Rightarrow> 't \<Rightarrow> 't"

record ('b, 'm) codec =
  cd_encode :: "'m \<Rightarrow> 'b"
  cd_decode :: "'b \<Rightarrow> (string, 'm) result"

definition in_range :: "string \<Rightarrow> string \<Rightarrow> string \<Rightarrow> bool" where
  "in_range lo hi k \<longleftrightarrow> lo \<le> k \<and> k < hi"

definition redb_ok :: "('t, 'b) redb \<Rightarrow> bool" where
  "redb_ok r \<longleftrightarrow>
     rd_iter r (rd_empty r) = []
   \<and> (\<forall>t. sorted_wrt (<) (map fst (rd_iter r t)))
   \<and> (\<forall>t k. rd_get r t k = map_of (rd_iter r t) k)
   \<and> (\<forall>t k v. map_of (rd_iter r (rd_insert r k v t)) = (map_of (rd_iter r t))(k \<mapsto> v))
   \<and> (\<forall>t k. rd_iter r (rd_remove r k t) = filter (\<lambda>(k', _). k' \<noteq> k) (rd_iter r t))
   \<and> (\<forall>t lo hi. rd_range r lo hi t = filter (\<lambda>(k, _). in_range lo hi k) (rd_iter r t))
   \<and> (\<forall>t lo hi f. rd_iter r (rd_retain_in r lo hi f t)
        = filter (\<lambda>(k, v). in_range lo hi k \<longrightarrow> f k v) (rd_iter r t))"

definition codec_ok :: "('b, 'm) codec \<Rightarrow> bool" where
  "codec_ok c \<longleftrightarrow> (\<forall>m. cd_decode c (cd_encode c m) = Inr m)"

section \<open>The record layer\<close>

definition decode_record :: "('b, 'm) codec \<Rightarrow> 'b \<Rightarrow> (coordinator_error, 'm) result" where
  "decode_record c bytes =
     (case cd_decode c bytes of Inl e \<Rightarrow> Inl (Serialization e) | Inr m \<Rightarrow> Inr m)"

definition prefix_range :: "string \<Rightarrow> string \<times> string" where
  "prefix_range name = (name @ '':'', name @ '';'' @ [CHR 0x00])"

definition put_record :: "('t, 'b) redb \<Rightarrow> ('b, 'm) codec \<Rightarrow> string \<Rightarrow> 'm \<Rightarrow> 't \<Rightarrow> 't" where
  "put_record r c key value t = rd_insert r key (cd_encode c value) t"

definition get_record ::
  "('t, 'b) redb \<Rightarrow> ('b, 'm) codec \<Rightarrow> 't \<Rightarrow> string \<Rightarrow> (coordinator_error, 'm option) result" where
  "get_record r c t key =
     (case rd_get r t key of
        Some val \<Rightarrow> r_bind (decode_record c val) (\<lambda>m. Inr (Some m))
      | None \<Rightarrow> Inr None)"

definition delete_record :: "('t, 'b) redb \<Rightarrow> string \<Rightarrow> 't \<Rightarrow> 't" where
  "delete_record r key t = rd_remove r key t"

definition decode_entries ::
  "('b, 'm) codec \<Rightarrow> (string \<times> 'b) list \<Rightarrow> (coordinator_error, 'm list) result" where
  "decode_entries c entries = collect_results (\<lambda>(_, b). decode_record c b) entries"

definition list_records ::
  "('t, 'b) redb \<Rightarrow> ('b, 'm) codec \<Rightarrow> ('m \<Rightarrow> bool) \<Rightarrow> 't \<Rightarrow> (coordinator_error, 'm list) result" where
  "list_records r c keep t = r_bind (decode_entries c (rd_iter r t)) (\<lambda>ms. Inr (filter keep ms))"

definition scan_prefix ::
  "('t, 'b) redb \<Rightarrow> ('b, 'm) codec \<Rightarrow> string \<Rightarrow> 't \<Rightarrow> (coordinator_error, 'm list) result" where
  "scan_prefix r c name t =
     (case prefix_range name of (start, stop) \<Rightarrow> decode_entries c (rd_range r start stop t))"

definition delete_prefix :: "('t, 'b) redb \<Rightarrow> string \<Rightarrow> 't \<Rightarrow> 't" where
  "delete_prefix r name t =
     (case prefix_range name of (start, stop) \<Rightarrow> rd_retain_in r start stop (\<lambda>_ _. False) t)"

definition claim_name ::
  "('t, 'b) redb \<Rightarrow> ('b, 'm) codec \<Rightarrow> 't \<Rightarrow> 't list \<Rightarrow> string \<Rightarrow> 'm \<Rightarrow> bool \<times> 't" where
  "claim_name r c t also_taken_in key value =
     (let taken = list_ex (\<lambda>other. rd_get r other key \<noteq> None) also_taken_in in
      if taken \<or> rd_get r t key \<noteq> None then (False, t)
      else (True, rd_insert r key (cd_encode c value) t))"

section \<open>The abstract content of a table\<close>

text \<open>
  A table of well-formed records stands for the finite map \<open>store_map\<close>; \<open>store_ok\<close> says
  that every value decodes and is stored under its own key.
\<close>

definition decoded :: "('b, 'm) codec \<Rightarrow> 'b \<Rightarrow> 'm option" where
  "decoded c b = (case cd_decode c b of Inl _ \<Rightarrow> None | Inr m \<Rightarrow> Some m)"

definition store_map :: "('t, 'b) redb \<Rightarrow> ('b, 'm) codec \<Rightarrow> 't \<Rightarrow> string \<Rightarrow> 'm option" where
  "store_map r c t k = Option.bind (rd_get r t k) (decoded c)"

definition store_ok :: "('t, 'b) redb \<Rightarrow> ('b, 'm) codec \<Rightarrow> ('m \<Rightarrow> string) \<Rightarrow> 't \<Rightarrow> bool" where
  "store_ok r c key t \<longleftrightarrow>
     list_all (\<lambda>(k, b). case decoded c b of Some m \<Rightarrow> key m = k | None \<Rightarrow> False) (rd_iter r t)"

definition store_list :: "('t, 'b) redb \<Rightarrow> ('b, 'm) codec \<Rightarrow> 't \<Rightarrow> 'm list" where
  "store_list r c t = map (\<lambda>(_, b). the (decoded c b)) (rd_iter r t)"

section \<open>The laws of redb\<close>

lemma redb_laws:
  assumes "redb_ok r"
  shows "rd_iter r (rd_empty r) = []"
    and "sorted_wrt (<) (map fst (rd_iter r t))"
    and "rd_get r t k = map_of (rd_iter r t) k"
    and "rd_get r (rd_insert r k v t) k' = (if k' = k then Some v else rd_get r t k')"
    and "rd_iter r (rd_remove r k t) = filter (\<lambda>(k', _). k' \<noteq> k) (rd_iter r t)"
    and "rd_range r lo hi t = filter (\<lambda>(k, _). in_range lo hi k) (rd_iter r t)"
    and "rd_iter r (rd_retain_in r lo hi f t)
           = filter (\<lambda>(k, v). in_range lo hi k \<longrightarrow> f k v) (rd_iter r t)"
  using assms unfolding redb_ok_def by auto

lemma sorted_distinct_fst: "sorted_wrt (<) (map fst xs) \<Longrightarrow> distinct (map fst (xs :: (string \<times> 'v) list))"
  by (simp add: strict_sorted_iff)

lemma iter_distinct: "redb_ok r \<Longrightarrow> distinct (map fst (rd_iter r t))"
  by (rule sorted_distinct_fst) (rule redb_laws(2))

lemma iter_iff_get: "redb_ok r \<Longrightarrow> (k, b) \<in> set (rd_iter r t) \<longleftrightarrow> rd_get r t k = Some b"
  using iter_distinct [of r t] by (simp add: redb_laws(3))

lemma map_of_filter_key: "map_of (filter (\<lambda>(k, _). P k) xs) k = (if P k then map_of xs k else None)"
  by (induction xs) auto

lemma get_remove:
  assumes "redb_ok r"
  shows "rd_get r (rd_remove r k t) k' = (if k' = k then None else rd_get r t k')"
  using map_of_filter_key [of "\<lambda>x. x \<noteq> k" "rd_iter r t" k']
  by (simp add: redb_laws(3,5) [OF assms])

lemma get_delete_prefix:
  assumes "redb_ok r"
  shows "rd_get r (delete_prefix r name t) k
       = (if in_range (name @ '':'') (name @ '';'' @ [CHR 0x00]) k then None else rd_get r t k)"
proof -
  let ?P = "\<lambda>k. \<not> in_range (name @ '':'') (name @ '';'' @ [CHR 0x00]) k"
  have "rd_iter r (delete_prefix r name t) = filter (\<lambda>(k, v). ?P k) (rd_iter r t)"
    by (simp add: delete_prefix_def prefix_range_def redb_laws(7) [OF assms])
  then show ?thesis
    using map_of_filter_key [of ?P "rd_iter r t" k] by (simp add: redb_laws(3) [OF assms])
qed

section \<open>Refinement of the finite map\<close>

lemma decoded_encode: "codec_ok c \<Longrightarrow> decoded c (cd_encode c m) = Some m"
  by (simp add: decoded_def codec_ok_def)

lemma decode_record_Some: "decoded c b = Some m \<Longrightarrow> decode_record c b = Inr m"
  by (auto simp: decoded_def decode_record_def split: sum.splits)

lemma store_ok_get:
  assumes "redb_ok r"
  shows "store_ok r c key t \<longleftrightarrow>
    (\<forall>k b. rd_get r t k = Some b \<longrightarrow> (\<exists>m. decoded c b = Some m \<and> key m = k))"
  using iter_iff_get [OF assms, of _ _ t]
  by (fastforce simp: store_ok_def list_all_iff split: option.splits)

lemma store_ok_map:
  assumes "redb_ok r" "store_ok r c key t" "store_map r c t k = Some m"
  shows "key m = k"
  using assms(2,3) by (fastforce simp: store_ok_get [OF assms(1)] store_map_def bind_eq_Some_conv)

lemma store_map_empty: "redb_ok r \<Longrightarrow> store_map r c (rd_empty r) k = None"
  by (simp add: store_map_def redb_laws)

lemma store_ok_empty: "redb_ok r \<Longrightarrow> store_ok r c key (rd_empty r)"
  by (simp add: store_ok_def redb_laws)

lemma store_map_put:
  assumes "redb_ok r" "codec_ok c"
  shows "store_map r c (put_record r c k m t) = (store_map r c t)(k \<mapsto> m)"
  using assms(2) by (auto simp: store_map_def put_record_def redb_laws(4) [OF assms(1)] decoded_encode)

lemma store_ok_put:
  assumes "redb_ok r" "codec_ok c" "store_ok r c key t"
  shows "store_ok r c key (put_record r c (key m) m t)"
  using assms(2,3)
  by (auto simp: store_ok_get [OF assms(1)] put_record_def redb_laws(4) [OF assms(1)] decoded_encode)

lemma store_map_delete:
  assumes "redb_ok r"
  shows "store_map r c (delete_record r k t) = (store_map r c t)(k := None)"
  by (auto simp: store_map_def delete_record_def get_remove [OF assms])

lemma store_ok_delete:
  assumes "redb_ok r" "store_ok r c key t"
  shows "store_ok r c key (delete_record r k t)"
  using assms(2) by (auto simp: store_ok_get [OF assms(1)] delete_record_def get_remove [OF assms(1)])

lemma store_map_delete_prefix:
  assumes "redb_ok r"
  shows "store_map r c (delete_prefix r name t) k
       = (if in_range (name @ '':'') (name @ '';'' @ [CHR 0x00]) k then None else store_map r c t k)"
  by (simp add: store_map_def get_delete_prefix [OF assms])

lemma store_ok_delete_prefix:
  assumes "redb_ok r" "store_ok r c key t"
  shows "store_ok r c key (delete_prefix r name t)"
  using assms(2) by (auto simp: store_ok_get [OF assms(1)] get_delete_prefix [OF assms(1)])

lemma get_record_map:
  assumes "redb_ok r" "store_ok r c key t"
  shows "get_record r c t k = Inr (store_map r c t k)"
proof (cases "rd_get r t k")
  case (Some b)
  then obtain m where "decoded c b = Some m" using assms(2) by (auto simp: store_ok_get [OF assms(1)])
  then show ?thesis using Some by (simp add: get_record_def store_map_def decode_record_Some)
qed (simp add: get_record_def store_map_def)

lemma store_map_None_get:
  assumes "redb_ok r" "store_ok r c key t"
  shows "store_map r c t k = None \<longleftrightarrow> rd_get r t k = None"
  using assms(2) by (cases "rd_get r t k") (auto simp: store_ok_get [OF assms(1)] store_map_def)

lemma decode_entries_ok:
  "list_all (\<lambda>(_, b). decoded c b \<noteq> None) es
     \<Longrightarrow> decode_entries c es = Inr (map (\<lambda>(_, b). the (decoded c b)) es)"
  by (induction es) (auto simp: decode_entries_def decode_record_Some)

lemma store_ok_decodes:
  "store_ok r c key t \<Longrightarrow> list_all (\<lambda>(_, b). decoded c b \<noteq> None) (rd_iter r t)"
  by (auto simp: store_ok_def list_all_iff split: option.splits)

lemma list_records_list:
  "store_ok r c key t \<Longrightarrow> list_records r c keep t = Inr (filter keep (store_list r c t))"
  using decode_entries_ok [OF store_ok_decodes]
  by (fastforce simp: list_records_def store_list_def)

lemma store_list_keys:
  assumes "store_ok r c key t"
  shows "map key (store_list r c t) = map fst (rd_iter r t)"
  using assms by (auto simp: store_ok_def list_all_iff store_list_def split: option.splits)

lemma store_list_sorted:
  "redb_ok r \<Longrightarrow> store_ok r c key t \<Longrightarrow> sorted_wrt (<) (map key (store_list r c t))"
  by (simp add: store_list_keys redb_laws)

lemma store_list_distinct:
  "redb_ok r \<Longrightarrow> store_ok r c key t \<Longrightarrow> distinct (map key (store_list r c t))"
  by (simp add: store_list_keys iter_distinct)

lemma set_store_list:
  assumes "redb_ok r" "store_ok r c key t"
  shows "m \<in> set (store_list r c t) \<longleftrightarrow> store_map r c t (key m) = Some m"
proof
  assume "m \<in> set (store_list r c t)"
  then obtain k b where kb: "(k, b) \<in> set (rd_iter r t)" "m = the (decoded c b)"
    by (auto simp: store_list_def)
  then obtain m' where "decoded c b = Some m'" "key m' = k"
    using assms(2) by (fastforce simp: store_ok_def list_all_iff split: option.splits)
  then show "store_map r c t (key m) = Some m"
    using kb iter_iff_get [OF assms(1)] by (fastforce simp: store_map_def)
next
  assume "store_map r c t (key m) = Some m"
  then obtain b where "(key m, b) \<in> set (rd_iter r t)" "decoded c b = Some m"
    using iter_iff_get [OF assms(1)] by (fastforce simp: store_map_def bind_eq_Some_conv)
  then show "m \<in> set (store_list r c t)"
    by (force simp: store_list_def)
qed

lemma scan_prefix_list:
  assumes "redb_ok r" "store_ok r c key t"
  shows "scan_prefix r c name t =
    Inr (filter (\<lambda>m. in_range (name @ '':'') (name @ '';'' @ [CHR 0x00]) (key m)) (store_list r c t))"
proof -
  let ?R = "in_range (name @ '':'') (name @ '';'' @ [CHR 0x00])"
  let ?d = "\<lambda>(_ :: string, b). the (decoded c b)"
  have all: "list_all (\<lambda>(k, b). decoded c b \<noteq> None \<and> key (the (decoded c b)) = k) (rd_iter r t)"
    using assms(2) by (auto simp: store_ok_def list_all_iff split: option.splits)
  then have "list_all (\<lambda>(_, b). decoded c b \<noteq> None) (filter (\<lambda>(k, _). ?R k) (rd_iter r t))"
    by (auto simp: list_all_iff)
  then have "scan_prefix r c name t = Inr (map ?d (filter (\<lambda>(k, _). ?R k) (rd_iter r t)))"
    by (simp add: scan_prefix_def prefix_range_def redb_laws(6) [OF assms(1)] decode_entries_ok)
  moreover have "map ?d (filter (\<lambda>(k, _). ?R k) es) = filter (\<lambda>m. ?R (key m)) (map ?d es)"
    if "list_all (\<lambda>(k, b). decoded c b \<noteq> None \<and> key (the (decoded c b)) = k) es" for es
    using that by (induction es) auto
  ultimately show ?thesis using all by (simp add: store_list_def)
qed

lemma claim_name_cases:
  assumes "claim_name r c t others k m = (ok, t')"
  shows "ok \<and> t' = put_record r c k m t \<and> rd_get r t k = None \<and> (\<forall>u\<in>set others. rd_get r u k = None)
       \<or> \<not> ok \<and> t' = t \<and> (rd_get r t k \<noteq> None \<or> (\<exists>u\<in>set others. rd_get r u k \<noteq> None))"
  using assms
  by (auto simp: claim_name_def put_record_def Let_def list_ex_iff split: if_splits)

section \<open>The key range of a prefix\<close>

lemma in_range_Cons: "in_range (a # lo) (a # hi) (c # k) \<longleftrightarrow> c = a \<and> in_range lo hi k"
  by (auto simp: in_range_def)

lemma in_range_colon: "in_range '':'' [CHR '';'', CHR 0x00] (c # cs) \<longleftrightarrow> c = CHR '':'' \<or> c = CHR '';'' \<and> cs = []"
proof -
  have between: "CHR '':'' < c \<Longrightarrow> CHR '';'' \<le> c"
    by (simp add: less_char_def less_eq_char_def)
  have "CHR '':'' < CHR '';''" by (simp add: less_char_def)
  moreover have "\<not> d < CHR 0x00" for d by (simp add: less_char_def)
  then have "cs < [CHR 0x00] \<longleftrightarrow> cs = []" by (cases cs) simp_all
  ultimately show ?thesis
    using between by (auto simp: in_range_def)
qed

lemma in_prefix_range:
  "in_range (name @ '':'') (name @ '';'' @ [CHR 0x00]) k \<longleftrightarrow> prefix (name @ '':'') k \<or> k = name @ '';''"
proof (induction name arbitrary: k)
  case Nil
  then show ?case
    by (cases k) (simp_all only: append_Nil append_Cons in_range_colon, auto simp: in_range_def)
next
  case (Cons a name)
  show ?case
  proof (cases k)
    case Nil
    then show ?thesis by (simp add: in_range_def)
  next
    case (Cons c cs)
    then show ?thesis using Cons.IH [of cs] by (auto simp: in_range_Cons)
  qed
qed

definition colon_free :: "string \<Rightarrow> bool" where
  "colon_free s \<longleftrightarrow> CHR '':'' \<notin> set s"

lemma in_prefix_range_key:
  assumes "colon_free name" "colon_free t"
  shows "in_range (name @ '':'') (name @ '';'' @ [CHR 0x00]) (t @ '':'' @ s) \<longleftrightarrow> t = name"
proof -
  have "t @ '':'' @ s \<noteq> name @ '';''"
  proof
    assume "t @ '':'' @ s = name @ '';''"
    then have "CHR '':'' \<in> set (name @ '';'')" by (metis append_Cons in_set_conv_decomp)
    then show False using assms(1) by (simp add: colon_free_def)
  qed
  moreover have "prefix (name @ '':'') (t @ '':'' @ s) \<longleftrightarrow> t = name"
    using assms split_at_unique [of "CHR '':''" t name s]
    by (simp add: prefix_def colon_free_def)
  ultimately show ?thesis using in_prefix_range [of name "t @ '':'' @ s"] by simp
qed

end
