(* ===== verification/Catalog.thy ===== *)
theory Catalog
  imports Record_Store "HOL-Library.Product_Lexorder"
begin

text \<open>
  The metadata catalog, \<open>crates/vairedb-coordinator/src/catalog/catalog.rs\<close>, over the
  records of \<open>proto/vairedb/v1/catalog.proto\<close>.

  The state is the six redb tables; the environment \<open>env\<close> packs the redb operations and the
  codec of each message. The wall clock is an argument of the operations that read it. The
  invariant \<open>catalog_ok\<close> says that every record decodes, is stored under its own name, and
  that no table and view share a name.
\<close>

section \<open>Records\<close>

record timestamp =
  ts_seconds :: int
  ts_nanos :: int

record column_def =
  col_name :: string
  col_data_type :: string
  col_nullable :: bool
  col_default_expr :: string

record index_meta =
  ix_name :: string
  ix_columns :: "string list"
  ix_unique :: bool

record constraint_meta =
  cn_name :: string
  cn_kind :: int
  cn_columns :: "string list"
  cn_definition :: string
  cn_index_backed :: bool

record table_meta =
  tm_table_name :: string
  tm_columns :: "column_def list"
  tm_shard_strategy :: int
  tm_shard_key :: string
  tm_shard_count :: nat
  tm_replication_factor :: nat
  tm_created_at :: "timestamp option"
  tm_anonymized_columns :: "(string \<times> string) list"
  tm_indexes :: "index_meta list"
  tm_constraints :: "constraint_meta list"

record view_meta =
  vm_view_name :: string
  vm_definition :: string
  vm_columns :: "string list"
  vm_created_at :: "timestamp option"

record schema_meta =
  sm_schema_name :: string
  sm_created_at :: "timestamp option"

record shard_meta =
  sh_shard_id :: string
  sh_table_name :: string
  sh_primary_node_id :: string
  sh_replica_node_ids :: "string list"
  sh_hash_bucket :: nat
  sh_range_lower :: string
  sh_range_upper :: string

record node_meta =
  nm_node_id :: string
  nm_advertised_address :: string
  nm_state :: int
  nm_last_heartbeat :: "timestamp option"
  nm_registered_at :: "timestamp option"

record anonymization_secret =
  as_id :: string
  as_algo :: string
  as_secret_key :: string

section \<open>State\<close>

record ('t, 'b) env =
  en_redb :: "('t, 'b) redb"
  en_table :: "('b, table_meta) codec"
  en_view :: "('b, view_meta) codec"
  en_schema :: "('b, schema_meta) codec"
  en_shard :: "('b, shard_meta) codec"
  en_node :: "('b, node_meta) codec"
  en_secret :: "('b, anonymization_secret) codec"

record 't catalog =
  ct_tables :: 't
  ct_views :: 't
  ct_schemas :: 't
  ct_shards :: 't
  ct_nodes :: 't
  ct_secrets :: 't

definition env_ok :: "('t, 'b) env \<Rightarrow> bool" where
  "env_ok E \<longleftrightarrow> redb_ok (en_redb E) \<and> codec_ok (en_table E) \<and> codec_ok (en_view E)
     \<and> codec_ok (en_schema E) \<and> codec_ok (en_shard E) \<and> codec_ok (en_node E)
     \<and> codec_ok (en_secret E)"

definition catalog_open :: "('t, 'b) env \<Rightarrow> 't catalog" where
  "catalog_open E =
     (let e = rd_empty (en_redb E) in
      \<lparr>ct_tables = e, ct_views = e, ct_schemas = e, ct_shards = e, ct_nodes = e, ct_secrets = e\<rparr>)"

section \<open>Tables\<close>

definition put_table :: "('t, 'b) env \<Rightarrow> table_meta \<Rightarrow> 't catalog \<Rightarrow> 't catalog" where
  "put_table E meta C =
     C\<lparr>ct_tables := put_record (en_redb E) (en_table E) (tm_table_name meta) meta (ct_tables C)\<rparr>"

definition create_table_if_absent ::
  "('t, 'b) env \<Rightarrow> table_meta \<Rightarrow> 't catalog \<Rightarrow> bool \<times> 't catalog" where
  "create_table_if_absent E meta C =
     (case claim_name (en_redb E) (en_table E) (ct_tables C) [ct_views C] (tm_table_name meta) meta of
        (claimed, t) \<Rightarrow> (claimed, C\<lparr>ct_tables := t\<rparr>))"

definition get_table ::
  "('t, 'b) env \<Rightarrow> 't catalog \<Rightarrow> string \<Rightarrow> (coordinator_error, table_meta option) result" where
  "get_table E C name = get_record (en_redb E) (en_table E) (ct_tables C) name"

definition delete_table :: "('t, 'b) env \<Rightarrow> string \<Rightarrow> 't catalog \<Rightarrow> 't catalog" where
  "delete_table E name C = C\<lparr>ct_tables := delete_record (en_redb E) name (ct_tables C)\<rparr>"

definition list_tables ::
  "('t, 'b) env \<Rightarrow> 't catalog \<Rightarrow> (coordinator_error, table_meta list) result" where
  "list_tables E C = list_records (en_redb E) (en_table E) (\<lambda>_. True) (ct_tables C)"

definition table_with_index ::
  "('t, 'b) env \<Rightarrow> 't catalog \<Rightarrow> string \<Rightarrow> (coordinator_error, table_meta option) result" where
  "table_with_index E C index_name =
     r_bind (list_tables E C) (\<lambda>tables.
       Inr (find (\<lambda>table. list_ex (\<lambda>idx. ix_name idx = index_name) (tm_indexes table)) tables))"

definition table_with_index_backed_constraint ::
  "('t, 'b) env \<Rightarrow> 't catalog \<Rightarrow> string \<Rightarrow> (coordinator_error, table_meta option) result" where
  "table_with_index_backed_constraint E C name =
     r_bind (list_tables E C) (\<lambda>tables.
       Inr (find (\<lambda>table. list_ex (\<lambda>c. cn_index_backed c \<and> cn_name c = name) (tm_constraints table))
              tables))"

section \<open>Views and schemas\<close>

definition create_view_if_absent ::
  "('t, 'b) env \<Rightarrow> view_meta \<Rightarrow> 't catalog \<Rightarrow> bool \<times> 't catalog" where
  "create_view_if_absent E meta C =
     (case claim_name (en_redb E) (en_view E) (ct_views C) [ct_tables C] (vm_view_name meta) meta of
        (claimed, t) \<Rightarrow> (claimed, C\<lparr>ct_views := t\<rparr>))"

definition put_view :: "('t, 'b) env \<Rightarrow> view_meta \<Rightarrow> 't catalog \<Rightarrow> 't catalog" where
  "put_view E meta C =
     C\<lparr>ct_views := put_record (en_redb E) (en_view E) (vm_view_name meta) meta (ct_views C)\<rparr>"

definition get_view ::
  "('t, 'b) env \<Rightarrow> 't catalog \<Rightarrow> string \<Rightarrow> (coordinator_error, view_meta option) result" where
  "get_view E C name = get_record (en_redb E) (en_view E) (ct_views C) name"

definition delete_view :: "('t, 'b) env \<Rightarrow> string \<Rightarrow> 't catalog \<Rightarrow> 't catalog" where
  "delete_view E name C = C\<lparr>ct_views := delete_record (en_redb E) name (ct_views C)\<rparr>"

definition list_views ::
  "('t, 'b) env \<Rightarrow> 't catalog \<Rightarrow> (coordinator_error, view_meta list) result" where
  "list_views E C = list_records (en_redb E) (en_view E) (\<lambda>_. True) (ct_views C)"

definition create_schema_if_absent ::
  "('t, 'b) env \<Rightarrow> schema_meta \<Rightarrow> 't catalog \<Rightarrow> bool \<times> 't catalog" where
  "create_schema_if_absent E meta C =
     (case claim_name (en_redb E) (en_schema E) (ct_schemas C) [] (sm_schema_name meta) meta of
        (claimed, t) \<Rightarrow> (claimed, C\<lparr>ct_schemas := t\<rparr>))"

definition get_schema ::
  "('t, 'b) env \<Rightarrow> 't catalog \<Rightarrow> string \<Rightarrow> (coordinator_error, schema_meta option) result" where
  "get_schema E C name = get_record (en_redb E) (en_schema E) (ct_schemas C) name"

definition delete_schema :: "('t, 'b) env \<Rightarrow> string \<Rightarrow> 't catalog \<Rightarrow> 't catalog" where
  "delete_schema E name C = C\<lparr>ct_schemas := delete_record (en_redb E) name (ct_schemas C)\<rparr>"

definition list_schemas ::
  "('t, 'b) env \<Rightarrow> 't catalog \<Rightarrow> (coordinator_error, schema_meta list) result" where
  "list_schemas E C = list_records (en_redb E) (en_schema E) (\<lambda>_. True) (ct_schemas C)"

section \<open>Shards\<close>

definition shard_key_of :: "shard_meta \<Rightarrow> string" where
  "shard_key_of meta = sh_table_name meta @ '':'' @ sh_shard_id meta"

definition put_shard :: "('t, 'b) env \<Rightarrow> shard_meta \<Rightarrow> 't catalog \<Rightarrow> 't catalog" where
  "put_shard E meta C =
     C\<lparr>ct_shards := put_record (en_redb E) (en_shard E) (shard_key_of meta) meta (ct_shards C)\<rparr>"

definition shards_for_table ::
  "('t, 'b) env \<Rightarrow> 't catalog \<Rightarrow> string \<Rightarrow> (coordinator_error, shard_meta list) result" where
  "shards_for_table E C table_name =
     r_bind (scan_prefix (en_redb E) (en_shard E) table_name (ct_shards C))
       (\<lambda>shards. Inr (sort_key sh_hash_bucket shards))"

definition delete_shards_for_table :: "('t, 'b) env \<Rightarrow> string \<Rightarrow> 't catalog \<Rightarrow> 't catalog" where
  "delete_shards_for_table E table_name C =
     C\<lparr>ct_shards := delete_prefix (en_redb E) table_name (ct_shards C)\<rparr>"

definition list_all_shards ::
  "('t, 'b) env \<Rightarrow> 't catalog \<Rightarrow> (coordinator_error, shard_meta list) result" where
  "list_all_shards E C =
     r_bind (list_records (en_redb E) (en_shard E) (\<lambda>_. True) (ct_shards C))
       (\<lambda>shards. Inr (sort_key (\<lambda>s. (sh_table_name s, sh_hash_bucket s)) shards))"

section \<open>Nodes and secrets\<close>

definition put_node :: "('t, 'b) env \<Rightarrow> node_meta \<Rightarrow> 't catalog \<Rightarrow> 't catalog" where
  "put_node E meta C =
     C\<lparr>ct_nodes := put_record (en_redb E) (en_node E) (nm_node_id meta) meta (ct_nodes C)\<rparr>"

definition get_node ::
  "('t, 'b) env \<Rightarrow> 't catalog \<Rightarrow> string \<Rightarrow> (coordinator_error, node_meta option) result" where
  "get_node E C node_id = get_record (en_redb E) (en_node E) (ct_nodes C) node_id"

definition node_alive :: "node_meta \<Rightarrow> bool" where
  "node_alive node \<longleftrightarrow> nm_state node = node_state_i32 Alive"

definition list_alive_nodes ::
  "('t, 'b) env \<Rightarrow> 't catalog \<Rightarrow> (coordinator_error, node_meta list) result" where
  "list_alive_nodes E C = list_records (en_redb E) (en_node E) node_alive (ct_nodes C)"

definition list_all_nodes ::
  "('t, 'b) env \<Rightarrow> 't catalog \<Rightarrow> (coordinator_error, node_meta list) result" where
  "list_all_nodes E C = list_records (en_redb E) (en_node E) (\<lambda>_. True) (ct_nodes C)"

text \<open>\<open>modify_node\<close> reads in one transaction and writes in another; the write half is its own definition.\<close>

definition modify_node_write ::
  "('t, 'b) env \<Rightarrow> (node_meta \<Rightarrow> node_meta) \<Rightarrow> node_meta \<Rightarrow> 't catalog \<Rightarrow> 't catalog" where
  "modify_node_write E mutate node C = put_node E (mutate node) C"

definition modify_node ::
  "('t, 'b) env \<Rightarrow> string \<Rightarrow> (node_meta \<Rightarrow> node_meta) \<Rightarrow> 't catalog
     \<Rightarrow> (coordinator_error, 't catalog) result" where
  "modify_node E node_id mutate C =
     r_bind (get_node E C node_id) (\<lambda>found.
       r_bind (ok_or (NodeNotFound node_id) found) (\<lambda>node. Inr (modify_node_write E mutate node C)))"

definition update_node_state ::
  "('t, 'b) env \<Rightarrow> string \<Rightarrow> node_state \<Rightarrow> 't catalog \<Rightarrow> (coordinator_error, 't catalog) result" where
  "update_node_state E node_id state C =
     modify_node E node_id (\<lambda>node. node\<lparr>nm_state := node_state_i32 state\<rparr>) C"

definition update_node_heartbeat ::
  "('t, 'b) env \<Rightarrow> int \<Rightarrow> string \<Rightarrow> 't catalog \<Rightarrow> (coordinator_error, 't catalog) result" where
  "update_node_heartbeat E now_secs node_id C =
     modify_node E node_id
       (\<lambda>node. node\<lparr>nm_last_heartbeat := Some \<lparr>ts_seconds = now_secs, ts_nanos = 0\<rparr>,
                    nm_state := node_state_i32 Alive\<rparr>) C"

definition put_anonymization_secret ::
  "('t, 'b) env \<Rightarrow> anonymization_secret \<Rightarrow> 't catalog \<Rightarrow> 't catalog" where
  "put_anonymization_secret E secret C =
     C\<lparr>ct_secrets := put_record (en_redb E) (en_secret E) (as_id secret) secret (ct_secrets C)\<rparr>"

definition get_anonymization_secret ::
  "('t, 'b) env \<Rightarrow> 't catalog \<Rightarrow> string \<Rightarrow> (coordinator_error, anonymization_secret option) result" where
  "get_anonymization_secret E C i = get_record (en_redb E) (en_secret E) (ct_secrets C) i"

definition list_anonymization_secrets ::
  "('t, 'b) env \<Rightarrow> 't catalog \<Rightarrow> (coordinator_error, anonymization_secret list) result" where
  "list_anonymization_secrets E C =
     list_records (en_redb E) (en_secret E) (\<lambda>_. True) (ct_secrets C)"

definition replica_indices :: "nat \<Rightarrow> nat \<Rightarrow> nat \<Rightarrow> nat list" where
  "replica_indices node_count replication_factor primary_idx =
     filter (\<lambda>i. i \<noteq> primary_idx)
       (map (\<lambda>r. (primary_idx + r) mod node_count) [1..<replication_factor])"

definition round_robin_shard :: "node_meta list \<Rightarrow> string \<Rightarrow> nat \<Rightarrow> nat \<Rightarrow> shard_meta" where
  "round_robin_shard alive_nodes table_name replication_factor i =
     (let node_count = length alive_nodes;
          primary_idx = i mod node_count
      in \<lparr>sh_shard_id = logical_shard_id i,
          sh_table_name = table_name,
          sh_primary_node_id = nm_node_id (alive_nodes ! primary_idx),
          sh_replica_node_ids =
            map (\<lambda>j. nm_node_id (alive_nodes ! j))
              (replica_indices node_count replication_factor primary_idx),
          sh_hash_bucket = i,
          sh_range_lower = [],
          sh_range_upper = []\<rparr>)"

definition assign_shards_round_robin ::
  "('t, 'b) env \<Rightarrow> 't catalog \<Rightarrow> string \<Rightarrow> nat \<Rightarrow> nat \<Rightarrow> (coordinator_error, shard_meta list) result" where
  "assign_shards_round_robin E C table_name shard_count replication_factor =
     r_bind (list_alive_nodes E C) (\<lambda>alive_nodes.
       if alive_nodes = [] then Inl NoAliveNodes
       else Inr (map (round_robin_shard alive_nodes table_name replication_factor)
                   [0..<shard_count]))"

definition node_address_map ::
  "('t, 'b) env \<Rightarrow> 't catalog \<Rightarrow> (coordinator_error, string \<Rightarrow> string option) result" where
  "node_address_map E C =
     r_bind (list_all_nodes E C) (\<lambda>nodes.
       Inr (map_of (rev (map (\<lambda>node. (nm_node_id node, nm_advertised_address node)) nodes))))"

section \<open>The invariant\<close>

definition catalog_ok :: "('t, 'b) env \<Rightarrow> 't catalog \<Rightarrow> bool" where
  "catalog_ok E C \<longleftrightarrow>
     store_ok (en_redb E) (en_table E) tm_table_name (ct_tables C)
   \<and> store_ok (en_redb E) (en_view E) vm_view_name (ct_views C)
   \<and> store_ok (en_redb E) (en_schema E) sm_schema_name (ct_schemas C)
   \<and> store_ok (en_redb E) (en_shard E) shard_key_of (ct_shards C)
   \<and> store_ok (en_redb E) (en_node E) nm_node_id (ct_nodes C)
   \<and> store_ok (en_redb E) (en_secret E) as_id (ct_secrets C)"

text \<open>No table and view have the same name.\<close>

definition names_disjoint :: "('t, 'b) env \<Rightarrow> 't catalog \<Rightarrow> bool" where
  "names_disjoint E C \<longleftrightarrow>
     list_all (\<lambda>(k, _). rd_get (en_redb E) (ct_views C) k = None) (rd_iter (en_redb E) (ct_tables C))"

abbreviation tables_of :: "('t, 'b) env \<Rightarrow> 't catalog \<Rightarrow> string \<Rightarrow> table_meta option" where
  "tables_of E C \<equiv> store_map (en_redb E) (en_table E) (ct_tables C)"

abbreviation views_of :: "('t, 'b) env \<Rightarrow> 't catalog \<Rightarrow> string \<Rightarrow> view_meta option" where
  "views_of E C \<equiv> store_map (en_redb E) (en_view E) (ct_views C)"

abbreviation schemas_of :: "('t, 'b) env \<Rightarrow> 't catalog \<Rightarrow> string \<Rightarrow> schema_meta option" where
  "schemas_of E C \<equiv> store_map (en_redb E) (en_schema E) (ct_schemas C)"

abbreviation shards_of :: "('t, 'b) env \<Rightarrow> 't catalog \<Rightarrow> string \<Rightarrow> shard_meta option" where
  "shards_of E C \<equiv> store_map (en_redb E) (en_shard E) (ct_shards C)"

abbreviation nodes_of :: "('t, 'b) env \<Rightarrow> 't catalog \<Rightarrow> string \<Rightarrow> node_meta option" where
  "nodes_of E C \<equiv> store_map (en_redb E) (en_node E) (ct_nodes C)"

abbreviation secrets_of :: "('t, 'b) env \<Rightarrow> 't catalog \<Rightarrow> string \<Rightarrow> anonymization_secret option" where
  "secrets_of E C \<equiv> store_map (en_redb E) (en_secret E) (ct_secrets C)"

section \<open>Laws of the environment\<close>

lemma env_okD [simp]:
  assumes "env_ok E"
  shows "redb_ok (en_redb E)" "codec_ok (en_table E)" "codec_ok (en_view E)" "codec_ok (en_schema E)"
    "codec_ok (en_shard E)" "codec_ok (en_node E)" "codec_ok (en_secret E)"
  using assms by (auto simp: env_ok_def)

lemma catalog_okD:
  assumes "catalog_ok E C"
  shows "store_ok (en_redb E) (en_table E) tm_table_name (ct_tables C)"
    "store_ok (en_redb E) (en_view E) vm_view_name (ct_views C)"
    "store_ok (en_redb E) (en_schema E) sm_schema_name (ct_schemas C)"
    "store_ok (en_redb E) (en_shard E) shard_key_of (ct_shards C)"
    "store_ok (en_redb E) (en_node E) nm_node_id (ct_nodes C)"
    "store_ok (en_redb E) (en_secret E) as_id (ct_secrets C)"
  using assms by (auto simp: catalog_ok_def)

lemma names_disjoint_iff:
  assumes "env_ok E" "catalog_ok E C"
  shows "names_disjoint E C \<longleftrightarrow> (\<forall>k. tables_of E C k = None \<or> views_of E C k = None)"
proof -
  let ?T = "rd_get (en_redb E) (ct_tables C)" and ?V = "rd_get (en_redb E) (ct_views C)"
  have "names_disjoint E C \<longleftrightarrow> (\<forall>(k, b)\<in>{(k, b). ?T k = Some b}. ?V k = None)"
    using iter_iff_get [OF env_okD(1) [OF assms(1)], of _ _ "ct_tables C"]
    unfolding names_disjoint_def list_all_iff by (intro ball_cong) auto
  also have "\<dots> \<longleftrightarrow> (\<forall>k. ?T k = None \<or> ?V k = None)"
    by (auto simp: not_None_eq) (metis option.distinct(1))
  finally show ?thesis
    using store_map_None_get [OF env_okD(1) [OF assms(1)] catalog_okD(1) [OF assms(2)]]
      store_map_None_get [OF env_okD(1) [OF assms(1)] catalog_okD(2) [OF assms(2)]] by simp
qed

section \<open>Reads return the abstract content\<close>

lemma catalog_get:
  assumes "env_ok E" "catalog_ok E C"
  shows "get_table E C k = Inr (tables_of E C k)"
    and "get_view E C k = Inr (views_of E C k)"
    and "get_schema E C k = Inr (schemas_of E C k)"
    and "get_node E C k = Inr (nodes_of E C k)"
    and "get_anonymization_secret E C k = Inr (secrets_of E C k)"
  using assms catalog_okD [OF assms(2)]
  by (auto simp: get_table_def get_view_def get_schema_def get_node_def get_anonymization_secret_def
      intro!: get_record_map)

lemma catalog_list:
  assumes "catalog_ok E C"
  shows "list_tables E C = Inr (store_list (en_redb E) (en_table E) (ct_tables C))"
    and "list_views E C = Inr (store_list (en_redb E) (en_view E) (ct_views C))"
    and "list_schemas E C = Inr (store_list (en_redb E) (en_schema E) (ct_schemas C))"
    and "list_all_nodes E C = Inr (store_list (en_redb E) (en_node E) (ct_nodes C))"
    and "list_alive_nodes E C = Inr (filter node_alive (store_list (en_redb E) (en_node E) (ct_nodes C)))"
    and "list_anonymization_secrets E C = Inr (store_list (en_redb E) (en_secret E) (ct_secrets C))"
  using list_records_list [OF catalog_okD(1) [OF assms]] list_records_list [OF catalog_okD(2) [OF assms]]
    list_records_list [OF catalog_okD(3) [OF assms]] list_records_list [OF catalog_okD(5) [OF assms]]
    list_records_list [OF catalog_okD(6) [OF assms]]
  by (simp_all add: list_tables_def list_views_def list_schemas_def list_all_nodes_def
      list_alive_nodes_def list_anonymization_secrets_def)

lemma alive_nodes_distinct:
  assumes "env_ok E" "catalog_ok E C" "list_alive_nodes E C = Inr alive"
  shows "distinct (map nm_node_id alive)"
  using assms store_list_distinct [OF _ catalog_okD(5) [OF assms(2)]]
  by (auto simp: catalog_list distinct_map_filter)

section \<open>Every operation keeps the invariant\<close>

text \<open>
  The steps of the catalog: every operation that writes, at any moment and with any record, so
  that they are interleaved in every order. The flag of a step is whether it left alone the names
  of the other kind: a claim always does, \<open>put_table\<close> and \<open>put_view\<close> do when no relation
  of the other kind has the name they write. Their callers read that before they write, in
  another transaction.
\<close>

inductive catalog_step :: "('t, 'b) env \<Rightarrow> bool \<Rightarrow> 't catalog \<Rightarrow> 't catalog \<Rightarrow> bool" for E where
  s_put_table: "catalog_step E (views_of E C (tm_table_name m) = None) C (put_table E m C)"
| s_create_table: "create_table_if_absent E m C = (ok, C') \<Longrightarrow> catalog_step E True C C'"
| s_delete_table: "catalog_step E True C (delete_table E name C)"
| s_put_view: "catalog_step E (tables_of E C (vm_view_name v) = None) C (put_view E v C)"
| s_create_view: "create_view_if_absent E v C = (ok, C') \<Longrightarrow> catalog_step E True C C'"
| s_delete_view: "catalog_step E True C (delete_view E name C)"
| s_create_schema: "create_schema_if_absent E s C = (ok, C') \<Longrightarrow> catalog_step E True C C'"
| s_delete_schema: "catalog_step E True C (delete_schema E name C)"
| s_put_shard: "catalog_step E True C (put_shard E sh C)"
| s_delete_shards: "catalog_step E True C (delete_shards_for_table E name C)"
| s_put_node: "catalog_step E True C (put_node E n C)"
| s_update_state: "update_node_state E i st C = Inr C' \<Longrightarrow> catalog_step E True C C'"
| s_heartbeat: "update_node_heartbeat E now i C = Inr C' \<Longrightarrow> catalog_step E True C C'"
| s_put_secret: "catalog_step E True C (put_anonymization_secret E a C)"

text \<open>The catalogs reached, with whether every step on the way left the other names alone.\<close>

inductive catalog_reachable :: "('t, 'b) env \<Rightarrow> bool \<Rightarrow> 't catalog \<Rightarrow> bool" for E where
  r_open: "catalog_reachable E True (catalog_open E)"
| r_step: "catalog_reachable E apart C \<Longrightarrow> catalog_step E apart' C C' \<Longrightarrow> catalog_reachable E (apart \<and> apart') C'"

lemma modify_node_Inr:
  assumes "modify_node E i f C = Inr C'"
  obtains n where "get_node E C i = Inr (Some n)" "C' = put_node E (f n) C"
  using assms
  by (auto simp: modify_node_def modify_node_write_def r_bind_eq_Inr ok_or_def split: option.splits)

lemma catalog_ok_open: "env_ok E \<Longrightarrow> catalog_ok E (catalog_open E)"
  by (simp add: catalog_ok_def catalog_open_def Let_def store_ok_empty redb_laws)

lemma catalog_ok_put_node [wf_intros]:
  "env_ok E \<Longrightarrow> catalog_ok E C \<Longrightarrow> catalog_ok E (put_node E n C)"
  by (simp add: catalog_ok_def put_node_def store_ok_put)

lemma catalog_ok_create_table [wf_intros]:
  assumes "env_ok E" "catalog_ok E C" "create_table_if_absent E m C = (ok, C')"
  shows "catalog_ok E C'"
  using assms
  by (auto simp: create_table_if_absent_def catalog_ok_def store_ok_put split: prod.splits
      dest!: claim_name_cases)

lemma catalog_ok_create_view [wf_intros]:
  assumes "env_ok E" "catalog_ok E C" "create_view_if_absent E m C = (ok, C')"
  shows "catalog_ok E C'"
  using assms
  by (auto simp: create_view_if_absent_def catalog_ok_def store_ok_put split: prod.splits
      dest!: claim_name_cases)

lemma catalog_ok_create_schema [wf_intros]:
  assumes "env_ok E" "catalog_ok E C" "create_schema_if_absent E m C = (ok, C')"
  shows "catalog_ok E C'"
  using assms
  by (auto simp: create_schema_if_absent_def catalog_ok_def store_ok_put split: prod.splits
      dest!: claim_name_cases)

lemma catalog_ok_simple_writes [wf_intros]:
  assumes "env_ok E" "catalog_ok E C"
  shows "catalog_ok E (delete_schema E name C)"
    and "catalog_ok E (put_shard E sh C)"
    and "catalog_ok E (delete_shards_for_table E name C)"
    and "catalog_ok E (put_anonymization_secret E a C)"
    and "catalog_ok E (delete_table E name C)"
    and "catalog_ok E (delete_view E name C)"
    and "catalog_ok E (put_table E m C)"
    and "catalog_ok E (put_view E v C)"
  using assms
  by (simp_all add: catalog_ok_def store_ok_delete store_ok_put store_ok_delete_prefix
      delete_table_def delete_view_def put_table_def put_view_def delete_schema_def put_shard_def delete_shards_for_table_def put_anonymization_secret_def)

lemma catalog_ok_modify_node [wf_intros]:
  assumes "env_ok E" "catalog_ok E C" "modify_node E i f C = Inr C'"
  shows "catalog_ok E C'"
  using assms by (auto elim!: modify_node_Inr intro: catalog_ok_put_node)

lemma catalog_step_ok:
  assumes "catalog_step E apart C C'" "env_ok E" "catalog_ok E C"
  shows "catalog_ok E C'"
  using assms(1)
  by cases (use assms(2,3) in \<open>auto simp: update_node_state_def update_node_heartbeat_def
      intro: wf_intros\<close>)

lemma claim_name_spec:
  assumes "redb_ok r" "store_ok r c key t"
  shows "claim_name r c t others k m =
    (if store_map r c t k = None \<and> (\<forall>u\<in>set others. rd_get r u k = None)
     then (True, put_record r c k m t) else (False, t))"
  using store_map_None_get [OF assms, of k]
  by (auto simp: claim_name_def put_record_def Let_def list_ex_iff)

lemma claim_content:
  assumes "env_ok E" "catalog_ok E C"
  shows "create_table_if_absent E m C = (ok, C') \<Longrightarrow>
      C' = C \<or> C' = put_table E m C \<and> tables_of E C (tm_table_name m) = None \<and> views_of E C (tm_table_name m) = None"
    and "create_view_if_absent E v C = (ok, C') \<Longrightarrow>
      C' = C \<or> C' = put_view E v C \<and> views_of E C (vm_view_name v) = None \<and> tables_of E C (vm_view_name v) = None"
  using claim_name_spec [OF env_okD(1) [OF assms(1)] catalog_okD(1) [OF assms(2)]]
    claim_name_spec [OF env_okD(1) [OF assms(1)] catalog_okD(2) [OF assms(2)]]
  by (auto simp: create_table_if_absent_def create_view_if_absent_def put_table_def put_view_def store_map_def
      split: if_splits)

lemma catalog_step_names:
  assumes "catalog_step E True C C'" "env_ok E" "catalog_ok E C" "names_disjoint E C"
  shows "names_disjoint E C'"
proof -
  note iff = names_disjoint_iff [OF assms(2)]
  have old: "\<forall>k. tables_of E C k = None \<or> views_of E C k = None" using iff [OF assms(3)] assms(4) by simp
  then have apart: "views_of E C k = Some v \<Longrightarrow> tables_of E C k = None" for k v by (metis option.distinct(1))
  have "\<forall>k. tables_of E C' k = None \<or> views_of E C' k = None"
    using assms(1)
  proof cases
    case (s_create_table m ok)
    then show ?thesis using claim_content(1) [OF assms(2,3) s_create_table] old assms(2)
      by (auto simp: apart put_table_def store_map_put)
  next
    case (s_create_view v ok)
    then show ?thesis using claim_content(2) [OF assms(2,3) s_create_view] old assms(2)
      by (auto simp: apart put_view_def store_map_put split: if_splits)
  qed (use old assms(2) in \<open>auto simp: apart put_table_def put_view_def delete_table_def delete_view_def
      create_schema_if_absent_def delete_schema_def put_shard_def delete_shards_for_table_def put_node_def
      update_node_state_def update_node_heartbeat_def put_anonymization_secret_def store_map_put store_map_delete
      split: prod.splits elim!: modify_node_Inr\<close>)
  then show ?thesis using iff [OF catalog_step_ok [OF assms(1-3)]] by simp
qed

lemma catalog_reachable_ok: "catalog_reachable E apart C \<Longrightarrow> env_ok E \<Longrightarrow> catalog_ok E C"
  by (induction rule: catalog_reachable.induct) (auto intro: catalog_ok_open catalog_step_ok)

lemma catalog_reachable_names: "catalog_reachable E apart C \<Longrightarrow> env_ok E \<Longrightarrow> apart \<Longrightarrow> names_disjoint E C"
proof (induction rule: catalog_reachable.induct)
  case r_open
  then show ?case by (simp add: names_disjoint_def catalog_open_def Let_def redb_laws)
next
  case (r_step apart C apart' C')
  then show ?case using catalog_step_names [of E C C'] catalog_reachable_ok [of E apart C] by simp
qed

end
