(* ===== verification/Config.thy ===== *)
theory Config
  imports Prelude
begin

text \<open>
  The configuration of the two binaries and its validation at startup:
  \<open>crates/vairedb-coordinator/src/config/config.rs\<close> and
  \<open>crates/vairedb-core/src/config/config.rs\<close>, with the loader of
  \<open>crates/vairedb-common/src/config.rs\<close>. Reading the file and parsing its YAML are
  parameters of the loader.
\<close>

section \<open>Coordinator\<close>

record coordinator_config =
  cc_log_level :: string
  cc_metadata_dir :: string
  cc_grpc_listen_addr :: string
  cc_pg_listen_addr :: string
  cc_heartbeat_timeout_secs :: nat
  cc_default_replication_factor :: nat
  cc_allow_cross_shard_transactions :: bool
  cc_tail_retry_initial_ms :: nat
  cc_tail_retry_max_ms :: nat
  cc_ballista_scheduler_listen_addr :: string

definition validate_coordinator :: "coordinator_config \<Rightarrow> (string, unit) result" where
  "validate_coordinator c =
     (if cc_heartbeat_timeout_secs c = 0 then
        Inl (''heartbeat_timeout_secs is 0, which marks every core node dead on the first ''
             @ ''scan and leaves no node able to hold a shard'')
      else if cc_default_replication_factor c = 0 then
        Inl (''default_replication_factor is 0; a shard needs at least one copy, so use 1 ''
             @ ''to keep a single copy per shard'')
      else if cc_tail_retry_initial_ms c = 0 then
        Inl (''tail_retry_initial_ms is 0, so replication retries would not wait at all and ''
             @ ''an unreachable replica would be retried in a tight loop'')
      else if cc_tail_retry_initial_ms c > cc_tail_retry_max_ms c then
        Inl (''tail_retry_initial_ms ('' @ show_nat (cc_tail_retry_initial_ms c)
             @ '') is above tail_retry_max_ms ('' @ show_nat (cc_tail_retry_max_ms c)
             @ ''), so every retry ''
             @ ''would wait the maximum and the initial backoff would be ignored'')
      else Inr ())"

section \<open>Core node\<close>

record core_config =
  kc_log_level :: string
  kc_node_id :: string
  kc_data_dir :: string
  kc_grpc_listen_addr :: string
  kc_advertised_address :: "string option"
  kc_coordinator_addr :: string
  kc_heartbeat_interval_secs :: nat
  kc_write_queue_capacity :: nat
  kc_ballista_scheduler_addr :: string
  kc_ballista_concurrent_tasks :: nat

definition effective_advertised_address :: "core_config \<Rightarrow> string" where
  "effective_advertised_address c =
     (case kc_advertised_address c of Some a \<Rightarrow> a | None \<Rightarrow> kc_grpc_listen_addr c)"

definition host_of :: "string \<Rightarrow> string option" where
  "host_of addr = map_option (\<lambda>i. take i addr) (rposition (\<lambda>c. c = CHR '':'') addr)"

definition ballista_bind_addr :: "core_config \<Rightarrow> string" where
  "ballista_bind_addr c =
     (case host_of (kc_grpc_listen_addr c) of Some ip \<Rightarrow> ip | None \<Rightarrow> ''0.0.0.0'') @ '':0''"

definition ballista_advertise_host :: "core_config \<Rightarrow> string" where
  "ballista_advertise_host c =
     (let addr = effective_advertised_address c in
      case host_of addr of Some h \<Rightarrow> h | None \<Rightarrow> addr)"

definition validate_core :: "core_config \<Rightarrow> (string, unit) result" where
  "validate_core c =
     (if kc_heartbeat_interval_secs c = 0 then
        Inl (''heartbeat_interval_secs is 0; a zero interval panics the heartbeat task, ''
             @ ''leaving the node running but silent until the coordinator declares it dead'')
      else if kc_write_queue_capacity c = 0 then
        Inl (''write_queue_capacity is 0; the write queue is a bounded channel and needs ''
             @ ''room for at least one write'')
      else if kc_ballista_concurrent_tasks c = 0 then
        Inl (''ballista_concurrent_tasks is 0; the executor would advertise no task slots ''
             @ ''and the scheduler would never give this node a share of a read'')
      else Inr ())"

section \<open>Loading\<close>

datatype config_error =
  Unreadable string string
| Invalid string string
| Unusable string string

definition config_from_file ::
  "(string \<Rightarrow> (string, string) result) \<Rightarrow> (string \<Rightarrow> (string, 'c) result)
     \<Rightarrow> ('c \<Rightarrow> (string, unit) result) \<Rightarrow> string \<Rightarrow> (config_error, 'c) result" where
  "config_from_file read_to_string from_str validate path =
     (case read_to_string path of
        Inl src \<Rightarrow> Inl (Unreadable path src)
      | Inr contents \<Rightarrow>
          (case from_str contents of
             Inl src \<Rightarrow> Inl (Invalid path src)
           | Inr config \<Rightarrow>
               (case validate config of
                  Inl reason \<Rightarrow> Inl (Unusable path reason)
                | Inr _ \<Rightarrow> Inr config)))"

section \<open>What a loaded configuration satisfies\<close>

lemma validate_coordinator_ok:
  "validate_coordinator c = Inr () \<longleftrightarrow>
     0 < cc_heartbeat_timeout_secs c \<and> 0 < cc_default_replication_factor c
   \<and> 0 < cc_tail_retry_initial_ms c \<and> cc_tail_retry_initial_ms c \<le> cc_tail_retry_max_ms c"
  by (auto simp: validate_coordinator_def)

lemma validate_core_ok:
  "validate_core c = Inr () \<longleftrightarrow>
     0 < kc_heartbeat_interval_secs c \<and> 0 < kc_write_queue_capacity c
   \<and> 0 < kc_ballista_concurrent_tasks c"
  by (auto simp: validate_core_def)

lemma config_from_file_validated:
  "config_from_file rd parse validate path = Inr c \<Longrightarrow> validate c = Inr ()"
  by (auto simp: config_from_file_def split: sum.splits)

lemma host_of_port:
  "CHR '':'' \<notin> set port \<Longrightarrow> host_of (host @ '':'' @ port) = Some host"
proof -
  assume "CHR '':'' \<notin> set port"
  then have "rposition (\<lambda>c. c = CHR '':'') port = None" by (auto simp: rposition_None)
  then show ?thesis
    by (simp add: host_of_def rposition_append)
qed

end
