(* ===== verification/Replication.thy ===== *)
theory Replication
  imports Write_Node Catalog Config "HOL-Library.Multiset"
begin

text \<open>
  Replication of a write to the nodes of a shard:
  \<open>crates/vairedb-coordinator/src/replication/replication.rs\<close>, with the channel pool of
  \<open>channel_pool/channel_pool.rs\<close> and the quorum size and target nodes of
  \<open>write_router/write_router.rs\<close>.

  The network is a parameter: a record with the dialling of an address and the gRPC call,
  both over an abstract world \<open>'w\<close>. The tasks of a fan-out run concurrently, so the order in
  which they act on the world is an argument \<open>sched\<close>: a list of target positions, each with a
  flag saying whether the task returned an outcome (a task that panics returns none). The
  collection of the outcomes follows the order of the targets, as in the code. The background
  retry loop is a step relation over the queues, the entries in flight, and the world.
\<close>

section \<open>Quorum and targets\<close>

definition compute_quorum_size :: "nat \<Rightarrow> nat" where
  "compute_quorum_size replication_factor = replication_factor div 2 + 1"

definition target_nodes :: "shard_meta \<Rightarrow> string list" where
  "target_nodes shard = sh_primary_node_id shard # sh_replica_node_ids shard"

section \<open>Channels\<close>

record 'w network =
  nw_dial :: "string \<Rightarrow> 'w \<Rightarrow> (string, unit) result \<times> 'w"
  nw_execute_write ::
    "string \<Rightarrow> execute_write_request \<Rightarrow> 'w \<Rightarrow> (grpc_code \<times> string, write_result list) result \<times> 'w"

record 'w comms =
  cm_pool :: "string list"
  cm_world :: 'w

definition pool_new :: "'w \<Rightarrow> 'w comms" where
  "pool_new w = \<lparr>cm_pool = [], cm_world = w\<rparr>"

definition pool_get :: "'w network \<Rightarrow> string \<Rightarrow> 'w comms \<Rightarrow> (string, unit) result \<times> 'w comms" where
  "pool_get N address s =
     (if address \<in> set (cm_pool s) then (Inr (), s)
      else
        (case nw_dial N (''http://'' @ address) (cm_world s) of
           (Inl e, w) \<Rightarrow> (Inl e, s\<lparr>cm_world := w\<rparr>)
         | (Inr _, w) \<Rightarrow> (Inr (), s\<lparr>cm_pool := address # cm_pool s, cm_world := w\<rparr>)))"

section \<open>Batches\<close>

record retry_config =
  rc_initial_retry_ms :: nat
  rc_max_retry_ms :: nat

definition DEFAULT_INITIAL_RETRY_MS :: nat where
  "DEFAULT_INITIAL_RETRY_MS = 100"

definition DEFAULT_MAX_RETRY_MS :: nat where
  "DEFAULT_MAX_RETRY_MS = 5000"

definition retry_config_default :: retry_config where
  "retry_config_default =
     \<lparr>rc_initial_retry_ms = DEFAULT_INITIAL_RETRY_MS, rc_max_retry_ms = DEFAULT_MAX_RETRY_MS\<rparr>"

definition retry_config_of :: "coordinator_config \<Rightarrow> retry_config" where
  "retry_config_of config =
     \<lparr>rc_initial_retry_ms = cc_tail_retry_initial_ms config,
      rc_max_retry_ms = cc_tail_retry_max_ms config\<rparr>"

record batch_statement =
  bs_sql :: string
  bs_params :: "write_param list"
  bs_shard_id :: string
  bs_bulk :: "bulk_rows option"

record write_batch =
  wb_write_id :: string
  wb_shard_id :: string
  wb_statements :: "batch_statement list"
  wb_atomic :: bool

record pending_retry =
  pr_node_address :: string
  pr_node_id :: string
  pr_batch :: write_batch
  pr_attempt :: nat

type_synonym retry_queues = "string \<Rightarrow> pending_retry list option"

definition MAX_PENDING_RETRIES :: nat where
  "MAX_PENDING_RETRIES = 4096"

definition push_pending_retry :: "pending_retry \<Rightarrow> retry_queues \<Rightarrow> retry_queues" where
  "push_pending_retry entry retries =
     (let queue = (case retries (pr_node_id entry) of Some q \<Rightarrow> q | None \<Rightarrow> []) in
      retries(pr_node_id entry \<mapsto>
        (if length queue < MAX_PENDING_RETRIES then queue @ [entry] else queue)))"

definition u64_max :: nat where
  "u64_max = 2 ^ 64 - 1"

definition saturating_mul :: "nat \<Rightarrow> nat \<Rightarrow> nat" where
  "saturating_mul a b = min (a * b) u64_max"

definition compute_backoff :: "nat \<Rightarrow> retry_config \<Rightarrow> nat" where
  "compute_backoff attempt config =
     min (saturating_mul (rc_initial_retry_ms config) (2 ^ min attempt 10)) (rc_max_retry_ms config)"

definition replication_targets ::
  "shard_meta \<Rightarrow> (string \<Rightarrow> string option) \<Rightarrow> (coordinator_error, (string \<times> string) list) result" where
  "replication_targets shard addresses =
     (case addresses (sh_primary_node_id shard) of
        None \<Rightarrow> Inl (ShardUnavailable (sh_shard_id shard))
      | Some primary_address \<Rightarrow>
          Inr ((sh_primary_node_id shard, primary_address)
            # List.map_filter (\<lambda>i. map_option (\<lambda>addr. (i, addr)) (addresses i))
                (sh_replica_node_ids shard)))"

definition write_request :: "write_batch \<Rightarrow> execute_write_request" where
  "write_request batch =
     \<lparr>ew_write_id = wb_write_id batch,
      ew_statements =
        map (\<lambda>stmt. \<lparr>ws_sql = bs_sql stmt, ws_shard_id = bs_shard_id stmt, ws_operation = OpInsert,
                     ws_params = bs_params stmt, ws_bulk_rows = bs_bulk stmt\<rparr>) (wb_statements batch),
      ew_atomic = wb_atomic batch\<rparr>"

section \<open>One node\<close>

type_synonym outcome = "(node_error, nat list) result"

definition node_error_of :: "write_batch \<Rightarrow> string \<Rightarrow> string \<Rightarrow> int \<Rightarrow> node_error" where
  "node_error_of batch node_id message error_code =
     \<lparr>ne_message = message, ne_error_code = error_code, ne_shard_id = wb_shard_id batch,
      ne_node_id = node_id\<rparr>"

fun grpc_error_code :: "grpc_code \<Rightarrow> vdb_error_code" where
  "grpc_error_code GUnavailable = V_NodeUnavailable"
| "grpc_error_code GDeadlineExceeded = V_NodeUnavailable"
| "grpc_error_code GNotFound = V_ShardNotFound"
| "grpc_error_code GResourceExhausted = V_WriteQueueFull"
| "grpc_error_code _ = V_InternalError"

definition read_results :: "write_batch \<Rightarrow> string \<Rightarrow> write_result list \<Rightarrow> outcome" where
  "read_results batch node_id results =
     (if results = [] then Inl (node_error_of batch node_id ''no results returned'' 0)
      else
        (case find (\<lambda>r. \<not> wr_success r) results of
           Some bad \<Rightarrow>
             Inl (node_error_of batch node_id
               (case wr_error bad of Some e \<Rightarrow> ed_message e | None \<Rightarrow> ''unknown error'')
               (case wr_error bad of Some e \<Rightarrow> ed_code e | None \<Rightarrow> 0))
         | None \<Rightarrow> Inr (map (\<lambda>r. as_u64 (wr_rows_affected r)) results)))"

definition send_write ::
  "'w network \<Rightarrow> string \<Rightarrow> write_batch \<Rightarrow> string \<Rightarrow> 'w comms \<Rightarrow> outcome \<times> 'w comms" where
  "send_write N node_address batch node_id s =
     (case pool_get N node_address s of
        (Inl _, s1) \<Rightarrow>
          (Inl (node_error_of batch node_id ''connection to storage node failed''
             (vdb_code_i32 V_NodeUnavailable)), s1)
      | (Inr _, s1) \<Rightarrow>
          (case nw_execute_write N node_address (write_request batch) (cm_world s1) of
             (Inl (code, message), w) \<Rightarrow>
               (Inl (node_error_of batch node_id (sanitize_message message)
                  (vdb_code_i32 (grpc_error_code code))), s1\<lparr>cm_world := w\<rparr>)
           | (Inr results, w) \<Rightarrow> (read_results batch node_id results, s1\<lparr>cm_world := w\<rparr>)))"

section \<open>The fan-out\<close>

fun merge_rows_affected :: "nat list \<Rightarrow> nat list \<Rightarrow> nat list" where
  "merge_rows_affected [] node_rows = []"
| "merge_rows_affected (tot # totals) [] = tot # totals"
| "merge_rows_affected (tot # totals) (rows # node_rows) =
     max tot rows # merge_rows_affected totals node_rows"

fun run_tasks ::
  "'w network \<Rightarrow> write_batch \<Rightarrow> (string \<times> string) list \<Rightarrow> (nat \<times> bool) list \<Rightarrow> 'w comms
     \<Rightarrow> (nat \<Rightarrow> outcome option) \<times> 'w comms" where
  "run_tasks N batch targets [] s = (Map.empty, s)"
| "run_tasks N batch targets ((i, returned) # sched) s =
     (if i < length targets then
        (case send_write N (snd (targets ! i)) batch (fst (targets ! i)) s of
           (out, s1) \<Rightarrow>
             (case run_tasks N batch targets sched s1 of
                (outs, s2) \<Rightarrow> (if returned then outs(i \<mapsto> out) else outs, s2)))
      else run_tasks N batch targets sched s)"

record fan_in =
  fi_ack_count :: nat
  fi_rows_affected :: "nat list"
  fi_primary_acked :: bool
  fi_lagging_nodes :: "(string \<times> string) list"
  fi_primary_error :: "node_error option"

definition fan_in_step ::
  "string \<Rightarrow> (string \<times> string) \<times> outcome option \<Rightarrow> fan_in \<Rightarrow> fan_in" where
  "fan_in_step primary handle acc =
     (case handle of
        (_, None) \<Rightarrow> acc
      | ((node_id, address), Some (Inr rows)) \<Rightarrow>
          acc\<lparr>fi_ack_count := fi_ack_count acc + 1,
              fi_rows_affected := merge_rows_affected (fi_rows_affected acc) rows,
              fi_primary_acked := fi_primary_acked acc \<or> node_id = primary\<rparr>
      | ((node_id, address), Some (Inl node_error)) \<Rightarrow>
          acc\<lparr>fi_primary_error :=
                (if node_id = primary then Some node_error else fi_primary_error acc),
              fi_lagging_nodes := fi_lagging_nodes acc @ [(node_id, address)]\<rparr>)"

definition fan_in_of ::
  "string \<Rightarrow> nat \<Rightarrow> ((string \<times> string) \<times> outcome option) list \<Rightarrow> fan_in" where
  "fan_in_of primary n handles =
     fold (fan_in_step primary) handles
       \<lparr>fi_ack_count = 0, fi_rows_affected = replicate n 0, fi_primary_acked = False,
        fi_lagging_nodes = [], fi_primary_error = None\<rparr>"

definition enqueue_retries ::
  "(string \<times> string) list \<Rightarrow> write_batch \<Rightarrow> retry_queues \<Rightarrow> retry_queues" where
  "enqueue_retries lagging_nodes batch retries =
     fold (\<lambda>(node_id, node_address). push_pending_retry
             \<lparr>pr_node_address = node_address, pr_node_id = node_id, pr_batch = batch, pr_attempt = 0\<rparr>)
       lagging_nodes retries"

definition fan_out_batch ::
  "shard_meta \<Rightarrow> batch_statement list \<Rightarrow> string \<Rightarrow> bool \<Rightarrow> write_batch" where
  "fan_out_batch shard statements write_id atomic =
     \<lparr>wb_write_id = write_id,
      wb_shard_id = shard_table_name (sh_table_name shard) (sh_hash_bucket shard),
      wb_statements = statements, wb_atomic = atomic\<rparr>"

text \<open>The verdict on the collected outcomes, from the code after the collecting loop.\<close>

definition quorum_verdict ::
  "shard_meta \<Rightarrow> nat \<Rightarrow> fan_in \<Rightarrow> (coordinator_error, nat list) result" where
  "quorum_verdict shard quorum_size fi =
     (if \<not> fi_primary_acked fi then
        Inl (case fi_primary_error fi of
               Some node_error \<Rightarrow> NodeExecFailed node_error
             | None \<Rightarrow> ShardUnavailable (sh_shard_id shard))
      else if fi_ack_count fi < quorum_size then
        Inl (QuorumNotReached quorum_size (fi_ack_count fi))
      else Inr (fi_rows_affected fi))"

definition handles_of ::
  "(string \<times> string) list \<Rightarrow> (nat \<Rightarrow> outcome option) \<Rightarrow> ((string \<times> string) \<times> outcome option) list" where
  "handles_of targets outs = map (\<lambda>i. (targets ! i, outs i)) [0..<length targets]"

definition fan_out ::
  "('t, 'b) env \<Rightarrow> 't catalog \<Rightarrow> 'w network \<Rightarrow> (nat \<times> bool) list \<Rightarrow> shard_meta
     \<Rightarrow> batch_statement list \<Rightarrow> string \<Rightarrow> nat \<Rightarrow> bool \<Rightarrow> retry_queues \<times> 'w comms
     \<Rightarrow> (coordinator_error, nat list) result \<times> retry_queues \<times> 'w comms" where
  "fan_out E C N sched shard statements write_id quorum_size atomic rs =
     (case r_bind (node_address_map E C) (replication_targets shard) of
        Inl e \<Rightarrow> (Inl e, rs)
      | Inr targets \<Rightarrow>
          (case rs of (retries, s) \<Rightarrow>
             (let batch = fan_out_batch shard statements write_id atomic in
              case run_tasks N batch targets sched s of
                (outs, s') \<Rightarrow>
                  (let fi = fan_in_of (sh_primary_node_id shard) (length statements)
                              (handles_of targets outs)
                   in case quorum_verdict shard quorum_size fi of
                        Inl e \<Rightarrow> (Inl e, retries, s')
                      | Inr rows \<Rightarrow>
                          (Inr rows, enqueue_retries (fi_lagging_nodes fi) batch retries, s')))))"

definition execute_statement_with_quorum ::
  "('t, 'b) env \<Rightarrow> 't catalog \<Rightarrow> 'w network \<Rightarrow> (nat \<times> bool) list \<Rightarrow> shard_meta
     \<Rightarrow> batch_statement \<Rightarrow> string \<Rightarrow> nat \<Rightarrow> retry_queues \<times> 'w comms
     \<Rightarrow> (coordinator_error, nat) result \<times> retry_queues \<times> 'w comms" where
  "execute_statement_with_quorum E C N sched shard statement write_id quorum_size rs =
     (case fan_out E C N sched shard [statement] write_id quorum_size False rs of
        (res, rs') \<Rightarrow>
          (r_bind res (\<lambda>rows. Inr (case rows of r # _ \<Rightarrow> r | [] \<Rightarrow> 0)), rs'))"

definition execute_write_with_quorum ::
  "('t, 'b) env \<Rightarrow> 't catalog \<Rightarrow> 'w network \<Rightarrow> (nat \<times> bool) list \<Rightarrow> shard_meta
     \<Rightarrow> string \<Rightarrow> write_param list \<Rightarrow> string \<Rightarrow> nat \<Rightarrow> retry_queues \<times> 'w comms
     \<Rightarrow> (coordinator_error, nat) result \<times> retry_queues \<times> 'w comms" where
  "execute_write_with_quorum E C N sched shard sql params write_id quorum_size rs =
     execute_statement_with_quorum E C N sched shard
       \<lparr>bs_sql = sql, bs_params = params,
        bs_shard_id = shard_table_name (sh_table_name shard) (sh_hash_bucket shard),
        bs_bulk = None\<rparr> write_id quorum_size rs"

definition execute_transaction_with_quorum ::
  "('t, 'b) env \<Rightarrow> 't catalog \<Rightarrow> 'w network \<Rightarrow> (nat \<times> bool) list \<Rightarrow> shard_meta
     \<Rightarrow> batch_statement list \<Rightarrow> string \<Rightarrow> nat \<Rightarrow> retry_queues \<times> 'w comms
     \<Rightarrow> (coordinator_error, nat list) result \<times> retry_queues \<times> 'w comms" where
  "execute_transaction_with_quorum E C N sched shard statements write_id quorum_size rs =
     fan_out E C N sched shard statements write_id quorum_size True rs"

section \<open>The retry loop\<close>

text \<open>
  One round takes an entry from the front of each queue whose node the catalog does not call
  dead; \<open>node_ids\<close> is the enumeration of the keys. An entry in flight is then sent after its
  backoff and pushed back when that fails.
\<close>

definition node_is_dead :: "('t, 'b) env \<Rightarrow> 't catalog \<Rightarrow> string \<Rightarrow> bool" where
  "node_is_dead E C node_id =
     (case get_node E C node_id of
        Inr (Some node) \<Rightarrow> nm_state node = node_state_i32 Dead
      | _ \<Rightarrow> False)"

fun retry_round ::
  "('t, 'b) env \<Rightarrow> 't catalog \<Rightarrow> string list \<Rightarrow> retry_queues \<Rightarrow> pending_retry list \<times> retry_queues" where
  "retry_round E C [] retries = ([], retries)"
| "retry_round E C (node_id # node_ids) retries =
     (if node_is_dead E C node_id then retry_round E C node_ids retries
      else
        (case retries node_id of
           Some (entry # queue) \<Rightarrow>
             (case retry_round E C node_ids (retries(node_id \<mapsto> queue)) of
                (to_retry, retries') \<Rightarrow> (entry # to_retry, retries'))
         | _ \<Rightarrow> retry_round E C node_ids retries))"

definition next_attempt :: "pending_retry \<Rightarrow> pending_retry" where
  "next_attempt entry = entry\<lparr>pr_attempt := (pr_attempt entry + 1) mod 2 ^ 32\<rparr>"

definition resend ::
  "'w network \<Rightarrow> pending_retry \<Rightarrow> retry_queues \<times> 'w comms \<Rightarrow> retry_queues \<times> 'w comms" where
  "resend N entry rs =
     (case rs of (retries, s) \<Rightarrow>
        (case send_write N (pr_node_address entry) (pr_batch entry) (pr_node_id entry) s of
           (Inr _, s') \<Rightarrow> (retries, s')
         | (Inl _, s') \<Rightarrow> (push_pending_retry entry retries, s')))"

record 'w manager =
  mg_retries :: retry_queues
  mg_in_flight :: "pending_retry list"
  mg_comms :: "'w comms"

definition manager_new :: "'w \<Rightarrow> 'w manager" where
  "manager_new w = \<lparr>mg_retries = Map.empty, mg_in_flight = [], mg_comms = pool_new w\<rparr>"

inductive manager_step ::
  "('t, 'b) env \<Rightarrow> 'w network \<Rightarrow> 'w manager \<Rightarrow> 'w manager \<Rightarrow> bool"
  for E :: "('t, 'b) env" and N :: "'w network" where
  m_write:
    "fan_out E C N sched shard statements write_id quorum_size atomic (mg_retries m, mg_comms m)
       = (res, retries, s)
     \<Longrightarrow> manager_step E N m (m\<lparr>mg_retries := retries, mg_comms := s\<rparr>)"
| m_round:
    "distinct node_ids \<Longrightarrow> set node_ids = dom (mg_retries m)
     \<Longrightarrow> retry_round E C node_ids (mg_retries m) = (to_retry, retries)
     \<Longrightarrow> manager_step E N m
           (m\<lparr>mg_retries := retries, mg_in_flight := mg_in_flight m @ map next_attempt to_retry\<rparr>)"
| m_resend:
    "mg_in_flight m = before @ entry # after
     \<Longrightarrow> resend N entry (mg_retries m, mg_comms m) = (retries, s)
     \<Longrightarrow> manager_step E N m
           (m\<lparr>mg_retries := retries, mg_in_flight := before @ after, mg_comms := s\<rparr>)"
| m_world: "manager_step E N m (m\<lparr>mg_comms := (mg_comms m)\<lparr>cm_world := w\<rparr>\<rparr>)"

inductive manager_reachable :: "('t, 'b) env \<Rightarrow> 'w network \<Rightarrow> 'w manager \<Rightarrow> bool"
  for E :: "('t, 'b) env" and N :: "'w network" where
  m_start: "manager_reachable E N (manager_new w)"
| m_next: "manager_reachable E N m \<Longrightarrow> manager_step E N m m' \<Longrightarrow> manager_reachable E N m'"

section \<open>The outcomes collected\<close>

fun acked :: "outcome option \<Rightarrow> bool" where
  "acked (Some (Inr _)) = True"
| "acked _ = False"

fun lagging :: "outcome option \<Rightarrow> bool" where
  "lagging (Some (Inl _)) = True"
| "lagging _ = False"

lemma length_merge_rows [simp]: "length (merge_rows_affected ts rs) = length ts"
  by (induction ts rs rule: merge_rows_affected.induct) auto

lemma nth_merge_rows:
  "j < length ts \<Longrightarrow>
     merge_rows_affected ts rs ! j = (if j < length rs then max (ts ! j) (rs ! j) else ts ! j)"
proof (induction ts rs arbitrary: j rule: merge_rows_affected.induct)
  case (3 t ts r rs)
  then show ?case by (cases j) auto
qed auto

lemma fan_in_step_simps [simp]:
  "fan_in_step p (ta, None) acc = acc"
  "fi_ack_count (fan_in_step p h acc) = fi_ack_count acc + (if acked (snd h) then 1 else 0)"
  "fi_primary_acked (fan_in_step p h acc) \<longleftrightarrow> fi_primary_acked acc \<or> (acked (snd h) \<and> fst (fst h) = p)"
  "fi_lagging_nodes (fan_in_step p h acc) = fi_lagging_nodes acc @ (if lagging (snd h) then [fst h] else [])"
  "fi_primary_error (fan_in_step p h acc) = None \<longleftrightarrow>
     fi_primary_error acc = None \<and> \<not> (lagging (snd h) \<and> fst (fst h) = p)"
  "length (fi_rows_affected (fan_in_step p h acc)) = length (fi_rows_affected acc)"
  by (auto simp: fan_in_step_def split: option.splits sum.splits prod.splits)

lemma fold_fan_in:
  fixes p hs and acc :: fan_in
  defines "out \<equiv> fold (fan_in_step p) hs acc"
  shows "fi_ack_count out = fi_ack_count acc + length (filter (acked \<circ> snd) hs)"
    and "fi_primary_acked out \<longleftrightarrow>
           fi_primary_acked acc \<or> (\<exists>h\<in>set hs. acked (snd h) \<and> fst (fst h) = p)"
    and "fi_lagging_nodes out = fi_lagging_nodes acc @ map fst (filter (lagging \<circ> snd) hs)"
    and "fi_primary_error out = None \<longleftrightarrow>
           fi_primary_error acc = None \<and> \<not> (\<exists>h\<in>set hs. lagging (snd h) \<and> fst (fst h) = p)"
    and "length (fi_rows_affected out) = length (fi_rows_affected acc)"
  unfolding out_def by (induction hs arbitrary: acc) auto

lemma fan_in_of_simps:
  shows "fi_ack_count (fan_in_of p n hs) = length (filter (acked \<circ> snd) hs)"
    and "fi_primary_acked (fan_in_of p n hs) \<longleftrightarrow> (\<exists>h\<in>set hs. acked (snd h) \<and> fst (fst h) = p)"
    and "fi_lagging_nodes (fan_in_of p n hs) = map fst (filter (lagging \<circ> snd) hs)"
    and "fi_primary_error (fan_in_of p n hs) = None \<longleftrightarrow>
           \<not> (\<exists>h\<in>set hs. lagging (snd h) \<and> fst (fst h) = p)"
    and "length (fi_rows_affected (fan_in_of p n hs)) = n"
  by (simp_all add: fan_in_of_def fold_fan_in)

lemma rows_step:
  "j < length (fi_rows_affected a) \<Longrightarrow>
     fi_rows_affected (fan_in_step p h a) ! j =
      (case snd h of Some (Inr rows) \<Rightarrow>
         if j < length rows then max (fi_rows_affected a ! j) (rows ! j) else fi_rows_affected a ! j
       | _ \<Rightarrow> fi_rows_affected a ! j)"
  by (auto simp: fan_in_step_def nth_merge_rows split: option.splits sum.splits prod.splits)

lemma rows_mono:
  "j < length (fi_rows_affected a) \<Longrightarrow>
     fi_rows_affected a ! j \<le> fi_rows_affected (fold (fan_in_step p) hs a) ! j"
proof (induction hs arbitrary: a)
  case (Cons h hs)
  have "fi_rows_affected a ! j \<le> fi_rows_affected (fan_in_step p h a) ! j"
    using rows_step [OF Cons.prems, of p h] by (auto split: option.splits sum.splits)
  then show ?case using Cons.IH [of "fan_in_step p h a"] Cons.prems by auto
qed simp

lemma rows_upper:
  assumes "(ta, Some (Inr rows)) \<in> set hs" "j < length rows" "j < length (fi_rows_affected acc)"
  shows "rows ! j \<le> fi_rows_affected (fold (fan_in_step p) hs acc) ! j"
  using assms
proof (induction hs arbitrary: acc)
  case (Cons h hs)
  show ?case
  proof (cases "(ta, Some (Inr rows)) \<in> set hs")
    case True
    then show ?thesis using Cons by simp
  next
    case False
    then have h: "h = (ta, Some (Inr rows))" using Cons.prems(1) by simp
    have "rows ! j \<le> fi_rows_affected (fan_in_step p h acc) ! j"
      using rows_step [OF Cons.prems(3), of p h] Cons.prems(2) by (simp add: h)
    also have "\<dots> \<le> fi_rows_affected (fold (fan_in_step p) hs (fan_in_step p h acc)) ! j"
      using Cons.prems(3) by (intro rows_mono) simp
    finally show ?thesis by simp
  qed
qed simp

lemma rows_attained:
  assumes "j < length (fi_rows_affected acc)"
  shows "fi_rows_affected (fold (fan_in_step p) hs acc) ! j = fi_rows_affected acc ! j
     \<or> (\<exists>ta rows. (ta, Some (Inr rows)) \<in> set hs \<and> j < length rows
          \<and> rows ! j = fi_rows_affected (fold (fan_in_step p) hs acc) ! j)"
  using assms
proof (induction hs arbitrary: acc)
  case (Cons h hs)
  define a where "a = fan_in_step p h acc"
  have one: "fi_rows_affected a ! j = fi_rows_affected acc ! j
      \<or> (\<exists>ta rows. h = (ta, Some (Inr rows)) \<and> j < length rows \<and> rows ! j = fi_rows_affected a ! j)"
    using rows_step [OF Cons.prems, of p h]
    by (cases h) (auto simp: a_def max_def simp del: fan_in_step_simps split: option.splits sum.splits)
  have "j < length (fi_rows_affected a)" using Cons.prems by (simp add: a_def)
  note Cons.IH [OF this]
  moreover have "fold (fan_in_step p) (h # hs) acc = fold (fan_in_step p) hs a" by (simp add: a_def)
  ultimately show ?case using one by (elim disjE exE conjE) (auto simp del: fold_simps)
qed simp

text \<open>What the caller of a fan-out gets: the largest count each statement had on an acking node.\<close>

lemma fan_in_of_rows:
  assumes "j < n"
  shows "(ta, Some (Inr rows)) \<in> set hs \<Longrightarrow> j < length rows
           \<Longrightarrow> rows ! j \<le> fi_rows_affected (fan_in_of p n hs) ! j"
    and "fi_rows_affected (fan_in_of p n hs) ! j = 0
       \<or> (\<exists>ta rows. (ta, Some (Inr rows)) \<in> set hs \<and> j < length rows
            \<and> rows ! j = fi_rows_affected (fan_in_of p n hs) ! j)"
proof -
  let ?a = "\<lparr>fi_ack_count = 0, fi_rows_affected = replicate n 0, fi_primary_acked = False,
        fi_lagging_nodes = [], fi_primary_error = None\<rparr>"
  have j: "j < length (fi_rows_affected ?a)" and zero: "fi_rows_affected ?a ! j = 0"
    using assms by simp_all
  show "(ta, Some (Inr rows)) \<in> set hs \<Longrightarrow> j < length rows
           \<Longrightarrow> rows ! j \<le> fi_rows_affected (fan_in_of p n hs) ! j"
    unfolding fan_in_of_def by (rule rows_upper [OF _ _ j])
  show "fi_rows_affected (fan_in_of p n hs) ! j = 0
       \<or> (\<exists>ta rows. (ta, Some (Inr rows)) \<in> set hs \<and> j < length rows
            \<and> rows ! j = fi_rows_affected (fan_in_of p n hs) ! j)"
    using rows_attained [OF j, of p hs] unfolding fan_in_of_def zero .
qed

section \<open>The retry queues\<close>

definition queue_of :: "retry_queues \<Rightarrow> string \<Rightarrow> pending_retry list" where
  "queue_of retries n = (case retries n of Some q \<Rightarrow> q | None \<Rightarrow> [])"

definition queues_ok :: "retry_queues \<Rightarrow> bool" where
  "queues_ok retries \<longleftrightarrow>
     (\<forall>n. length (queue_of retries n) \<le> MAX_PENDING_RETRIES
        \<and> list_all (\<lambda>e. pr_node_id e = n) (queue_of retries n))"

lemma queue_of_empty [simp]: "queue_of Map.empty n = []"
  by (simp add: queue_of_def)

lemma queue_of_upd [simp]: "queue_of (retries(k \<mapsto> q)) n = (if n = k then q else queue_of retries n)"
  by (simp add: queue_of_def)

lemma queue_of_push:
  "queue_of (push_pending_retry e retries) n =
     (if n = pr_node_id e \<and> length (queue_of retries n) < MAX_PENDING_RETRIES
      then queue_of retries n @ [e] else queue_of retries n)"
  by (auto simp: push_pending_retry_def Let_def queue_of_def split: option.splits)

lemma queues_ok_push [wf_intros]: "queues_ok retries \<Longrightarrow> queues_ok (push_pending_retry e retries)"
  by (auto simp: queues_ok_def queue_of_push)

lemma enqueue_retries_Nil [simp]: "enqueue_retries [] batch retries = retries"
  by (simp add: enqueue_retries_def)

lemma enqueue_retries_Cons:
  "enqueue_retries ((n, a) # ls) batch retries =
     enqueue_retries ls batch (push_pending_retry
       \<lparr>pr_node_address = a, pr_node_id = n, pr_batch = batch, pr_attempt = 0\<rparr> retries)"
  by (simp add: enqueue_retries_def)

lemma queues_ok_enqueue [wf_intros]:
  "queues_ok retries \<Longrightarrow> queues_ok (enqueue_retries ls batch retries)"
  by (induction ls arbitrary: retries) (auto simp: enqueue_retries_Cons queues_ok_push)

lemma enqueue_keeps: "\<exists>q. queue_of (enqueue_retries ls batch retries) n = queue_of retries n @ q"
proof (induction ls arbitrary: retries)
  case (Cons l ls)
  obtain i a where l: "l = (i, a)" by (cases l)
  let ?r = "push_pending_retry \<lparr>pr_node_address = a, pr_node_id = i, pr_batch = batch, pr_attempt = 0\<rparr> retries"
  obtain q where "queue_of (enqueue_retries ls batch ?r) n = queue_of ?r n @ q" using Cons.IH by blast
  then show ?case by (auto simp: l enqueue_retries_Cons queue_of_push)
qed simp

lemma enqueue_lagging:
  assumes "(n, a) \<in> set ls"
  shows "\<lparr>pr_node_address = a, pr_node_id = n, pr_batch = batch, pr_attempt = 0\<rparr>
           \<in> set (queue_of (enqueue_retries ls batch retries) n)
       \<or> MAX_PENDING_RETRIES \<le> length (queue_of (enqueue_retries ls batch retries) n)"
  using assms
proof (induction ls arbitrary: retries)
  case (Cons l ls)
  obtain i b where l: "l = (i, b)" by (cases l)
  let ?e = "\<lparr>pr_node_address = b, pr_node_id = i, pr_batch = batch, pr_attempt = 0\<rparr>"
  show ?case
  proof (cases "(n, a) \<in> set ls")
    case True
    then show ?thesis using Cons.IH by (simp add: l enqueue_retries_Cons)
  next
    case False
    then have "i = n" "b = a" using Cons.prems l by auto
    moreover obtain q where "queue_of (enqueue_retries ls batch (push_pending_retry ?e retries)) n
        = queue_of (push_pending_retry ?e retries) n @ q"
      using enqueue_keeps by blast
    ultimately show ?thesis by (auto simp: l enqueue_retries_Cons queue_of_push)
  qed
qed simp

lemma enqueue_only_lagging:
  assumes "e \<in> set (queue_of (enqueue_retries ls batch retries) n)" "e \<notin> set (queue_of retries n)"
  shows "pr_batch e = batch \<and> (n, pr_node_address e) \<in> set ls"
  using assms
proof (induction ls arbitrary: retries)
  case (Cons l ls)
  obtain i b where l: "l = (i, b)" by (cases l)
  let ?e = "\<lparr>pr_node_address = b, pr_node_id = i, pr_batch = batch, pr_attempt = 0\<rparr>"
  show ?case
  proof (cases "e \<in> set (queue_of (push_pending_retry ?e retries) n)")
    case True
    then show ?thesis using Cons.prems(2) by (auto simp: l queue_of_push split: if_splits)
  next
    case False
    then show ?thesis
      using Cons.IH [of "push_pending_retry ?e retries"] Cons.prems(1) by (simp add: l enqueue_retries_Cons)
  qed
qed simp

section \<open>The tasks of a fan-out\<close>

lemma set_handles_of:
  "set (handles_of targets outs) = {(targets ! i, outs i) |i. i < length targets}"
  by (auto simp: handles_of_def)

lemma filter_handles_of:
  "length (filter (P \<circ> snd) (handles_of targets outs)) = card {i. i < length targets \<and> P (outs i)}"
proof -
  have "length (filter (P \<circ> snd) (handles_of targets outs))
      = length (filter (\<lambda>i. P (outs i)) [0..<length targets])"
    by (simp add: handles_of_def filter_map comp_def)
  also have "\<dots> = card (set (filter (\<lambda>i. P (outs i)) [0..<length targets]))"
    by (rule distinct_card [symmetric]) simp
  also have "set (filter (\<lambda>i. P (outs i)) [0..<length targets]) = {i. i < length targets \<and> P (outs i)}"
    by auto
  finally show ?thesis .
qed

lemma primary_acked_handles:
  "fi_primary_acked (fan_in_of p n (handles_of targets outs)) \<longleftrightarrow>
     (\<exists>i<length targets. acked (outs i) \<and> fst (targets ! i) = p)"
  by (auto simp: fan_in_of_simps handles_of_def)

text \<open>An outcome comes from a task that ran: from some world, the call to that target.\<close>

lemma run_tasks_outcome:
  assumes "run_tasks N batch targets sched s = (outs, s')" "outs i = Some out"
  shows "i < length targets \<and> (i, True) \<in> set sched
       \<and> (\<exists>s1 s2. send_write N (snd (targets ! i)) batch (fst (targets ! i)) s1 = (out, s2))"
  using assms
proof (induction sched arbitrary: s outs)
  case (Cons x sched)
  obtain k returned where x: "x = (k, returned)" by (cases x)
  show ?case
  proof (cases "k < length targets")
    case True
    obtain o1 s1 where send: "send_write N (snd (targets ! k)) batch (fst (targets ! k)) s = (o1, s1)"
      by fastforce
    obtain outs2 s2 where run: "run_tasks N batch targets sched s1 = (outs2, s2)" by fastforce
    have outs: "outs = (if returned then outs2(k \<mapsto> o1) else outs2)" "s2 = s'"
      using Cons.prems(1) by (auto simp: x True send run split: if_splits)
    show ?thesis
    proof (cases "returned \<and> i = k")
      case True
      then show ?thesis using outs Cons.prems(2) send \<open>k < length targets\<close> by (auto simp: x)
    next
      case False
      then have "outs2 i = Some out" using outs Cons.prems(2) by (auto split: if_splits)
      then show ?thesis using Cons.IH [of s1 outs2] run outs(2) by auto
    qed
  next
    case False
    then show ?thesis using Cons by (auto simp: x)
  qed
qed simp

lemma replication_targets_Inr:
  assumes "replication_targets shard addresses = Inr targets"
  shows "targets \<noteq> [] \<and> fst (targets ! 0) = sh_primary_node_id shard
       \<and> (\<forall>t\<in>set targets. fst t \<in> set (target_nodes shard) \<and> addresses (fst t) = Some (snd t))
       \<and> length targets \<le> Suc (length (sh_replica_node_ids shard))"
  using assms
  by (auto simp: replication_targets_def target_nodes_def List.map_filter_def split: option.splits)

lemma fan_out_cases:
  assumes "fan_out E C N sched shard statements write_id quorum_size atomic (retries, s)
             = (res, retries', s')"
  obtains
    (no_targets) e where "r_bind (node_address_map E C) (replication_targets shard) = Inl e"
      "res = Inl e" "retries' = retries" "s' = s"
  | (refused) targets outs fi e where
      "r_bind (node_address_map E C) (replication_targets shard) = Inr targets"
      "run_tasks N (fan_out_batch shard statements write_id atomic) targets sched s = (outs, s')"
      "fi = fan_in_of (sh_primary_node_id shard) (length statements) (handles_of targets outs)"
      "quorum_verdict shard quorum_size fi = Inl e" "res = Inl e" "retries' = retries"
  | (accepted) targets outs fi rows where
      "r_bind (node_address_map E C) (replication_targets shard) = Inr targets"
      "run_tasks N (fan_out_batch shard statements write_id atomic) targets sched s = (outs, s')"
      "fi = fan_in_of (sh_primary_node_id shard) (length statements) (handles_of targets outs)"
      "quorum_verdict shard quorum_size fi = Inr rows" "res = Inr rows"
      "retries' = enqueue_retries (fi_lagging_nodes fi)
         (fan_out_batch shard statements write_id atomic) retries"
proof (cases "r_bind (node_address_map E C) (replication_targets shard)")
  case (Inl e)
  then show ?thesis using assms no_targets by (simp add: fan_out_def)
next
  case (Inr targets)
  let ?b = "fan_out_batch shard statements write_id atomic"
  obtain outs s1 where run: "run_tasks N ?b targets sched s = (outs, s1)" by fastforce
  let ?fi = "fan_in_of (sh_primary_node_id shard) (length statements) (handles_of targets outs)"
  show ?thesis
  proof (cases "quorum_verdict shard quorum_size ?fi")
    case (Inl e)
    then have "res = Inl e" "retries' = retries" "s1 = s'"
      using assms Inr run by (simp_all add: fan_out_def Let_def)
    then show ?thesis using refused [OF Inr _ refl Inl] run by simp
  next
    case (Inr rows)
    then have "res = Inr rows" "retries' = enqueue_retries (fi_lagging_nodes ?fi) ?b retries" "s1 = s'"
      using assms \<open>r_bind _ _ = Inr targets\<close> run by (simp_all add: fan_out_def Let_def)
    then show ?thesis using accepted [OF \<open>r_bind _ _ = Inr targets\<close> _ refl Inr] run by simp
  qed
qed

lemma fan_out_queues_ok [wf_intros]:
  assumes "fan_out E C N sched shard statements write_id quorum_size atomic (retries, s)
             = (res, retries', s')" "queues_ok retries"
  shows "queues_ok retries'"
  using assms(1) by (cases rule: fan_out_cases) (auto intro: wf_intros assms(2))

section \<open>Conservation of retries\<close>

text \<open>The batches a node is still owed: those queued for it and those in flight to it.\<close>

definition owed :: "'w manager \<Rightarrow> string \<Rightarrow> write_batch multiset" where
  "owed m n =
     mset (map pr_batch (queue_of (mg_retries m) n))
   + mset (map pr_batch (filter (\<lambda>e. pr_node_id e = n) (mg_in_flight m)))"

definition manager_ok :: "'w manager \<Rightarrow> bool" where
  "manager_ok m \<longleftrightarrow> queues_ok (mg_retries m)"

lemma next_attempt_simps [simp]:
  "pr_node_id (next_attempt e) = pr_node_id e" "pr_batch (next_attempt e) = pr_batch e"
  "pr_node_address (next_attempt e) = pr_node_address e"
  by (simp_all add: next_attempt_def)

lemma retry_round_other:
  "retry_round E C ids retries = (out, retries') \<Longrightarrow> n \<notin> set ids \<Longrightarrow> queue_of retries' n = queue_of retries n"
  by (induction ids arbitrary: retries out) (auto split: if_splits option.splits list.splits prod.splits)

lemma queues_ok_pop:
  assumes "queues_ok retries" "retries i = Some (e # q)"
  shows "queues_ok (retries(i \<mapsto> q)) \<and> pr_node_id e = i"
proof -
  have "queue_of retries i = e # q" using assms(2) by (simp add: queue_of_def)
  then have "length (e # q) \<le> MAX_PENDING_RETRIES \<and> list_all (\<lambda>e. pr_node_id e = i) (e # q)"
    using assms(1) unfolding queues_ok_def by metis
  then show ?thesis using assms(1) by (auto simp: queues_ok_def)
qed

lemma retry_round_cases:
  assumes "retry_round E C (i # ids) retries = (out, retries')"
  obtains (pop) e q o2 where "\<not> node_is_dead E C i" "retries i = Some (e # q)"
      "retry_round E C ids (retries(i \<mapsto> q)) = (o2, retries')" "out = e # o2"
  | (skip) "retry_round E C ids retries = (out, retries')"
      "\<not> node_is_dead E C i \<Longrightarrow> queue_of retries i = []"
  using assms
  by (auto simp: queue_of_def split: if_splits option.splits list.splits prod.splits)

lemma retry_round_conserves:
  assumes "retry_round E C ids retries = (out, retries')" "queues_ok retries"
  shows "queues_ok retries'
     \<and> mset (map pr_batch (queue_of retries n))
       = mset (map pr_batch (queue_of retries' n)) + mset (map pr_batch (filter (\<lambda>e. pr_node_id e = n) out))"
  using assms
proof (induction ids arbitrary: retries out)
  case (Cons i ids)
  show ?case using Cons.prems(1)
  proof (cases rule: retry_round_cases)
    case (pop e q o2)
    have qi: "queue_of retries i = e # q" using pop(2) by (simp add: queue_of_def)
    note ok = queues_ok_pop [OF Cons.prems(2) pop(2)]
    show ?thesis
      using Cons.IH [OF pop(3) conjunct1 [OF ok], unfolded queue_of_upd] conjunct2 [OF ok] qi pop(4)
      by auto
  next
    case skip
    then show ?thesis using Cons.IH Cons.prems(2) by blast
  qed
qed auto

lemma owed_enqueue: "owed m n \<subseteq># owed (m\<lparr>mg_retries := enqueue_retries ls batch (mg_retries m), mg_comms := s\<rparr>) n"
  using enqueue_keeps [of ls batch "mg_retries m" n] by (auto simp: owed_def)

lemma resend_cases:
  assumes "resend N e (retries, s) = (retries', s')"
  obtains (delivered) rows where
      "send_write N (pr_node_address e) (pr_batch e) (pr_node_id e) s = (Inr rows, s')" "retries' = retries"
  | (again) err where
      "send_write N (pr_node_address e) (pr_batch e) (pr_node_id e) s = (Inl err, s')"
      "retries' = push_pending_retry e retries"
  using assms by (auto simp: resend_def split: prod.splits sum.splits)

lemma manager_step_ok:
  assumes "manager_step E N m m'" "manager_ok m"
  shows "manager_ok m'"
  using assms
proof (induction rule: manager_step.induct)
  case (m_resend m before entry after retries s)
  show ?case using m_resend(2)
    by (cases rule: resend_cases) (use m_resend(3) in \<open>auto simp: manager_ok_def intro: wf_intros\<close>)
qed (auto simp: manager_ok_def intro: wf_intros dest: retry_round_conserves)

lemma manager_reachable_ok: "manager_reachable E N m \<Longrightarrow> manager_ok m"
  by (induction rule: manager_reachable.induct)
    (simp add: manager_new_def manager_ok_def queues_ok_def, rule manager_step_ok)

lemma owed_step:
  assumes "manager_step E N m m'" "manager_ok m"
  shows "owed m n \<subseteq># owed m' n
     \<or> (\<exists>e\<in>set (mg_in_flight m). pr_node_id e = n \<and> owed m n = add_mset (pr_batch e) (owed m' n)
          \<and> (acked (Some (fst (send_write N (pr_node_address e) (pr_batch e) n (mg_comms m))))
             \<or> MAX_PENDING_RETRIES \<le> length (queue_of (mg_retries m) n)))"
  using assms
proof (induction rule: manager_step.induct)
  case (m_write C sched shard statements write_id quorum_size atomic m res retries s)
  show ?case using m_write(1)
    by (cases rule: fan_out_cases) (use owed_enqueue in \<open>auto simp: owed_def\<close>)
next
  case (m_round node_ids m C to_retry retries)
  have "owed m n = owed (m\<lparr>mg_retries := retries,
      mg_in_flight := mg_in_flight m @ map next_attempt to_retry\<rparr>) n"
    using retry_round_conserves [OF m_round(3) m_round(4) [unfolded manager_ok_def], of n]
    by (simp add: owed_def filter_map comp_def)
  then show ?case by simp
next
  case (m_resend m before entry after retries s)
  show ?case using m_resend(2)
  proof (cases rule: resend_cases)
    case (delivered rows)
    then show ?thesis
      by (cases "pr_node_id entry = n") (auto simp: owed_def m_resend(1))
  next
    case (again err)
    then show ?thesis
      by (cases "pr_node_id entry = n") (auto simp: owed_def m_resend(1) queue_of_push)
  qed
qed (auto simp: owed_def)

section \<open>Backoff\<close>

lemma compute_backoff_bounds:
  assumes "rc_initial_retry_ms c \<le> rc_max_retry_ms c" "rc_initial_retry_ms c \<le> u64_max"
  shows "rc_initial_retry_ms c \<le> compute_backoff a c" "compute_backoff a c \<le> rc_max_retry_ms c"
  using assms by (auto simp: compute_backoff_def saturating_mul_def)

lemma compute_backoff_mono: "a \<le> b \<Longrightarrow> compute_backoff a c \<le> compute_backoff b c"
proof -
  assume "a \<le> b"
  then have "(2::nat) ^ min a 10 \<le> 2 ^ min b 10" by (intro power_increasing) auto
  then show ?thesis
    unfolding compute_backoff_def saturating_mul_def
    by (intro min.mono mult_le_mono order_refl)
qed

section \<open>Draining a queue\<close>

definition retry_cycle ::
  "('t, 'b) env \<Rightarrow> 't catalog \<Rightarrow> 'w network \<Rightarrow> string list \<Rightarrow> retry_queues \<times> 'w comms
     \<Rightarrow> retry_queues \<times> 'w comms" where
  "retry_cycle E C N node_ids rs =
     (case retry_round E C node_ids (fst rs) of
        (to_retry, retries) \<Rightarrow> fold (resend N) (map next_attempt to_retry) (retries, snd rs))"

lemma retry_round_live:
  assumes "retry_round E C ids retries = (out, retries')" "queues_ok retries"
    and "distinct ids" "n \<in> set ids" "\<not> node_is_dead E C n"
  shows "queue_of retries' n = tl (queue_of retries n)"
  using assms
proof (induction ids arbitrary: retries out)
  case (Cons i ids)
  show ?case using Cons.prems(1)
  proof (cases rule: retry_round_cases)
    case (pop e q o2)
    have qi: "queue_of retries i = e # q" using pop(2) by (simp add: queue_of_def)
    note ok = conjunct1 [OF queues_ok_pop [OF Cons.prems(2) pop(2)]]
    show ?thesis
      using retry_round_other [OF pop(3), of n] Cons.IH [OF pop(3) ok] Cons.prems(3-5) qi
      by (cases "n = i") (simp_all del: fun_upd_apply)
  next
    case skip
    then show ?thesis
      using retry_round_other [OF skip(1), of n] Cons.IH [OF skip(1) Cons.prems(2)] Cons.prems(3-5)
      by (cases "n = i") simp_all
  qed
qed simp

lemma resend_keeps:
  assumes "I s" and "\<And>s a b i. I s \<Longrightarrow> I (snd (send_write N a b i s))"
    and "\<And>s (e :: pending_retry). I s \<Longrightarrow> pr_node_id e = n
           \<Longrightarrow> acked (Some (fst (send_write N (pr_node_address e) (pr_batch e) n s)))"
  shows "I (snd (resend N e (retries, s)))
       \<and> queue_of (fst (resend N e (retries, s))) n = queue_of retries n
       \<and> (queues_ok retries \<longrightarrow> queues_ok (fst (resend N e (retries, s))))"
proof -
  obtain out s' where send: "send_write N (pr_node_address e) (pr_batch e) (pr_node_id e) s = (out, s')"
    by fastforce
  have "I s'" using assms(2) [OF assms(1), of "pr_node_address e" "pr_batch e" "pr_node_id e"] send by simp
  then show ?thesis
    using assms(3) [OF assms(1), of e] send
    by (cases out) (auto simp: resend_def queue_of_push intro: wf_intros)
qed

lemma fold_resend_keeps:
  assumes "I s" and step: "\<And>s a b i. I s \<Longrightarrow> I (snd (send_write N a b i s))"
    and acks: "\<And>s (e :: pending_retry). I s \<Longrightarrow> pr_node_id e = n
           \<Longrightarrow> acked (Some (fst (send_write N (pr_node_address e) (pr_batch e) n s)))"
    and "queues_ok retries"
  shows "I (snd (fold (resend N) es (retries, s)))
       \<and> queue_of (fst (fold (resend N) es (retries, s))) n = queue_of retries n
       \<and> queues_ok (fst (fold (resend N) es (retries, s)))"
  using assms(1,4)
proof (induction es arbitrary: retries s)
  case (Cons e es)
  obtain r1 s1 where one: "resend N e (retries, s) = (r1, s1)" by fastforce
  then have "I s1" "queue_of r1 n = queue_of retries n" "queues_ok r1"
    using resend_keeps [of I s N n e retries, OF Cons.prems(1) step acks] Cons.prems(2) by auto
  then show ?case using Cons.IH [of s1 r1] one by simp
qed simp

lemma retry_cycle_drains:
  assumes "I (snd rs)" and "\<And>s a b i. I s \<Longrightarrow> I (snd (send_write N a b i s))"
    and "\<And>s (e :: pending_retry). I s \<Longrightarrow> pr_node_id e = n
           \<Longrightarrow> acked (Some (fst (send_write N (pr_node_address e) (pr_batch e) n s)))"
    and "queues_ok (fst rs)" "distinct ids" "n \<in> set ids" "\<not> node_is_dead E C n"
  shows "I (snd ((retry_cycle E C N ids ^^ k) rs))
       \<and> queue_of (fst ((retry_cycle E C N ids ^^ k) rs)) n = drop k (queue_of (fst rs) n)
       \<and> queues_ok (fst ((retry_cycle E C N ids ^^ k) rs))"
proof (induction k)
  case (Suc k)
  let ?rs = "(retry_cycle E C N ids ^^ k) rs"
  obtain out r1 where round: "retry_round E C ids (fst ?rs) = (out, r1)" by fastforce
  have ok: "queues_ok r1" using retry_round_conserves [OF round] Suc.IH by blast
  have q: "queue_of r1 n = drop (Suc k) (queue_of (fst rs) n)"
    using retry_round_live [OF round _ assms(5-7)] Suc.IH by (simp add: drop_Suc drop_tl)
  show ?case
    using fold_resend_keeps [of I "snd ?rs" N n r1 "map next_attempt out", OF _ assms(2,3) ok] Suc.IH q
    by (simp add: retry_cycle_def [of E C N ids ?rs] round)
qed (use assms in simp)

end
