(* ===== verification/Placement.thy ===== *)
theory Placement
  imports Catalog
begin

text \<open>
  What the shard operations of the catalog guarantee: the placement computed by
  \<open>assign_shards_round_robin\<close>, the records \<open>shards_for_table\<close> returns after they were
  stored, and the frame of \<open>delete_shards_for_table\<close>.
\<close>

section \<open>Replica placement\<close>

lemma mod_shift_inj:
  assumes "a < n" "b < n" "(p + a) mod n = (p + b) mod (n :: nat)"
  shows "a = b"
proof -
  have le: "x = y" if "x \<le> y" "y < n" "(p + x) mod n = (p + y) mod n" for x y
  proof -
    have "n dvd (p + y) - (p + x)"
      using that by (subst mod_eq_dvd_iff_nat [symmetric]) auto
    then show ?thesis using that by (auto dest: dvd_imp_le)
  qed
  show ?thesis
    using le [of a b] le [of b a] assms by (cases "a \<le> b") auto
qed

lemma replica_indices_distinct:
  assumes "p < n" "rf \<le> n"
  shows "distinct (replica_indices n rf p)"
    and "p \<notin> set (replica_indices n rf p)"
    and "set (replica_indices n rf p) \<subseteq> {..<n}"
    and "length (replica_indices n rf p) = rf - 1"
proof -
  have "(p + r) mod n \<noteq> p" if "1 \<le> r" "r < rf" for r
    using mod_shift_inj [of r n 0 p] that assms by auto
  then have all: "replica_indices n rf p = map (\<lambda>r. (p + r) mod n) [1..<rf]"
    by (simp add: replica_indices_def)
  have "inj_on (\<lambda>r. (p + r) mod n) (set [1..<rf])"
    using assms by (auto intro!: inj_onI mod_shift_inj [of _ n _ p])
  then show "distinct (replica_indices n rf p)" by (simp add: all distinct_map)
  show "p \<notin> set (replica_indices n rf p)" by (simp add: replica_indices_def)
  show "set (replica_indices n rf p) \<subseteq> {..<n}" using assms by (auto simp: all)
  show "length (replica_indices n rf p) = rf - 1" by (simp add: all)
qed

definition placement_ok :: "string list \<Rightarrow> nat \<Rightarrow> shard_meta \<Rightarrow> bool" where
  "placement_ok ids rf s \<longleftrightarrow>
     distinct (sh_primary_node_id s # sh_replica_node_ids s)
   \<and> set (sh_primary_node_id s # sh_replica_node_ids s) \<subseteq> set ids
   \<and> length (sh_primary_node_id s # sh_replica_node_ids s) = rf"

lemma round_robin_shard_ok:
  assumes "distinct (map nm_node_id alive)" "alive \<noteq> []" "1 \<le> rf" "rf \<le> length alive"
  shows "placement_ok (map nm_node_id alive) rf (round_robin_shard alive t rf i)"
proof -
  let ?n = "length alive" and ?p = "i mod length alive"
  have p: "?p < ?n" using assms(2) by simp
  note idx = replica_indices_distinct [OF p assms(4)]
  have inj: "inj_on (\<lambda>j. nm_node_id (alive ! j)) {..<?n}"
    using nth_eq_iff_index_eq [OF assms(1)] by (auto intro!: inj_onI)
  have sub: "set (?p # replica_indices ?n rf ?p) \<subseteq> {..<?n}" using idx(3) p by simp
  have "distinct (?p # replica_indices ?n rf ?p)" using idx(1,2) by simp
  then have "distinct (map (\<lambda>j. nm_node_id (alive ! j)) (?p # replica_indices ?n rf ?p))"
    unfolding distinct_map using inj_on_subset [OF inj sub] by (rule conjI)
  moreover have "set (map (\<lambda>j. nm_node_id (alive ! j)) (?p # replica_indices ?n rf ?p))
      \<subseteq> set (map nm_node_id alive)"
    using idx(3) p by auto
  ultimately show ?thesis
    using idx(4) assms(3) by (simp add: placement_ok_def round_robin_shard_def Let_def)
qed

lemma round_robin_shard_fields [simp]:
  "sh_shard_id (round_robin_shard alive t rf i) = logical_shard_id i"
  "sh_table_name (round_robin_shard alive t rf i) = t"
  "sh_hash_bucket (round_robin_shard alive t rf i) = i"
  "sh_primary_node_id (round_robin_shard alive t rf i) = nm_node_id (alive ! (i mod length alive))"
  by (simp_all add: round_robin_shard_def Let_def)

lemma assign_shards_Inr:
  assumes "assign_shards_round_robin E C t n rf = Inr shards"
  obtains alive where "list_alive_nodes E C = Inr alive" "alive \<noteq> []"
    "shards = map (round_robin_shard alive t rf) [0..<n]"
  using assms by (auto simp: assign_shards_round_robin_def r_bind_eq_Inr split: if_splits)

text \<open>Primaries are balanced: two nodes differ by one shard at most.\<close>

lemma residue_count:
  assumes "j < m"
  shows "length (filter (\<lambda>i. i mod m = j) [0..<n]) = n div m + (if j < n mod m then 1 else (0 :: nat))"
proof (induction n)
  case (Suc n)
  have "n mod m < m" using assms by simp
  then have "Suc n div m + (if j < Suc n mod m then 1 else 0)
      = n div m + (if j < n mod m then 1 else 0) + (if n mod m = j then 1 else (0 :: nat))"
    using assms by (auto simp: mod_Suc div_Suc)
  then show ?case using Suc by simp
qed simp

section \<open>Stored shards are read back in bucket order\<close>

lemma shards_of_put_shards:
  assumes "env_ok E" "distinct (map shard_key_of xs)"
  shows "shards_of E (fold (put_shard E) xs C)
           = shards_of E C ++ map_of (map (\<lambda>s. (shard_key_of s, s)) xs)"
  using assms(2)
proof (induction xs arbitrary: C)
  case (Cons x xs)
  have "shard_key_of x \<notin> dom (map_of (map (\<lambda>s. (shard_key_of s, s)) xs))"
    using Cons.prems by (auto simp: dom_map_of_conv_image_fst)
  moreover have "shards_of E (put_shard E x C) = (shards_of E C)(shard_key_of x \<mapsto> x)"
    using assms(1) by (simp add: put_shard_def store_map_put)
  ultimately show ?case using Cons by (auto simp: fun_eq_iff map_add_def split: option.splits)
qed simp

lemma catalog_ok_put_shards:
  "env_ok E \<Longrightarrow> catalog_ok E C \<Longrightarrow> catalog_ok E (fold (put_shard E) xs C)"
  by (induction xs arbitrary: C) (auto intro: wf_intros)

definition shard_range :: "string \<Rightarrow> string \<Rightarrow> bool" where
  "shard_range t k \<longleftrightarrow> in_range (t @ '':'') (t @ '';'' @ [CHR 0x00]) k"

lemma shard_range_key:
  "colon_free t \<Longrightarrow> colon_free (sh_table_name s) \<Longrightarrow> shard_range t (shard_key_of s) \<longleftrightarrow> sh_table_name s = t"
  unfolding shard_range_def shard_key_of_def by (rule in_prefix_range_key)

lemma shards_for_table_list:
  assumes "env_ok E" "catalog_ok E C"
  shows "shards_for_table E C t =
    Inr (sort_key sh_hash_bucket (filter (\<lambda>s. shard_range t (shard_key_of s))
           (store_list (en_redb E) (en_shard E) (ct_shards C))))"
  using scan_prefix_list [OF env_okD(1) [OF assms(1)] catalog_okD(4) [OF assms(2)], of t]
  by (simp add: shards_for_table_def shard_range_def)

lemma shards_for_table_set:
  assumes "env_ok E" "catalog_ok E C" "shards_for_table E C t = Inr xs"
  shows "s \<in> set xs \<longleftrightarrow> shards_of E C (shard_key_of s) = Some s \<and> shard_range t (shard_key_of s)"
    and "sorted (map sh_hash_bucket xs)" and "distinct xs"
proof -
  let ?l = "store_list (en_redb E) (en_shard E) (ct_shards C)"
  have xs: "xs = sort_key sh_hash_bucket (filter (\<lambda>s. shard_range t (shard_key_of s)) ?l)"
    using assms(3) by (simp add: shards_for_table_list [OF assms(1,2)])
  show "s \<in> set xs \<longleftrightarrow> shards_of E C (shard_key_of s) = Some s \<and> shard_range t (shard_key_of s)"
    using set_store_list [OF env_okD(1) [OF assms(1)] catalog_okD(4) [OF assms(2)], of s]
    by (auto simp: xs)
  show "sorted (map sh_hash_bucket xs)" by (simp add: xs)
  show "distinct xs"
    using store_list_distinct [OF env_okD(1) [OF assms(1)] catalog_okD(4) [OF assms(2)]]
    by (simp add: xs distinct_map)
qed

lemma shards_for_table_stored:
  assumes "env_ok E" "catalog_ok E C" "colon_free t"
    and "\<forall>k. shard_range t k \<longrightarrow> shards_of E C k = None"
    and xs: "xs = map (round_robin_shard alive t rf) [0..<n]"
  shows "shards_for_table E (fold (put_shard E) xs C) t = Inr xs"
proof -
  let ?C = "fold (put_shard E) xs C"
  have keys: "distinct (map shard_key_of xs)"
    by (simp add: xs distinct_map inj_on_def shard_key_of_def)
  have ok: "catalog_ok E ?C" using assms(1,2) by (rule catalog_ok_put_shards)
  obtain ys where ys: "shards_for_table E ?C t = Inr ys"
    using shards_for_table_list [OF assms(1) ok] by simp
  note spec = shards_for_table_set [OF assms(1) ok ys]
  have "s \<in> set ys \<longleftrightarrow> s \<in> set xs" for s
  proof
    assume "s \<in> set ys"
    then have "map_of (map (\<lambda>s. (shard_key_of s, s)) xs) (shard_key_of s) = Some s"
      using spec(1) assms(4) by (auto simp: shards_of_put_shards [OF assms(1) keys] map_add_Some_iff)
    then show "s \<in> set xs" by (auto dest: map_of_SomeD)
  next
    assume s: "s \<in> set xs"
    then have "map_of (map (\<lambda>s. (shard_key_of s, s)) xs) (shard_key_of s) = Some s"
      using keys by (intro map_of_is_SomeI) (auto simp: comp_def)
    moreover have "shard_range t (shard_key_of s)"
      using s assms(3) by (auto simp: xs shard_range_key)
    ultimately show "s \<in> set ys"
      using spec(1) by (simp add: shards_of_put_shards [OF assms(1) keys] map_add_Some_iff)
  qed
  then have same: "set ys = set xs" by auto
  have dxs: "map sh_hash_bucket xs = [0..<n]" by (simp add: xs comp_def)
  have inj: "inj_on sh_hash_bucket (set xs)"
    by (auto simp: xs inj_on_def)
  have "ys = xs"
    using spec(2,3) same dxs inj
    by (intro map_sorted_distinct_set_unique [of sh_hash_bucket]) (auto simp: distinct_map)
  then show ?thesis using ys by simp
qed

section \<open>Dropping a table's shards\<close>

lemma delete_shards_of:
  assumes "env_ok E"
  shows "shards_of E (delete_shards_for_table E t C) k
           = (if shard_range t k then None else shards_of E C k)"
  by (simp add: delete_shards_for_table_def store_map_delete_prefix [OF env_okD(1) [OF assms]]
      shard_range_def)

end
