(* ===== verification/Reference_Env.thy ===== *)
theory Reference_Env
  imports Placement
begin

text \<open>
  An environment that satisfies \<open>env_ok\<close>: a table is a log of key/value pairs, newest
  first, and its content is the sorted association list the log normalises to. It shows
  that the hypotheses on redb and prost can hold, and it is the concrete environment the
  witnesses evaluate.
\<close>

datatype stored =
  StTable table_meta
| StView view_meta
| StSchema schema_meta
| StShard shard_meta
| StNode node_meta
| StSecret anonymization_secret

fun alist_ins :: "string \<Rightarrow> 'v \<Rightarrow> (string \<times> 'v) list \<Rightarrow> (string \<times> 'v) list" where
  "alist_ins k v [] = [(k, v)]"
| "alist_ins k v ((k', v') # xs) =
     (if k < k' then (k, v) # (k', v') # xs
      else if k = k' then (k, v) # xs
      else (k', v') # alist_ins k v xs)"

fun alist_norm :: "(string \<times> 'v) list \<Rightarrow> (string \<times> 'v) list" where
  "alist_norm [] = []"
| "alist_norm ((k, v) # xs) = alist_ins k v (alist_norm xs)"

definition log_redb :: "((string \<times> 'v) list, 'v) redb" where
  "log_redb =
    \<lparr>rd_empty = [],
     rd_get = (\<lambda>t k. map_of t k),
     rd_insert = (\<lambda>k v t. (k, v) # t),
     rd_remove = (\<lambda>k t. filter (\<lambda>(k', _). k' \<noteq> k) (alist_norm t)),
     rd_iter = alist_norm,
     rd_range = (\<lambda>lo hi t. filter (\<lambda>(k, _). in_range lo hi k) (alist_norm t)),
     rd_retain_in = (\<lambda>lo hi f t. filter (\<lambda>(k, v). in_range lo hi k \<longrightarrow> f k v) (alist_norm t))\<rparr>"

definition wrong_message :: string where
  "wrong_message = ''invalid wire type''"

definition ref_env :: "((string \<times> stored) list, stored) env" where
  "ref_env =
    \<lparr>en_redb = log_redb,
     en_table = \<lparr>cd_encode = StTable,
       cd_decode = (\<lambda>b. case b of StTable m \<Rightarrow> Inr m | _ \<Rightarrow> Inl wrong_message)\<rparr>,
     en_view = \<lparr>cd_encode = StView,
       cd_decode = (\<lambda>b. case b of StView m \<Rightarrow> Inr m | _ \<Rightarrow> Inl wrong_message)\<rparr>,
     en_schema = \<lparr>cd_encode = StSchema,
       cd_decode = (\<lambda>b. case b of StSchema m \<Rightarrow> Inr m | _ \<Rightarrow> Inl wrong_message)\<rparr>,
     en_shard = \<lparr>cd_encode = StShard,
       cd_decode = (\<lambda>b. case b of StShard m \<Rightarrow> Inr m | _ \<Rightarrow> Inl wrong_message)\<rparr>,
     en_node = \<lparr>cd_encode = StNode,
       cd_decode = (\<lambda>b. case b of StNode m \<Rightarrow> Inr m | _ \<Rightarrow> Inl wrong_message)\<rparr>,
     en_secret = \<lparr>cd_encode = StSecret,
       cd_decode = (\<lambda>b. case b of StSecret m \<Rightarrow> Inr m | _ \<Rightarrow> Inl wrong_message)\<rparr>\<rparr>"

lemma fst_alist_ins: "fst ` set (alist_ins k v xs) = insert k (fst ` set xs)"
  by (induction xs rule: alist_ins.induct [of _ k v]) auto

lemma alist_ins_sorted:
  "sorted_wrt (<) (map fst xs) \<Longrightarrow> sorted_wrt (<) (map fst (alist_ins k v xs))"
proof (induction k v xs rule: alist_ins.induct)
  case (2 k v k' v' xs)
  have "\<forall>x\<in>fst ` set (alist_ins k v xs). k' < x" if "k' < k"
    using that 2 by (auto simp: fst_alist_ins)
  then show ?case using 2 by (auto simp: not_less_iff_gr_or_eq)
qed simp

lemma map_of_alist_ins:
  "sorted_wrt (<) (map fst xs) \<Longrightarrow> map_of (alist_ins k v xs) = (map_of xs)(k \<mapsto> v)"
  by (induction k v xs rule: alist_ins.induct) (auto simp: fun_eq_iff)

lemma alist_norm_sorted: "sorted_wrt (<) (map fst (alist_norm t))"
  by (induction t rule: alist_norm.induct) (auto intro: alist_ins_sorted)

lemma map_of_alist_norm: "map_of (alist_norm t) = map_of t"
  by (induction t rule: alist_norm.induct) (auto simp: map_of_alist_ins alist_norm_sorted)

lemma alist_ins_front:
  "\<forall>x\<in>fst ` set xs. k < x \<Longrightarrow> alist_ins k v xs = (k, v) # xs"
  by (cases xs) auto

lemma alist_norm_id: "sorted_wrt (<) (map fst t) \<Longrightarrow> alist_norm t = t"
  by (induction t rule: alist_norm.induct) (auto intro!: alist_ins_front)

lemma sorted_fst_filter: "sorted_wrt (<) (map fst xs) \<Longrightarrow> sorted_wrt (<) (map fst (filter P xs))"
  by (induction xs) auto

lemma alist_norm_filter: "alist_norm (filter P (alist_norm t)) = filter P (alist_norm t)"
  by (intro alist_norm_id sorted_fst_filter alist_norm_sorted)

lemma log_redb_ok: "redb_ok log_redb"
  by (simp add: redb_ok_def log_redb_def alist_norm_sorted map_of_alist_norm map_of_alist_ins
      alist_norm_filter)

lemma ref_env_ok: "env_ok ref_env"
  by (simp add: env_ok_def ref_env_def log_redb_ok codec_ok_def)

end
