(* ===== verification/Membership.thy ===== *)
theory Membership
  imports Placement Config
begin

text \<open>
  Node membership: \<open>crates/vairedb-coordinator/src/node_service/node_service.rs\<close> (the gRPC
  handlers a core node calls) and \<open>failure_detector.rs\<close> (the periodic scan that demotes
  silent nodes). The wall clock is an argument of each handler: seconds since the epoch, a
  \<open>u64\<close>, so the casts between \<open>u64\<close> and the \<open>i64\<close> seconds of a timestamp are written out.

  \<open>membership_step\<close> interleaves the handlers and the scans of one coordinator. The two halves
  of \<open>modify_node\<close>, a read transaction and a write transaction, are also steps of their own,
  because two of them can interleave.
\<close>

section \<open>Handlers\<close>

record register_request =
  rr_node_id :: string
  rr_advertised_address :: string

definition now_timestamp :: "nat \<Rightarrow> int \<Rightarrow> timestamp" where
  "now_timestamp secs nanos = \<lparr>ts_seconds = as_i64 secs, ts_nanos = nanos\<rparr>"

definition register_node ::
  "('t, 'b) env \<Rightarrow> timestamp \<Rightarrow> register_request \<Rightarrow> 't catalog \<Rightarrow> 't catalog" where
  "register_node E now req C =
     put_node E \<lparr>nm_node_id = rr_node_id req,
                 nm_advertised_address = rr_advertised_address req,
                 nm_state = node_state_i32 Alive,
                 nm_last_heartbeat = Some now,
                 nm_registered_at = Some now\<rparr> C"

datatype heartbeat_action = ActNone | ActRegister

definition heartbeat_message ::
  "('t, 'b) env \<Rightarrow> nat \<Rightarrow> string \<Rightarrow> 't catalog \<Rightarrow> heartbeat_action \<times> 't catalog" where
  "heartbeat_message E now_secs node_id C =
     (case update_node_heartbeat E (as_i64 now_secs) node_id C of
        Inr C' \<Rightarrow> (ActNone, C')
      | Inl (NodeNotFound _) \<Rightarrow> (ActRegister, C)
      | Inl _ \<Rightarrow> (ActNone, C))"

definition report_failure :: "('t, 'b) env \<Rightarrow> string \<Rightarrow> 't catalog \<Rightarrow> 't catalog" where
  "report_failure E node_id C =
     (case update_node_state E node_id Suspect C of Inr C' \<Rightarrow> C' | Inl _ \<Rightarrow> C)"

section \<open>The failure detector\<close>

record failure_detector =
  fd_dead_after_secs :: nat
  fd_suspect_after_secs :: nat
  fd_check_interval :: nat

definition failure_detector_new :: "nat \<Rightarrow> failure_detector" where
  "failure_detector_new heartbeat_timeout_secs =
     (let third = max (heartbeat_timeout_secs div 3) 1 in
      \<lparr>fd_dead_after_secs = heartbeat_timeout_secs,
       fd_suspect_after_secs = third,
       fd_check_interval = third\<rparr>)"

definition last_heartbeat_secs :: "node_meta \<Rightarrow> nat" where
  "last_heartbeat_secs node =
     (case nm_last_heartbeat node of Some ts \<Rightarrow> as_u64 (ts_seconds ts) | None \<Rightarrow> 0)"

fun check_loop ::
  "('t, 'b) env \<Rightarrow> failure_detector \<Rightarrow> nat \<Rightarrow> node_meta list \<Rightarrow> 't catalog
     \<Rightarrow> (coordinator_error, unit) result \<times> 't catalog" where
  "check_loop E d now [] C = (Inr (), C)"
| "check_loop E d now (node # nodes) C =
     (if nm_state node = node_state_i32 Dead then check_loop E d now nodes C
      else
        (let elapsed = now - last_heartbeat_secs node in
         if elapsed \<ge> fd_dead_after_secs d then
           (case update_node_state E (nm_node_id node) Dead C of
              Inl e \<Rightarrow> (Inl e, C)
            | Inr C' \<Rightarrow> check_loop E d now nodes C')
         else if elapsed \<ge> fd_suspect_after_secs d \<and> nm_state node = node_state_i32 Alive then
           (case update_node_state E (nm_node_id node) Suspect C of
              Inl e \<Rightarrow> (Inl e, C)
            | Inr C' \<Rightarrow> check_loop E d now nodes C')
         else check_loop E d now nodes C))"

definition check_nodes ::
  "('t, 'b) env \<Rightarrow> failure_detector \<Rightarrow> nat \<Rightarrow> 't catalog
     \<Rightarrow> (coordinator_error, unit) result \<times> 't catalog" where
  "check_nodes E d now C =
     (case list_all_nodes E C of
        Inl e \<Rightarrow> (Inl e, C)
      | Inr nodes \<Rightarrow> check_loop E d now nodes C)"

section \<open>The coordinator's membership as a state machine\<close>

inductive membership_step :: "('t, 'b) env \<Rightarrow> failure_detector \<Rightarrow> 't catalog \<Rightarrow> 't catalog \<Rightarrow> bool"
  for E d where
  ms_register: "membership_step E d C (register_node E now req C)"
| ms_heartbeat: "membership_step E d C (snd (heartbeat_message E now i C))"
| ms_report: "membership_step E d C (report_failure E i C)"
| ms_scan: "membership_step E d C (snd (check_nodes E d now C))"

section \<open>What one scan decides\<close>

definition verdict :: "failure_detector \<Rightarrow> nat \<Rightarrow> node_meta \<Rightarrow> node_meta" where
  "verdict d now node =
     (let elapsed = now - last_heartbeat_secs node in
      if nm_state node = node_state_i32 Dead then node
      else if elapsed \<ge> fd_dead_after_secs d then node\<lparr>nm_state := node_state_i32 Dead\<rparr>
      else if elapsed \<ge> fd_suspect_after_secs d \<and> nm_state node = node_state_i32 Alive
      then node\<lparr>nm_state := node_state_i32 Suspect\<rparr>
      else node)"

lemma nodes_of_put_node:
  "env_ok E \<Longrightarrow> nodes_of E (put_node E n C) = (nodes_of E C)(nm_node_id n \<mapsto> n)"
  by (simp add: put_node_def store_map_put)

lemma nodes_of_key: "env_ok E \<Longrightarrow> catalog_ok E C \<Longrightarrow> nodes_of E C k = Some n \<Longrightarrow> nm_node_id n = k"
  by (rule store_ok_map [OF env_okD(1) catalog_okD(5)])

lemma modify_node_Some:
  assumes "env_ok E" "catalog_ok E C" "nodes_of E C i = Some n"
  shows "modify_node E i f C = Inr (put_node E (f n) C)"
  using assms by (simp add: modify_node_def modify_node_write_def catalog_get)

lemma modify_node_None:
  assumes "env_ok E" "catalog_ok E C" "nodes_of E C i = None"
  shows "modify_node E i f C = Inl (NodeNotFound i)"
  using assms by (simp add: modify_node_def modify_node_write_def catalog_get)

lemma verdict_id [simp]: "nm_node_id (verdict d now n) = nm_node_id n"
  by (simp add: verdict_def Let_def)

lemma verdict_put:
  assumes "env_ok E" "catalog_ok E C" "nodes_of E C (nm_node_id n) = Some n"
  shows "check_loop E d now (n # ns) C = check_loop E d now ns C \<and> verdict d now n = n
       \<or> check_loop E d now (n # ns) C = check_loop E d now ns (put_node E (verdict d now n) C)"
  using modify_node_Some [OF assms]
  by (auto simp: verdict_def Let_def update_node_state_def)

declare check_loop.simps(2) [simp del]

lemma check_loop_spec:
  assumes "env_ok E" "catalog_ok E C" "distinct (map nm_node_id ns)"
    and "\<forall>n\<in>set ns. nodes_of E C (nm_node_id n) = Some n"
    and "check_loop E d now ns C = (res, C')"
  shows "res = Inr () \<and> catalog_ok E C'
       \<and> (\<forall>k. nodes_of E C' k =
            (if k \<in> nm_node_id ` set ns then map_option (verdict d now) (nodes_of E C k)
             else nodes_of E C k))"
  using assms(2-)
proof (induction ns arbitrary: C)
  case Nil
  then show ?case by simp
next
  case (Cons n ns)
  let ?v = "verdict d now n"
  have n: "nodes_of E C (nm_node_id n) = Some n" using Cons.prems(3) by simp
  consider (same) "check_loop E d now (n # ns) C = check_loop E d now ns C" "?v = n"
    | (put) "check_loop E d now (n # ns) C = check_loop E d now ns (put_node E ?v C)"
    using verdict_put [OF assms(1) Cons.prems(1) n] by blast
  then show ?case
  proof cases
    case same
    have ih: "res = Inr () \<and> catalog_ok E C' \<and> (\<forall>k. nodes_of E C' k =
        (if k \<in> nm_node_id ` set ns then map_option (verdict d now) (nodes_of E C k)
         else nodes_of E C k))"
      using Cons.prems same by (intro Cons.IH) auto
    then show ?thesis using same(2) n by (simp add: image_iff)
  next
    case put
    have upd: "nodes_of E (put_node E ?v C) = (nodes_of E C)(nm_node_id n \<mapsto> ?v)"
      using assms(1) by (simp add: nodes_of_put_node)
    have ok: "catalog_ok E (put_node E ?v C)"
      using assms(1) Cons.prems(1) by (rule catalog_ok_put_node)
    have rest: "\<forall>m\<in>set ns. nodes_of E (put_node E ?v C) (nm_node_id m) = Some m"
    proof
      fix m
      assume m: "m \<in> set ns"
      then have "nm_node_id m \<in> nm_node_id ` set ns" by (rule imageI)
      then have "nm_node_id m \<noteq> nm_node_id n" using Cons.prems(2) by (metis distinct.simps(2) list.set_map list.simps(9))
      moreover have "nodes_of E C (nm_node_id m) = Some m" using Cons.prems(3) m by simp
      ultimately show "nodes_of E (put_node E ?v C) (nm_node_id m) = Some m" by (simp add: upd)
    qed
    have ih: "res = Inr () \<and> catalog_ok E C' \<and> (\<forall>k. nodes_of E C' k =
        (if k \<in> nm_node_id ` set ns then map_option (verdict d now) (nodes_of E (put_node E ?v C) k)
         else nodes_of E (put_node E ?v C) k))"
      using Cons.prems(2,4) put by (intro Cons.IH ok rest) auto
    moreover have "nm_node_id n \<notin> nm_node_id ` set ns" using Cons.prems(2) by simp
    ultimately show ?thesis using n by (simp add: upd image_iff)
  qed
qed

lemma check_nodes_spec:
  assumes "env_ok E" "catalog_ok E C"
  shows "fst (check_nodes E d now C) = Inr ()"
    and "catalog_ok E (snd (check_nodes E d now C))"
    and "nodes_of E (snd (check_nodes E d now C)) k = map_option (verdict d now) (nodes_of E C k)"
proof -
  let ?l = "store_list (en_redb E) (en_node E) (ct_nodes C)"
  note st = env_okD(1) [OF assms(1)] catalog_okD(5) [OF assms(2)]
  obtain res C' where loop: "check_loop E d now ?l C = (res, C')" by fastforce
  have "\<forall>n\<in>set ?l. nodes_of E C (nm_node_id n) = Some n" using set_store_list [OF st] by blast
  note spec = check_loop_spec [OF assms store_list_distinct [OF st] this loop]
  have cn: "check_nodes E d now C = (res, C')"
    using loop by (simp add: check_nodes_def catalog_list [OF assms(2)])
  show "fst (check_nodes E d now C) = Inr ()" "catalog_ok E (snd (check_nodes E d now C))"
    using spec cn by auto
  have "k \<in> nm_node_id ` set ?l \<or> nodes_of E C k = None"
  proof (cases "nodes_of E C k")
    case (Some n)
    then have "n \<in> set ?l" using set_store_list [OF st, of n] nodes_of_key [OF assms Some] by simp
    then show ?thesis using nodes_of_key [OF assms Some] by auto
  qed simp
  then show "nodes_of E (snd (check_nodes E d now C)) k = map_option (verdict d now) (nodes_of E C k)"
    using spec cn by auto
qed

section \<open>Handlers on the abstract content\<close>

lemma nodes_of_register:
  assumes "env_ok E"
  shows "nodes_of E (register_node E now req C) = (nodes_of E C)(rr_node_id req \<mapsto>
           \<lparr>nm_node_id = rr_node_id req, nm_advertised_address = rr_advertised_address req,
            nm_state = node_state_i32 Alive, nm_last_heartbeat = Some now,
            nm_registered_at = Some now\<rparr>)"
  using assms by (simp add: register_node_def nodes_of_put_node)

lemma heartbeat_message_spec:
  assumes "env_ok E" "catalog_ok E C"
  shows "heartbeat_message E now i C =
    (case nodes_of E C i of
       None \<Rightarrow> (ActRegister, C)
     | Some n \<Rightarrow> (ActNone, put_node E (n\<lparr>nm_last_heartbeat := Some \<lparr>ts_seconds = as_i64 now, ts_nanos = 0\<rparr>,
                       nm_state := node_state_i32 Alive\<rparr>) C))"
  using modify_node_Some [OF assms] modify_node_None [OF assms]
  by (auto simp: heartbeat_message_def update_node_heartbeat_def split: option.splits)

lemma report_failure_spec:
  assumes "env_ok E" "catalog_ok E C"
  shows "report_failure E i C =
    (case nodes_of E C i of None \<Rightarrow> C | Some n \<Rightarrow> put_node E (n\<lparr>nm_state := node_state_i32 Suspect\<rparr>) C)"
  using modify_node_Some [OF assms] modify_node_None [OF assms]
  by (auto simp: report_failure_def update_node_state_def split: option.splits)

lemma membership_step_ok:
  assumes "membership_step E d C C'" "env_ok E" "catalog_ok E C"
  shows "catalog_ok E C'"
  using assms(1)
  by cases (use assms(2,3) in \<open>auto simp: register_node_def heartbeat_message_spec
      report_failure_spec check_nodes_spec split: option.splits intro: wf_intros\<close>)

text \<open>A node is never forgotten, and keeps its identity.\<close>

lemma membership_step_keeps:
  assumes "membership_step E d C C'" "env_ok E" "catalog_ok E C" "nodes_of E C i \<noteq> None"
  shows "nodes_of E C' i \<noteq> None"
  using assms(1)
proof cases
  case (ms_scan now)
  then show ?thesis using assms(4) by (auto simp: check_nodes_spec [OF assms(2,3)])
qed (use assms(2-) in \<open>auto simp: nodes_of_register heartbeat_message_spec report_failure_spec
    nodes_of_put_node split: option.splits\<close>)

section \<open>Liveness of a node\<close>

lemma verdict_fresh:
  assumes "0 < timeout" "now - last_heartbeat_secs n < max (timeout div 3) 1"
  shows "verdict (failure_detector_new timeout) now n = n"
proof -
  have "max (timeout div 3) 1 \<le> timeout" using assms(1) by auto
  then show ?thesis using assms(2) by (auto simp: verdict_def failure_detector_new_def Let_def)
qed

lemma verdict_silent:
  assumes "timeout \<le> now - last_heartbeat_secs n"
  shows "nm_state (verdict (failure_detector_new timeout) now n) = node_state_i32 Dead"
  using assms by (simp add: verdict_def failure_detector_new_def Let_def)

lemma verdict_never_promotes:
  "nm_state (verdict d now n) = node_state_i32 Alive \<Longrightarrow> nm_state n = node_state_i32 Alive \<and> verdict d now n = n"
  by (auto simp: verdict_def Let_def split: if_splits)

end
