(* ===== verification/Catalog_Properties.thy ===== *)
theory Catalog_Properties
  imports Reference_Env Membership
begin

text \<open>
  The properties of the catalog, of shard placement and of node membership, with their
  witnesses on the reference environment. The abstract catalog \<open>catalog_spec\<close> is six finite
  maps; \<open>abs_catalog\<close> reads the content of the redb tables into it.
\<close>

section \<open>The abstract catalog\<close>

record catalog_spec =
  sp_tables :: "string \<Rightarrow> table_meta option"
  sp_views :: "string \<Rightarrow> view_meta option"
  sp_schemas :: "string \<Rightarrow> schema_meta option"
  sp_shards :: "string \<Rightarrow> shard_meta option"
  sp_nodes :: "string \<Rightarrow> node_meta option"
  sp_secrets :: "string \<Rightarrow> anonymization_secret option"

definition abs_catalog :: "('t, 'b) env \<Rightarrow> 't catalog \<Rightarrow> catalog_spec" where
  "abs_catalog E C =
     \<lparr>sp_tables = tables_of E C, sp_views = views_of E C, sp_schemas = schemas_of E C,
      sp_shards = shards_of E C, sp_nodes = nodes_of E C, sp_secrets = secrets_of E C\<rparr>"

definition spec_claim_table :: "table_meta \<Rightarrow> catalog_spec \<Rightarrow> bool \<times> catalog_spec" where
  "spec_claim_table m S =
     (if sp_tables S (tm_table_name m) = None \<and> sp_views S (tm_table_name m) = None
      then (True, S\<lparr>sp_tables := (sp_tables S)(tm_table_name m \<mapsto> m)\<rparr>) else (False, S))"

definition spec_claim_view :: "view_meta \<Rightarrow> catalog_spec \<Rightarrow> bool \<times> catalog_spec" where
  "spec_claim_view v S =
     (if sp_tables S (vm_view_name v) = None \<and> sp_views S (vm_view_name v) = None
      then (True, S\<lparr>sp_views := (sp_views S)(vm_view_name v \<mapsto> v)\<rparr>) else (False, S))"

lemma abs_create_table:
  assumes "env_ok E" "catalog_ok E C"
  shows "map_prod id (abs_catalog E) (create_table_if_absent E m C) = spec_claim_table m (abs_catalog E C)"
proof -
  note v = store_map_None_get [OF env_okD(1) [OF assms(1)] catalog_okD(2) [OF assms(2)], of "tm_table_name m"]
  show ?thesis
    using v assms(1)
    by (auto simp: create_table_if_absent_def spec_claim_table_def abs_catalog_def
        claim_name_spec [OF env_okD(1) [OF assms(1)] catalog_okD(1) [OF assms(2)]] store_map_put)
qed

lemma abs_create_view:
  assumes "env_ok E" "catalog_ok E C"
  shows "map_prod id (abs_catalog E) (create_view_if_absent E m C) = spec_claim_view m (abs_catalog E C)"
proof -
  note v = store_map_None_get [OF env_okD(1) [OF assms(1)] catalog_okD(1) [OF assms(2)], of "vm_view_name m"]
  show ?thesis
    using v assms(1)
    by (auto simp: create_view_if_absent_def spec_claim_view_def abs_catalog_def
        claim_name_spec [OF env_okD(1) [OF assms(1)] catalog_okD(2) [OF assms(2)]] store_map_put)
qed

section \<open>Properties of the catalog\<close>


definition node0 :: node_meta where
  "node0 = \<lparr>nm_node_id = ''core-0'', nm_advertised_address = ''10.0.0.1:50051'',
     nm_state = node_state_i32 Alive,
     nm_last_heartbeat = Some \<lparr>ts_seconds = 100, ts_nanos = 0\<rparr>,
     nm_registered_at = Some \<lparr>ts_seconds = 100, ts_nanos = 0\<rparr>\<rparr>"

definition node1 :: node_meta where
  "node1 = node0\<lparr>nm_node_id := ''core-1'', nm_advertised_address := ''10.0.0.2:50051''\<rparr>"

definition demo_catalog :: "(string \<times> stored) list catalog" where
  "demo_catalog = put_node ref_env node1 (put_node ref_env node0 (catalog_open ref_env))"

lemma demo_reachable: "catalog_reachable ref_env True demo_catalog"
  using r_step [OF r_step [OF r_open s_put_node] s_put_node] by (simp add: demo_catalog_def)

lemma demo_ok: "catalog_ok ref_env demo_catalog"
  by (rule catalog_reachable_ok [OF demo_reachable ref_env_ok])


text \<open>
  C0. CREATE OR REPLACE VIEW reads whether a table has the name and writes the view in another
  transaction: when a CREATE TABLE of that name claims it in between, both statements succeed,
  and a table and a view have the name.
\<close>

theorem replaced_view_shadows_table:
  assumes "env_ok E" and "catalog_ok E C"
    and "tables_of E C (tm_table_name m) = None" and "views_of E C (tm_table_name m) = None"
    and "vm_view_name v = tm_table_name m"
    and "create_table_if_absent E m C = (claimed, C1)"
  shows "get_table E C (vm_view_name v) = Inr None \<and> claimed
       \<and> get_table E (put_view E v C1) (tm_table_name m) = Inr (Some m)
       \<and> get_view E (put_view E v C1) (tm_table_name m) = Inr (Some v)
       \<and> \<not> names_disjoint E (put_view E v C1)"
proof -
  have claim: "claimed" "C1 = put_table E m C"
    using claim_name_spec [OF env_okD(1) [OF assms(1)] catalog_okD(1) [OF assms(2)]] assms(3,6)
      store_map_None_get [OF env_okD(1) [OF assms(1)] catalog_okD(2) [OF assms(2)]] assms(4)
    by (auto simp: create_table_if_absent_def put_table_def split: if_splits)
  then have ok: "catalog_ok E (put_view E v C1)"
    using assms(1,2) by (simp add: catalog_ok_simple_writes)
  have content: "tables_of E (put_view E v C1) (tm_table_name m) = Some m"
    "views_of E (put_view E v C1) (tm_table_name m) = Some v"
    using assms(1,5) claim by (simp_all add: put_table_def put_view_def store_map_put)
  then have "\<not> names_disjoint E (put_view E v C1)"
    using names_disjoint_iff [OF assms(1) ok] by (metis option.distinct(1))
  then show ?thesis
    using claim content assms(3,5) catalog_get [OF assms(1,2)] catalog_get [OF assms(1) ok] by simp
qed

definition demo_sales :: table_meta where
  "demo_sales = \<lparr>tm_table_name = ''sales'', tm_columns = [], tm_shard_strategy = 1, tm_shard_key = ''id'',
     tm_shard_count = 2, tm_replication_factor = 1, tm_created_at = None, tm_anonymized_columns = [],
     tm_indexes = [], tm_constraints = []\<rparr>"

definition demo_sales_view :: view_meta where
  "demo_sales_view = \<lparr>vm_view_name = ''sales'', vm_definition = ''SELECT 1'', vm_columns = [], vm_created_at = None\<rparr>"

theorem replaced_view_shadows_table_witness:
  "get_view ref_env
     (put_view ref_env demo_sales_view (snd (create_table_if_absent ref_env demo_sales demo_catalog))) ''sales''
   = Inr (Some demo_sales_view)"
proof -
  have "tables_of ref_env demo_catalog (tm_table_name demo_sales) = None"
    "views_of ref_env demo_catalog (tm_table_name demo_sales) = None"
    by code_simp+
  then show ?thesis
    using replaced_view_shadows_table [OF ref_env_ok demo_ok, of demo_sales demo_sales_view] prod.collapse
    by (metis demo_sales_def demo_sales_view_def table_meta.select_convs(1) view_meta.select_convs(1))
qed

text \<open>
  C2. The redb-backed catalog refines the abstract catalog of finite maps: each write does to
  the content what the map update does, the two claims take a free name and nothing else,
  and each lookup returns the content.
\<close>

theorem catalog_refines_maps:
  assumes "env_ok E" and "catalog_ok E C"
  shows "abs_catalog E (put_table E m C)
           = (abs_catalog E C)\<lparr>sp_tables := (tables_of E C)(tm_table_name m \<mapsto> m)\<rparr>
   \<and> abs_catalog E (delete_table E name C) = (abs_catalog E C)\<lparr>sp_tables := (tables_of E C)(name := None)\<rparr>
   \<and> abs_catalog E (put_node E n C) = (abs_catalog E C)\<lparr>sp_nodes := (nodes_of E C)(nm_node_id n \<mapsto> n)\<rparr>
   \<and> abs_catalog E (put_shard E s C) = (abs_catalog E C)\<lparr>sp_shards := (shards_of E C)(shard_key_of s \<mapsto> s)\<rparr>
   \<and> map_prod id (abs_catalog E) (create_table_if_absent E m C) = spec_claim_table m (abs_catalog E C)
   \<and> map_prod id (abs_catalog E) (create_view_if_absent E v C) = spec_claim_view v (abs_catalog E C)
   \<and> get_table E C name = Inr (sp_tables (abs_catalog E C) name)
   \<and> get_node E C name = Inr (sp_nodes (abs_catalog E C) name)"
  using assms abs_create_table [OF assms, of m] abs_create_view [OF assms, of v]
  by (simp add: catalog_get) (simp add: abs_catalog_def put_table_def delete_table_def put_node_def
      put_shard_def store_map_put store_map_delete)

theorem catalog_refines_maps_witness:
  "get_node ref_env demo_catalog ''core-1'' = Inr (sp_nodes (abs_catalog ref_env demo_catalog) ''core-1'')"
  using catalog_refines_maps [OF ref_env_ok demo_ok, of undefined "''core-1''" undefined undefined undefined]
  by blast

text \<open>
  The scan range of a table name holds exactly the keys that start with the name and a
  colon, and the one key that is the name and a semicolon; so for names without a colon the
  scan of one table never meets a shard of another.
\<close>

lemma prefix_range_exact:
  "(case prefix_range name of (start, stop) \<Rightarrow> in_range start stop k)
     \<longleftrightarrow> prefix (name @ '':'') k \<or> k = name @ '';''"
  using in_prefix_range [of name k] by (simp add: prefix_range_def)

section \<open>Properties of shard placement\<close>

text \<open>
  C5. Round-robin assignment: with a replication factor between one and the number of alive
  nodes, every shard of the table is on exactly that many distinct alive nodes, primary
  included; bucket \<open>i\<close> is the \<open>i\<close>-th shard; and the primaries are balanced, each alive node
  being the primary of \<open>n div m\<close> or \<open>n div m + 1\<close> shards.
\<close>

theorem round_robin_placement:
  assumes "env_ok E" and "catalog_ok E C" and "list_alive_nodes E C = Inr alive"
    and "1 \<le> rf" and "rf \<le> length alive"
  shows "\<exists>shards. assign_shards_round_robin E C t n rf = Inr shards
     \<and> map sh_hash_bucket shards = [0..<n]
     \<and> list_all (\<lambda>s. sh_table_name s = t \<and> placement_ok (map nm_node_id alive) rf s) shards
     \<and> (\<forall>j<length alive.
          n div length alive
            \<le> length (filter (\<lambda>s. sh_primary_node_id s = nm_node_id (alive ! j)) shards)
        \<and> length (filter (\<lambda>s. sh_primary_node_id s = nm_node_id (alive ! j)) shards)
            \<le> n div length alive + 1)"
proof -
  have ne: "alive \<noteq> []" using assms(4,5) by auto
  have dist: "distinct (map nm_node_id alive)" by (rule alive_nodes_distinct [OF assms(1-3)])
  let ?shards = "map (round_robin_shard alive t rf) [0..<n]"
  have count: "length (filter (\<lambda>s. sh_primary_node_id s = nm_node_id (alive ! j)) ?shards)
      = length (filter (\<lambda>i. i mod length alive = j) [0..<n])" if "j < length alive" for j
    using that ne nth_eq_iff_index_eq [OF dist]
    by (simp add: filter_map comp_def)
  show ?thesis
    using assms(3) ne count residue_count [of _ "length alive" n]
      round_robin_shard_ok [OF dist ne assms(4,5)]
    by (intro exI [of _ ?shards]) (auto simp: assign_shards_round_robin_def list_all_iff comp_def)
qed

lemma demo_alive: "list_alive_nodes ref_env demo_catalog = Inr [node0, node1]"
  by code_simp

theorem round_robin_placement_witness:
  "\<exists>shards. assign_shards_round_robin ref_env demo_catalog ''orders'' 3 2 = Inr shards
     \<and> map sh_hash_bucket shards = [0..<3]"
  using round_robin_placement [OF ref_env_ok demo_ok demo_alive, of 2 "''orders''" 3] by auto

text \<open>
  C6. Stored shards are read back in bucket order: when a colon-free table has no shard yet,
  storing an assignment and reading the table's shards returns the assignment itself, so
  position \<open>i\<close> is bucket \<open>i\<close> although redb iterates \<open>shard10\<close> before \<open>shard2\<close>.
\<close>

theorem stored_assignment_reads_back:
  assumes "env_ok E" and "catalog_ok E C" and "colon_free t"
    and "\<forall>k. shard_range t k \<longrightarrow> shards_of E C k = None"
    and "assign_shards_round_robin E C t n rf = Inr shards"
  shows "shards_for_table E (fold (put_shard E) shards C) t = Inr shards"
  using assms(5)
proof (rule assign_shards_Inr)
  fix alive
  assume "shards = map (round_robin_shard alive t rf) [0..<n]"
  then show ?thesis by (rule shards_for_table_stored [OF assms(1-4)])
qed

lemma demo_no_shards: "shards_of ref_env demo_catalog k = None"
  by (simp add: demo_catalog_def put_node_def catalog_open_def Let_def store_map_empty
      env_okD(1) [OF ref_env_ok])

theorem stored_assignment_reads_back_witness:
  "\<exists>shards. assign_shards_round_robin ref_env demo_catalog ''orders'' 12 2 = Inr shards
     \<and> shards_for_table ref_env (fold (put_shard ref_env) shards demo_catalog) ''orders'' = Inr shards"
proof -
  obtain shards where s: "assign_shards_round_robin ref_env demo_catalog ''orders'' 12 2 = Inr shards"
    by (simp add: assign_shards_round_robin_def demo_alive)
  have "shards_for_table ref_env (fold (put_shard ref_env) shards demo_catalog) ''orders'' = Inr shards"
    by (rule stored_assignment_reads_back [OF ref_env_ok demo_ok _ _ s])
      (simp_all add: colon_free_def demo_no_shards)
  with s show ?thesis by blast
qed

text \<open>
  C11. Dropping a table's shards removes exactly that table's shards: for colon-free names a
  shard record survives if and only if it belongs to another table.
\<close>

theorem drop_shards_frame:
  assumes "env_ok E" and "colon_free t" and "colon_free (sh_table_name s)"
  shows "shards_of E (delete_shards_for_table E t C) (shard_key_of s)
       = (if sh_table_name s = t then None else shards_of E C (shard_key_of s))"
  using assms by (simp add: delete_shards_of shard_range_key)

definition shard_a :: shard_meta where
  "shard_a = \<lparr>sh_shard_id = ''shard0'', sh_table_name = ''a'', sh_primary_node_id = ''core-0'',
     sh_replica_node_ids = [], sh_hash_bucket = 0, sh_range_lower = [], sh_range_upper = []\<rparr>"

theorem drop_shards_frame_witness:
  "shards_of ref_env (delete_shards_for_table ref_env ''b'' (put_shard ref_env shard_a demo_catalog))
     (shard_key_of shard_a) = Some shard_a"
proof -
  have "shards_of ref_env (put_shard ref_env shard_a demo_catalog) (shard_key_of shard_a) = Some shard_a"
    by (simp add: put_shard_def store_map_put ref_env_ok)
  then show ?thesis
    using drop_shards_frame [OF ref_env_ok, of "''b''" shard_a "put_shard ref_env shard_a demo_catalog"]
    by (simp add: colon_free_def shard_a_def)
qed

section \<open>Properties of membership\<close>

text \<open>
  C7. One scan of the failure detector decides every node on its own: it reports no error,
  keeps the catalog invariant, and leaves each node with the state the elapsed time calls
  for, dead nodes and unknown ids untouched.
\<close>

theorem scan_decides_every_node:
  assumes "env_ok E" and "catalog_ok E C"
  shows "fst (check_nodes E d now C) = Inr ()
       \<and> catalog_ok E (snd (check_nodes E d now C))
       \<and> nodes_of E (snd (check_nodes E d now C)) k = map_option (verdict d now) (nodes_of E C k)"
  using check_nodes_spec [OF assms] by simp

theorem scan_decides_every_node_witness:
  "nodes_of ref_env (snd (check_nodes ref_env (failure_detector_new 15) 107 demo_catalog)) ''core-0''
     = Some (node0\<lparr>nm_state := node_state_i32 Suspect\<rparr>)"
proof -
  have "nodes_of ref_env demo_catalog ''core-0'' = Some node0" by code_simp
  moreover have "verdict (failure_detector_new 15) 107 node0 = node0\<lparr>nm_state := node_state_i32 Suspect\<rparr>"
    by code_simp
  ultimately show ?thesis
    using scan_decides_every_node [OF ref_env_ok demo_ok, of "failure_detector_new 15" 107 "''core-0''"]
    by simp
qed

text \<open>
  C8. A node that was heard from is never demoted by a coordinator that starts: with a
  configuration that passes validation, a scan at a time less than a third of the timeout
  after a node's heartbeat (less than a second, when that third is zero) leaves the node's
  record unchanged.
\<close>

theorem heartbeat_protects_node:
  assumes "env_ok E" and "catalog_ok E C" and "validate_coordinator cfg = Inr ()"
    and "nodes_of E C i \<noteq> None" and "t < 2 ^ 64"
    and "now - t < max (cc_heartbeat_timeout_secs cfg div 3) 1"
    and "C1 = snd (heartbeat_message E t i C)"
  shows "nodes_of E (snd (check_nodes E (failure_detector_new (cc_heartbeat_timeout_secs cfg)) now C1)) i
           = nodes_of E C1 i
       \<and> map_option nm_state (nodes_of E C1 i) = Some (node_state_i32 Alive)"
proof -
  obtain n where n: "nodes_of E C i = Some n" using assms(4) by auto
  have id: "nm_node_id n = i" by (rule nodes_of_key [OF assms(1,2) n])
  define n' where "n' = n\<lparr>nm_last_heartbeat := Some \<lparr>ts_seconds = as_i64 t, ts_nanos = 0\<rparr>,
    nm_state := node_state_i32 Alive\<rparr>"
  have C1: "C1 = put_node E n' C"
    using n by (simp add: assms(7) heartbeat_message_spec [OF assms(1,2)] n'_def)
  have ok: "catalog_ok E C1" unfolding C1 by (rule catalog_ok_put_node [OF assms(1,2)])
  have n1: "nodes_of E C1 i = Some n'"
    using id by (simp add: C1 nodes_of_put_node [OF assms(1)] n'_def)
  have "last_heartbeat_secs n' = t" by (simp add: last_heartbeat_secs_def n'_def as_u64_i64 [OF assms(5)])
  then have "verdict (failure_detector_new (cc_heartbeat_timeout_secs cfg)) now n' = n'"
    using assms(3,6) by (intro verdict_fresh) (auto simp: validate_coordinator_ok)
  then show ?thesis
    using check_nodes_spec(3) [OF assms(1) ok] n1 by (simp add: n'_def)
qed

definition demo_config :: coordinator_config where
  "demo_config = \<lparr>cc_log_level = ''info'', cc_metadata_dir = ''data'', cc_grpc_listen_addr = ''0.0.0.0:50040'',
     cc_pg_listen_addr = ''0.0.0.0:5432'', cc_heartbeat_timeout_secs = 15,
     cc_default_replication_factor = 3, cc_allow_cross_shard_transactions = False,
     cc_tail_retry_initial_ms = 100, cc_tail_retry_max_ms = 5000,
     cc_ballista_scheduler_listen_addr = ''0.0.0.0:50050''\<rparr>"

theorem heartbeat_protects_node_witness:
  "map_option nm_state (nodes_of ref_env (snd (heartbeat_message ref_env 200 ''core-0'' demo_catalog)) ''core-0'')
     = Some (node_state_i32 Alive)"
proof -
  have "nodes_of ref_env demo_catalog ''core-0'' = Some node0" by code_simp
  moreover have "validate_coordinator demo_config = Inr ()" by code_simp
  ultimately show ?thesis
    using heartbeat_protects_node [OF ref_env_ok demo_ok, of demo_config "''core-0''" 200 204 _, OF _ _ _ _ refl]
    by (simp add: demo_config_def)
qed

text \<open>
  C9. A silent node is buried: a scan at least the timeout after a node's last heartbeat
  leaves it \<open>Dead\<close>, so it is not among the nodes shards are placed on, and no later scan
  brings it back.
\<close>

theorem silent_node_is_buried:
  assumes "env_ok E" and "catalog_ok E C" and "nodes_of E C i = Some n"
    and "timeout \<le> now - last_heartbeat_secs n"
    and "C1 = snd (check_nodes E (failure_detector_new timeout) now C)"
  shows "\<exists>n1 alive. nodes_of E C1 i = Some n1 \<and> nm_state n1 = node_state_i32 Dead
       \<and> list_alive_nodes E C1 = Inr alive \<and> i \<notin> nm_node_id ` set alive
       \<and> nodes_of E (snd (check_nodes E d later C1)) i = Some n1"
proof -
  let ?d = "failure_detector_new timeout"
  have n1: "nodes_of E C1 i = Some (verdict ?d now n)"
    using check_nodes_spec(3) [OF assms(1,2)] assms(3) by (simp add: assms(5))
  have dead: "nm_state (verdict ?d now n) = node_state_i32 Dead" by (rule verdict_silent [OF assms(4)])
  have ok: "catalog_ok E C1" unfolding assms(5) by (rule check_nodes_spec(2) [OF assms(1,2)])
  let ?l = "store_list (en_redb E) (en_node E) (ct_nodes C1)"
  have "m = verdict ?d now n" if "m \<in> set ?l" "nm_node_id m = i" for m
    using that n1 set_store_list [OF env_okD(1) [OF assms(1)] catalog_okD(5) [OF ok], of m] by simp
  then have "i \<notin> nm_node_id ` set (filter node_alive ?l)"
    using dead by (auto simp: node_alive_def)
  moreover have "verdict d later (verdict ?d now n) = verdict ?d now n"
    using dead by (simp add: verdict_def Let_def)
  ultimately show ?thesis
    using n1 dead check_nodes_spec(3) [OF assms(1) ok] by (simp add: catalog_list [OF ok])
qed

theorem silent_node_is_buried_witness:
  "\<exists>n1 alive. nodes_of ref_env (snd (check_nodes ref_env (failure_detector_new 15) 115 demo_catalog)) ''core-0'' = Some n1
     \<and> nm_state n1 = node_state_i32 Dead"
proof -
  have "nodes_of ref_env demo_catalog ''core-0'' = Some node0" by code_simp
  moreover have "15 \<le> 115 - last_heartbeat_secs node0" by code_simp
  ultimately show ?thesis
    using silent_node_is_buried [OF ref_env_ok demo_ok _ _ refl, of "''core-0''" node0 15 115] by blast
qed

text \<open>
  C10. A heartbeat from a node the coordinator has no record of changes nothing and asks it to
  register; registering makes it known and alive, after which its heartbeats are accepted.
\<close>

theorem unknown_node_recovers_by_registering:
  assumes "env_ok E" and "catalog_ok E C" and "nodes_of E C i = None" and "rr_node_id req = i"
  shows "heartbeat_message E t i C = (ActRegister, C)
       \<and> map_option nm_state (nodes_of E (register_node E ts req C) i) = Some (node_state_i32 Alive)
       \<and> fst (heartbeat_message E t' i (register_node E ts req C)) = ActNone"
proof -
  have ok: "catalog_ok E (register_node E ts req C)"
    unfolding register_node_def by (rule catalog_ok_put_node [OF assms(1,2)])
  show ?thesis
    using assms(3,4)
    by (simp add: heartbeat_message_spec [OF assms(1,2)] heartbeat_message_spec [OF assms(1) ok]
        nodes_of_register [OF assms(1)])
qed

theorem unknown_node_recovers_by_registering_witness:
  "heartbeat_message ref_env 7 ''core-9'' demo_catalog = (ActRegister, demo_catalog)"
proof -
  have "nodes_of ref_env demo_catalog ''core-9'' = None" by code_simp
  then show ?thesis
    using unknown_node_recovers_by_registering [OF ref_env_ok demo_ok, of "''core-9''"
        "\<lparr>rr_node_id = ''core-9'', rr_advertised_address = ''h:1''\<rparr>"]
    by simp
qed

text \<open>
  C20. \<open>modify_node\<close> is a read transaction and a write transaction: when a node re-registers
  between the two, the state change of a failure report or a scan writes the old record back
  and the new address is lost.
\<close>

theorem state_change_can_undo_registration:
  assumes "env_ok E" and "catalog_ok E C" and "nodes_of E C i = Some old" and "rr_node_id req = i"
    and "mutate = (\<lambda>n. n\<lparr>nm_state := node_state_i32 s\<rparr>)"
  shows "get_node E C i = Inr (Some old)
       \<and> map_option nm_advertised_address (nodes_of E (register_node E ts req C) i)
           = Some (rr_advertised_address req)
       \<and> map_option nm_advertised_address
           (nodes_of E (modify_node_write E mutate old (register_node E ts req C)) i)
           = Some (nm_advertised_address old)"
proof -
  have "nm_node_id old = i" by (rule nodes_of_key [OF assms(1-3)])
  then show ?thesis
    using assms(3-5)
    by (simp add: catalog_get [OF assms(1,2)] modify_node_write_def nodes_of_put_node [OF assms(1)]
        nodes_of_register [OF assms(1)])
qed

theorem state_change_can_undo_registration_witness:
  "get_node ref_env demo_catalog ''core-0'' = Inr (Some node0)"
proof -
  have "nodes_of ref_env demo_catalog ''core-0'' = Some node0" by code_simp
  then show ?thesis
    using state_change_can_undo_registration [OF ref_env_ok demo_ok _ _ refl, of "''core-0''" node0
        "\<lparr>rr_node_id = ''core-0'', rr_advertised_address = ''10.9.9.9:1''\<rparr>"]
    by simp
qed

end
