(* ===== verification/Cluster.thy ===== *)
theory Cluster
  imports Replication Catalog_Properties
begin

text \<open>
  The coordinator's replication composed with the core nodes it writes to: the network of
  \<open>Replication\<close> instantiated with the write service of \<open>Write_Node\<close> on every reachable
  address. The world is the state of the node behind each address; an address without a node
  cannot be dialled and its calls fail as unavailable.
\<close>

section \<open>The network of core nodes\<close>

type_synonym 'd world = "string \<Rightarrow> 'd core_node option"

definition cluster_network :: "('d, 'rb) duckdb \<Rightarrow> 'rb arrow \<Rightarrow> 'd world network" where
  "cluster_network K A =
     \<lparr>nw_dial = (\<lambda>uri w.
        (case Option.bind (strip_prefix ''http://'' uri) w of
           Some _ \<Rightarrow> Inr () | None \<Rightarrow> Inl ''transport error'', w)),
      nw_execute_write = (\<lambda>address req w.
        case w address of
          None \<Rightarrow> (Inl (GUnavailable, ''tcp connect error''), w)
        | Some n \<Rightarrow> (case execute_write K A req n of (rs, n') \<Rightarrow> (Inr rs, w(address \<mapsto> n'))))\<rparr>"

definition holds_write :: "'d world \<Rightarrow> string \<Rightarrow> string \<Rightarrow> write_result list \<Rightarrow> bool" where
  "holds_write w address write_id results \<longleftrightarrow>
     (\<exists>n. w address = Some n \<and> dedup_get (nd_dedup n) write_id = Some results)"

lemma execute_write_holds:
  assumes "ew_write_id req \<noteq> []"
  shows "dedup_get (nd_dedup (snd (execute_write K A req n))) (ew_write_id req)
       = Some (fst (execute_write K A req n))"
proof (cases "check_dedup req n")
  case None
  then have "dedup_get (nd_dedup n) (ew_write_id req) = None" using assms by (simp add: check_dedup_def)
  then show ?thesis
    using assms apply_request_dedup [of K A req n]
    by (simp add: execute_write_miss [OF None] record_dedup_def dedup_get_insert_new)
next
  case (Some rs)
  then show ?thesis using assms by (simp add: execute_write_hit check_dedup_def)
qed

lemma cluster_pool_get:
  "pool_get (cluster_network K A) a s = (r, s1) \<Longrightarrow> cm_world s1 = cm_world s"
  by (auto simp: pool_get_def cluster_network_def split: if_splits option.splits)

lemma nw_cluster:
  "nw_execute_write (cluster_network K A) a req w =
     (case w a of
        None \<Rightarrow> (Inl (GUnavailable, ''tcp connect error''), w)
      | Some n \<Rightarrow> (Inr (fst (execute_write K A req n)), w(a \<mapsto> snd (execute_write K A req n))))"
  by (simp add: cluster_network_def split: option.splits prod.splits)

lemma cluster_send:
  assumes "send_write (cluster_network K A) a b i s = (out, s')"
  shows "(cm_world s' = cm_world s \<and> (\<exists>e. out = Inl e))
     \<or> (\<exists>n. cm_world s a = Some n
          \<and> cm_world s' = (cm_world s)(a \<mapsto> snd (execute_write K A (write_request b) n))
          \<and> out = read_results b i (fst (execute_write K A (write_request b) n)))"
proof -
  let ?N = "cluster_network K A"
  obtain r s1 where get: "pool_get ?N a s = (r, s1)" by fastforce
  then have w: "cm_world s1 = cm_world s" by (rule cluster_pool_get)
  show ?thesis
  proof (cases r)
    case (Inl e)
    then show ?thesis using assms w get by (auto simp: send_write_def)
  next
    case (Inr u)
    then show ?thesis
      using assms w get
      by (cases "cm_world s a")
        (auto simp: send_write_def nw_cluster [of K A a] split: prod.splits)
  qed
qed

lemma read_results_Inr:
  "read_results b i rs = Inr rows \<longleftrightarrow>
     rs \<noteq> [] \<and> list_all wr_success rs \<and> rows = map (\<lambda>r. as_u64 (wr_rows_affected r)) rs"
  by (auto simp: read_results_def find_None_iff list_all_iff split: option.splits)
    (auto simp: find_Some_iff)

lemma cluster_send_holds:
  assumes "send_write (cluster_network K A) a b i s = (Inr rows, s')" "wb_write_id b \<noteq> []"
  shows "\<exists>rs. holds_write (cm_world s') a (wb_write_id b) rs \<and> list_all wr_success rs
       \<and> rows = map (\<lambda>r. as_u64 (wr_rows_affected r)) rs"
proof -
  have req: "ew_write_id (write_request b) = wb_write_id b" by (simp add: write_request_def)
  obtain n where n: "cm_world s' = (cm_world s)(a \<mapsto> snd (execute_write K A (write_request b) n))"
    "Inr rows = read_results b i (fst (execute_write K A (write_request b) n))"
    using cluster_send [OF assms(1)] by blast
  have "dedup_get (nd_dedup (snd (execute_write K A (write_request b) n))) (wb_write_id b)
      = Some (fst (execute_write K A (write_request b) n))"
    using execute_write_holds [of "write_request b" K A n] req assms(2) by simp
  moreover have "list_all wr_success (fst (execute_write K A (write_request b) n))
      \<and> rows = map (\<lambda>r. as_u64 (wr_rows_affected r)) (fst (execute_write K A (write_request b) n))"
    using read_results_Inr [THEN iffD1, OF n(2) [symmetric]] by simp
  ultimately show ?thesis using n(1) by (auto simp: holds_write_def)
qed

lemma holds_write_send:
  assumes "holds_write (cm_world s) a (wb_write_id b) rs" "wb_write_id b \<noteq> []"
  shows "holds_write (cm_world (snd (send_write (cluster_network K A) a' b i s))) a (wb_write_id b) rs"
proof -
  obtain out s' where send: "send_write (cluster_network K A) a' b i s = (out, s')" by fastforce
  have hit: "snd (execute_write K A (write_request b) n) = n"
    if "dedup_get (nd_dedup n) (wb_write_id b) = Some rs" for n
    using that assms(2) by (simp add: execute_write_hit check_dedup_def write_request_def)
  show ?thesis
    using cluster_send [OF send] assms(1) hit by (auto simp: holds_write_def send)
qed

lemma holds_write_tasks:
  assumes "holds_write (cm_world s) a (wb_write_id b) rs" "wb_write_id b \<noteq> []"
  shows "holds_write (cm_world (snd (run_tasks (cluster_network K A) b targets sched s))) a (wb_write_id b) rs"
  using assms(1)
proof (induction sched arbitrary: s)
  case (Cons x sched)
  obtain k ret where x: "x = (k, ret)" by (cases x)
  obtain o1 s1 where send:
    "send_write (cluster_network K A) (snd (targets ! k)) b (fst (targets ! k)) s = (o1, s1)" by fastforce
  have "holds_write (cm_world s1) a (wb_write_id b) rs"
    using holds_write_send [OF Cons.prems assms(2), of K A "snd (targets ! k)" "fst (targets ! k)"] send
    by simp
  then show ?case
    using Cons.IH [of s1] Cons.IH [OF Cons.prems]
    by (cases "run_tasks (cluster_network K A) b targets sched s1") (simp add: x send)
qed simp

lemma run_tasks_holds:
  assumes "run_tasks (cluster_network K A) b targets sched s = (outs, s')"
    and "outs i = Some (Inr rows)" "wb_write_id b \<noteq> []"
  shows "\<exists>rs. holds_write (cm_world s') (snd (targets ! i)) (wb_write_id b) rs \<and> list_all wr_success rs
       \<and> rows = map (\<lambda>r. as_u64 (wr_rows_affected r)) rs"
  using assms(1,2)
proof (induction sched arbitrary: s outs)
  case (Cons x sched)
  obtain k ret where x: "x = (k, ret)" by (cases x)
  show ?case
  proof (cases "k < length targets")
    case True
    obtain o1 s1 where send:
      "send_write (cluster_network K A) (snd (targets ! k)) b (fst (targets ! k)) s = (o1, s1)" by fastforce
    obtain outs2 s2 where run: "run_tasks (cluster_network K A) b targets sched s1 = (outs2, s2)"
      by fastforce
    have outs: "outs = (if ret then outs2(k \<mapsto> o1) else outs2)" "s2 = s'"
      using Cons.prems(1) by (auto simp: x True send run split: if_splits)
    show ?thesis
    proof (cases "ret \<and> i = k")
      case True
      then have "o1 = Inr rows" using outs Cons.prems(2) by auto
      then obtain rs where rs: "holds_write (cm_world s1) (snd (targets ! i)) (wb_write_id b) rs"
        "list_all wr_success rs" "rows = map (\<lambda>r. as_u64 (wr_rows_affected r)) rs"
        using cluster_send_holds [of K A "snd (targets ! k)" b "fst (targets ! k)" s rows s1] send assms(3)
          True by auto
      show ?thesis
        using holds_write_tasks [OF rs(1) assms(3), of K A targets sched] rs(2,3) run outs(2) by auto
    next
      case False
      then have "outs2 i = Some (Inr rows)" using outs Cons.prems(2) by (auto split: if_splits)
      then show ?thesis using Cons.IH [of s1 outs2] run outs(2) by auto
    qed
  next
    case False
    then show ?thesis using Cons.IH [of s outs] Cons.prems by (simp add: x)
  qed
qed simp

section \<open>Properties of a quorum write\<close>

definition demo_world :: "log_conn world" where
  "demo_world = (\<lambda>a. if a = ''10.0.0.1:50051'' then Some demo_node else None)"

abbreviation demo_network :: "log_conn world network" where
  "demo_network \<equiv> cluster_network log_duckdb log_arrow"

definition demo_batch_statement :: "string \<Rightarrow> batch_statement" where
  "demo_batch_statement sql = \<lparr>bs_sql = sql, bs_params = [], bs_shard_id = ''orders_shard0'', bs_bulk = None\<rparr>"

definition shard_b :: shard_meta where
  "shard_b = \<lparr>sh_shard_id = ''shard0'', sh_table_name = ''orders'', sh_primary_node_id = ''core-0'',
     sh_replica_node_ids = [''core-1''], sh_hash_bucket = 0, sh_range_lower = [], sh_range_upper = []\<rparr>"

text \<open>One of the two nodes is down: a quorum of one is reached, a quorum of two is not.\<close>

definition demo_write ::
  "nat \<Rightarrow> (coordinator_error, nat list) result \<times> retry_queues \<times> log_conn world comms" where
  "demo_write q = fan_out ref_env demo_catalog demo_network [(1, True), (0, True)] shard_b
     [demo_batch_statement ''A''] ''w1'' q False (Map.empty, pool_new demo_world)"

lemma demo_write_ok: "fst (demo_write 1) = Inr [1]"
  by code_simp

lemma demo_write_short: "fst (demo_write 2) = Inl (QuorumNotReached 2 1)"
  by code_simp



text \<open>
  C22. An acknowledged write is held by its quorum: in the cluster, after a fan-out that
  succeeded, the primary and at least \<open>quorum_size\<close> targets in all have the write id in their
  dedup cache with results that are all successes.
\<close>

theorem acknowledged_write_is_held:
  assumes "fan_out E C (cluster_network K A) sched shard statements write_id quorum_size atomic (retries, s)
             = (Inr rows, retries', s')" and "write_id \<noteq> []"
  shows "\<exists>targets acks. r_bind (node_address_map E C) (replication_targets shard) = Inr targets
    \<and> acks \<subseteq> {..<length targets} \<and> quorum_size \<le> card acks
    \<and> (\<exists>i\<in>acks. fst (targets ! i) = sh_primary_node_id shard)
    \<and> (\<forall>i\<in>acks. \<exists>rs. holds_write (cm_world s') (snd (targets ! i)) write_id rs \<and> list_all wr_success rs)"
  using assms(1)
proof (cases rule: fan_out_cases)
  case (accepted targets outs fi rows')
  let ?acks = "{i. i < length targets \<and> acked (outs i)}"
  note fi = accepted(3)
  have "fi_primary_acked fi" "quorum_size \<le> fi_ack_count fi"
    using accepted(4) by (auto simp: quorum_verdict_def split: if_splits)
  then have "\<exists>i\<in>?acks. fst (targets ! i) = sh_primary_node_id shard" "quorum_size \<le> card ?acks"
    by (auto simp: fi primary_acked_handles fan_in_of_simps(1) filter_handles_of)
  moreover have "\<forall>i\<in>?acks. \<exists>rs. holds_write (cm_world s') (snd (targets ! i)) write_id rs \<and> list_all wr_success rs"
  proof
    fix i
    assume "i \<in> ?acks"
    then obtain r where "outs i = Some (Inr r)" by (cases "outs i" rule: acked.cases) auto
    from run_tasks_holds [OF accepted(2) this] assms(2)
    show "\<exists>rs. holds_write (cm_world s') (snd (targets ! i)) write_id rs \<and> list_all wr_success rs"
      by (auto simp: fan_out_batch_def)
  qed
  ultimately show ?thesis using accepted(1) by (intro exI [of _ targets] exI [of _ ?acks]) auto
qed simp_all

theorem acknowledged_write_is_held_witness:
  "\<exists>a rs. holds_write (cm_world (snd (snd (demo_write 1)))) a ''w1'' rs \<and> list_all wr_success rs"
proof -
  obtain retries s where w: "demo_write 1 = (Inr [1], retries, s)"
    using demo_write_ok by (cases "demo_write 1") auto
  show ?thesis
    using acknowledged_write_is_held [OF w [unfolded demo_write_def]] unfolding w by simp blast
qed

text \<open>
  C27. A refused write queues no retry. When it is refused for want of a quorum the primary has
  applied it all the same: in the cluster the primary's node holds the write id with results
  that are all successes, although the client is told that the write failed.
\<close>

theorem quorum_failure_keeps_primary_write:
  assumes "fan_out E C (cluster_network K A) sched shard statements write_id quorum_size atomic (retries, s)
             = (Inl e, retries', s')"
    and "r_bind (node_address_map E C) (replication_targets shard) = Inr targets" and "write_id \<noteq> []"
  shows "retries' = retries
    \<and> (\<forall>needed got. e = QuorumNotReached needed got \<longrightarrow>
         needed = quorum_size \<and> got < needed
       \<and> (\<exists>i<length targets. fst (targets ! i) = sh_primary_node_id shard
            \<and> (\<exists>rs. holds_write (cm_world s') (snd (targets ! i)) write_id rs \<and> list_all wr_success rs)))"
  using assms(1)
proof (cases rule: fan_out_cases)
  case (refused targets' outs fi e')
  have t: "targets' = targets" using refused(1) assms(2) by simp
  have "got < quorum_size \<and> needed = quorum_size \<and> fi_primary_acked fi" if "e = QuorumNotReached needed got" for needed got
    using refused(4,5) that by (auto simp: quorum_verdict_def split: if_splits option.splits)
  moreover have "\<exists>i<length targets. fst (targets ! i) = sh_primary_node_id shard
      \<and> (\<exists>rs. holds_write (cm_world s') (snd (targets ! i)) write_id rs \<and> list_all wr_success rs)"
    if prim: "fi_primary_acked fi"
  proof -
    obtain i where i: "i < length targets" "acked (outs i)" "fst (targets ! i) = sh_primary_node_id shard"
      using prim by (auto simp: refused(3) primary_acked_handles t)
    then obtain r where "outs i = Some (Inr r)" by (cases "outs i" rule: acked.cases) auto
    from run_tasks_holds [OF refused(2) this] assms(3) i t show ?thesis
      by (auto simp: fan_out_batch_def)
  qed
  ultimately show ?thesis using refused(6) by blast
next
  case (no_targets e')
  then show ?thesis using assms(2) by simp
qed simp

theorem quorum_failure_keeps_primary_write_witness:
  "fst (demo_write 2) = Inl (QuorumNotReached 2 1)
   \<and> (\<exists>a rs. holds_write (cm_world (snd (snd (demo_write 2)))) a ''w1'' rs \<and> list_all wr_success rs)"
proof -
  obtain retries s where w: "demo_write 2 = (Inl (QuorumNotReached 2 1), retries, s)"
    using demo_write_short by (cases "demo_write 2") auto
  have t: "r_bind (node_address_map ref_env demo_catalog) (replication_targets shard_b)
      = Inr [(''core-0'', ''10.0.0.1:50051''), (''core-1'', ''10.0.0.2:50051'')]" by code_simp
  show ?thesis
    using quorum_failure_keeps_primary_write [OF w [unfolded demo_write_def] t] w by force
qed

text \<open>
  The retry queues are bounded: from start-up on, over any interleaving of writes, retry
  rounds, resends and changes of the world and of the catalog, no node's queue exceeds
  \<open>MAX_PENDING_RETRIES\<close> and each entry sits in the queue of the node it is for.
\<close>

lemma retry_queues_bounded:
  assumes "manager_reachable E N m"
  shows "length (queue_of (mg_retries m) n) \<le> MAX_PENDING_RETRIES
       \<and> list_all (\<lambda>e. pr_node_id e = n) (queue_of (mg_retries m) n)"
  using manager_reachable_ok [OF assms] by (simp add: manager_ok_def queues_ok_def)

definition demo_manager :: "log_conn world manager" where
  "demo_manager = (case demo_write 1 of (_, retries, s) \<Rightarrow>
     (manager_new demo_world)\<lparr>mg_retries := retries, mg_comms := s\<rparr>)"

lemma demo_manager_reachable: "manager_reachable ref_env demo_network demo_manager"
proof -
  obtain res retries s where w: "demo_write 1 = (res, retries, s)" by (cases "demo_write 1") auto
  have "manager_step ref_env demo_network (manager_new demo_world)
      ((manager_new demo_world)\<lparr>mg_retries := retries, mg_comms := s\<rparr>)"
    by (rule m_write [of _ demo_catalog _ "[(1, True), (0, True)]" shard_b "[demo_batch_statement ''A'']" "''w1''" 1 False])
      (use w in \<open>simp add: demo_write_def manager_new_def\<close>)
  then have "manager_reachable ref_env demo_network
      ((manager_new demo_world)\<lparr>mg_retries := retries, mg_comms := s\<rparr>)"
    by (rule m_next [OF m_start])
  then show ?thesis unfolding demo_manager_def w by simp
qed

text \<open>
  C23. No retry is lost: a step of the replication manager keeps every batch a node is owed,
  in its queue or in flight to it, except one batch that it sends and the node acknowledges,
  or that it cannot put back because the node's queue is full.
\<close>

theorem no_retry_is_lost:
  assumes "manager_reachable E N m" and "manager_step E N m m'"
  shows "owed m n \<subseteq># owed m' n
     \<or> (\<exists>e\<in>set (mg_in_flight m). pr_node_id e = n \<and> owed m n = add_mset (pr_batch e) (owed m' n)
          \<and> (acked (Some (fst (send_write N (pr_node_address e) (pr_batch e) n (mg_comms m))))
             \<or> MAX_PENDING_RETRIES \<le> length (queue_of (mg_retries m) n)))"
  by (rule owed_step [OF assms(2) manager_reachable_ok [OF assms(1)]])

theorem no_retry_is_lost_witness:
  "owed demo_manager ''core-1'' \<subseteq># owed (demo_manager\<lparr>mg_comms := (mg_comms demo_manager)\<lparr>cm_world := Map.empty\<rparr>\<rparr>) ''core-1''"
  using no_retry_is_lost [OF demo_manager_reachable m_world [of _ _ _ "Map.empty"], of "''core-1''"]
  by (auto simp: demo_manager_def manager_new_def split: prod.splits)

text \<open>
  C26. Under a validated configuration the backoff before a resend is between the configured
  initial delay and the configured maximum, never decreases from one attempt to the next, and
  does not overflow.
\<close>

theorem backoff_within_configuration:
  assumes "validate_coordinator config = Inr ()" and "cc_tail_retry_max_ms config < 2 ^ 64" and "a \<le> b"
  defines "rc \<equiv> retry_config_of config"
  shows "0 < compute_backoff a rc
       \<and> cc_tail_retry_initial_ms config \<le> compute_backoff a rc
       \<and> compute_backoff a rc \<le> compute_backoff b rc
       \<and> compute_backoff b rc \<le> cc_tail_retry_max_ms config
       \<and> compute_backoff b rc = min (cc_tail_retry_initial_ms config * 2 ^ min b 10) (cc_tail_retry_max_ms config)"
proof -
  have v: "0 < cc_tail_retry_initial_ms config" "cc_tail_retry_initial_ms config \<le> cc_tail_retry_max_ms config"
    using assms(1) by (auto simp: validate_coordinator_ok)
  have bounds: "cc_tail_retry_initial_ms config \<le> compute_backoff k rc" "compute_backoff k rc \<le> cc_tail_retry_max_ms config" for k
    using compute_backoff_bounds [of rc k] v assms(2) by (auto simp: rc_def retry_config_of_def u64_max_def)
  have "compute_backoff b rc = min (cc_tail_retry_initial_ms config * 2 ^ min b 10) (cc_tail_retry_max_ms config)"
    using assms(2) by (auto simp: compute_backoff_def saturating_mul_def rc_def retry_config_of_def u64_max_def)
  then show ?thesis
    using order_less_le_trans [OF v(1) bounds(1) [of a]] bounds(1) [of a] bounds(2) [of b]
      compute_backoff_mono [OF assms(3), of rc] by blast
qed

theorem backoff_within_configuration_witness:
  "compute_backoff 3 (retry_config_of demo_config) \<le> compute_backoff 20 (retry_config_of demo_config)"
  using backoff_within_configuration [of demo_config 3 20]
  by (simp add: demo_config_def validate_coordinator_ok)


text \<open>A node that acknowledges everything it is sent, for the witness.\<close>

definition ready_network :: "nat network" where
  "ready_network = \<lparr>nw_dial = (\<lambda>_ w. (Inr (), w)), nw_execute_write = (\<lambda>_ _ w. (Inr [succeeded 1], Suc w))\<rparr>"

lemma ready_acks: "acked (Some (fst (send_write ready_network a b i s)))"
  by (simp add: send_write_def pool_get_def ready_network_def read_results_def succeeded_def)

definition demo_queues :: retry_queues where
  "demo_queues = enqueue_retries [(''core-1'', ''10.0.0.2:50051''), (''core-1'', ''10.0.0.2:50051'')]
     (fan_out_batch shard_b [demo_batch_statement ''A''] ''w1'' False) Map.empty"


text \<open>
  C28. A write a node refused is never delivered to it by the retry loop: while the node's
  dedup cache holds the failed results, a resend leaves the node as it is and puts the entry
  back at the end of the queue.
\<close>

theorem refused_write_is_never_delivered:
  assumes "holds_write (cm_world s) (pr_node_address e) (wb_write_id (pr_batch e)) results"
    and "wb_write_id (pr_batch e) \<noteq> []" and "list_ex (\<lambda>r. \<not> wr_success r) results"
    and "length (queue_of retries (pr_node_id e)) < MAX_PENDING_RETRIES"
    and "resend (cluster_network K A) e (retries, s) = (retries', s')"
  shows "cm_world s' = cm_world s
       \<and> queue_of retries' (pr_node_id e) = queue_of retries (pr_node_id e) @ [e]"
proof -
  obtain n where n: "cm_world s (pr_node_address e) = Some n"
    "dedup_get (nd_dedup n) (wb_write_id (pr_batch e)) = Some results"
    using assms(1) by (auto simp: holds_write_def)
  have hit: "execute_write K A (write_request (pr_batch e)) n = (results, n)"
    using n(2) assms(2) by (intro execute_write_hit) (simp add: check_dedup_def write_request_def)
  have bad: "\<nexists>rows. read_results (pr_batch e) i results = Inr rows" for i
    using assms(3) by (auto simp: read_results_Inr list_ex_iff list_all_iff)
  from assms(5) show ?thesis
  proof (cases rule: resend_cases)
    case (delivered rows)
    then have "read_results (pr_batch e) (pr_node_id e) results = Inr rows"
      using cluster_send [OF delivered(1)] n hit by auto
    then show ?thesis using bad by blast
  next
    case (again err)
    then show ?thesis
      using cluster_send [OF again(1)] n hit assms(4) by (auto simp: queue_of_push)
  qed
qed

definition demo_refused :: "log_conn world comms" where
  "demo_refused = pool_new (\<lambda>a. if a = ''10.0.0.2:50051''
     then Some (snd (execute_write log_duckdb log_arrow
       (write_request (fan_out_batch shard_b [demo_batch_statement ''FAIL''] ''w1'' False)) demo_node))
     else None)"

lemma demo_miss: "check_dedup req demo_node = None"
  by (simp add: check_dedup_def demo_node_dedup)

theorem refused_write_is_never_delivered_witness:
  "\<exists>e. pr_node_id e = ''core-1''
     \<and> queue_of (fst (resend demo_network e (Map.empty, demo_refused))) ''core-1'' = [e]"
proof -
  let ?b = "fan_out_batch shard_b [demo_batch_statement ''FAIL''] ''w1'' False"
  let ?e = "\<lparr>pr_node_address = ''10.0.0.2:50051'', pr_node_id = ''core-1'', pr_batch = ?b, pr_attempt = 1\<rparr>"
  obtain retries' s' where r: "resend demo_network ?e (Map.empty, demo_refused) = (retries', s')" by fastforce
  let ?rs = "fst (execute_write log_duckdb log_arrow (write_request ?b) demo_node)"
  have "holds_write (cm_world demo_refused) ''10.0.0.2:50051'' ''w1'' ?rs"
    using execute_write_holds [of "write_request ?b" log_duckdb log_arrow demo_node]
    by (simp add: holds_write_def demo_refused_def pool_new_def write_request_def fan_out_batch_def)
  moreover have "list_ex (\<lambda>r. \<not> wr_success r) ?rs"
    unfolding execute_write_miss [OF demo_miss]
    by (simp add: apply_request_def write_request_def fan_out_batch_def demo_batch_statement_def queued_def
        submit_def execute_sql_def step_conn_def log_duckdb_def result_of_def failed_def demo_node_def
        core_node_new_def)
  ultimately have "queue_of retries' ''core-1'' = [?e]"
    using refused_write_is_never_delivered [of demo_refused ?e ?rs Map.empty log_duckdb log_arrow retries' s'] r
    by (simp add: fan_out_batch_def MAX_PENDING_RETRIES_def)
  then show ?thesis using r by (intro exI [of _ ?e]) simp
qed

end
