(* ===== verification/Sql_Ast.thy ===== *)
theory Sql_Ast
  imports Names Catalog "HOL-Library.Word"
begin

text \<open>
  The syntax tree the write path inspects, and the bind values it is given. Both types are
  those of libraries, sqlparser's \<open>Statement\<close> and DataFusion's \<open>ScalarValue\<close>: the data types
  here have the constructors the coordinator matches on, and one more (\<open>EOther\<close>, \<open>VOther\<close>,
  \<open>SOther\<close>, \<open>StOther\<close>, ...) for the rest. What the coordinator asks of the libraries
  beyond matching is the record \<open>sql_lib\<close>: rendering an expression or a scalar as text, the
  string body of a literal, the type name of a scalar and its literal form as Arrow formats
  it, widening a float, rendering a type, a query, an ALTER operation or a statement, parsing
  an expression, and the visitors that list the expressions of a statement and read and replace
  its placeholders and relations in traversal order.
\<close>

section \<open>Expressions\<close>

datatype sql_value =
  VNumber string bool
| VSingleQuoted string
| VDoubleQuoted string
| VDollarQuoted string
| VEscaped string
| VUnicode string
| VNational string
| VBoolean bool
| VNull
| VPlaceholder string
| VOther string

datatype unary_op = UMinus | UPlus | UOther string

datatype binary_op = BEq | BAnd | BOr | BArrow | BOtherOp string

datatype expr =
  EIdentifier ident
| ECompoundIdentifier "ident list"
| EValue sql_value
| ENested expr
| EUnaryOp unary_op expr
| EBinaryOp expr binary_op expr
| ETypedString string sql_value
| EFunction object_name "expr list"
| EArray "expr list"
| EOther string "expr list"

section \<open>Column types\<close>

datatype character_length = IntegerLength nat | MaxLength

datatype sql_type =
  TyVarchar "character_length option"
| TyCharVarying "character_length option"
| TyCharacterVarying "character_length option"
| TyChar "character_length option"
| TyCharacter "character_length option"
| TyNvarchar "character_length option"
| TyText
| TyString "nat option"
| TyTinyText
| TyBoolean
| TyTinyInt
| TySmallInt
| TyInteger
| TyBigInt
| TyUBigInt
| TyReal
| TyDoublePrecision
| TyDecimal nat int
| TyDate
| TyTime
| TyTimestamp bool
| TyCustom object_name
| TyOtherType string

text \<open>The Boolean of \<open>TyTimestamp\<close> says \<open>WITH TIME ZONE\<close>.\<close>

section \<open>Queries\<close>

record table_alias =
  ta_name :: ident
  ta_columns :: "ident list"

text \<open>
  The Boolean of a plain table factor says whether it has arguments, which makes it a call of
  a table function. A derived table has whether it is lateral, the rows of its \<open>VALUES\<close> body if
  that is its body, and whether the query is that body alone (no WITH, ORDER BY, LIMIT, FETCH
  or pipe operator).
\<close>

datatype table_factor =
  FTable object_name "table_alias option" bool
| FDerived bool "expr list list option" bool "table_alias option"
| FOther string

datatype set_expr = SValues "expr list list" | SSelect "table_factor list" string | SOtherBody string

text \<open>A common table expression: its name, its column list and its query as text.\<close>

record cte =
  ce_name :: ident
  ce_columns :: "ident list"
  ce_query :: string

record query =
  qu_with :: "cte list"
  qu_body :: set_expr
  qu_rest :: string

datatype assignment_target = TColumnName object_name | TTuple "object_name list"

record assignment =
  ag_target :: assignment_target
  ag_value :: expr

section \<open>Statements that write rows\<close>

datatype conflict_target = CColumns "ident list" | COnConstraint object_name

datatype on_conflict_action = DoNothing | DoUpdate "assignment list" "expr option"

record on_conflict =
  oc_target :: "conflict_target option"
  oc_action :: on_conflict_action

datatype on_insert = OnConflict on_conflict | OnDuplicateKeyUpdate "assignment list"

datatype table_object = TableName object_name | TableFunction string

record insert_stmt =
  is_table :: table_object
  is_columns :: "object_name list"
  is_source :: "query option"
  is_on :: "on_insert option"
  is_returning :: bool

record update_stmt =
  us_table :: table_factor
  us_assignments :: "assignment list"
  us_selection :: "expr option"

record delete_stmt =
  ds_tables :: "table_factor list"
  ds_selection :: "expr option"

datatype merge_clause_kind = MMatched | MNotMatched | MNotMatchedByTarget | MNotMatchedBySource

datatype merge_insert_kind = MValues "expr list list" | MRow

text \<open>
  The actions of a MERGE clause: an update with its assignments and whether it has an update
  and a delete predicate of its own; an insert with its columns, its values and whether it has
  a predicate of its own; a delete.
\<close>

datatype merge_action =
  MUpdate "assignment list" bool bool
| MInsert "object_name list" merge_insert_kind bool
| MDelete

record merge_clause =
  mc_kind :: merge_clause_kind
  mc_predicate :: "expr option"
  mc_action :: merge_action

record merge_stmt =
  me_table :: table_factor
  me_source :: table_factor
  me_on :: expr
  me_clauses :: "merge_clause list"
  me_output :: bool

datatype copy_source = CopyTable object_name "ident list" | CopyQuery query

datatype copy_target = CopyFile string | CopyStdin | CopyStdout | CopyProgram string

text \<open>A Rust \<open>char\<close> of an option is its UTF-8 encoding.\<close>

datatype copy_option =
  CpFormat ident
| CpHeader bool
| CpDelimiter string
| CpQuote string
| CpOther string

datatype copy_legacy_csv_option = LcHeader | LcQuote string | LcOther string

datatype copy_legacy_option =
  ClCsv "copy_legacy_csv_option list"
| ClBinary
| ClDelimiter string
| ClOther string

record copy_stmt =
  cy_source :: copy_source
  cy_to :: bool
  cy_target :: copy_target
  cy_options :: "copy_option list"
  cy_legacy_options :: "copy_legacy_option list"
  cy_values :: "string option list"

section \<open>Statements that define objects\<close>

record unique_constraint =
  uq_name :: "ident option"
  uq_columns :: "expr list"
  uq_nulls_not_distinct :: bool
  uq_characteristics :: bool
  uq_index_name :: bool
  uq_index_type :: bool
  uq_index_options :: bool
  uq_index_display :: bool

record primary_key_constraint =
  pk_name :: "ident option"
  pk_columns :: "expr list"
  pk_characteristics :: bool
  pk_index_name :: bool
  pk_index_type :: bool
  pk_index_options :: bool

record check_constraint =
  ck_name :: "ident option"
  ck_expr :: expr
  ck_enforced :: "bool option"

datatype table_constraint =
  TcUnique unique_constraint
| TcPrimaryKey primary_key_constraint
| TcCheck check_constraint
| TcForeignKey object_name
| TcIndex
| TcFulltextOrSpatial
| TcPrimaryKeyUsingIndex
| TcUniqueUsingIndex

datatype column_option =
  CoNotNull
| CoUnique unique_constraint
| CoPrimaryKey primary_key_constraint
| CoCheck check_constraint
| CoForeignKey object_name
| CoCollation object_name
| CoDefault expr
| CoGenerated bool
| CoOther string

text \<open>\<open>CoGenerated\<close> has whether the column is generated from an expression.\<close>

record column_option_def =
  od_name :: "ident option"
  od_option :: column_option

record ast_column =
  ac_name :: ident
  ac_data_type :: sql_type
  ac_options :: "column_option_def list"

datatype sql_option = KeyValue ident expr | OtherSqlOption string

datatype create_table_options = NoOptions | WithOptions "sql_option list" | OtherOptions string

record create_table =
  cr_name :: object_name
  cr_if_not_exists :: bool
  cr_columns :: "ast_column list"
  cr_constraints :: "table_constraint list"
  cr_options :: create_table_options
  cr_query :: "query option"
  cr_like :: bool
  cr_clone :: bool
  cr_rest :: string

datatype alter_column_operation =
  AcSetDataType sql_type
| AcSetNotNull
| AcDropNotNull
| AcSetDefault expr
| AcDropDefault
| AcOther string

datatype rename_kind = RenameTo object_name | RenameAs object_name

datatype alter_operation =
  AoAddColumn ast_column bool
| AoDropColumn "ident list" bool
| AoRenameColumn ident ident
| AoAlterColumn ident alter_column_operation
| AoRenameTable rename_kind
| AoAddConstraint table_constraint bool
| AoDropConstraint bool ident bool
| AoDropPrimaryKey
| AoDropForeignKey
| AoDropIndex ident
| AoOther string

text \<open>
  The Booleans of an operation: IF NOT EXISTS of ADD COLUMN, IF EXISTS of DROP COLUMN, NOT
  VALID of ADD CONSTRAINT, and IF EXISTS and the presence of a drop behaviour of DROP
  CONSTRAINT.
\<close>

record alter_table =
  al_name :: object_name
  al_if_exists :: bool
  al_operations :: "alter_operation list"
  al_rest :: string

record create_index =
  ci_name :: "object_name option"
  ci_table_name :: object_name
  ci_columns :: "expr list"
  ci_unique :: bool
  ci_if_not_exists :: bool
  ci_predicate :: bool
  ci_nulls_distinct :: "bool option"
  ci_rest :: string

datatype schema_name = SimpleSchema object_name | UnnamedAuthorization | NamedAuthorization object_name

record create_schema =
  cs_name :: schema_name
  cs_if_not_exists :: bool
  cs_with :: bool
  cs_options :: bool
  cs_default_collate :: bool
  cs_clone :: bool

datatype alter_schema_operation =
  AsRename object_name
| AsOwnerTo
| AsSetDefaultCollate
| AsAddReplica
| AsDropReplica
| AsSetOptionsParens

record alter_schema =
  ah_name :: object_name
  ah_if_exists :: bool
  ah_operations :: "alter_schema_operation list"

record view_column =
  vc_name :: ident
  vc_data_type :: bool
  vc_options :: bool

record create_view =
  cv_name :: object_name
  cv_columns :: "view_column list"
  cv_query :: query
  cv_or_replace :: bool
  cv_if_not_exists :: bool
  cv_materialized :: bool
  cv_or_alter :: bool
  cv_secure :: bool
  cv_temporary :: bool
  cv_with_no_schema_binding :: bool
  cv_to :: bool
  cv_cluster_by :: bool
  cv_comment :: bool
  cv_params :: bool
  cv_options :: create_table_options

record alter_view =
  av_name :: object_name
  av_columns :: "ident list"
  av_query :: query
  av_with_options :: bool

datatype object_type = OTable | OView | OIndex | OSchema | OOther string

record drop_stmt =
  dr_object :: object_type
  dr_if_exists :: bool
  dr_names :: "object_name list"
  dr_cascade :: bool
  dr_restrict :: bool
  dr_table :: bool

datatype truncate_identity = RestartIdentity | ContinueIdentity

record truncate_stmt =
  tr_names :: "object_name list"
  tr_if_exists :: bool
  tr_cascade :: bool
  tr_identity :: "truncate_identity option"
  tr_partitions :: bool
  tr_on_cluster :: bool

section \<open>Statements\<close>

datatype transaction_mode = ReadOnly | ReadWrite | IsolationLevel string

datatype context_modifier = CmSession | CmLocal | CmGlobal

text \<open>
  \<open>SetSingle\<close> has the scope, whether the statement is hive variable syntax, the variable and
  the values; \<open>SetOther\<close> has the name of the form.
\<close>

datatype set_stmt =
  SetSingle "context_modifier option" bool object_name "expr list"
| SetTimeZone bool expr
| SetOther string

text \<open>
  \<open>StStartTransaction\<close> has the modes, the modifier, and whether the statement carries an
  inline block.
\<close>

datatype statement =
  StQuery query
| StInsert insert_stmt
| StUpdate update_stmt
| StDelete delete_stmt
| StMerge merge_stmt
| StCreateTable create_table
| StAlterTable alter_table
| StCreateIndex create_index
| StCreateSchema create_schema
| StAlterSchema alter_schema
| StCreateView create_view
| StAlterView alter_view
| StDrop drop_stmt
| StTruncate truncate_stmt
| StCopy copy_stmt
| StStartTransaction "transaction_mode list" "string option" bool
| StCommit bool "string option"
| StRollback bool "ident option"
| StSavepoint ident
| StReleaseSavepoint ident
| StSet set_stmt
| StShowVariable "ident list"
| StExplain statement
| StExplainTable object_name
| StCreateSequence
| StCreateType
| StCreateDomain
| StAlterType
| StComment
| StAnalyze
| StCall
| StUse
| StOther string

section \<open>Bind values\<close>

datatype scalar =
  SUtf8 "string option"
| SLargeUtf8 "string option"
| SUtf8View "string option"
| SBoolean "bool option"
| SInt8 "int option"
| SInt16 "int option"
| SInt32 "int option"
| SInt64 "int option"
| SUInt8 "nat option"
| SUInt16 "nat option"
| SUInt32 "nat option"
| SUInt64 "nat option"
| SFloat16 "16 word option"
| SFloat32 "32 word option"
| SFloat64 "64 word option"
| SDecimal128 "int option" nat int
| SDecimal256 "int option" nat int
| SDate32 "int option"
| SDate64 "int option"
| SBinary "string option"
| SLargeBinary "string option"
| SBinaryView "string option"
| SFixedSizeBinary nat "string option"
| STemporal string "int option"
| SIntervalYearMonth "int option"
| SIntervalDayTime "(int \<times> int) option"
| SIntervalMonthDayNano "(int \<times> int \<times> int) option"
| SNull
| SOther string bool

text \<open>\<open>STemporal\<close> stands for the times and timestamps, with the name of the variant.\<close>

fun is_null_scalar :: "scalar \<Rightarrow> bool" where
  "is_null_scalar (SUtf8 x) = (x = None)"
| "is_null_scalar (SLargeUtf8 x) = (x = None)"
| "is_null_scalar (SUtf8View x) = (x = None)"
| "is_null_scalar (SBoolean x) = (x = None)"
| "is_null_scalar (SInt8 x) = (x = None)"
| "is_null_scalar (SInt16 x) = (x = None)"
| "is_null_scalar (SInt32 x) = (x = None)"
| "is_null_scalar (SInt64 x) = (x = None)"
| "is_null_scalar (SUInt8 x) = (x = None)"
| "is_null_scalar (SUInt16 x) = (x = None)"
| "is_null_scalar (SUInt32 x) = (x = None)"
| "is_null_scalar (SUInt64 x) = (x = None)"
| "is_null_scalar (SFloat16 x) = (x = None)"
| "is_null_scalar (SFloat32 x) = (x = None)"
| "is_null_scalar (SFloat64 x) = (x = None)"
| "is_null_scalar (SDecimal128 x _ _) = (x = None)"
| "is_null_scalar (SDecimal256 x _ _) = (x = None)"
| "is_null_scalar (SDate32 x) = (x = None)"
| "is_null_scalar (SDate64 x) = (x = None)"
| "is_null_scalar (SBinary x) = (x = None)"
| "is_null_scalar (SLargeBinary x) = (x = None)"
| "is_null_scalar (SBinaryView x) = (x = None)"
| "is_null_scalar (SFixedSizeBinary _ x) = (x = None)"
| "is_null_scalar (STemporal _ x) = (x = None)"
| "is_null_scalar (SIntervalYearMonth x) = (x = None)"
| "is_null_scalar (SIntervalDayTime x) = (x = None)"
| "is_null_scalar (SIntervalMonthDayNano x) = (x = None)"
| "is_null_scalar SNull = True"
| "is_null_scalar (SOther _ n) = n"

section \<open>What is asked of the libraries\<close>

record sql_lib =
  sq_expr :: "expr \<Rightarrow> string"
  sq_value :: "sql_value \<Rightarrow> string"
  sq_into_string :: "sql_value \<Rightarrow> string option"
  sq_scalar :: "scalar \<Rightarrow> string"
  sq_data_type :: "scalar \<Rightarrow> string"
  sq_arrow_literal :: "scalar \<Rightarrow> (string, string) result"
  sq_f16 :: "16 word \<Rightarrow> 64 word"
  sq_f32 :: "32 word \<Rightarrow> 64 word"
  sq_object_name :: "object_name \<Rightarrow> string"
  sq_type :: "sql_type \<Rightarrow> string"
  sq_query :: "query \<Rightarrow> string"
  sq_alter_operation :: "alter_operation \<Rightarrow> string"
  sq_alter_column :: "alter_column_operation \<Rightarrow> string"
  sq_parse_expr :: "string \<Rightarrow> expr option"
  sq_expressions :: "statement \<Rightarrow> expr list"
  sq_statement :: "statement \<Rightarrow> string"
  sq_placeholders :: "statement \<Rightarrow> string list"
  sq_with_placeholders :: "string list \<Rightarrow> statement \<Rightarrow> statement"
  sq_relations :: "statement \<Rightarrow> object_name list"
  sq_with_relations :: "object_name list \<Rightarrow> statement \<Rightarrow> statement"
  sq_query_relations :: "query \<Rightarrow> object_name list"

section \<open>Integers as text\<close>

definition show_int :: "int \<Rightarrow> string" where
  "show_int i = (if i < 0 then ''-'' @ show_nat (nat (- i)) else show_nat (nat i))"

definition parse_i32 :: "string \<Rightarrow> int option" where
  "parse_i32 s =
     (case s of
        [] \<Rightarrow> None
      | c # cs \<Rightarrow>
          (let neg = c = CHR ''-'';
               ds = (if c = CHR ''-'' \<or> c = CHR ''+'' then cs else s);
               v = (if neg then - int (read_nat ds) else int (read_nat ds))
           in if ds \<noteq> [] \<and> list_all is_ascii_digit ds \<and> - (2 ^ 31) \<le> v \<and> v < 2 ^ 31
              then Some v else None))"

end
