(* ===== verification/Decimal.thy ===== *)
theory Decimal
  imports Prelude Complex_Main
begin

text \<open>
  Decimal digit strings and the rational numbers they denote. A magnitude is an integer part
  and a fraction part; it is in lowest terms when the integer part has no leading zero (or is
  a single zero) and the fraction part no trailing one. Lowest terms are unique.
\<close>

abbreviation zero_char :: char where
  "zero_char \<equiv> CHR ''0''"

definition mag :: "string \<Rightarrow> string \<Rightarrow> rat" where
  "mag ip fp = of_nat (read_nat (ip @ fp)) / 10 ^ length fp"

definition lowest :: "string \<Rightarrow> string \<Rightarrow> bool" where
  "lowest ip fp \<longleftrightarrow>
     list_all is_ascii_digit ip \<and> list_all is_ascii_digit fp
   \<and> ip \<noteq> [] \<and> (hd ip = zero_char \<longrightarrow> ip = ''0'') \<and> (fp \<noteq> [] \<longrightarrow> last fp \<noteq> zero_char)"

lemma char_digit_zero [simp]: "char_digit zero_char = 0"
  by (simp add: char_digit_def)

lemma char_digit_inject:
  assumes "is_ascii_digit c" "is_ascii_digit d"
  shows "char_digit c = char_digit d \<longleftrightarrow> c = d"
  using digit_char_char_digit [OF assms(1)] digit_char_char_digit [OF assms(2)] by metis

lemma char_digit_eq_0: "is_ascii_digit c \<Longrightarrow> char_digit c = 0 \<longleftrightarrow> c = zero_char"
  using char_digit_inject [of c zero_char] by (simp add: is_ascii_digit_def)

lemma read_nat_append: "read_nat (xs @ ys) = read_nat xs * 10 ^ length ys + read_nat ys"
proof (induction ys rule: rev_induct)
  case (snoc y ys)
  have "read_nat (xs @ ys @ [y]) = 10 * read_nat (xs @ ys) + char_digit y"
    using read_nat_simps(2) [of "xs @ ys" y] by simp
  then show ?case using snoc.IH by simp
qed simp

lemma read_nat_Cons: "read_nat (c # cs) = char_digit c * 10 ^ length cs + read_nat cs"
  using read_nat_append [of "[c]" cs] by (simp add: read_nat_def)

lemma read_nat_zeros [simp]: "read_nat (replicate n zero_char) = 0"
  by (induction n) (simp_all add: read_nat_Cons)

lemma read_nat_bound: "list_all is_ascii_digit xs \<Longrightarrow> read_nat xs < 10 ^ length xs"
proof (induction xs rule: rev_induct)
  case (snoc x xs)
  then have "read_nat xs < 10 ^ length xs" "char_digit x < 10" by (simp_all add: char_digit_less)
  then show ?case by simp
qed simp

lemma last_digit_unique: "10 * a + c = 10 * b + d \<Longrightarrow> c < 10 \<Longrightarrow> d < 10 \<Longrightarrow> a = b \<and> c = (d::nat)"
  by presburger

lemma read_nat_inject_same_length:
  assumes "list_all is_ascii_digit xs" "list_all is_ascii_digit ys" "length xs = length ys"
    "read_nat xs = read_nat ys"
  shows "xs = ys"
  using assms
proof (induction xs arbitrary: ys rule: rev_induct)
  case (snoc x xs)
  obtain y zs where ys: "ys = zs @ [y]" using snoc.prems(3) by (cases ys rule: rev_cases) auto
  have d: "char_digit x < 10" "char_digit y < 10" using snoc.prems ys by (simp_all add: char_digit_less)
  have "10 * read_nat xs + char_digit x = 10 * read_nat zs + char_digit y" using snoc.prems(4) ys by simp
  then have eq: "read_nat xs = read_nat zs" "char_digit x = char_digit y"
    using last_digit_unique [OF _ d] by blast+
  have "x = y" using eq(2) char_digit_inject [of x y] snoc.prems(1,2) ys by simp
  moreover have "xs = zs" using snoc.IH [of zs] snoc.prems ys eq(1) by simp
  ultimately show ?case using ys by simp
qed simp

section \<open>Leading and trailing zeros\<close>

lemma trim_start_zeros:
  "\<exists>n. s = replicate n zero_char @ trim_start_matches zero_char s"
proof -
  have "takeWhile (\<lambda>x. x = zero_char) s = replicate (length (takeWhile (\<lambda>x. x = zero_char) s)) zero_char"
    by (rule replicate_length_same [symmetric]) (auto dest: set_takeWhileD)
  then show ?thesis
    unfolding trim_start_matches_def using takeWhile_dropWhile_id [of "\<lambda>x. x = zero_char" s] by metis
qed

lemma trim_start_hd: "trim_start_matches zero_char s = c # cs \<Longrightarrow> c \<noteq> zero_char"
  by (auto simp: trim_start_matches_def dropWhile_eq_Cons_conv)

lemma trim_end_zeros: "\<exists>n. s = trim_end_matches zero_char s @ replicate n zero_char"
proof -
  obtain n where "rev s = replicate n zero_char @ dropWhile (\<lambda>x. x = zero_char) (rev s)"
    using trim_start_zeros [of "rev s"] by (auto simp: trim_start_matches_def)
  then have "s = rev (dropWhile (\<lambda>x. x = zero_char) (rev s)) @ replicate n zero_char"
    by (metis rev_append rev_replicate rev_rev_ident)
  then show ?thesis by (auto simp: trim_end_matches_def)
qed

lemma trim_end_last: "trim_end_matches zero_char s \<noteq> [] \<Longrightarrow> last (trim_end_matches zero_char s) \<noteq> zero_char"
  using hd_dropWhile [of "\<lambda>x. x = zero_char" "rev s"] by (auto simp: trim_end_matches_def last_rev)

lemma trim_digits:
  "list_all is_ascii_digit s \<Longrightarrow> list_all is_ascii_digit (trim_start_matches zero_char s)"
  "list_all is_ascii_digit s \<Longrightarrow> list_all is_ascii_digit (trim_end_matches zero_char s)"
  by (auto simp: list_all_iff trim_start_matches_def trim_end_matches_def dest: set_dropWhileD)

lemma mag_leading: "mag (replicate n zero_char @ ip) fp = mag ip fp"
  by (simp add: mag_def read_nat_append)

lemma mag_trailing: "mag ip (fp @ replicate n zero_char) = mag ip fp"
proof -
  have "read_nat (ip @ fp @ replicate n zero_char) = read_nat (ip @ fp) * 10 ^ n"
    using read_nat_append [of "ip @ fp" "replicate n zero_char"] by simp
  then show ?thesis by (simp add: mag_def power_add)
qed

lemma mag_split:
  "mag ip fp = of_nat (read_nat ip) + of_nat (read_nat fp) / 10 ^ length fp"
  by (simp add: mag_def read_nat_append add_divide_distrib)

section \<open>Uniqueness of lowest terms\<close>

lemma frac_less_one:
  assumes "list_all is_ascii_digit fp"
  shows "(of_nat (read_nat fp) :: rat) / 10 ^ length fp < 1"
proof -
  have "(of_nat (read_nat fp) :: rat) < of_nat (10 ^ length fp)"
    using read_nat_bound [OF assms] by (simp only: of_nat_less_iff)
  then show ?thesis by simp
qed

lemma integer_part_unique:
  fixes f g :: rat
  assumes "of_nat a + f = of_nat b + g" "0 \<le> f" "f < 1" "0 \<le> g" "g < 1"
  shows "a = b \<and> f = g"
proof -
  have "\<lfloor>of_nat a + f\<rfloor> = int a" by (rule floor_unique) (use assms in simp_all)
  moreover have "\<lfloor>of_nat b + g\<rfloor> = int b" by (rule floor_unique) (use assms in simp_all)
  ultimately show ?thesis using assms(1) by simp
qed

lemma digit_zero: "10 * a = 10 * b + c \<Longrightarrow> c < 10 \<Longrightarrow> c = (0::nat)"
  by presburger

lemma frac_unique_le:
  assumes "list_all is_ascii_digit fp" "list_all is_ascii_digit fq" "length fp \<le> length fq"
    and "fq \<noteq> [] \<longrightarrow> last fq \<noteq> zero_char"
    and "(of_nat (read_nat fp) :: rat) / 10 ^ length fp = of_nat (read_nat fq) / 10 ^ length fq"
  shows "fp = fq"
proof -
  define k where "k = length fq - length fp"
  have len: "length fq = length fp + k" using assms(3) by (simp add: k_def)
  have "(of_nat (read_nat fp) :: rat) * 10 ^ k = of_nat (read_nat fq)"
    using assms(5) by (simp add: len power_add field_simps)
  then have "(of_nat (read_nat fp * 10 ^ k) :: rat) = of_nat (read_nat fq)" by simp
  then have eq: "read_nat fp * 10 ^ k = read_nat fq" by (simp only: of_nat_eq_iff)
  have "k = 0"
  proof (rule ccontr)
    assume "k \<noteq> 0"
    then obtain j where k: "k = Suc j" by (cases k) auto
    then obtain ys y where fq: "fq = ys @ [y]" using len by (cases fq rule: rev_cases) auto
    have y: "is_ascii_digit y" "y \<noteq> zero_char" using assms(2,4) fq by auto
    have "10 * (read_nat fp * 10 ^ j) = 10 * read_nat ys + char_digit y" using eq k fq by simp
    moreover have "char_digit y < 10" by (rule char_digit_less [OF y(1)])
    ultimately have "char_digit y = 0" by (rule digit_zero)
    then show False using char_digit_eq_0 [OF y(1)] y(2) by simp
  qed
  then show ?thesis using read_nat_inject_same_length [OF assms(1,2)] len eq by simp
qed

lemma read_nat_lower:
  assumes "list_all is_ascii_digit s" "s \<noteq> []" "hd s \<noteq> zero_char"
  shows "10 ^ (length s - 1) \<le> read_nat s"
proof -
  obtain c cs where s: "s = c # cs" using assms(2) by (cases s) auto
  have "char_digit c \<noteq> 0" using assms s by (simp add: char_digit_eq_0)
  then have "(1::nat) * 10 ^ length cs \<le> char_digit c * 10 ^ length cs" by (intro mult_le_mono1) simp
  then show ?thesis unfolding s read_nat_Cons length_Cons diff_Suc_1 by linarith
qed

lemma read_nat_eq_0:
  assumes "list_all is_ascii_digit s" "s \<noteq> []" "hd s = zero_char \<longrightarrow> s = ''0''"
  shows "read_nat s = 0 \<longleftrightarrow> s = ''0''"
proof (cases "hd s = zero_char")
  case True
  then show ?thesis using assms(3) by (simp add: read_nat_Cons)
next
  case False
  then have "0 < read_nat s"
    using read_nat_lower [OF assms(1,2)] by (meson less_le_trans zero_less_numeral zero_less_power)
  then show ?thesis using False by auto
qed

lemma lowest_int_unique:
  assumes "list_all is_ascii_digit ip" "list_all is_ascii_digit iq" "ip \<noteq> []" "iq \<noteq> []"
    and "hd ip = zero_char \<longrightarrow> ip = ''0''" "hd iq = zero_char \<longrightarrow> iq = ''0''" "read_nat ip = read_nat iq"
  shows "ip = iq"
proof (cases "read_nat ip = 0")
  case True
  then show ?thesis
    using read_nat_eq_0 [OF assms(1,3,5)] read_nat_eq_0 [OF assms(2,4,6)] assms(7) by simp
next
  case False
  then have hd: "hd ip \<noteq> zero_char" "hd iq \<noteq> zero_char"
    using read_nat_eq_0 [OF assms(1,3,5)] read_nat_eq_0 [OF assms(2,4,6)] assms(5-7) by auto
  have "10 ^ (length ip - 1) < (10::nat) ^ length iq"
    using read_nat_lower [OF assms(1,3) hd(1)] read_nat_bound [OF assms(2)] assms(7) by linarith
  moreover have "10 ^ (length iq - 1) < (10::nat) ^ length ip"
    using read_nat_lower [OF assms(2,4) hd(2)] read_nat_bound [OF assms(1)] assms(7) by linarith
  ultimately have "length ip - 1 < length iq" "length iq - 1 < length ip" by simp_all
  then have "length ip = length iq" by linarith
  then show ?thesis using read_nat_inject_same_length [OF assms(1,2)] assms(7) by blast
qed

theorem lowest_unique:
  assumes "lowest ip fp" "lowest iq fq" "mag ip fp = mag iq fq"
  shows "ip = iq \<and> fp = fq"
proof -
  have parts: "read_nat ip = read_nat iq
      \<and> (of_nat (read_nat fp) :: rat) / 10 ^ length fp = of_nat (read_nat fq) / 10 ^ length fq"
    using assms frac_less_one [of fp] frac_less_one [of fq]
    by (intro integer_part_unique) (auto simp: mag_split lowest_def)
  have "ip = iq" using assms parts by (intro lowest_int_unique) (auto simp: lowest_def)
  moreover have "fp = fq"
    using frac_unique_le [of fp fq] frac_unique_le [of fq fp] parts assms
    by (cases "length fp \<le> length fq") (auto simp: lowest_def)
  ultimately show ?thesis by simp
qed

end
