(* ===== verification/Routing_Value.thy ===== *)
theory Routing_Value
  imports Sql_Ast Decimal
begin

text \<open>
  The routing string of a shard-key expression:
  \<open>crates/vairedb-coordinator/src/write_sql_cl/routing_value.rs\<close>.

  The lemmas read a numeric token as the rational number it denotes and show that the
  canonical form of a token denotes the same number and is the only canonical form that
  does, so two tokens have equal routing strings exactly when they denote equal numbers.
\<close>

section \<open>The code\<close>

datatype routed_value = RValue string | RNull | RUnroutable string

definition squote :: char where
  "squote = CHR 0x27"

definition quote_literal :: "string \<Rightarrow> string" where
  "quote_literal s =
     [squote] @ concat (map (\<lambda>c. if c = squote then [squote, squote] else [c]) s) @ [squote]"

fun undouble :: "string \<Rightarrow> string" where
  "undouble (c # d # cs) =
     (if c = squote \<and> d = squote then squote # undouble cs else c # undouble (d # cs))"
| "undouble cs = cs"

text \<open>\<open>i32::abs\<close> wraps at the least value.\<close>

definition abs_i32 :: "int \<Rightarrow> int" where
  "abs_i32 e = (if e = - (2 ^ 31) then e else \<bar>e\<bar>)"

definition split_point :: "string \<Rightarrow> string \<times> string" where
  "split_point s = (case split_once (CHR ''.'') s of Some p \<Rightarrow> p | None \<Rightarrow> (s, []))"

definition shift_point :: "bool \<Rightarrow> string \<Rightarrow> int \<Rightarrow> string" where
  "shift_point neg digits point =
     (if neg then ''-'' else [])
     @ (if point \<le> 0 then ''0.'' @ replicate (nat (- point)) (CHR ''0'') @ digits
        else if point \<ge> int (length digits) then
          digits @ replicate (nat (point - int (length digits))) (CHR ''0'')
        else take (nat point) digits @ ''.'' @ drop (nat point) digits)"

definition expand_scientific_notation :: "string \<Rightarrow> string option" where
  "expand_scientific_notation t =
     Option.bind (position (\<lambda>b. b = CHR ''e'' \<or> b = CHR ''E'') t) (\<lambda>e_pos.
     Option.bind (parse_i32 (drop (e_pos + 1) t)) (\<lambda>exp.
       let mantissa = take e_pos t in
       if abs_i32 exp > 1000 then None
       else
         (let (neg, mant) =
            (case strip_prefix ''-'' mantissa of
               Some rest \<Rightarrow> (True, rest)
             | None \<Rightarrow>
                 (False, case strip_prefix ''+'' mantissa of Some r \<Rightarrow> r | None \<Rightarrow> mantissa))
          in if count_list mant (CHR ''.'') > 1 then None
             else
               (let (int_digits, frac_digits) = split_point mant;
                    digits = int_digits @ frac_digits
                in if digits = [] \<or> \<not> list_all is_ascii_digit digits then None
                   else Some (shift_point neg digits (int (length int_digits) + exp))))))"

definition canonical_decimal :: "bool \<Rightarrow> string \<Rightarrow> string \<Rightarrow> string" where
  "canonical_decimal neg int_part frac_part =
     (let int_trimmed = trim_start_matches (CHR ''0'') int_part;
          int_norm = (if int_trimmed = [] then ''0'' else int_trimmed);
          frac_norm = trim_end_matches (CHR ''0'') frac_part;
          value_is_zero = (int_norm = ''0'' \<and> frac_norm = [])
      in (if neg \<and> \<not> value_is_zero then ''-'' else [])
         @ int_norm @ (if frac_norm \<noteq> [] then ''.'' @ frac_norm else []))"

definition canonicalize_numeric :: "string \<Rightarrow> string option" where
  "canonicalize_numeric t0 =
     (let t1 = trim t0 in
      Option.bind
        (if CHR ''e'' \<in> set t1 \<or> CHR ''E'' \<in> set t1 then expand_scientific_notation t1 else Some t1)
        (\<lambda>t.
          let (neg, digits) =
            (case strip_prefix ''-'' t of Some rest \<Rightarrow> (True, rest) | None \<Rightarrow> (False, t))
          in if digits = [] \<or> \<not> list_all (\<lambda>b. is_ascii_digit b \<or> b = CHR ''.'') digits then None
             else if count_list digits (CHR ''.'') > 1 then None
             else
               (let (int_part, frac_part) = split_point digits in
                Some (canonical_decimal neg int_part frac_part))))"

definition unwrap_quotes :: "string \<Rightarrow> string option" where
  "unwrap_quotes t = Option.bind (strip_prefix [squote] t) (strip_suffix [squote])"

definition canonicalize_routing_value :: "string \<Rightarrow> string" where
  "canonicalize_routing_value s =
     (case unwrap_quotes (trim s) of
        Some inner \<Rightarrow>
          (case canonicalize_numeric (undouble inner) of Some c \<Rightarrow> c | None \<Rightarrow> s)
      | None \<Rightarrow> (case canonicalize_numeric (trim s) of Some c \<Rightarrow> c | None \<Rightarrow> s))"

definition scaled_plain_string :: "bool \<Rightarrow> string \<Rightarrow> int \<Rightarrow> string" where
  "scaled_plain_string neg digits scale =
     (let body =
        (if scale \<le> 0 then
           digits @ (if list_ex (\<lambda>b. b \<noteq> CHR ''0'') digits
                     then replicate (nat (- scale)) (CHR ''0'') else [])
         else if length digits > nat scale then
           (let point = length digits - nat scale in take point digits @ ''.'' @ drop point digits)
         else ''0.'' @ replicate (nat scale - length digits) (CHR ''0'') @ digits)
      in if neg then ''-'' @ body else body)"

definition unroutable_expr :: "sql_lib \<Rightarrow> expr \<Rightarrow> routed_value" where
  "unroutable_expr L e =
     RUnroutable (''shard-key expression `'' @ sq_expr L e
       @ ''` is not a constant; the coordinator hashes ''
       @ ''the shard key before the write reaches a shard, so it must be a literal ''
       @ ''or a bind parameter'')"

definition scalar_text :: "sql_lib \<Rightarrow> scalar \<Rightarrow> string option" where
  "scalar_text L scalar =
     (case scalar of
        SUtf8 (Some s) \<Rightarrow> Some (quote_literal s)
      | SLargeUtf8 (Some s) \<Rightarrow> Some (quote_literal s)
      | SUtf8View (Some s) \<Rightarrow> Some (quote_literal s)
      | SBoolean (Some b) \<Rightarrow> Some (if b then ''true'' else ''false'')
      | SInt8 (Some _) \<Rightarrow> Some (sq_scalar L scalar)
      | SInt16 (Some _) \<Rightarrow> Some (sq_scalar L scalar)
      | SInt32 (Some _) \<Rightarrow> Some (sq_scalar L scalar)
      | SInt64 (Some _) \<Rightarrow> Some (sq_scalar L scalar)
      | SUInt8 (Some _) \<Rightarrow> Some (sq_scalar L scalar)
      | SUInt16 (Some _) \<Rightarrow> Some (sq_scalar L scalar)
      | SUInt32 (Some _) \<Rightarrow> Some (sq_scalar L scalar)
      | SUInt64 (Some _) \<Rightarrow> Some (sq_scalar L scalar)
      | SFloat16 (Some _) \<Rightarrow> Some (sq_scalar L scalar)
      | SFloat32 (Some _) \<Rightarrow> Some (sq_scalar L scalar)
      | SFloat64 (Some _) \<Rightarrow> Some (sq_scalar L scalar)
      | SDecimal128 (Some v) _ scale \<Rightarrow>
          Some (scaled_plain_string (v < 0) (show_nat (nat \<bar>v\<bar>)) scale)
      | SDecimal256 (Some v) _ scale \<Rightarrow>
          (case strip_prefix ''-'' (show_int v) of
             Some digits \<Rightarrow> Some (scaled_plain_string True digits scale)
           | None \<Rightarrow> Some (scaled_plain_string False (show_int v) scale))
      | SDate32 (Some _) \<Rightarrow> Some (quote_literal (sq_scalar L scalar))
      | SDate64 (Some _) \<Rightarrow> Some (quote_literal (sq_scalar L scalar))
      | _ \<Rightarrow> None)"

definition scalar_routing_value :: "sql_lib \<Rightarrow> scalar \<Rightarrow> routed_value" where
  "scalar_routing_value L scalar =
     (if is_null_scalar scalar then RNull
      else
        (case scalar_text L scalar of
           Some s \<Rightarrow> RValue (canonicalize_routing_value s)
         | None \<Rightarrow>
             RUnroutable (''a shard-key bind parameter of type '' @ sq_data_type L scalar
               @ '' cannot be routed: its bound ''
               @ ''form and its SQL literal form do not agree, so the row would be ''
               @ ''placed on a shard no lookup of the same value would search; send ''
               @ ''the shard key as a literal instead'')))"

definition value_routing_value :: "sql_lib \<Rightarrow> sql_value \<Rightarrow> expr \<Rightarrow> scalar list \<Rightarrow> routed_value" where
  "value_routing_value L v e params =
     (case v of
        VNull \<Rightarrow> RNull
      | VPlaceholder name \<Rightarrow>
          (case placeholder_index name of
             Some idx \<Rightarrow>
               if idx < length params then scalar_routing_value L (params ! idx)
               else RUnroutable (''no value was bound for shard-key parameter '' @ name)
           | None \<Rightarrow>
               RUnroutable (''shard-key placeholder `'' @ name
                 @ ''` is not a positional `$N` parameter''))
      | VNumber _ _ \<Rightarrow> RValue (canonicalize_routing_value (sq_expr L e))
      | VBoolean _ \<Rightarrow> RValue (canonicalize_routing_value (sq_expr L e))
      | VSingleQuoted _ \<Rightarrow> RValue (canonicalize_routing_value (sq_expr L e))
      | VDollarQuoted _ \<Rightarrow> RValue (canonicalize_routing_value (sq_expr L e))
      | VEscaped _ \<Rightarrow> RValue (canonicalize_routing_value (sq_expr L e))
      | VUnicode _ \<Rightarrow> RValue (canonicalize_routing_value (sq_expr L e))
      | VNational _ \<Rightarrow> RValue (canonicalize_routing_value (sq_expr L e))
      | _ \<Rightarrow> unroutable_expr L e)"

fun expr_routing_value :: "sql_lib \<Rightarrow> expr \<Rightarrow> scalar list \<Rightarrow> routed_value" where
  "expr_routing_value L (ENested inner) params = expr_routing_value L inner params"
| "expr_routing_value L (EValue v) params = value_routing_value L v (EValue v) params"
| "expr_routing_value L (EUnaryOp op operand) params =
     (case (op, operand) of
        (UMinus, EValue (VNumber _ _)) \<Rightarrow>
          RValue (canonicalize_routing_value (sq_expr L (EUnaryOp op operand)))
      | (UPlus, EValue (VNumber _ _)) \<Rightarrow>
          RValue (canonicalize_routing_value (sq_expr L (EUnaryOp op operand)))
      | _ \<Rightarrow> unroutable_expr L (EUnaryOp op operand))"
| "expr_routing_value L (ETypedString ty v) params =
     (case sq_into_string L v of
        Some s \<Rightarrow> RValue (canonicalize_routing_value (quote_literal s))
      | None \<Rightarrow> unroutable_expr L (ETypedString ty v))"
| "expr_routing_value L e params = unroutable_expr L e"

section \<open>The number a token denotes\<close>

definition with_sign :: "bool \<Rightarrow> rat \<Rightarrow> rat" where
  "with_sign neg x = (if neg then - x else x)"

definition decimal_parts :: "string \<Rightarrow> (bool \<times> string \<times> string) option" where
  "decimal_parts t =
     (let (neg, digits) = (case strip_prefix ''-'' t of Some rest \<Rightarrow> (True, rest) | None \<Rightarrow> (False, t))
      in if digits = [] \<or> \<not> list_all (\<lambda>b. is_ascii_digit b \<or> b = CHR ''.'') digits
            \<or> count_list digits (CHR ''.'') > 1
         then None else Some (neg, split_point digits))"

definition decimal_value :: "string \<Rightarrow> rat option" where
  "decimal_value t = map_option (\<lambda>(neg, ip, fp). with_sign neg (mag ip fp)) (decimal_parts t)"

definition mantissa_value :: "string \<Rightarrow> rat option" where
  "mantissa_value m =
     (case strip_prefix ''+'' m of
        Some r \<Rightarrow> if prefix ''-'' r then None else decimal_value r
      | None \<Rightarrow> decimal_value m)"

definition numeric_value :: "string \<Rightarrow> rat option" where
  "numeric_value t0 =
     (let t = trim t0 in
      case position (\<lambda>b. b = CHR ''e'' \<or> b = CHR ''E'') t of
        None \<Rightarrow> decimal_value t
      | Some p \<Rightarrow>
          Option.bind (mantissa_value (take p t)) (\<lambda>m.
            map_option (\<lambda>e. m * 10 powi e) (parse_i32 (drop (p + 1) t))))"

definition render :: "bool \<Rightarrow> string \<Rightarrow> string \<Rightarrow> string" where
  "render neg ip fp = (if neg then ''-'' else []) @ ip @ (if fp \<noteq> [] then ''.'' @ fp else [])"

lemma canonicalize_numeric_parts:
  "canonicalize_numeric t0 =
     Option.bind
       (if CHR ''e'' \<in> set (trim t0) \<or> CHR ''E'' \<in> set (trim t0)
        then expand_scientific_notation (trim t0) else Some (trim t0))
       (\<lambda>t. map_option (\<lambda>(neg, ip, fp). canonical_decimal neg ip fp) (decimal_parts t))"
  unfolding canonicalize_numeric_def decimal_parts_def
  by (auto simp: Let_def intro!: bind_option_cong split: prod.splits option.splits)

lemma digit_chars:
  "\<not> is_ascii_digit (CHR ''.'')" "\<not> is_ascii_digit (CHR ''-'')" "\<not> is_ascii_digit (CHR ''+'')"
  "\<not> is_ascii_digit (CHR ''e'')" "\<not> is_ascii_digit (CHR ''E'')" "is_ascii_digit zero_char"
  by (simp_all add: is_ascii_digit_def)

lemma count_list_digits: "list_all is_ascii_digit s \<Longrightarrow> count_list s (CHR ''.'') = 0"
  by (induction s) (auto simp: digit_chars)

lemma digits_notin: "list_all is_ascii_digit s \<Longrightarrow> \<not> is_ascii_digit c \<Longrightarrow> c \<notin> set s"
  by (auto simp: list_all_iff)

lemma split_point_digits:
  assumes "list_all (\<lambda>b. is_ascii_digit b \<or> b = CHR ''.'') s" "\<not> count_list s (CHR ''.'') > 1"
    and "split_point s = (ip, fp)"
  shows "list_all is_ascii_digit ip" "list_all is_ascii_digit fp"
proof -
  have "list_all is_ascii_digit ip \<and> list_all is_ascii_digit fp"
  proof (cases "split_once (CHR ''.'') s")
    case None
    then have "CHR ''.'' \<notin> set s" by (simp add: split_once_None)
    then show ?thesis using assms None by (auto simp: split_point_def list_all_iff)
  next
    case (Some p)
    then have s: "s = ip @ CHR ''.'' # fp" "CHR ''.'' \<notin> set ip"
      using assms(3) split_once_Some [of "CHR ''.''" s ip fp] by (auto simp: split_point_def)
    then have "count_list fp (CHR ''.'') = 0" using assms(2) by (simp add: count_list_append)
    then show ?thesis using assms(1) s by (auto simp: list_all_iff count_list_0_iff)
  qed
  then show "list_all is_ascii_digit ip" "list_all is_ascii_digit fp" by simp_all
qed

lemma decimal_parts_digits:
  assumes "decimal_parts t = Some (neg, ip, fp)"
  shows "list_all is_ascii_digit ip" "list_all is_ascii_digit fp"
  using assms split_point_digits
  by (auto simp: decimal_parts_def Let_def split: if_splits prod.splits option.splits)

section \<open>Canonical forms\<close>

lemma decimal_parts_render:
  assumes "list_all is_ascii_digit ip" "list_all is_ascii_digit fp" "ip \<noteq> []"
  shows "decimal_parts (render neg ip fp) = Some (neg, ip, fp)"
    and "decimal_parts ((if neg then ''-'' else []) @ ip @ ''.'' @ fp) = Some (neg, ip, fp)"
proof -
  have "CHR ''.'' \<notin> set ip" by (rule digits_notin [OF assms(1) digit_chars(1)])
  then have "split_once (CHR ''.'') (ip @ CHR ''.'' # fp) = Some (ip, fp)" "split_once (CHR ''.'') ip = None"
    by (simp_all add: split_once_Some split_once_None)
  then have point: "split_point (ip @ CHR ''.'' # fp) = (ip, fp)" "split_point ip = (ip, [])"
    by (simp_all add: split_point_def)
  have count: "count_list (ip @ CHR ''.'' # fp) (CHR ''.'') = 1" "count_list ip (CHR ''.'') = 0"
    using assms by (simp_all add: count_list_append count_list_digits)
  have all: "list_all (\<lambda>b. is_ascii_digit b \<or> b = CHR ''.'') (ip @ CHR ''.'' # fp)"
    "list_all (\<lambda>b. is_ascii_digit b \<or> b = CHR ''.'') ip"
    using assms by (auto simp: list_all_iff)
  have minus: "strip_prefix ''-'' (ip @ r) = None" for r
    using assms(1,3) by (cases ip) (auto simp: strip_prefix_None digit_chars)
  have strip: "strip_prefix ''-'' (CHR ''-'' # r) = Some r" for r by (simp add: strip_prefix_Some)
  show "decimal_parts (render neg ip fp) = Some (neg, ip, fp)"
    using minus [of "CHR ''.'' # fp"] minus [of "[]"] assms(3) point count all
    by (cases neg; cases "fp = []") (simp_all add: decimal_parts_def render_def strip)
  show "decimal_parts ((if neg then ''-'' else []) @ ip @ ''.'' @ fp) = Some (neg, ip, fp)"
    using minus [of "CHR ''.'' # fp"] assms(3) point count all
    by (cases neg) (simp_all add: decimal_parts_def strip)
qed

lemma canonical_decimal_lowest:
  assumes "list_all is_ascii_digit ip" "list_all is_ascii_digit fp"
  obtains iq fq where "lowest iq fq" "mag iq fq = mag ip fp"
    "canonical_decimal neg ip fp = render (neg \<and> mag ip fp \<noteq> 0) iq fq"
proof -
  define it where "it = trim_start_matches zero_char ip"
  define iq where "iq = (if it = [] then ''0'' else it)"
  define fq where "fq = trim_end_matches zero_char fp"
  obtain n where n: "ip = replicate n zero_char @ it" using trim_start_zeros [of ip] by (auto simp: it_def)
  obtain k where k: "fp = fq @ replicate k zero_char" using trim_end_zeros [of fp] by (auto simp: fq_def)
  have "mag ip fp = mag it fq" by (simp add: n k mag_leading mag_trailing)
  also have "mag it fq = mag iq fq"
    using mag_leading [of 1 "[]" fq] by (simp add: iq_def)
  finally have mag: "mag iq fq = mag ip fp" by simp
  have low: "lowest iq fq"
    using trim_digits [of ip] trim_digits [of fp] assms trim_end_last [of fp] trim_start_hd [of ip]
    by (auto simp: lowest_def iq_def it_def [symmetric] fq_def digit_chars neq_Nil_conv)
  have zero: "mag ip fp = 0 \<longleftrightarrow> iq = ''0'' \<and> fq = []"
  proof
    assume "mag ip fp = 0"
    moreover have "mag ''0'' [] = 0" by (simp add: mag_def read_nat_Cons)
    ultimately have "mag iq fq = mag ''0'' []" using mag by simp
    moreover have "lowest ''0'' []" by (simp add: lowest_def digit_chars)
    ultimately show "iq = ''0'' \<and> fq = []" using lowest_unique low by blast
  next
    assume "iq = ''0'' \<and> fq = []"
    then show "mag ip fp = 0" using mag by (simp add: mag_def read_nat_Cons)
  qed
  have "canonical_decimal neg ip fp = render (neg \<and> mag ip fp \<noteq> 0) iq fq"
    by (auto simp: canonical_decimal_def render_def zero Let_def it_def [symmetric] fq_def [symmetric] iq_def [symmetric])
  then show thesis using that low mag by blast
qed

lemma canonical_render:
  assumes "decimal_parts t = Some (neg, ip, fp)"
  obtains n iq fq where "canonical_decimal neg ip fp = render n iq fq" "lowest iq fq"
    "with_sign neg (mag ip fp) = with_sign n (mag iq fq)" "n \<Longrightarrow> mag iq fq \<noteq> 0"
proof -
  obtain iq fq where "lowest iq fq" "mag iq fq = mag ip fp"
    "canonical_decimal neg ip fp = render (neg \<and> mag ip fp \<noteq> 0) iq fq"
    using canonical_decimal_lowest decimal_parts_digits [OF assms] by metis
  then show thesis using that [of "neg \<and> mag ip fp \<noteq> 0" iq fq] by (auto simp: with_sign_def)
qed

lemma mag_nonneg: "0 \<le> mag ip fp"
  by (simp add: mag_def)

lemma render_unique:
  assumes "lowest ip fp" "lowest iq fq" "with_sign n (mag ip fp) = with_sign m (mag iq fq)"
    and "n \<Longrightarrow> mag ip fp \<noteq> 0" "m \<Longrightarrow> mag iq fq \<noteq> 0"
  shows "render n ip fp = render m iq fq"
proof -
  have "mag ip fp = mag iq fq \<and> n = m"
    using assms(3-5) mag_nonneg [of ip fp] mag_nonneg [of iq fq]
    by (cases n; cases m) (auto simp: with_sign_def)
  then show ?thesis using lowest_unique [OF assms(1,2)] by simp
qed

lemma decimal_value_render:
  "lowest ip fp \<Longrightarrow> decimal_value (render n ip fp) = Some (with_sign n (mag ip fp))"
  by (simp add: decimal_value_def lowest_def decimal_parts_render)

lemma powi_nonpos:
  assumes "m \<le> 0"
  shows "(10 :: rat) powi m = inverse (10 ^ nat (- m))"
proof (cases "m = 0")
  case False
  then have "(10 :: rat) powi m = inverse 10 ^ nat (- m)" using assms by (simp only: power_int_def) simp
  then show ?thesis by (simp only: power_inverse)
qed simp

lemma shift_point_left:
  assumes "list_all is_ascii_digit digits" "point \<le> 0"
  shows "decimal_value (shift_point neg digits point)
       = Some (with_sign neg (of_nat (read_nat digits) * 10 powi (point - int (length digits))))"
proof -
  let ?fp = "replicate (nat (- point)) zero_char @ digits"
  have "shift_point neg digits point = (if neg then ''-'' else []) @ ''0'' @ ''.'' @ ?fp"
    using assms(2) by (simp add: shift_point_def)
  moreover have "list_all is_ascii_digit ?fp" using assms(1) by (auto simp: digit_chars list_all_iff)
  moreover have "mag ''0'' ?fp = of_nat (read_nat digits) / 10 ^ nat (int (length digits) - point)"
  proof -
    have "nat (int (length digits) - point) = length ?fp" using assms(2) by simp
    then show ?thesis by (simp only: mag_def) (simp add: read_nat_Cons read_nat_append)
  qed
  moreover have "(10 :: rat) powi (point - int (length digits)) = inverse (10 ^ nat (int (length digits) - point))"
    using powi_nonpos [of "point - int (length digits)"] assms(2) by simp
  ultimately show ?thesis
    using decimal_parts_render(2) [of "''0''" ?fp neg]
    by (simp add: decimal_value_def digit_chars divide_inverse)
qed

lemma shift_point_right:
  assumes "list_all is_ascii_digit digits" "digits \<noteq> []" "0 < point" "int (length digits) \<le> point"
  shows "decimal_value (shift_point neg digits point)
       = Some (with_sign neg (of_nat (read_nat digits) * 10 powi (point - int (length digits))))"
proof -
  let ?ip = "digits @ replicate (nat (point - int (length digits))) zero_char"
  have "shift_point neg digits point = render neg ?ip []"
    using assms(3,4) by (simp add: shift_point_def render_def)
  moreover have "list_all is_ascii_digit ?ip" using assms(1) by (auto simp: digit_chars list_all_iff)
  moreover have "mag ?ip [] = of_nat (read_nat digits) * 10 ^ nat (point - int (length digits))"
    by (simp add: mag_def read_nat_append)
  moreover have "(10 :: rat) powi (point - int (length digits)) = 10 ^ nat (point - int (length digits))"
    using assms(4) by (simp add: power_int_def)
  ultimately show ?thesis
    using decimal_parts_render(1) [of ?ip "[]" neg] assms(2) by (simp add: decimal_value_def)
qed

lemma shift_point_inside:
  assumes "list_all is_ascii_digit digits" "0 < point" "point < int (length digits)"
  shows "decimal_value (shift_point neg digits point)
       = Some (with_sign neg (of_nat (read_nat digits) * 10 powi (point - int (length digits))))"
proof -
  let ?ip = "take (nat point) digits" and ?fp = "drop (nat point) digits"
  have "shift_point neg digits point = (if neg then ''-'' else []) @ ?ip @ ''.'' @ ?fp"
    using assms(2,3) by (simp add: shift_point_def)
  moreover have "list_all is_ascii_digit ?ip" "list_all is_ascii_digit ?fp" "?ip \<noteq> []"
    using assms by (auto simp: list_all_iff dest: in_set_takeD in_set_dropD)
  moreover have "mag ?ip ?fp = of_nat (read_nat digits) / 10 ^ nat (int (length digits) - point)"
    using assms(2,3) by (simp add: mag_def nat_diff_distrib)
  moreover have "(10 :: rat) powi (point - int (length digits)) = inverse (10 ^ nat (int (length digits) - point))"
    using powi_nonpos [of "point - int (length digits)"] assms(3) by simp
  ultimately show ?thesis
    using decimal_parts_render(2) [of ?ip ?fp neg] by (simp add: decimal_value_def divide_inverse)
qed

lemma shift_point_value:
  assumes "list_all is_ascii_digit digits" "digits \<noteq> []"
  shows "decimal_value (shift_point neg digits point)
       = Some (with_sign neg (of_nat (read_nat digits) * 10 powi (point - int (length digits))))"
  using shift_point_left [OF assms(1)] shift_point_right [OF assms] shift_point_inside [OF assms(1)]
  by (meson linorder_not_le)

lemma split_point_cases:
  assumes "split_point s = (ip, fp)"
  shows "s = ip \<and> fp = [] \<or> s = ip @ CHR ''.'' # fp"
  using assms split_once_Some [of "CHR ''.''" s ip fp] by (auto simp: split_point_def split: option.splits)

lemma decimal_parts_of_split:
  assumes "split_point mant = (ip, fp)" "list_all is_ascii_digit (ip @ fp)" "ip @ fp \<noteq> []"
    and "\<not> count_list mant (CHR ''.'') > 1"
  shows "decimal_parts mant = Some (False, ip, fp)" "decimal_parts (CHR ''-'' # mant) = Some (True, ip, fp)"
    and "\<not> prefix ''-'' mant" "\<not> prefix ''+'' mant"
proof -
  note s = split_point_cases [OF assms(1)]
  have ne: "mant \<noteq> []" using s assms(3) by auto
  have all: "list_all (\<lambda>b. is_ascii_digit b \<or> b = CHR ''.'') mant"
    using s assms(2) by (auto simp: list_all_iff)
  show minus: "\<not> prefix ''-'' mant" "\<not> prefix ''+'' mant"
    using all by (auto simp: prefix_def digit_chars)
  show "decimal_parts mant = Some (False, ip, fp)"
    using ne all assms(1,4) minus by (simp add: decimal_parts_def strip_prefix_def)
  show "decimal_parts (CHR ''-'' # mant) = Some (True, ip, fp)"
    using ne all assms(1,4) by (simp add: decimal_parts_def strip_prefix_def)
qed

lemma expand_value:
  assumes "expand_scientific_notation t = Some u"
  obtains p e m where "position (\<lambda>b. b = CHR ''e'' \<or> b = CHR ''E'') t = Some p"
    "parse_i32 (drop (p + 1) t) = Some e" "mantissa_value (take p t) = Some m"
    "decimal_value u = Some (m * 10 powi e)"
proof -
  obtain p e where p: "position (\<lambda>b. b = CHR ''e'' \<or> b = CHR ''E'') t = Some p"
    "parse_i32 (drop (p + 1) t) = Some e"
    using assms by (auto simp: expand_scientific_notation_def bind_eq_Some_conv Let_def)
  define m where "m = take p t"
  obtain neg mant where nm: "(case strip_prefix ''-'' m of Some rest \<Rightarrow> (True, rest)
      | None \<Rightarrow> (False, case strip_prefix ''+'' m of Some r \<Rightarrow> r | None \<Rightarrow> m)) = (neg, mant)"
    by fastforce
  obtain ip fp where sp: "split_point mant = (ip, fp)" by fastforce
  have ok: "\<not> count_list mant (CHR ''.'') > 1" "ip @ fp \<noteq> []" "list_all is_ascii_digit (ip @ fp)"
    "u = shift_point neg (ip @ fp) (int (length ip) + e)"
    using assms
    unfolding expand_scientific_notation_def p Option.bind.simps Let_def m_def [symmetric] nm prod.case sp
    by (auto split: if_splits)
  note parts = decimal_parts_of_split [OF sp ok(3,2,1)]
  have mv: "mantissa_value m = Some (with_sign neg (mag ip fp))"
    using nm parts
    by (auto simp: mantissa_value_def decimal_value_def strip_prefix_Some strip_prefix_None prefix_def
        split: option.splits)
  have "decimal_value u = Some (with_sign neg (of_nat (read_nat (ip @ fp)) * 10 powi (e - int (length fp))))"
    using shift_point_value [OF ok(3,2), of neg "int (length ip) + e"] ok(4) by simp
  moreover have "(10::rat) powi (e - int (length fp)) = 10 powi e / 10 ^ length fp"
    by (simp add: power_int_diff)
  ultimately have "decimal_value u = Some (with_sign neg (mag ip fp) * 10 powi e)"
    by (simp add: with_sign_def mag_def)
  then show thesis using that [OF p mv [unfolded m_def]] by simp
qed

text \<open>A canonical form denotes the number of the token it was made from.\<close>

lemma canonicalize_numeric_value:
  assumes "canonicalize_numeric t = Some c"
  obtains n ip fp where "c = render n ip fp" "lowest ip fp" "n \<Longrightarrow> mag ip fp \<noteq> 0"
    "numeric_value t = Some (with_sign n (mag ip fp))"
proof -
  let ?is_e = "\<lambda>b. b = CHR ''e'' \<or> b = CHR ''E''"
  define t1 where "t1 = trim t"
  obtain u neg iq fq where u: "(if CHR ''e'' \<in> set t1 \<or> CHR ''E'' \<in> set t1
        then expand_scientific_notation t1 else Some t1) = Some u"
    "decimal_parts u = Some (neg, iq, fq)" "c = canonical_decimal neg iq fq"
    using assms unfolding canonicalize_numeric_parts t1_def [symmetric] by (auto simp: bind_eq_Some_conv)
  have "numeric_value t = decimal_value u"
  proof (cases "CHR ''e'' \<in> set t1 \<or> CHR ''E'' \<in> set t1")
    case True
    then have "expand_scientific_notation t1 = Some u" using u(1) by simp
    then obtain p e m where "position ?is_e t1 = Some p" "parse_i32 (drop (p + 1) t1) = Some e"
      "mantissa_value (take p t1) = Some m" "decimal_value u = Some (m * 10 powi e)"
      by (rule expand_value)
    then show ?thesis by (simp add: numeric_value_def t1_def [symmetric] Let_def)
  next
    case False
    then have "position ?is_e t1 = None" by (auto simp: position_None)
    then show ?thesis using u(1) False by (simp add: numeric_value_def t1_def [symmetric] Let_def)
  qed
  then have num: "numeric_value t = Some (with_sign neg (mag iq fq))" using u(2) by (simp add: decimal_value_def)
  obtain n ip fp where "canonical_decimal neg iq fq = render n ip fp" "lowest ip fp"
    "with_sign neg (mag iq fq) = with_sign n (mag ip fp)" "n \<Longrightarrow> mag ip fp \<noteq> 0"
    using canonical_render [OF u(2)] by blast
  then show thesis using that u(3) num by simp
qed

lemma canonicalize_numeric_same:
  assumes "canonicalize_numeric t = Some c" "canonicalize_numeric u = Some d"
  shows "c = d \<longleftrightarrow> numeric_value t = numeric_value u"
proof -
  obtain n ip fp where c: "c = render n ip fp" "lowest ip fp" "n \<Longrightarrow> mag ip fp \<noteq> 0"
    "numeric_value t = Some (with_sign n (mag ip fp))" using canonicalize_numeric_value [OF assms(1)] by metis
  obtain m iq fq where d: "d = render m iq fq" "lowest iq fq" "m \<Longrightarrow> mag iq fq \<noteq> 0"
    "numeric_value u = Some (with_sign m (mag iq fq))" using canonicalize_numeric_value [OF assms(2)] by metis
  show ?thesis
    using render_unique [OF c(2) d(2) _ c(3) d(3)] c d decimal_value_render by (metis option.inject)
qed

section \<open>Number tokens\<close>

text \<open>
  The unsigned numbers of the SQL grammar: digits with at most one point and at least one
  digit, then an optional exponent, here of at most 1000 in size. \<open>sign\<close> is empty or a minus.
\<close>

definition mantissa_text :: "string \<Rightarrow> string option \<Rightarrow> string" where
  "mantissa_text ip fp = ip @ (case fp of None \<Rightarrow> [] | Some f \<Rightarrow> CHR ''.'' # f)"

definition exponent_text :: "(char \<times> string) option \<Rightarrow> string" where
  "exponent_text ex = (case ex of None \<Rightarrow> [] | Some (c, x) \<Rightarrow> c # x)"

definition token_parts :: "string \<Rightarrow> string option \<Rightarrow> (char \<times> string) option \<Rightarrow> bool" where
  "token_parts ip fp ex \<longleftrightarrow>
     list_all is_ascii_digit ip
   \<and> (case fp of None \<Rightarrow> ip \<noteq> [] | Some f \<Rightarrow> list_all is_ascii_digit f \<and> ip @ f \<noteq> [])
   \<and> (case ex of None \<Rightarrow> True
      | Some (c, x) \<Rightarrow> (c = CHR ''e'' \<or> c = CHR ''E'')
          \<and> (case parse_i32 x of None \<Rightarrow> False | Some e \<Rightarrow> \<bar>e\<bar> \<le> 1000))"

definition number_token :: "string \<Rightarrow> bool" where
  "number_token n \<longleftrightarrow>
     (\<exists>ip fp ex. n = mantissa_text ip fp @ exponent_text ex \<and> token_parts ip fp ex)"

lemma mantissa_split:
  assumes "token_parts ip fp ex"
  defines "f \<equiv> (case fp of None \<Rightarrow> [] | Some f \<Rightarrow> f)"
  shows "split_point (mantissa_text ip fp) = (ip, f)"
    and "list_all is_ascii_digit (ip @ f)" "ip @ f \<noteq> []"
    and "\<not> count_list (mantissa_text ip fp) (CHR ''.'') > 1"
proof -
  have d: "list_all is_ascii_digit ip" "list_all is_ascii_digit f" "ip @ f \<noteq> []"
    using assms by (auto simp: token_parts_def split: option.splits)
  have "CHR ''.'' \<notin> set ip" by (rule digits_notin [OF d(1) digit_chars(1)])
  then have "split_once (CHR ''.'') (ip @ CHR ''.'' # f) = Some (ip, f)" "split_once (CHR ''.'') ip = None"
    by (simp_all add: split_once_Some split_once_None)
  then show "split_point (mantissa_text ip fp) = (ip, f)"
    by (auto simp: split_point_def mantissa_text_def f_def split: option.splits)
  show "list_all is_ascii_digit (ip @ f)" "ip @ f \<noteq> []" using d by simp_all
  show "\<not> count_list (mantissa_text ip fp) (CHR ''.'') > 1"
    using d count_list_digits by (auto simp: mantissa_text_def f_def count_list_append split: option.splits)
qed

lemma mantissa_chars: "token_parts ip fp ex \<Longrightarrow> c \<in> set (mantissa_text ip fp) \<Longrightarrow> is_ascii_digit c \<or> c = CHR ''.''"
  by (auto simp: token_parts_def mantissa_text_def list_all_iff split: option.splits)

lemma parse_i32_chars: "parse_i32 x = Some e \<Longrightarrow> c \<in> set x \<Longrightarrow> is_ascii_digit c \<or> c = CHR ''-'' \<or> c = CHR ''+''"
  by (auto simp: parse_i32_def list_all_iff Let_def split: list.splits if_splits)

lemma not_space: "is_ascii_digit c \<Longrightarrow> \<not> is_space c"
  by (auto simp: is_ascii_digit_def is_space_def)

lemma trim_id: "(\<And>c. c \<in> set s \<Longrightarrow> \<not> is_space c) \<Longrightarrow> trim s = s"
proof -
  assume s: "\<And>c. c \<in> set s \<Longrightarrow> \<not> is_space c"
  then have "dropWhile is_space s = s" by (cases s) auto
  moreover have "dropWhile is_space (rev s) = rev s"
    using s [of "last s"] by (cases s rule: rev_cases) auto
  ultimately show ?thesis by (simp add: trim_def)
qed

lemma trim_token:
  assumes "token_parts ip fp ex" "set sign \<subseteq> {CHR ''-''}"
  shows "trim (sign @ mantissa_text ip fp @ exponent_text ex) = sign @ mantissa_text ip fp @ exponent_text ex"
proof (rule trim_id)
  fix c
  assume "c \<in> set (sign @ mantissa_text ip fp @ exponent_text ex)"
  then consider "c = CHR ''-''" | "c \<in> set (mantissa_text ip fp)" | "c \<in> set (exponent_text ex)"
    using assms(2) by auto
  then show "\<not> is_space c"
  proof cases
    case 2
    then show ?thesis using mantissa_chars [OF assms(1), of c] not_space [of c] by (auto simp: is_space_def)
  next
    case 3
    then obtain e0 x where ex: "ex = Some (e0, x)" "c = e0 \<or> c \<in> set x"
      by (auto simp: exponent_text_def split: option.splits)
    then show ?thesis
      using assms(1) parse_i32_chars [of x _ c] not_space [of c]
      by (auto simp: token_parts_def is_space_def split: option.splits)
  qed (simp add: is_space_def)
qed

lemma token_mantissa:
  assumes "token_parts ip fp ex" "sign = [] \<or> sign = ''-''"
  defines "m \<equiv> sign @ mantissa_text ip fp" and "f \<equiv> (case fp of None \<Rightarrow> [] | Some f \<Rightarrow> f)"
  shows "decimal_parts m = Some (sign \<noteq> [], ip, f)"
    and "\<forall>b\<in>set m. \<not> (b = CHR ''e'' \<or> b = CHR ''E'')"
    and "mantissa_value m = Some (with_sign (sign \<noteq> []) (mag ip f))"
proof -
  note parts = decimal_parts_of_split [OF mantissa_split [OF assms(1)], folded f_def]
  show dp: "decimal_parts m = Some (sign \<noteq> [], ip, f)" using parts(1,2) assms(2) by (auto simp: m_def)
  show "\<forall>b\<in>set m. \<not> (b = CHR ''e'' \<or> b = CHR ''E'')"
    using mantissa_chars [OF assms(1)] assms(2) by (auto simp: m_def digit_chars dest: mantissa_chars [OF assms(1)])
  show "mantissa_value m = Some (with_sign (sign \<noteq> []) (mag ip f))"
    using dp parts(4) assms(2) by (auto simp: mantissa_value_def decimal_value_def m_def strip_prefix_def)
qed

lemma canonicalize_plain_token:
  assumes "token_parts ip fp None" "sign = [] \<or> sign = ''-''"
  defines "n \<equiv> sign @ mantissa_text ip fp" and "f \<equiv> (case fp of None \<Rightarrow> [] | Some f \<Rightarrow> f)"
  shows "canonicalize_numeric n \<noteq> None \<and> numeric_value n = Some (with_sign (sign \<noteq> []) (mag ip f))"
proof -
  note m = token_mantissa [OF assms(1,2), folded n_def f_def]
  have tr: "trim n = n"
    using trim_token [OF assms(1), of sign] assms(2) by (auto simp: n_def exponent_text_def)
  have "position (\<lambda>b. b = CHR ''e'' \<or> b = CHR ''E'') n = None" using m(2) by (simp add: position_None)
  then have "numeric_value n = Some (with_sign (sign \<noteq> []) (mag ip f))"
    unfolding numeric_value_def tr Let_def using m(1) by (simp add: decimal_value_def)
  moreover have "CHR ''e'' \<notin> set n" "CHR ''E'' \<notin> set n" using m(2) by auto
  ultimately show ?thesis unfolding canonicalize_numeric_parts tr using m(1) by simp
qed

lemma canonicalize_scientific_token:
  assumes "token_parts ip fp (Some (c, x))" "sign = [] \<or> sign = ''-''" "parse_i32 x = Some e"
  defines "n \<equiv> sign @ mantissa_text ip fp @ c # x" and "f \<equiv> (case fp of None \<Rightarrow> [] | Some f \<Rightarrow> f)"
  shows "canonicalize_numeric n \<noteq> None
       \<and> numeric_value n = Some (with_sign (sign \<noteq> []) (mag ip f) * 10 powi e)"
proof -
  let ?is_e = "\<lambda>b. b = CHR ''e'' \<or> b = CHR ''E''"
  define m where "m = sign @ mantissa_text ip fp"
  note m = token_mantissa [OF assms(1,2), folded m_def f_def]
  note sp = mantissa_split [OF assms(1), folded f_def]
  note parts = decimal_parts_of_split [OF sp]
  have c: "?is_e c" "\<bar>e\<bar> \<le> 1000" using assms(1,3) by (auto simp: token_parts_def)
  have n: "n = m @ c # x" by (simp add: n_def m_def)
  have tr: "trim n = n" using trim_token [OF assms(1), of sign] assms(2) by (auto simp: n_def exponent_text_def)
  have pos: "position ?is_e n = Some (length m)" unfolding n by (rule position_append_Cons [OF m(2) c(1)])
  have "e \<noteq> - (2 ^ 31)" using c(2) by auto
  then have "\<not> abs_i32 e > 1000" using c(2) by (simp add: abs_i32_def)
  then have ex: "expand_scientific_notation n = Some (shift_point (sign \<noteq> []) (ip @ f) (int (length ip) + e))"
    using sp parts(3,4) assms(2) unfolding expand_scientific_notation_def pos Option.bind.simps
    by (auto simp: n assms(3) m_def strip_prefix_def)
  have e_in: "CHR ''e'' \<in> set n \<or> CHR ''E'' \<in> set n" using c(1) by (auto simp: n)
  have "canonicalize_numeric n \<noteq> None"
    using shift_point_value [OF sp(2,3), of "sign \<noteq> []" "int (length ip) + e"]
    unfolding canonicalize_numeric_parts tr if_P [OF e_in] ex by (auto simp: decimal_value_def)
  moreover have "numeric_value n = Some (with_sign (sign \<noteq> []) (mag ip f) * 10 powi e)"
    unfolding numeric_value_def tr Let_def pos using m(3) by (simp add: n assms(3))
  ultimately show ?thesis by simp
qed

text \<open>A number token is accepted with and without a minus, which negates its value.\<close>

lemma canonicalize_token:
  assumes "number_token n"
  obtains q where "numeric_value n = Some q" "numeric_value (''-'' @ n) = Some (- q)"
    "canonicalize_numeric n \<noteq> None" "canonicalize_numeric (''-'' @ n) \<noteq> None"
proof -
  obtain ip fp ex where n: "n = mantissa_text ip fp @ exponent_text ex" and t: "token_parts ip fp ex"
    using assms by (auto simp: number_token_def)
  show thesis
  proof (cases ex)
    case None
    then show thesis
      using that [of "with_sign False (mag ip (case fp of None \<Rightarrow> [] | Some f \<Rightarrow> f))"]
        canonicalize_plain_token [of ip fp "[]"] canonicalize_plain_token [of ip fp "''-''"] t
      by (simp add: n exponent_text_def with_sign_def)
  next
    case (Some cx)
    then obtain c x e where ex: "ex = Some (c, x)" "parse_i32 x = Some e"
      using t by (cases cx) (auto simp: token_parts_def split: option.splits)
    then show thesis
      using that [of "with_sign False (mag ip (case fp of None \<Rightarrow> [] | Some f \<Rightarrow> f)) * 10 powi e"]
        canonicalize_scientific_token [of ip fp c x "[]" e] canonicalize_scientific_token [of ip fp c x "''-''" e] t
      by (simp add: n exponent_text_def with_sign_def)
  qed
qed

section \<open>Shard keys that denote numbers\<close>

text \<open>
  What the coordinator relies on of the libraries: sqlparser renders a number as written, a
  sign in front of its operand, a string without quotes and backslashes between quotes, and a
  Boolean as its name; DataFusion displays an integer in decimal; the visitor puts back what
  it is given.
\<close>

definition sql_lib_ok :: "sql_lib \<Rightarrow> bool" where
  "sql_lib_ok L \<longleftrightarrow>
     (\<forall>n. sq_expr L (EValue (VNumber n False)) = n)
   \<and> (\<forall>e. sq_expr L (EUnaryOp UMinus e) = ''-'' @ sq_expr L e)
   \<and> (\<forall>e. sq_expr L (EUnaryOp UPlus e) = ''+'' @ sq_expr L e)
   \<and> (\<forall>s. squote \<notin> set s \<longrightarrow> CHR 0x5C \<notin> set s \<longrightarrow>
        sq_expr L (EValue (VSingleQuoted s)) = quote_literal s)
   \<and> (\<forall>i. sq_scalar L (SInt8 (Some i)) = show_int i \<and> sq_scalar L (SInt16 (Some i)) = show_int i
        \<and> sq_scalar L (SInt32 (Some i)) = show_int i \<and> sq_scalar L (SInt64 (Some i)) = show_int i)
   \<and> (\<forall>n. sq_scalar L (SUInt8 (Some n)) = show_nat n \<and> sq_scalar L (SUInt16 (Some n)) = show_nat n
        \<and> sq_scalar L (SUInt32 (Some n)) = show_nat n \<and> sq_scalar L (SUInt64 (Some n)) = show_nat n)
   \<and> (\<forall>ns st. length ns = length (sq_placeholders L st) \<longrightarrow>
        sq_placeholders L (sq_with_placeholders L ns st) = ns)
   \<and> (\<forall>rs st. length rs = length (sq_relations L st) \<longrightarrow>
        sq_relations L (sq_with_relations L rs st) = rs)"

lemma sql_lib_okD:
  assumes "sql_lib_ok L"
  shows "sq_expr L (EValue (VNumber n False)) = n"
    and "sq_expr L (EUnaryOp UMinus e) = ''-'' @ sq_expr L e"
    and "sq_expr L (EUnaryOp UPlus e) = ''+'' @ sq_expr L e"
    and "squote \<notin> set s \<Longrightarrow> CHR 0x5C \<notin> set s \<Longrightarrow> sq_expr L (EValue (VSingleQuoted s)) = quote_literal s"
    and "sq_scalar L (SInt8 (Some i)) = show_int i" "sq_scalar L (SInt16 (Some i)) = show_int i"
    and "sq_scalar L (SInt32 (Some i)) = show_int i" "sq_scalar L (SInt64 (Some i)) = show_int i"
    and "sq_scalar L (SUInt8 (Some k)) = show_nat k" "sq_scalar L (SUInt16 (Some k)) = show_nat k"
    and "sq_scalar L (SUInt32 (Some k)) = show_nat k" "sq_scalar L (SUInt64 (Some k)) = show_nat k"
    and "length ns = length (sq_placeholders L st) \<Longrightarrow> sq_placeholders L (sq_with_placeholders L ns st) = ns"
    and "length rs = length (sq_relations L st) \<Longrightarrow> sq_relations L (sq_with_relations L rs st) = rs"
  using assms by (simp_all add: sql_lib_ok_def)

definition quoted_number :: "string \<Rightarrow> rat option" where
  "quoted_number s =
     (if number_token s \<or> (\<exists>n. number_token n \<and> s = ''-'' @ n) then numeric_value s else None)"

fun scalar_number :: "scalar \<Rightarrow> rat option" where
  "scalar_number (SUtf8 (Some s)) = quoted_number s"
| "scalar_number (SLargeUtf8 (Some s)) = quoted_number s"
| "scalar_number (SUtf8View (Some s)) = quoted_number s"
| "scalar_number (SInt8 (Some i)) = Some (of_int i)"
| "scalar_number (SInt16 (Some i)) = Some (of_int i)"
| "scalar_number (SInt32 (Some i)) = Some (of_int i)"
| "scalar_number (SInt64 (Some i)) = Some (of_int i)"
| "scalar_number (SUInt8 (Some n)) = Some (of_nat n)"
| "scalar_number (SUInt16 (Some n)) = Some (of_nat n)"
| "scalar_number (SUInt32 (Some n)) = Some (of_nat n)"
| "scalar_number (SUInt64 (Some n)) = Some (of_nat n)"
| "scalar_number (SDecimal128 (Some v) _ scale) = Some (of_int v * 10 powi (- scale))"
| "scalar_number (SDecimal256 (Some v) _ scale) = Some (of_int v * 10 powi (- scale))"
| "scalar_number _ = None"

fun expr_number :: "expr \<Rightarrow> scalar list \<Rightarrow> rat option" where
  "expr_number (ENested e) params = expr_number e params"
| "expr_number (EValue (VNumber n False)) params = (if number_token n then numeric_value n else None)"
| "expr_number (EUnaryOp UMinus (EValue (VNumber n False))) params =
     (if number_token n then map_option uminus (numeric_value n) else None)"
| "expr_number (EValue (VSingleQuoted s)) params = quoted_number s"
| "expr_number (EValue (VPlaceholder name)) params =
     (case placeholder_index name of
        Some idx \<Rightarrow> if idx < length params then scalar_number (params ! idx) else None
      | None \<Rightarrow> None)"
| "expr_number _ _ = None"

definition is_canonical :: "string \<Rightarrow> rat \<Rightarrow> bool" where
  "is_canonical c q \<longleftrightarrow>
     (\<exists>n ip fp. c = render n ip fp \<and> lowest ip fp \<and> (n \<longrightarrow> mag ip fp \<noteq> 0) \<and> q = with_sign n (mag ip fp))"

lemma is_canonical_unique: "is_canonical c q \<Longrightarrow> is_canonical d r \<Longrightarrow> c = d \<longleftrightarrow> q = r"
  unfolding is_canonical_def using render_unique decimal_value_render by (metis option.inject)

lemma canonicalize_is_canonical:
  assumes "canonicalize_numeric t \<noteq> None" "numeric_value t = Some q"
  obtains c where "canonicalize_numeric t = Some c" "is_canonical c q"
proof -
  obtain c where c: "canonicalize_numeric t = Some c" using assms(1) by blast
  then show thesis
    using canonicalize_numeric_value [OF c] assms(2) that [OF c] unfolding is_canonical_def
    by (metis option.inject)
qed

lemma decimal_parts_plain:
  assumes "decimal_parts s = Some p"
  shows "c \<in> set s \<Longrightarrow> is_ascii_digit c \<or> c = CHR ''.'' \<or> c = CHR ''-''"
    and "canonicalize_numeric s \<noteq> None" "numeric_value s = decimal_value s"
proof -
  have chars: "is_ascii_digit c \<or> c = CHR ''.'' \<or> c = CHR ''-''" if "c \<in> set s" for c
  proof (cases "strip_prefix ''-'' s")
    case None
    then have "list_all (\<lambda>b. is_ascii_digit b \<or> b = CHR ''.'') s"
      using assms by (simp add: decimal_parts_def split: if_splits)
    then show ?thesis using that by (auto simp: list_all_iff)
  next
    case (Some r)
    then have "list_all (\<lambda>b. is_ascii_digit b \<or> b = CHR ''.'') r"
      using assms by (simp add: decimal_parts_def split: if_splits)
    moreover have "s = CHR ''-'' # r" using Some by (simp add: strip_prefix_Some)
    ultimately show ?thesis using that by (auto simp: list_all_iff)
  qed
  then show "c \<in> set s \<Longrightarrow> is_ascii_digit c \<or> c = CHR ''.'' \<or> c = CHR ''-''" by blast
  have tr: "trim s = s" 
  proof (rule trim_id)
    fix c
    assume "c \<in> set s"
    then show "\<not> is_space c" using chars [of c] not_space [of c] by (auto simp: is_space_def)
  qed
  have e: "CHR ''e'' \<notin> set s" "CHR ''E'' \<notin> set s"
    using chars [of "CHR ''e''"] chars [of "CHR ''E''"] by (auto simp: digit_chars)
  show "canonicalize_numeric s \<noteq> None" unfolding canonicalize_numeric_parts tr using e assms by simp
  have "position (\<lambda>b. b = CHR ''e'' \<or> b = CHR ''E'') s = None" using e by (auto simp: position_None)
  then show "numeric_value s = decimal_value s" unfolding numeric_value_def tr by simp
qed

lemma canonicalize_unquoted:
  assumes "canonicalize_numeric s \<noteq> None" "numeric_value s = Some q" "\<not> prefix [squote] s" "trim s = s"
  obtains c where "canonicalize_routing_value s = c" "is_canonical c q"
proof -
  obtain c where "canonicalize_numeric s = Some c" "is_canonical c q"
    using canonicalize_is_canonical [OF assms(1,2)] by metis
  then show thesis
    using that [of c] assms(3,4) by (simp add: canonicalize_routing_value_def unwrap_quotes_def strip_prefix_def)
qed

lemma undouble_doubled: "undouble (concat (map (\<lambda>c. if c = squote then [squote, squote] else [c]) s)) = s"
proof (induction s)
  case (Cons c cs)
  then show ?case
    by (cases "concat (map (\<lambda>c. if c = squote then [squote, squote] else [c]) cs)") auto
qed simp

lemma unwrap_quoted:
  "unwrap_quotes (trim (quote_literal s)) = Some (concat (map (\<lambda>c. if c = squote then [squote, squote] else [c]) s))"
proof -
  have "\<not> is_space squote" by (simp add: is_space_def squote_def)
  then have "trim (quote_literal s) = quote_literal s" by (simp add: trim_def quote_literal_def)
  then show ?thesis
    by (simp add: unwrap_quotes_def quote_literal_def strip_prefix_def strip_suffix_def)
qed

lemma canonicalize_quoted:
  assumes "quoted_number s = Some q"
  obtains c where "canonicalize_routing_value (quote_literal s) = c" "is_canonical c q"
proof -
  have "numeric_value s = Some q" "canonicalize_numeric s \<noteq> None"
    using assms canonicalize_token by (auto simp: quoted_number_def split: if_splits)
  then obtain c where "canonicalize_numeric s = Some c" "is_canonical c q"
    using canonicalize_is_canonical by metis
  then show thesis
    using that [of c] by (simp add: canonicalize_routing_value_def unwrap_quoted undouble_doubled)
qed

lemma canonicalize_plain_decimal:
  assumes "decimal_parts s = Some p" "decimal_value s = Some q"
  obtains c where "canonicalize_routing_value s = c" "is_canonical c q"
proof (rule canonicalize_unquoted)
  note plain = decimal_parts_plain [OF assms(1)]
  show "canonicalize_numeric s \<noteq> None" "numeric_value s = Some q" using plain assms(2) by auto
  show "\<not> prefix [squote] s" using plain(1) [of squote] by (auto simp: prefix_def squote_def is_ascii_digit_def)
  show "trim s = s"
  proof (rule trim_id)
    fix c
    assume "c \<in> set s"
    then show "\<not> is_space c" using plain(1) [of c] not_space [of c] by (auto simp: is_space_def)
  qed
qed (use that in blast)

lemma decimal_show:
  "decimal_parts (show_int i) = Some (i < 0, show_nat (nat \<bar>i\<bar>), [])"
  "decimal_value (show_int i) = Some (of_int i)"
proof -
  have "show_int i = render (i < 0) (show_nat (nat \<bar>i\<bar>)) []" by (simp add: show_int_def render_def)
  then show p: "decimal_parts (show_int i) = Some (i < 0, show_nat (nat \<bar>i\<bar>), [])"
    using decimal_parts_render(1) [of "show_nat (nat \<bar>i\<bar>)" "[]" "i < 0"]
    by (simp add: show_nat_digits show_nat_not_Nil list_all_iff)
  show "decimal_value (show_int i) = Some (of_int i)"
    by (simp add: decimal_value_def p with_sign_def mag_def)
qed

lemma scaled_is_shift:
  "scaled_plain_string neg ds scale =
     shift_point neg ds (int (length ds) -
       (if scale \<le> 0 \<and> \<not> list_ex (\<lambda>b. b \<noteq> CHR ''0'') ds then 0 else scale))" if "ds \<noteq> []"
  using that by (auto simp: scaled_plain_string_def shift_point_def Let_def nat_diff_distrib le_nat_iff)

lemma decimal_scaled:
  assumes "list_all is_ascii_digit ds" "ds \<noteq> []"
  shows "decimal_value (scaled_plain_string neg ds scale)
       = Some (with_sign neg (of_nat (read_nat ds) * 10 powi (- scale)))"
proof (cases "list_ex (\<lambda>b. b \<noteq> CHR ''0'') ds")
  case True
  then show ?thesis using shift_point_value [OF assms, of neg "int (length ds) - scale"] scaled_is_shift [OF assms(2)]
    by simp
next
  case False
  then have "ds = replicate (length ds) zero_char"
    by (intro replicate_length_same [symmetric]) (auto simp: list_ex_iff)
  then have "read_nat ds = 0" by (metis read_nat_zeros)
  then show ?thesis
    using shift_point_value [OF assms, of neg "int (length ds) - (if scale \<le> 0 then 0 else scale)"]
      scaled_is_shift [OF assms(2)] False by simp
qed

lemma decimal_value_parts: "decimal_value s = Some q \<Longrightarrow> \<exists>p. decimal_parts s = Some p"
  by (auto simp: decimal_value_def)

lemma canonicalize_decimal:
  assumes "decimal_value s = Some q"
  obtains c where "canonicalize_routing_value s = c" "is_canonical c q"
  using decimal_value_parts [OF assms] canonicalize_plain_decimal assms by metis

lemma scaled_int:
  "decimal_value (scaled_plain_string (v < 0) (show_nat (nat \<bar>v\<bar>)) scale) = Some (of_int v * 10 powi (- scale))"
  using decimal_scaled [of "show_nat (nat \<bar>v\<bar>)" "v < 0" scale]
  by (simp add: show_nat_digits list_all_iff with_sign_def)

lemma scaled_int_signed:
  "v < 0 \<Longrightarrow> decimal_value (scaled_plain_string True (show_nat (nat (- v))) scale) = Some (of_int v * 10 powi (- scale))"
  "\<not> v < 0 \<Longrightarrow> decimal_value (scaled_plain_string False (show_int v) scale) = Some (of_int v * 10 powi (- scale))"
  using scaled_int [of v scale] by (simp_all add: show_int_def)

lemma show_int_sign:
  "strip_prefix ''-'' (show_int v) = (if v < 0 then Some (show_nat (nat \<bar>v\<bar>)) else None)"
proof -
  have "\<not> prefix ''-'' (show_nat n)" for n
    using show_nat_digits [of "CHR ''-''" n] by (auto simp: prefix_def digit_chars)
  then show ?thesis by (simp add: show_int_def strip_prefix_def)
qed

lemma scalar_text_number:
  assumes "sql_lib_ok L" "scalar_number sc = Some q"
  shows "\<not> is_null_scalar sc"
    and "\<exists>s. scalar_text L sc = Some s \<and> is_canonical (canonicalize_routing_value s) q"
proof -
  note lib = sql_lib_okD [OF assms(1)]
  have q: "is_canonical (canonicalize_routing_value (quote_literal s)) q" if "quoted_number s = Some q" for s
    using canonicalize_quoted [OF that] by metis
  have d: "is_canonical (canonicalize_routing_value s) q" if "decimal_value s = Some q" for s
    using canonicalize_decimal [OF that] by metis
  have i: "decimal_value (show_nat k) = Some (of_nat k)" for k
    using decimal_show(2) [of "int k"] by (simp add: show_int_def)
  have "\<not> is_null_scalar sc \<and> (\<exists>s. scalar_text L sc = Some s \<and> is_canonical (canonicalize_routing_value s) q)"
    using assms(2) q d
    by (cases sc rule: scalar_number.cases)
      (auto simp: scalar_text_def lib decimal_show i scaled_int scaled_int_signed show_int_sign)
  then show "\<not> is_null_scalar sc" "\<exists>s. scalar_text L sc = Some s \<and> is_canonical (canonicalize_routing_value s) q"
    by auto
qed

lemma number_token_chars:
  assumes "number_token n" "c \<in> set n"
  shows "is_ascii_digit c \<or> c \<in> {CHR ''.'', CHR ''-'', CHR ''+'', CHR ''e'', CHR ''E''}"
proof -
  obtain ip fp ex where n: "n = mantissa_text ip fp @ exponent_text ex" and t: "token_parts ip fp ex"
    using assms(1) by (auto simp: number_token_def)
  consider "c \<in> set (mantissa_text ip fp)" | "c \<in> set (exponent_text ex)" using assms(2) n by auto
  then show ?thesis
  proof cases
    case 1
    then show ?thesis using mantissa_chars [OF t] by blast
  next
    case 2
    then obtain e0 x where ex: "ex = Some (e0, x)" "c = e0 \<or> c \<in> set x"
      by (auto simp: exponent_text_def split: option.splits)
    then show ?thesis
      using t parse_i32_chars [of x _ c] by (auto simp: token_parts_def split: option.splits)
  qed
qed

lemma number_token_plain:
  assumes "number_token n" "s = n \<or> s = ''-'' @ n"
  shows "trim s = s" "\<not> prefix [squote] s" "squote \<notin> set s" "CHR 0x5C \<notin> set s"
proof -
  have chars: "is_ascii_digit c \<or> c \<in> {CHR ''.'', CHR ''-'', CHR ''+'', CHR ''e'', CHR ''E''}" if "c \<in> set s" for c
    using number_token_chars [OF assms(1), of c] assms(2) that by auto
  show "trim s = s"
  proof (rule trim_id)
    fix c
    assume "c \<in> set s"
    then show "\<not> is_space c" using chars [of c] not_space [of c] by (auto simp: is_space_def)
  qed
  show q: "squote \<notin> set s" "CHR 0x5C \<notin> set s"
    using chars [of squote] chars [of "CHR 0x5C"] by (auto simp: squote_def is_ascii_digit_def)
  then show "\<not> prefix [squote] s" by (auto simp: prefix_def)
qed

lemma signed_token_routes:
  assumes "number_token n" "s = n \<or> s = ''-'' @ n" "numeric_value s = Some q"
  shows "is_canonical (canonicalize_routing_value s) q"
proof -
  have "canonicalize_numeric s \<noteq> None" using canonicalize_token [OF assms(1)] assms(2) by metis
  then show ?thesis
    using canonicalize_unquoted [of s q] assms(3) number_token_plain [OF assms(1,2)] by metis
qed

text \<open>Every expression that denotes a number routes on the canonical form of that number.\<close>

lemma expr_number_routes:
  assumes "sql_lib_ok L" "expr_number e params = Some q"
  shows "\<exists>c. expr_routing_value L e params = RValue c \<and> is_canonical c q"
  using assms(2)
proof (induction e params rule: expr_number.induct)
  case (2 n params)
  then show ?case
    using signed_token_routes [of n n q] sql_lib_okD(1) [OF assms(1)]
    by (auto simp: value_routing_value_def split: if_splits)
next
  case (3 n params)
  then obtain r where r: "number_token n" "numeric_value n = Some r" "q = - r" by (auto split: if_splits)
  then have "numeric_value (''-'' @ n) = Some q" using canonicalize_token [OF r(1)] by (metis option.inject)
  then show ?case
    using signed_token_routes [OF r(1), of "''-'' @ n"] sql_lib_okD(1,2) [OF assms(1)] by simp
next
  case (4 s params)
  then have "quoted_number s = Some q" by simp
  moreover have "squote \<notin> set s" "CHR 0x5C \<notin> set s"
  proof -
    obtain n where n: "number_token n" "s = n \<or> s = ''-'' @ n"
      using 4 by (auto simp: quoted_number_def split: if_splits)
    show "squote \<notin> set s" "CHR 0x5C \<notin> set s" using number_token_plain [OF n] by simp_all
  qed
  ultimately show ?case
    using canonicalize_quoted [of s q] sql_lib_okD(4) [OF assms(1), of s]
    by (auto simp: value_routing_value_def)
next
  case (5 name params)
  then obtain idx where "placeholder_index name = Some idx" "idx < length params"
    "scalar_number (params ! idx) = Some q"
    by (auto split: option.splits if_splits)
  then show ?case
    using scalar_text_number [OF assms(1)] by (force simp: value_routing_value_def scalar_routing_value_def)
qed auto

section \<open>Properties\<close>

text \<open>
  Numeric canonicalization is exact: two tokens the canonicalizer accepts, plain or in
  scientific notation, have the same canonical form exactly when they denote the same rational
  number, the canonical form denotes that number, and it is its own canonical form.
\<close>

lemma canonical_form_is_the_number:
  assumes "canonicalize_numeric t = Some c" and "canonicalize_numeric u = Some d"
  shows "(c = d \<longleftrightarrow> numeric_value t = numeric_value u)
       \<and> numeric_value c = numeric_value t \<and> canonicalize_numeric c = Some c"
proof -
  obtain n ip fp where c: "c = render n ip fp" "lowest ip fp" "n \<Longrightarrow> mag ip fp \<noteq> 0"
    "numeric_value t = Some (with_sign n (mag ip fp))" using canonicalize_numeric_value [OF assms(1)] by metis
  have parts: "decimal_parts c = Some (n, ip, fp)"
    using c(1,2) decimal_parts_render(1) [of ip fp n] by (simp add: lowest_def)
  note plain = decimal_parts_plain [OF parts]
  have v: "numeric_value c = numeric_value t" using plain(3) c decimal_value_render by simp
  obtain c' where c': "canonicalize_numeric c = Some c'" using plain(2) by blast
  have "c' = c" using canonicalize_numeric_same [OF c' assms(1)] v by simp
  then show ?thesis using canonicalize_numeric_same [OF assms] v c' by simp
qed


text \<open>A reference rendering of the syntax tree, for the witnesses.\<close>

fun ref_expr :: "expr \<Rightarrow> string" where
  "ref_expr (EValue (VNumber n long)) = (if long then n @ ''L'' else n)"
| "ref_expr (EValue (VSingleQuoted s)) = quote_literal s"
| "ref_expr (EValue (VBoolean b)) = (if b then ''true'' else ''false'')"
| "ref_expr (EValue (VPlaceholder p)) = p"
| "ref_expr (EUnaryOp UMinus e) = ''-'' @ ref_expr e"
| "ref_expr (EUnaryOp UPlus e) = ''+'' @ ref_expr e"
| "ref_expr (ENested e) = ''('' @ ref_expr e @ '')''"
| "ref_expr _ = ''expression''"

fun ref_scalar :: "scalar \<Rightarrow> string" where
  "ref_scalar (SInt8 (Some i)) = show_int i"
| "ref_scalar (SInt16 (Some i)) = show_int i"
| "ref_scalar (SInt32 (Some i)) = show_int i"
| "ref_scalar (SInt64 (Some i)) = show_int i"
| "ref_scalar (SUInt8 (Some n)) = show_nat n"
| "ref_scalar (SUInt16 (Some n)) = show_nat n"
| "ref_scalar (SUInt32 (Some n)) = show_nat n"
| "ref_scalar (SUInt64 (Some n)) = show_nat n"
| "ref_scalar _ = ''scalar''"

text \<open>The placeholders and relations of the forms the witnesses use.\<close>

fun row_placeholders :: "expr list \<Rightarrow> string list" where
  "row_placeholders [] = []"
| "row_placeholders (EValue (VPlaceholder p) # es) = p # row_placeholders es"
| "row_placeholders (e # es) = row_placeholders es"

fun row_with_placeholders :: "string list \<Rightarrow> expr list \<Rightarrow> expr list \<times> string list" where
  "row_with_placeholders ns [] = ([], ns)"
| "row_with_placeholders ns (EValue (VPlaceholder p) # es) =
     (case ns of
        [] \<Rightarrow> (EValue (VPlaceholder p) # fst (row_with_placeholders [] es), [])
      | n # ns' \<Rightarrow> (case row_with_placeholders ns' es of (es', r) \<Rightarrow> (EValue (VPlaceholder n) # es', r)))"
| "row_with_placeholders ns (e # es) =
     (case row_with_placeholders ns es of (es', r) \<Rightarrow> (e # es', r))"

fun rows_with_placeholders :: "string list \<Rightarrow> expr list list \<Rightarrow> expr list list" where
  "rows_with_placeholders ns [] = []"
| "rows_with_placeholders ns (row # rows) =
     (case row_with_placeholders ns row of (row', r) \<Rightarrow> row' # rows_with_placeholders r rows)"

definition insert_rows :: "statement \<Rightarrow> expr list list" where
  "insert_rows st =
     (case st of
        StInsert i \<Rightarrow> (case is_source i of Some q \<Rightarrow> (case qu_body q of SValues rows \<Rightarrow> rows | _ \<Rightarrow> []) | None \<Rightarrow> [])
      | _ \<Rightarrow> [])"

definition with_insert_rows :: "expr list list \<Rightarrow> statement \<Rightarrow> statement" where
  "with_insert_rows rows st =
     (case st of
        StInsert i \<Rightarrow>
          (case is_source i of
             Some q \<Rightarrow> (case qu_body q of
                 SValues _ \<Rightarrow> StInsert (i\<lparr>is_source := Some (q\<lparr>qu_body := SValues rows\<rparr>)\<rparr>)
               | _ \<Rightarrow> st)
           | None \<Rightarrow> st)
      | _ \<Rightarrow> st)"

definition insert_relation :: "statement \<Rightarrow> object_name list" where
  "insert_relation st = (case st of StInsert i \<Rightarrow> (case is_table i of TableName n \<Rightarrow> [n] | TableFunction _ \<Rightarrow> []) | _ \<Rightarrow> [])"

definition with_insert_relation :: "object_name list \<Rightarrow> statement \<Rightarrow> statement" where
  "with_insert_relation ns st =
     (case (st, ns) of
        (StInsert i, [n]) \<Rightarrow> (case is_table i of TableName _ \<Rightarrow> StInsert (i\<lparr>is_table := TableName n\<rparr>) | TableFunction _ \<Rightarrow> st)
      | _ \<Rightarrow> st)"

definition ref_sql :: sql_lib where
  "ref_sql =
    \<lparr>sq_expr = ref_expr, sq_value = (\<lambda>v. ref_expr (EValue v)), sq_into_string = (\<lambda>v. case v of VSingleQuoted s \<Rightarrow> Some s | _ \<Rightarrow> None),
     sq_scalar = ref_scalar, sq_data_type = (\<lambda>_. ''type''),
     sq_arrow_literal = (\<lambda>sc. Inr (ref_scalar sc)), sq_f16 = ucast, sq_f32 = ucast, sq_object_name = (\<lambda>_. ''name''),
     sq_type = (\<lambda>_. ''type''), sq_query = (\<lambda>_. ''query''), sq_alter_operation = (\<lambda>_. ''operation''),
     sq_alter_column = (\<lambda>_. ''operation''), sq_parse_expr = (\<lambda>_. None), sq_expressions = (\<lambda>st. concat (insert_rows st)),
     sq_statement = (\<lambda>st. join '','' (map (\<lambda>row. join '','' (map ref_expr row)) (insert_rows st))),
     sq_placeholders = (\<lambda>st. concat (map row_placeholders (insert_rows st))),
     sq_with_placeholders = (\<lambda>ns st. with_insert_rows (rows_with_placeholders ns (insert_rows st)) st),
     sq_relations = insert_relation, sq_with_relations = with_insert_relation,
     sq_query_relations = (\<lambda>_. [])\<rparr>"

lemma row_placeholders_put:
  "length (row_placeholders es) \<le> length ns \<Longrightarrow>
     row_placeholders (fst (row_with_placeholders ns es)) = take (length (row_placeholders es)) ns
   \<and> snd (row_with_placeholders ns es) = drop (length (row_placeholders es)) ns"
proof (induction ns es rule: row_with_placeholders.induct)
  case (2 ns p es)
  then show ?case by (cases ns) (auto split: prod.splits)
qed (auto split: prod.splits)

lemma rows_placeholders_put:
  "length ns = length (concat (map row_placeholders rows)) \<Longrightarrow>
     concat (map row_placeholders (rows_with_placeholders ns rows)) = ns"
proof (induction rows arbitrary: ns)
  case (Cons row rows)
  obtain row' r where row: "row_with_placeholders ns row = (row', r)" by fastforce
  have "row_placeholders row' = take (length (row_placeholders row)) ns" "r = drop (length (row_placeholders row)) ns"
    using row_placeholders_put [of row ns] Cons.prems row by simp_all
  then show ?case using Cons.IH [of r] Cons.prems row by simp
qed simp

lemma ref_placeholders_put:
  assumes "length ns = length (sq_placeholders ref_sql st)"
  shows "sq_placeholders ref_sql (sq_with_placeholders ref_sql ns st) = ns"
proof (cases "\<exists>i q rows. st = StInsert i \<and> is_source i = Some q \<and> qu_body q = SValues rows")
  case True
  then obtain i q rows where st: "st = StInsert i" "is_source i = Some q" "qu_body q = SValues rows" by blast
  then show ?thesis
    using assms rows_placeholders_put [of ns rows]
    by (simp add: ref_sql_def insert_rows_def with_insert_rows_def)
next
  case False
  then have "insert_rows st = []"
    by (auto simp: insert_rows_def split: statement.splits option.splits set_expr.splits)
  moreover have "with_insert_rows rows st = st" for rows
    using False by (auto simp: with_insert_rows_def split: statement.splits option.splits set_expr.splits)
  ultimately show ?thesis using assms by (simp add: ref_sql_def)
qed

lemma ref_relations_put:
  "length rs = length (sq_relations ref_sql st) \<Longrightarrow> sq_relations ref_sql (sq_with_relations ref_sql rs st) = rs"
  by (auto simp: ref_sql_def insert_relation_def with_insert_relation_def length_Suc_conv
      split: statement.splits table_object.splits)

lemma ref_sql_ok: "sql_lib_ok ref_sql"
  unfolding sql_lib_ok_def using ref_placeholders_put ref_relations_put
  by (simp add: ref_sql_def)


text \<open>
  C0. A plus sign in front of an integer key changes its route: \<open>+5\<close> routes on the text
  \<open>+5\<close> and \<open>5\<close> on the text \<open>5\<close>, although both store the number five.
\<close>

theorem plus_sign_routes_apart:
  assumes "sql_lib_ok L" and "list_all is_ascii_digit n" and "n \<noteq> []"
  shows "expr_routing_value L (EUnaryOp UPlus (EValue (VNumber n False))) params = RValue (''+'' @ n)
       \<and> expr_routing_value L (EUnaryOp UPlus (EValue (VNumber n False))) params
           \<noteq> expr_routing_value L (EValue (VNumber n False)) params"
proof -
  have "number_token n" unfolding number_token_def
    using assms(2,3)
    by (intro exI [of _ n] exI [of _ "None :: string option"] exI [of _ "None :: (char \<times> string) option"])
      (simp add: mantissa_text_def exponent_text_def token_parts_def)
  then obtain q where "expr_number (EValue (VNumber n False)) params = Some q"
    using canonicalize_token by (metis expr_number.simps(2))
  then obtain c where c: "expr_routing_value L (EValue (VNumber n False)) params = RValue c" "is_canonical c q"
    using expr_number_routes [OF assms(1)] by blast
  have "c \<noteq> ''+'' @ n"
    using c(2) by (auto simp: is_canonical_def render_def lowest_def digit_chars Cons_eq_append_conv split: if_splits)
  have tr: "trim (''+'' @ n) = ''+'' @ n"
    by (rule trim_id) (use assms(2) not_space in \<open>auto simp: list_all_iff is_space_def\<close>)
  have "CHR ''e'' \<notin> set n" "CHR ''E'' \<notin> set n" using assms(2) digit_chars by (auto simp: list_all_iff)
  then have "canonicalize_numeric (''+'' @ n) = None"
    unfolding canonicalize_numeric_parts tr by (simp add: decimal_parts_def strip_prefix_def digit_chars)
  then have "canonicalize_routing_value (''+'' @ n) = ''+'' @ n"
    unfolding canonicalize_routing_value_def tr
    by (simp add: unwrap_quotes_def strip_prefix_def squote_def)
  then show ?thesis using c(1) \<open>c \<noteq> ''+'' @ n\<close> sql_lib_okD(1,3) [OF assms(1)] by simp
qed

theorem plus_sign_routes_apart_witness:
  "expr_routing_value ref_sql (EUnaryOp UPlus (EValue (VNumber ''5'' False))) []
     \<noteq> expr_routing_value ref_sql (EValue (VNumber ''5'' False)) []"
proof -
  have "list_all is_ascii_digit ''5''" by (simp add: is_ascii_digit_def)
  then show ?thesis by (rule plus_sign_routes_apart [THEN conjunct2, OF ref_sql_ok]) simp
qed

end
