(* ===== verification/Write_Sql.thy ===== *)
theory Write_Sql
  imports Routing_Value Replication
begin

text \<open>
  Write statements and where they go:
  \<open>crates/vairedb-coordinator/src/write_sql_cl/statement.rs\<close>, \<open>shard_routing.rs\<close> and
  \<open>mod.rs\<close> (shard keys of an INSERT, checks, splitting by rows, placeholders, routing), and
  \<open>write_router/write_router.rs\<close> with \<open>write_params.rs\<close> (target shards, the shard-local
  statement and its bind values), and the statement classes of
  \<open>pgwire_handler/query_router.rs\<close>. The hash \<open>xxh3_64\<close> is a parameter.
\<close>

section \<open>Statement classes\<close>

datatype query_type =
  QSelect | QInsert | QUpdate | QDelete | QMerge | QCreateTable | QAlterTable | QDropTable
| QTruncateTable | QCreateIndex | QDropIndex | QCreateView | QAlterView | QDropView
| QCreateSchema | QDropSchema | QAlterSchema | QCopy | QTransactionControl | QSessionParam
| QExplain | QOtherType

definition is_write_path :: "query_type \<Rightarrow> bool" where
  "is_write_path q \<longleftrightarrow>
     q \<in> {QInsert, QUpdate, QDelete, QMerge, QCreateTable, QAlterTable, QDropTable, QTruncateTable,
          QCreateIndex, QDropIndex, QCopy}"

definition wants_verbatim_ast :: "query_type \<Rightarrow> bool" where
  "wants_verbatim_ast q \<longleftrightarrow> is_write_path q \<or> q \<in> {QCreateView, QAlterView}"

fun classify_statement :: "statement \<Rightarrow> query_type" where
  "classify_statement (StQuery _) = QSelect"
| "classify_statement (StInsert _) = QInsert"
| "classify_statement (StUpdate _) = QUpdate"
| "classify_statement (StDelete _) = QDelete"
| "classify_statement (StMerge _) = QMerge"
| "classify_statement (StCreateTable _) = QCreateTable"
| "classify_statement (StAlterTable _) = QAlterTable"
| "classify_statement (StCreateIndex _) = QCreateIndex"
| "classify_statement (StCreateSchema _) = QCreateSchema"
| "classify_statement (StAlterSchema _) = QAlterSchema"
| "classify_statement (StCreateView _) = QCreateView"
| "classify_statement (StAlterView _) = QAlterView"
| "classify_statement (StDrop drop_obj) =
     (case dr_object drop_obj of
        OIndex \<Rightarrow> QDropIndex | OView \<Rightarrow> QDropView | OSchema \<Rightarrow> QDropSchema | _ \<Rightarrow> QDropTable)"
| "classify_statement (StTruncate _) = QTruncateTable"
| "classify_statement (StCopy _) = QCopy"
| "classify_statement (StStartTransaction _ _ _) = QTransactionControl"
| "classify_statement (StCommit _ _) = QTransactionControl"
| "classify_statement (StRollback _ _) = QTransactionControl"
| "classify_statement (StSavepoint _) = QTransactionControl"
| "classify_statement (StReleaseSavepoint _) = QTransactionControl"
| "classify_statement (StSet _) = QSessionParam"
| "classify_statement (StShowVariable _) = QSessionParam"
| "classify_statement (StExplain _) = QExplain"
| "classify_statement (StExplainTable _) = QExplain"
| "classify_statement _ = QOtherType"

fun relation_name :: "table_factor \<Rightarrow> string option" where
  "relation_name (FTable name _ has_args) = (if has_args then None else canonical_table_name name)"
| "relation_name _ = None"

definition first_of :: "'a list \<Rightarrow> 'a option" where
  "first_of xs = (case xs of [] \<Rightarrow> None | x # _ \<Rightarrow> Some x)"

fun extract_table_name :: "statement \<Rightarrow> string option" where
  "extract_table_name (StInsert ins) =
     (case is_table ins of TableName name \<Rightarrow> canonical_table_name name | _ \<Rightarrow> None)"
| "extract_table_name (StUpdate update) = relation_name (us_table update)"
| "extract_table_name (StDelete delete) = Option.bind (first_of (ds_tables delete)) relation_name"
| "extract_table_name (StMerge merge) = relation_name (me_table merge)"
| "extract_table_name (StCreateTable create) = canonical_table_name (cr_name create)"
| "extract_table_name (StAlterTable alter) = canonical_table_name (al_name alter)"
| "extract_table_name (StCreateIndex create) = canonical_table_name (ci_table_name create)"
| "extract_table_name (StCreateView create) = canonical_table_name (cv_name create)"
| "extract_table_name (StAlterView alter) = canonical_table_name (av_name alter)"
| "extract_table_name (StDrop drop_obj) = Option.bind (first_of (dr_names drop_obj)) canonical_table_name"
| "extract_table_name (StTruncate trunc) = Option.bind (first_of (tr_names trunc)) canonical_table_name"
| "extract_table_name _ = None"

fun extract_select_table_name :: "statement \<Rightarrow> string option" where
  "extract_select_table_name (StQuery q) =
     (case qu_body q of
        SSelect from _ \<Rightarrow> Option.bind (first_of from) relation_name
      | _ \<Rightarrow> None)"
| "extract_select_table_name _ = None"

section \<open>INSERT statements\<close>

definition shard_key_column_index :: "object_name list \<Rightarrow> string \<Rightarrow> nat option" where
  "shard_key_column_index columns shard_key =
     position (\<lambda>c. case insert_column_ident c of
                     Some i \<Rightarrow> canonicalize_ident i = shard_key | None \<Rightarrow> False) columns"

definition insert_omits_column_list :: "statement \<Rightarrow> bool" where
  "insert_omits_column_list stmt =
     (case stmt of StInsert ins \<Rightarrow> is_columns ins = [] | _ \<Rightarrow> False)"

definition insert_source_is_query :: "statement \<Rightarrow> bool" where
  "insert_source_is_query stmt =
     (case stmt of
        StInsert ins \<Rightarrow>
          (case is_source ins of
             Some source \<Rightarrow> (case qu_body source of SValues _ \<Rightarrow> False | _ \<Rightarrow> True)
           | None \<Rightarrow> False)
      | _ \<Rightarrow> False)"

fun dedup_names :: "object_name list \<Rightarrow> string list \<Rightarrow> string list" where
  "dedup_names [] names = names"
| "dedup_names (relation # relations) names =
     (case canonical_table_name relation of
        Some name \<Rightarrow> dedup_names relations (if name \<in> set names then names else names @ [name])
      | None \<Rightarrow> dedup_names relations names)"

definition relations_read :: "sql_lib \<Rightarrow> query \<Rightarrow> string list" where
  "relations_read L q = dedup_names (sq_query_relations L q) []"

definition insert_source_tables :: "sql_lib \<Rightarrow> statement \<Rightarrow> string list" where
  "insert_source_tables L stmt =
     (case stmt of
        StInsert ins \<Rightarrow> (case is_source ins of Some source \<Rightarrow> relations_read L source | None \<Rightarrow> [])
      | _ \<Rightarrow> [])"

definition materialize_insert_columns_for_arity ::
  "statement \<Rightarrow> string list \<Rightarrow> nat \<Rightarrow> (string, statement) result" where
  "materialize_insert_columns_for_arity stmt table_columns arity =
     (case stmt of
        StInsert ins \<Rightarrow>
          if is_columns ins \<noteq> [] \<or> table_columns = [] \<or> arity = 0 then Inr stmt
          else if arity > length table_columns then
            Inl (''INSERT has more expressions than target columns: '' @ show_nat arity
                 @ '' values for a table with '' @ show_nat (length table_columns) @ '' columns'')
          else Inr (StInsert (ins\<lparr>is_columns := quoted_column_names (take arity table_columns)\<rparr>))
      | _ \<Rightarrow> Inr stmt)"

definition values_rows :: "insert_stmt \<Rightarrow> expr list list option" where
  "values_rows ins =
     (case is_source ins of
        Some source \<Rightarrow> (case qu_body source of SValues rows \<Rightarrow> Some rows | _ \<Rightarrow> None)
      | None \<Rightarrow> None)"

definition materialize_insert_columns :: "statement \<Rightarrow> string list \<Rightarrow> (string, statement) result" where
  "materialize_insert_columns stmt table_columns =
     (case stmt of
        StInsert ins \<Rightarrow>
          if is_columns ins \<noteq> [] then Inr stmt
          else
            (case values_rows ins of
               Some (first # rest) \<Rightarrow>
                 if list_ex (\<lambda>row. length row \<noteq> length first) (first # rest)
                 then Inl ''VALUES lists must all be the same length''
                 else materialize_insert_columns_for_arity stmt table_columns (length first)
             | _ \<Rightarrow> Inr stmt)
      | _ \<Rightarrow> Inr stmt)"

fun collect_row_keys ::
  "sql_lib \<Rightarrow> nat \<Rightarrow> scalar list \<Rightarrow> nat \<Rightarrow> expr list list \<Rightarrow> (nat \<times> string) list option" where
  "collect_row_keys L key_idx params row_idx [] = Some []"
| "collect_row_keys L key_idx params row_idx (row # rows) =
     (if key_idx < length row then
        (case expr_routing_value L (row ! key_idx) params of
           RValue v \<Rightarrow>
             map_option (\<lambda>keys. (row_idx, v) # keys) (collect_row_keys L key_idx params (Suc row_idx) rows)
         | _ \<Rightarrow> None)
      else None)"

definition extract_insert_row_shard_keys ::
  "sql_lib \<Rightarrow> statement \<Rightarrow> string \<Rightarrow> scalar list \<Rightarrow> (nat \<times> string) list option" where
  "extract_insert_row_shard_keys L stmt shard_key params =
     (case stmt of
        StInsert ins \<Rightarrow>
          Option.bind (shard_key_column_index (is_columns ins) shard_key) (\<lambda>key_idx.
          Option.bind (values_rows ins) (\<lambda>rows. collect_row_keys L key_idx params 0 rows))
      | _ \<Rightarrow> None)"

definition insert_values_row_count :: "statement \<Rightarrow> nat option" where
  "insert_values_row_count stmt =
     (case stmt of
        StInsert ins \<Rightarrow>
          if is_on ins \<noteq> None \<or> is_returning ins then None
          else map_option length (values_rows ins)
      | _ \<Rightarrow> None)"

definition dq :: "string \<Rightarrow> string" where
  "dq s = [dquote] @ s @ [quote_char]"

fun validate_rows :: "sql_lib \<Rightarrow> string \<Rightarrow> nat \<Rightarrow> scalar list \<Rightarrow> expr list list \<Rightarrow> (string, unit) result" where
  "validate_rows L shard_key key_idx params [] = Inr ()"
| "validate_rows L shard_key key_idx params (row # rows) =
     (if key_idx < length row then
        (case expr_routing_value L (row ! key_idx) params of
           RValue _ \<Rightarrow> validate_rows L shard_key key_idx params rows
         | RNull \<Rightarrow> Inl (''shard key column '' @ dq shard_key @ '' cannot be NULL'')
         | RUnroutable reason \<Rightarrow>
             Inl (''cannot route INSERT on shard key column '' @ dq shard_key @ '': '' @ reason))
      else Inl (''INSERT must specify a value for shard key column '' @ dq shard_key))"

definition validate_insert_shard_key ::
  "sql_lib \<Rightarrow> statement \<Rightarrow> string \<Rightarrow> scalar list \<Rightarrow> (string, unit) result" where
  "validate_insert_shard_key L stmt shard_key params =
     (case stmt of
        StInsert ins \<Rightarrow>
          if is_columns ins = [] then
            Inl (''INSERT must specify an explicit column list including shard key '' @ dq shard_key)
          else
            (case shard_key_column_index (is_columns ins) shard_key of
               None \<Rightarrow> Inl (''INSERT must specify a value for shard key column '' @ dq shard_key)
             | Some key_idx \<Rightarrow>
                 (case is_source ins of
                    None \<Rightarrow> Inl (''INSERT must specify a value for shard key column '' @ dq shard_key)
                  | Some source \<Rightarrow>
                      (case qu_body source of
                         SValues rows \<Rightarrow> validate_rows L shard_key key_idx params rows
                       | _ \<Rightarrow>
                           Inl (''INSERT ... SELECT is not supported for sharded tables; specify a ''
                                @ ''non-NULL value for shard key column '' @ dq shard_key))))
      | _ \<Rightarrow> Inr ())"

definition assignments_target_shard_key :: "assignment list \<Rightarrow> string \<Rightarrow> bool" where
  "assignments_target_shard_key assignments shard_key =
     list_ex (\<lambda>a. case ag_target a of
                    TColumnName name \<Rightarrow> column_name_is name shard_key
                  | TTuple names \<Rightarrow> list_ex (\<lambda>name. column_name_is name shard_key) names) assignments"

definition update_targets_shard_key :: "statement \<Rightarrow> string \<Rightarrow> bool" where
  "update_targets_shard_key stmt shard_key =
     (case stmt of
        StUpdate update \<Rightarrow> assignments_target_shard_key (us_assignments update) shard_key
      | _ \<Rightarrow> False)"

definition validate_on_conflict :: "sql_lib \<Rightarrow> statement \<Rightarrow> string \<Rightarrow> (string, unit) result" where
  "validate_on_conflict L stmt shard_key =
     (case stmt of
        StInsert ins \<Rightarrow>
          (case is_on ins of
             None \<Rightarrow> Inr ()
           | Some (OnDuplicateKeyUpdate _) \<Rightarrow>
               Inl (''ON DUPLICATE KEY UPDATE is not supported by VaireDB; use ''
                    @ ''ON CONFLICT (<shard key>) DO UPDATE'')
           | Some (OnConflict oc) \<Rightarrow>
               r_bind
                 (case oc_target oc of
                    Some (CColumns columns) \<Rightarrow>
                      if \<not> list_ex (\<lambda>c. canonicalize_ident c = shard_key) columns then
                        Inl (''ON CONFLICT ('' @ join '', '' (map canonicalize_ident columns)
                             @ '') cannot be honored: the conflict target must include ''
                             @ ''shard key column '' @ dq shard_key
                             @ ''. A unique index exists once per shard, ''
                             @ ''so rows with different shard keys never conflict with each other and ''
                             @ ''the upsert would silently insert a duplicate instead'')
                      else Inr ()
                  | Some (COnConstraint name) \<Rightarrow>
                      Inl (''ON CONFLICT ON CONSTRAINT '' @ sq_object_name L name
                           @ '' is not supported by VaireDB; name the ''
                           @ ''conflicting columns instead, including shard key column '' @ dq shard_key)
                  | None \<Rightarrow> Inr ())
                 (\<lambda>_. case oc_action oc of
                    DoUpdate assignments _ \<Rightarrow>
                      if assignments_target_shard_key assignments shard_key then
                        Inl (''ON CONFLICT ... DO UPDATE cannot assign shard key column '' @ dq shard_key
                             @ ''; relocating a row to a different shard is not supported in v0.1'')
                      else Inr ()
                  | DoNothing \<Rightarrow> Inr ()))
      | _ \<Rightarrow> Inr ())"

definition split_insert_by_rows :: "statement \<Rightarrow> nat list \<Rightarrow> statement option" where
  "split_insert_by_rows stmt row_indices =
     (case stmt of
        StInsert ins \<Rightarrow>
          (case is_source ins of
             Some source \<Rightarrow>
               (case qu_body source of
                  SValues rows \<Rightarrow>
                    (let selected = map (\<lambda>i. rows ! i) (filter (\<lambda>i. i < length rows) row_indices) in
                     if selected = [] then None
                     else Some (StInsert (ins\<lparr>is_source := Some (source\<lparr>qu_body := SValues selected\<rparr>)\<rparr>)))
                | _ \<Rightarrow> None)
           | None \<Rightarrow> None)
      | _ \<Rightarrow> None)"

section \<open>Placeholders\<close>

record renumber_state =
  rn_order :: "nat list"
  rn_malformed :: bool

definition renumber_one :: "string \<Rightarrow> renumber_state \<Rightarrow> string \<times> renumber_state" where
  "renumber_one name st =
     (case placeholder_index name of
        Some orig \<Rightarrow>
          (case position (\<lambda>i. i = orig) (rn_order st) of
             Some k \<Rightarrow> (''$'' @ show_nat (Suc k), st)
           | None \<Rightarrow>
               (''$'' @ show_nat (Suc (length (rn_order st))), st\<lparr>rn_order := rn_order st @ [orig]\<rparr>))
      | None \<Rightarrow> (name, st\<lparr>rn_malformed := True\<rparr>))"

fun renumber_all :: "string list \<Rightarrow> renumber_state \<Rightarrow> string list \<times> renumber_state" where
  "renumber_all [] st = ([], st)"
| "renumber_all (name # names) st =
     (case renumber_one name st of
        (name', st1) \<Rightarrow> (case renumber_all names st1 of (names', st2) \<Rightarrow> (name' # names', st2)))"

definition renumber_placeholders :: "sql_lib \<Rightarrow> statement \<Rightarrow> nat list option \<times> statement" where
  "renumber_placeholders L stmt =
     (case renumber_all (sq_placeholders L stmt) \<lparr>rn_order = [], rn_malformed = False\<rparr> of
        (names, st) \<Rightarrow>
          (if rn_malformed st then None else Some (rn_order st), sq_with_placeholders L names stmt))"

definition max_placeholder_index :: "sql_lib \<Rightarrow> statement \<Rightarrow> nat" where
  "max_placeholder_index L stmt =
     fold (\<lambda>name m. case placeholder_index name of Some idx \<Rightarrow> max m (idx + 1) | None \<Rightarrow> m)
       (sq_placeholders L stmt) 0"

section \<open>Routing\<close>

fun unnest :: "expr \<Rightarrow> expr" where
  "unnest (ENested e) = unnest e"
| "unnest e = e"

datatype shard_routing = RouteOne string | RouteNull | RouteUnroutable string | RouteBroadcast

definition is_key_column :: "expr \<Rightarrow> string \<Rightarrow> bool" where
  "is_key_column e key_column =
     (case unnest e of EIdentifier i \<Rightarrow> canonicalize_ident i = key_column | _ \<Rightarrow> False)"

fun extract_equality_from_where :: "sql_lib \<Rightarrow> expr \<Rightarrow> string \<Rightarrow> scalar list \<Rightarrow> routed_value option" where
  "extract_equality_from_where L (ENested e) key_column params =
     extract_equality_from_where L e key_column params"
| "extract_equality_from_where L (EBinaryOp left op right) key_column params =
     (case op of
        BEq \<Rightarrow>
          if is_key_column left key_column then Some (expr_routing_value L right params)
          else if is_key_column right key_column then Some (expr_routing_value L left params)
          else None
      | BAnd \<Rightarrow>
          (case extract_equality_from_where L left key_column params of
             Some v \<Rightarrow> Some v
           | None \<Rightarrow> extract_equality_from_where L right key_column params)
      | _ \<Rightarrow> None)"
| "extract_equality_from_where L _ key_column params = None"

fun routing_from_equality :: "routed_value option \<Rightarrow> shard_routing" where
  "routing_from_equality (Some (RValue v)) = RouteOne v"
| "routing_from_equality (Some RNull) = RouteNull"
| "routing_from_equality (Some (RUnroutable _)) = RouteBroadcast"
| "routing_from_equality None = RouteBroadcast"

definition predicate_routing :: "sql_lib \<Rightarrow> expr option \<Rightarrow> string \<Rightarrow> scalar list \<Rightarrow> shard_routing" where
  "predicate_routing L selection shard_key params =
     (case selection of
        Some where_clause \<Rightarrow>
          routing_from_equality (extract_equality_from_where L where_clause shard_key params)
      | None \<Rightarrow> RouteBroadcast)"

definition route_target :: "sql_lib \<Rightarrow> statement \<Rightarrow> string \<Rightarrow> scalar list \<Rightarrow> shard_routing" where
  "route_target L stmt shard_key params =
     (case stmt of
        StInsert ins \<Rightarrow>
          (case shard_key_column_index (is_columns ins) shard_key of
             None \<Rightarrow> RouteBroadcast
           | Some key_idx \<Rightarrow>
               (case values_rows ins of
                  Some (first_row # _) \<Rightarrow>
                    if key_idx < length first_row then
                      (case expr_routing_value L (first_row ! key_idx) params of
                         RValue v \<Rightarrow> RouteOne v
                       | RNull \<Rightarrow> RouteNull
                       | RUnroutable reason \<Rightarrow> RouteUnroutable reason)
                    else RouteBroadcast
                | _ \<Rightarrow> RouteBroadcast))
      | StUpdate update \<Rightarrow> predicate_routing L (us_selection update) shard_key params
      | StDelete delete \<Rightarrow> predicate_routing L (ds_selection delete) shard_key params
      | _ \<Rightarrow> RouteBroadcast)"

definition extract_shard_key_value :: "sql_lib \<Rightarrow> statement \<Rightarrow> string \<Rightarrow> scalar list \<Rightarrow> string option" where
  "extract_shard_key_value L stmt shard_key params =
     (case route_target L stmt shard_key params of RouteOne value \<Rightarrow> Some value | _ \<Rightarrow> None)"

text \<open>\<open>xxh3\<close> is the hash \<open>xxh3_64\<close> of the bytes of a routing value.\<close>

type_synonym key_hash = "string \<Rightarrow> 64 word"

definition compute_shard_index :: "key_hash \<Rightarrow> string \<Rightarrow> nat \<Rightarrow> nat" where
  "compute_shard_index xxh3 value shard_count = unat (xxh3 value) mod shard_count"

definition shard_for_bucket :: "shard_meta list \<Rightarrow> nat \<Rightarrow> string \<Rightarrow> (coordinator_error, shard_meta) result" where
  "shard_for_bucket shards bucket table_name =
     ok_or
       (ShardNotAssigned
          (''table '' @ table_name @ '' has no shard for hash bucket '' @ show_nat bucket
           @ '': its shard layout is incomplete ('' @ show_nat (length shards)
           @ '' of the buckets a key can hash to are assigned)''))
       (find (\<lambda>shard. sh_hash_bucket shard = bucket) shards)"

definition resolve_target_shards ::
  "sql_lib \<Rightarrow> key_hash \<Rightarrow> ('t, 'b) env \<Rightarrow> 't catalog \<Rightarrow> statement \<Rightarrow> table_meta \<Rightarrow> scalar list
     \<Rightarrow> (coordinator_error, shard_meta list) result" where
  "resolve_target_shards L xxh3 E C stmt table_meta params =
     r_bind (shards_for_table E C (tm_table_name table_meta)) (\<lambda>shards.
       if shards = [] then Inl (ShardNotAssigned (''no shards for table '' @ tm_table_name table_meta))
       else
         (let key_column = tm_shard_key table_meta in
          case route_target L stmt key_column params of
            RouteOne value \<Rightarrow>
              (let bucket = compute_shard_index xxh3 value (length shards) in
               r_bind (shard_for_bucket shards bucket (tm_table_name table_meta))
                 (\<lambda>shard. Inr [shard]))
          | RouteNull \<Rightarrow> Inl (NullShardKey (''shard key '' @ dq key_column @ '' cannot be NULL''))
          | RouteUnroutable reason \<Rightarrow>
              Inl (UnroutableShardKey (''cannot route on shard key '' @ dq key_column @ '': '' @ reason))
          | RouteBroadcast \<Rightarrow> Inr shards))"

section \<open>Bind values of a shard-local statement\<close>

definition NANOS_PER_MILLI :: int where
  "NANOS_PER_MILLI = 1000000"

text \<open>Rust divides towards zero.\<close>

definition interval_sql_literal :: "int \<Rightarrow> int \<Rightarrow> int \<Rightarrow> string" where
  "interval_sql_literal months days nanos =
     (let micros = sgn nanos * (\<bar>nanos\<bar> div 1000) in
      show_int months @ '' months '' @ show_int days @ '' days '' @ show_int micros @ '' microseconds'')"

definition unbindable :: "sql_lib \<Rightarrow> scalar \<Rightarrow> nat \<Rightarrow> coordinator_error" where
  "unbindable L sc pos =
     (let what =
        (case sc of
           SOther variant _ \<Rightarrow>
             if variant \<in> {''List'', ''LargeList'', ''FixedSizeList''} then ''an array''
             else if variant = ''Struct'' then ''a struct''
             else if variant = ''Map'' then ''a map''
             else ''a '' @ sq_data_type L sc
         | _ \<Rightarrow> ''a '' @ sq_data_type L sc) in
      Unsupported (''$'' @ show_nat pos @ '' is '' @ what
        @ '' bind parameter, which a write cannot carry: the shard''
        @ [squote] @ ''s engine binds it from a SQL literal and this type has none. ''
        @ ''Write the value inline in the statement instead''))"

definition sql_literal :: "sql_lib \<Rightarrow> scalar \<Rightarrow> nat \<Rightarrow> (coordinator_error, string) result" where
  "sql_literal L sc pos =
     (case sq_arrow_literal L sc of
        Inr text \<Rightarrow> Inr text
      | Inl detail \<Rightarrow>
          Inl (InternalErr (''failed to render bind parameter $'' @ show_nat pos @ '' of type ''
                 @ sq_data_type L sc @ '' as a SQL literal: '' @ detail)))"

fun typed_value :: "sql_lib \<Rightarrow> scalar \<Rightarrow> nat \<Rightarrow> (coordinator_error, write_param_value) result" where
  "typed_value L (SBoolean (Some b)) pos = Inr (BoolVal b)"
| "typed_value L (SInt8 (Some v)) pos = Inr (IntVal v)"
| "typed_value L (SInt16 (Some v)) pos = Inr (IntVal v)"
| "typed_value L (SInt32 (Some v)) pos = Inr (IntVal v)"
| "typed_value L (SInt64 (Some v)) pos = Inr (IntVal v)"
| "typed_value L (SUInt8 (Some v)) pos = Inr (IntVal (int v))"
| "typed_value L (SUInt16 (Some v)) pos = Inr (IntVal (int v))"
| "typed_value L (SUInt32 (Some v)) pos = Inr (IntVal (int v))"
| "typed_value L (SUInt64 (Some v)) pos = Inr (StringVal (show_nat v))"
| "typed_value L (SFloat16 (Some v)) pos = Inr (DoubleVal (sq_f16 L v))"
| "typed_value L (SFloat32 (Some v)) pos = Inr (DoubleVal (sq_f32 L v))"
| "typed_value L (SFloat64 (Some v)) pos = Inr (DoubleVal v)"
| "typed_value L (SUtf8 (Some v)) pos = Inr (StringVal v)"
| "typed_value L (SLargeUtf8 (Some v)) pos = Inr (StringVal v)"
| "typed_value L (SUtf8View (Some v)) pos = Inr (StringVal v)"
| "typed_value L (SBinary (Some v)) pos = Inr (BytesVal v)"
| "typed_value L (SLargeBinary (Some v)) pos = Inr (BytesVal v)"
| "typed_value L (SBinaryView (Some v)) pos = Inr (BytesVal v)"
| "typed_value L (SFixedSizeBinary _ (Some v)) pos = Inr (BytesVal v)"
| "typed_value L (SDecimal128 v p s) pos =
     r_bind (sql_literal L (SDecimal128 v p s) pos) (\<lambda>t. Inr (StringVal t))"
| "typed_value L (SDecimal256 v p s) pos =
     r_bind (sql_literal L (SDecimal256 v p s) pos) (\<lambda>t. Inr (StringVal t))"
| "typed_value L (SDate32 v) pos = r_bind (sql_literal L (SDate32 v) pos) (\<lambda>t. Inr (StringVal t))"
| "typed_value L (SDate64 v) pos = r_bind (sql_literal L (SDate64 v) pos) (\<lambda>t. Inr (StringVal t))"
| "typed_value L (STemporal k v) pos =
     r_bind (sql_literal L (STemporal k v) pos) (\<lambda>t. Inr (StringVal t))"
| "typed_value L (SIntervalYearMonth (Some months)) pos =
     Inr (StringVal (interval_sql_literal months 0 0))"
| "typed_value L (SIntervalDayTime (Some (days, milliseconds))) pos =
     Inr (StringVal (interval_sql_literal 0 days (milliseconds * NANOS_PER_MILLI)))"
| "typed_value L (SIntervalMonthDayNano (Some (months, days, nanos))) pos =
     Inr (StringVal (interval_sql_literal months days nanos))"
| "typed_value L other pos = Inl (unbindable L other pos)"

definition scalar_to_write_param ::
  "sql_lib \<Rightarrow> scalar option \<Rightarrow> nat \<Rightarrow> (coordinator_error, write_param) result" where
  "scalar_to_write_param L sc pos =
     (case sc of
        None \<Rightarrow> Inr (Some (IsNull True))
      | Some s \<Rightarrow>
          if is_null_scalar s then Inr (Some (IsNull True))
          else r_bind (typed_value L s pos) (\<lambda>v. Inr (Some v)))"

definition get_param :: "scalar list \<Rightarrow> nat \<Rightarrow> scalar option" where
  "get_param params idx = (if idx < length params then Some (params ! idx) else None)"

section \<open>The shard-local statement\<close>

definition rewrite_to_shard_local :: "sql_lib \<Rightarrow> string \<Rightarrow> statement \<Rightarrow> statement" where
  "rewrite_to_shard_local L shard_suffix stmt =
     sq_with_relations L
       (map (\<lambda>relation. case shard_local_name relation shard_suffix of
                          Some name \<Rightarrow> name | None \<Rightarrow> relation)
         (sq_relations L stmt)) stmt"

definition rewrite_index_name_to_shard_local :: "string \<Rightarrow> statement \<Rightarrow> statement" where
  "rewrite_index_name_to_shard_local shard_suffix stmt =
     (case stmt of
        StCreateIndex create \<Rightarrow>
          (case Option.bind (ci_name create) (\<lambda>name. shard_local_name name shard_suffix) of
             Some shard_local \<Rightarrow> StCreateIndex (create\<lparr>ci_name := Some shard_local\<rparr>)
           | None \<Rightarrow> stmt)
      | _ \<Rightarrow> stmt)"

text \<open>
  The translation of PostgreSQL's dialect to DuckDB's, \<open>transform_to_duckdb\<close>, works on parts
  of the syntax tree that are opaque here; it is the argument \<open>dialect\<close>.
\<close>

definition generate_shard_local_sql ::
  "sql_lib \<Rightarrow> (statement \<Rightarrow> statement) \<Rightarrow> statement \<Rightarrow> shard_meta \<Rightarrow> scalar list
     \<Rightarrow> (coordinator_error, string \<times> write_param list) result" where
  "generate_shard_local_sql L dialect stmt shard params =
     (let shard_suffix = logical_shard_id (sh_hash_bucket shard);
          local = dialect (rewrite_to_shard_local L shard_suffix stmt)
      in if params = [] then Inr (sq_statement L local, [])
         else
           (case renumber_placeholders L local of
              (Some order, renumbered) \<Rightarrow>
                r_bind (collect_results (\<lambda>idx. scalar_to_write_param L (get_param params idx) (idx + 1)) order)
                  (\<lambda>write_params. Inr (sq_statement L renumbered, write_params))
            | (None, _) \<Rightarrow>
                Inl (InternalErr
                  (''failed to renumber bind placeholders for shard-local SQL on shard ''
                   @ show_nat (sh_hash_bucket shard) @ '' (table '' @ sh_table_name shard
                   @ ''): malformed placeholder in statement''))))"

end
