(* ===== verification/Write_Rows.thy ===== *)
theory Write_Rows
  imports Write_Sql
begin

text \<open>
  Materialized rows written back as literals,
  \<open>crates/vairedb-coordinator/src/write_sql_cl/rows.rs\<close>: the literal a cell is spelled as, the
  template of an INSERT the client did not write, and the chunks of rows an INSERT is cut into.
  A record batch is Arrow's; here it has its fields and, row by row, the text the read path
  shows each cell as (\<open>arrow_array_value_to_string\<close>), or \<open>None\<close> where the cell is null on the
  wire. Parsing SQL text is the argument \<open>parse_sql\<close>.
\<close>

section \<open>Record batches\<close>

datatype data_type =
  DBoolean
| DInt8 | DInt16 | DInt32 | DInt64
| DUInt8 | DUInt16 | DUInt32 | DUInt64
| DFloat16 | DFloat32 | DFloat64
| DDecimal128 nat int | DDecimal256 nat int
| DUtf8 | DLargeUtf8 | DUtf8View
| DDate32 | DDate64
| DTime32 string | DTime64 string | DTimestamp string "string option"
| DNull
| DDictionary string data_type
| DOther string

record field =
  fd_name :: string
  fd_data_type :: data_type
  fd_nullable :: bool

record record_batch =
  rb_fields :: "field list"
  rb_rows :: "string option list list"

definition batch_ok :: "record_batch \<Rightarrow> bool" where
  "batch_ok batch \<longleftrightarrow> (\<forall>row\<in>set (rb_rows batch). length row = length (rb_fields batch))"

section \<open>Literals\<close>

definition ROWS_PER_STATEMENT :: nat where
  "ROWS_PER_STATEMENT = 1000"

datatype literal_form = LNumber | LBoolean | LQuoted

fun literal_kind :: "data_type \<Rightarrow> (string, literal_form) result" where
  "literal_kind DBoolean = Inr LBoolean"
| "literal_kind DInt8 = Inr LNumber"
| "literal_kind DInt16 = Inr LNumber"
| "literal_kind DInt32 = Inr LNumber"
| "literal_kind DInt64 = Inr LNumber"
| "literal_kind DUInt8 = Inr LNumber"
| "literal_kind DUInt16 = Inr LNumber"
| "literal_kind DUInt32 = Inr LNumber"
| "literal_kind DUInt64 = Inr LNumber"
| "literal_kind (DDictionary _ value_type) = literal_kind value_type"
| "literal_kind (DOther name) =
     Inl (''a value of type '' @ name @ '' cannot be re-emitted as a SQL literal: the ''
          @ ''coordinator materializes the source rows and writes them back as ''
          @ ''literal values, and this type has no literal form that stores the ''
          @ ''same value'')"
| "literal_kind _ = Inr LQuoted"

definition cell_literal :: "string option \<Rightarrow> literal_form \<Rightarrow> expr" where
  "cell_literal cell kind =
     (case cell of
        None \<Rightarrow> EValue VNull
      | Some text \<Rightarrow>
          EValue (case kind of
                    LNumber \<Rightarrow> VNumber text False
                  | LBoolean \<Rightarrow> VBoolean (text = ''true'')
                  | LQuoted \<Rightarrow> VSingleQuoted text))"

definition quoted :: "string \<Rightarrow> string" where
  "quoted i = [dquote] @ concat (map (\<lambda>c. if c = dquote then [dquote, dquote] else [c]) i) @ [dquote]"

definition insert_template ::
  "(string \<Rightarrow> (string, statement list) result) \<Rightarrow> string \<Rightarrow> string list \<Rightarrow> (string, statement) result" where
  "insert_template parse_sql table columns =
     (if columns = [] then Inl ''INSERT must specify an explicit column list''
      else
        (let column_list = join '', '' (map quoted columns);
             placeholder_row = join '', '' (replicate (length columns) ''NULL'');
             sql = ''INSERT INTO '' @ quoted table @ '' ('' @ column_list @ '') VALUES (''
                   @ placeholder_row @ '')''
         in case parse_sql sql of
              Inl e \<Rightarrow> Inl (''could not build an INSERT for '' @ dq table @ '': '' @ e)
            | Inr [] \<Rightarrow> Inl (''could not build an INSERT for '' @ dq table)
            | Inr (stmt # _) \<Rightarrow> Inr stmt))"

section \<open>Statements from batches\<close>

definition values_query :: "expr list list \<Rightarrow> query" where
  "values_query rows = \<lparr>qu_with = [], qu_body = SValues rows, qu_rest = []\<rparr>"

definition insert_with_values :: "insert_stmt \<Rightarrow> expr list list \<Rightarrow> statement" where
  "insert_with_values ins rows = StInsert (ins\<lparr>is_source := Some (values_query rows)\<rparr>)"

definition batch_kinds :: "record_batch \<Rightarrow> (string, literal_form list) result" where
  "batch_kinds batch =
     collect_results
       (\<lambda>fd. case literal_kind (fd_data_type fd) of
               Inl reason \<Rightarrow> Inl (''column '' @ dq (fd_name fd) @ '': '' @ reason)
             | Inr kind \<Rightarrow> Inr kind)
       (rb_fields batch)"

fun push_rows ::
  "insert_stmt \<Rightarrow> nat \<Rightarrow> literal_form list \<Rightarrow> string option list list
     \<Rightarrow> statement list \<times> expr list list \<Rightarrow> statement list \<times> expr list list" where
  "push_rows ins chunk_rows kinds [] acc = acc"
| "push_rows ins chunk_rows kinds (row # rows) (statements, chunk) =
     (let chunk = chunk @ [map (\<lambda>(cell, kind). cell_literal cell kind) (zip row kinds)] in
      push_rows ins chunk_rows kinds rows
        (if length chunk \<ge> chunk_rows then (statements @ [insert_with_values ins chunk], [])
         else (statements, chunk)))"

fun push_batches ::
  "insert_stmt \<Rightarrow> nat \<Rightarrow> record_batch list \<Rightarrow> statement list \<times> expr list list
     \<Rightarrow> (string, statement list \<times> expr list list) result" where
  "push_batches ins chunk_rows [] acc = Inr acc"
| "push_batches ins chunk_rows (batch # batches) acc =
     (if length (rb_fields batch) \<noteq> length (is_columns ins) then
        Inl (''INSERT has '' @ show_nat (length (is_columns ins))
             @ '' target column(s) but the source query produces '' @ show_nat (length (rb_fields batch)))
      else
        r_bind (batch_kinds batch) (\<lambda>kinds.
          push_batches ins chunk_rows batches (push_rows ins chunk_rows kinds (rb_rows batch) acc)))"

definition insert_statements_from_batches ::
  "statement \<Rightarrow> record_batch list \<Rightarrow> nat \<Rightarrow> (string, statement list) result" where
  "insert_statements_from_batches stmt batches rows_per_statement =
     (case stmt of
        StInsert ins \<Rightarrow>
          if is_columns ins = [] then Inl ''INSERT must specify an explicit column list''
          else
            r_bind (push_batches ins (max rows_per_statement 1) batches ([], [])) (\<lambda>(statements, chunk).
              Inr (if chunk \<noteq> [] then statements @ [insert_with_values ins chunk] else statements))
      | _ \<Rightarrow> Inl ''expected an INSERT statement'')"

section \<open>Every row, once and in order\<close>

definition batch_literals :: "record_batch \<Rightarrow> expr list list" where
  "batch_literals batch =
     (case batch_kinds batch of
        Inl _ \<Rightarrow> []
      | Inr kinds \<Rightarrow> map (\<lambda>row. map (\<lambda>(cell, kind). cell_literal cell kind) (zip row kinds)) (rb_rows batch))"

fun statement_rows :: "statement \<Rightarrow> expr list list" where
  "statement_rows (StInsert ins) = (case values_rows ins of Some rows \<Rightarrow> rows | None \<Rightarrow> [])"
| "statement_rows _ = []"

lemma statement_rows_values [simp]: "statement_rows (insert_with_values ins rows) = rows"
  by (simp add: insert_with_values_def values_rows_def values_query_def)

definition chunked :: "insert_stmt \<Rightarrow> nat \<Rightarrow> statement list \<times> expr list list \<Rightarrow> bool" where
  "chunked ins n acc \<longleftrightarrow>
     length (snd acc) < n
   \<and> (\<forall>stmt\<in>set (fst acc). \<exists>rows. stmt = insert_with_values ins rows \<and> length rows = n)"

abbreviation acc_rows :: "statement list \<times> expr list list \<Rightarrow> expr list list" where
  "acc_rows acc \<equiv> concat (map statement_rows (fst acc)) @ snd acc"

lemma push_rows_ok:
  assumes "chunked ins n acc" "0 < n"
  shows "chunked ins n (push_rows ins n kinds rows acc)
       \<and> acc_rows (push_rows ins n kinds rows acc)
         = acc_rows acc @ map (\<lambda>row. map (\<lambda>(cell, kind). cell_literal cell kind) (zip row kinds)) rows"
  using assms
proof (induction ins n kinds rows acc rule: push_rows.induct)
  case (2 ins n kinds row rows statements chunk)
  let ?chunk = "chunk @ [map (\<lambda>(cell, kind). cell_literal cell kind) (zip row kinds)]"
  let ?acc = "if length ?chunk \<ge> n then (statements @ [insert_with_values ins ?chunk], []) else (statements, ?chunk)"
  have "length ?chunk = n" if "length ?chunk \<ge> n"
    using that "2.prems" by (simp add: chunked_def)
  then have "chunked ins n ?acc" using "2.prems" by (auto simp: chunked_def)
  moreover have "acc_rows ?acc = acc_rows (statements, chunk) @ [map (\<lambda>(cell, kind). cell_literal cell kind) (zip row kinds)]"
    by simp
  ultimately show ?case using "2.IH" [OF refl _ "2.prems"(2)] by (simp add: Let_def)
qed simp

lemma push_batches_ok:
  assumes "push_batches ins n batches acc = Inr acc'" "chunked ins n acc" "0 < n"
  shows "chunked ins n acc' \<and> acc_rows acc' = acc_rows acc @ concat (map batch_literals batches)
       \<and> (\<forall>batch\<in>set batches. length (rb_fields batch) = length (is_columns ins) \<and> (\<exists>kinds. batch_kinds batch = Inr kinds))"
  using assms
proof (induction ins n batches acc rule: push_batches.induct)
  case (2 ins n batch batches acc)
  then obtain kinds where kinds: "batch_kinds batch = Inr kinds" "length (rb_fields batch) = length (is_columns ins)"
    "push_batches ins n batches (push_rows ins n kinds (rb_rows batch) acc) = Inr acc'"
    by (cases "batch_kinds batch") (auto split: if_splits)
  note step = push_rows_ok [OF "2.prems"(2,3), of kinds "rb_rows batch"]
  show ?case using "2.IH" [of kinds] kinds step "2.prems"(3) by (simp add: batch_literals_def)
qed simp

lemma statements_from_batches_ok:
  assumes "insert_statements_from_batches (StInsert ins) batches k = Inr statements"
  shows "concat (map statement_rows statements) = concat (map batch_literals batches)
       \<and> (\<forall>stmt\<in>set statements. \<exists>rows. stmt = insert_with_values ins rows \<and> 0 < length rows \<and> length rows \<le> max k 1)
       \<and> (\<forall>stmt\<in>set (butlast statements). length (statement_rows stmt) = max k 1)
       \<and> (\<forall>batch\<in>set batches. length (rb_fields batch) = length (is_columns ins) \<and> (\<exists>kinds. batch_kinds batch = Inr kinds))"
proof -
  obtain acc where acc: "push_batches ins (max k 1) batches ([], []) = Inr acc"
    "statements = (if snd acc \<noteq> [] then fst acc @ [insert_with_values ins (snd acc)] else fst acc)"
    using assms by (cases "push_batches ins (max k 1) batches ([], [])")
      (auto simp: insert_statements_from_batches_def split: if_splits prod.splits)
  have n: "0 < max k 1" by simp
  then have "chunked ins (max k 1) ([], [])" by (simp add: chunked_def)
  note ok = push_batches_ok [OF acc(1) this n]
  have full: "\<exists>rows. stmt = insert_with_values ins rows \<and> length rows = max k 1" if "stmt \<in> set (fst acc)" for stmt
    using ok that by (simp add: chunked_def)
  have "\<exists>rows. stmt = insert_with_values ins rows \<and> 0 < length rows \<and> length rows \<le> max k 1"
    if "stmt \<in> set statements" for stmt
  proof (cases "stmt \<in> set (fst acc)")
    case True
    then show ?thesis using full n by (metis order_refl)
  next
    case False
    then have "stmt = insert_with_values ins (snd acc)" "snd acc \<noteq> []"
      using that acc(2) by (auto split: if_splits)
    moreover have "length (snd acc) < max k 1" using ok by (simp only: chunked_def)
    ultimately show ?thesis by (metis length_greater_0_conv less_imp_le)
  qed
  moreover have "length (statement_rows stmt) = max k 1" if "stmt \<in> set (butlast statements)" for stmt
  proof -
    have "stmt \<in> set (fst acc)" using that acc(2) by (auto split: if_splits dest: in_set_butlastD)
    then show ?thesis using full by fastforce
  qed
  moreover have "concat (map statement_rows statements) = concat (map batch_literals batches)"
    using ok acc(2) by auto
  ultimately show ?thesis using ok by simp
qed

end
