(* ===== verification/Bytea.thy ===== *)
theory Bytea
  imports Error_Text
begin

text \<open>
  PostgreSQL's input conversion of \<open>bytea\<close>, \<open>crates/vairedb-common/src/bytea_in.rs\<close>: the hex
  and the escape format, their errors and the codes read back from the messages. Strings are
  the bytes of their UTF-8 form; where the source walks over characters, a character is a
  leading byte with the continuation bytes that follow it.
\<close>

section \<open>Errors\<close>

datatype bytea_input_error = Syntax | HexDigit string | OddDigits

fun bytea_error_code :: "bytea_input_error \<Rightarrow> vdb_error_code" where
  "bytea_error_code Syntax = V_InvalidTextRepresentation"
| "bytea_error_code (HexDigit _) = V_InvalidParameterValue"
| "bytea_error_code OddDigits = V_InvalidParameterValue"

fun bytea_error_display :: "bytea_input_error \<Rightarrow> string" where
  "bytea_error_display Syntax = ''invalid input syntax for type bytea''"
| "bytea_error_display (HexDigit c) =
     ''invalid hexadecimal digit: '' @ [quote_char] @ c @ [quote_char]"
| "bytea_error_display OddDigits = ''invalid hexadecimal data: odd number of digits''"

section \<open>Decoding\<close>

definition is_continuation :: "char \<Rightarrow> bool" where
  "is_continuation c = (let n = (of_char c :: nat) in 128 \<le> n \<and> n < 192)"

definition next_char :: "string \<Rightarrow> (string \<times> string) option" where
  "next_char s =
     (case s of
        [] \<Rightarrow> None
      | c # cs \<Rightarrow> Some (c # takeWhile is_continuation cs, dropWhile is_continuation cs))"

lemma next_char_length: "next_char s = Some (c, rest) \<Longrightarrow> length rest < length s"
  by (auto simp: next_char_def split: list.splits intro: le_imp_less_Suc length_dropWhile_le)

definition hex_value :: "char \<Rightarrow> nat option" where
  "hex_value c =
     (let n = (of_char c :: nat) in
      if 48 \<le> n \<and> n \<le> 57 then Some (n - 48)
      else if 97 \<le> n \<and> n \<le> 102 then Some (n - 87)
      else if 65 \<le> n \<and> n \<le> 70 then Some (n - 55)
      else None)"

definition hex_digit :: "string \<Rightarrow> (bytea_input_error, nat) result" where
  "hex_digit c =
     (case c of
        [b] \<Rightarrow> (case hex_value b of Some d \<Rightarrow> Inr d | None \<Rightarrow> Inl (HexDigit c))
      | _ \<Rightarrow> Inl (HexDigit c))"

definition is_hex_space :: "char \<Rightarrow> bool" where
  "is_hex_space c = (c \<in> {CHR '' '', newline, tab, carriage_return})"

function decode_hex :: "string \<Rightarrow> (bytea_input_error, string) result" where
  "decode_hex body =
     (case next_char (dropWhile is_hex_space body) of
        None \<Rightarrow> Inr []
      | Some (h, after_high) \<Rightarrow>
          (case hex_digit h of
             Inl e \<Rightarrow> Inl e
           | Inr high \<Rightarrow>
               (case next_char after_high of
                  None \<Rightarrow> Inl OddDigits
                | Some (l, rest) \<Rightarrow>
                    (case hex_digit l of
                       Inl e \<Rightarrow> Inl e
                     | Inr low \<Rightarrow>
                         r_bind (decode_hex rest) (\<lambda>out. Inr (char_of (16 * high + low) # out))))))"
  by pat_completeness auto
termination
  by (relation "measure length")
    (auto dest!: next_char_length intro: less_le_trans [OF _ length_dropWhile_le] less_trans)

definition octal_value :: "char \<Rightarrow> nat \<Rightarrow> nat option" where
  "octal_value c highest =
     (let n = (of_char c :: nat) in if 48 \<le> n \<and> n \<le> 48 + highest then Some (n - 48) else None)"

definition escaped_byte :: "string \<Rightarrow> (bytea_input_error, char \<times> nat) result" where
  "escaped_byte after_backslash =
     (case after_backslash of
        [] \<Rightarrow> Inl Syntax
      | c # cs \<Rightarrow>
          if c = backslash then Inr (backslash, 1)
          else
            (case (octal_value c 3, cs) of
               (Some high, m # l # _) \<Rightarrow>
                 (case (octal_value m 7, octal_value l 7) of
                    (Some mid, Some low) \<Rightarrow> Inr (char_of (64 * high + 8 * mid + low), 3)
                  | _ \<Rightarrow> Inl Syntax)
             | _ \<Rightarrow> Inl Syntax))"

function decode_escape :: "string \<Rightarrow> (bytea_input_error, string) result" where
  "decode_escape bytes =
     (case bytes of
        [] \<Rightarrow> Inr []
      | byte # after \<Rightarrow>
          if byte \<noteq> backslash then r_bind (decode_escape after) (\<lambda>out. Inr (byte # out))
          else
            (case escaped_byte after of
               Inl e \<Rightarrow> Inl e
             | Inr (escaped, width) \<Rightarrow>
                 r_bind (decode_escape (drop width after)) (\<lambda>out. Inr (escaped # out))))"
  by pat_completeness auto
termination
  by (relation "measure length") auto

definition decode_bytea :: "string \<Rightarrow> (bytea_input_error, string) result" where
  "decode_bytea text =
     (case strip_prefix (backslash # ''x'') text of
        Some hex \<Rightarrow> decode_hex hex
      | None \<Rightarrow> decode_escape text)"

section \<open>Codes read back from messages\<close>

text \<open>
  \<open>str::to_lowercase\<close>, as far as a search for ASCII phrases can tell: of the characters outside
  ASCII only the Kelvin sign and the dotted capital I have a lower case with an ASCII letter.
\<close>

fun to_lowercase :: "string \<Rightarrow> string" where
  "to_lowercase (a # b # c # s) =
     (if [a, b, c] = [CHR 0xE2, CHR 0x84, CHR 0xAA] then CHR ''k'' # to_lowercase s
      else if [a, b] = [CHR 0xC4, CHR 0xB0] then [CHR ''i'', CHR 0xCC, CHR 0x87] @ to_lowercase (c # s)
      else ascii_lower_char a # to_lowercase (b # c # s))"
| "to_lowercase [a, b] =
     (if [a, b] = [CHR 0xC4, CHR 0xB0] then [CHR ''i'', CHR 0xCC, CHR 0x87]
      else [ascii_lower_char a, ascii_lower_char b])"
| "to_lowercase [a] = [ascii_lower_char a]"
| "to_lowercase [] = []"

definition before_colon :: "string \<Rightarrow> string" where
  "before_colon wording = takeWhile (\<lambda>c. c \<noteq> CHR '':'') wording"

definition bytea_error_code_of_message :: "string \<Rightarrow> vdb_error_code option" where
  "bytea_error_code_of_message msg =
     map_option bytea_error_code
       (find (\<lambda>candidate. contains (to_lowercase msg) (to_lowercase (before_colon (bytea_error_display candidate))))
         [HexDigit ''0'', OddDigits, Syntax])"

definition NON_POSITIVE_OFFSET_MESSAGE :: string where
  "NON_POSITIVE_OFFSET_MESSAGE = ''argument of nth_value must be greater than zero''"

definition nth_value_error_code_of_message :: "string \<Rightarrow> vdb_error_code option" where
  "nth_value_error_code_of_message msg =
     (if contains (to_lowercase msg) (to_lowercase NON_POSITIVE_OFFSET_MESSAGE)
      then Some V_InvalidArgumentForNthValue else None)"

definition function_error_code_of_message :: "string \<Rightarrow> vdb_error_code option" where
  "function_error_code_of_message msg =
     (case bytea_error_code_of_message msg of
        Some code \<Rightarrow> Some code
      | None \<Rightarrow> nth_value_error_code_of_message msg)"

section \<open>The formats read back\<close>

definition hex_char :: "nat \<Rightarrow> char" where
  "hex_char d = (if d < 10 then char_of (48 + d) else char_of (55 + d))"

definition hex_byte :: "char \<Rightarrow> string" where
  "hex_byte c = [hex_char (of_char c div 16), hex_char (of_char c mod 16)]"

definition hex_of :: "string \<Rightarrow> string" where
  "hex_of bytes = concat (map hex_byte bytes)"

definition octal_char :: "nat \<Rightarrow> char" where
  "octal_char d = char_of (48 + d)"

definition escape_text :: "(char \<Rightarrow> bool) \<Rightarrow> string \<Rightarrow> string" where
  "escape_text printable bs =
     concat (map (\<lambda>c. let n = (of_char c :: nat) in
       if c = backslash then [backslash, backslash]
       else if printable c then [c]
       else [backslash, octal_char (n div 64), octal_char (n div 8 mod 8), octal_char (n mod 8)]) bs)"

lemma of_char_less: "(of_char c :: nat) < 256"
  using of_char_mod_256 [of c, where 'a = nat] by (metis mod_less_divisor zero_less_numeral)

lemma high_less: "(of_char c :: nat) div 16 < 16"
  using of_char_less [of c] by (simp add: less_mult_imp_div_less)

lemma hex_value_hex_char: "d < 16 \<Longrightarrow> hex_value (hex_char d) = Some d"
  by (auto simp: hex_value_def hex_char_def Let_def)

lemma hex_char_ascii:
  assumes "d < 16" shows "\<not> is_continuation (hex_char d)" "\<not> is_hex_space (hex_char d)"
proof -
  have "(of_char (hex_char d) :: nat) \<in> {48..<128}"
    using assms by (auto simp: hex_char_def)
  then show "\<not> is_continuation (hex_char d)" "\<not> is_hex_space (hex_char d)"
    by (auto simp: is_continuation_def is_hex_space_def Let_def newline_def tab_def carriage_return_def)
qed

lemma next_char_hex:
  assumes "d < 16" "s = [] \<or> \<not> is_continuation (hd s)"
  shows "next_char (hex_char d # s) = Some ([hex_char d], s)"
  using assms by (cases s) (auto simp: next_char_def)

lemma decode_hex_pair:
  assumes "high < 16" "low < 16" "s = [] \<or> \<not> is_continuation (hd s)" "decode_hex s = Inr out"
  shows "decode_hex (hex_char high # hex_char low # s) = Inr (char_of (16 * high + low) # out)"
proof -
  note ascii = hex_char_ascii [OF assms(1)] hex_char_ascii [OF assms(2)]
  have "next_char (hex_char high # hex_char low # s) = Some ([hex_char high], hex_char low # s)"
    "next_char (hex_char low # s) = Some ([hex_char low], s)"
    using assms(1-3) ascii by (simp_all add: next_char_hex)
  then show ?thesis
    using assms ascii
    by (simp add: decode_hex.simps [of "hex_char high # _"] hex_digit_def hex_value_hex_char del: decode_hex.simps)
qed

lemma hex_of_head: "hex_of bs = [] \<or> \<not> is_continuation (hd (hex_of bs))"
  using hex_char_ascii(1) [OF high_less] by (cases bs) (simp_all add: hex_of_def hex_byte_def)

lemma decode_hex_of: "decode_hex (hex_of bs) = Inr bs"
proof (induction bs)
  case Nil
  then show ?case by (simp add: hex_of_def next_char_def)
next
  case (Cons b bs)
  have "hex_of (b # bs) = hex_char (of_char b div 16) # hex_char (of_char b mod 16) # hex_of bs"
    by (simp add: hex_of_def hex_byte_def)
  then show ?case
    using decode_hex_pair [OF high_less [of b] _ hex_of_head Cons.IH, of "of_char b mod 16"] by simp
qed

lemma octal_value_char: "d \<le> m \<Longrightarrow> m \<le> 7 \<Longrightarrow> octal_value (octal_char d) m = Some d"
  by (simp add: octal_value_def octal_char_def Let_def)

lemma octal_not_backslash: "d \<le> 7 \<Longrightarrow> octal_char d \<noteq> backslash"
proof
  assume "d \<le> 7" "octal_char d = backslash"
  then have "(of_char (octal_char d) :: nat) = of_char backslash" by simp
  then show False using \<open>d \<le> 7\<close> by (simp add: octal_char_def backslash_def)
qed

lemma octal_digits: "64 * (n div 64) + 8 * (n div 8 mod 8) + n mod 8 = (n :: nat)"
proof -
  have "n div 64 = n div 8 div 8" by (simp add: div_mult2_eq [symmetric])
  moreover have "8 * (n div 8 div 8) + n div 8 mod 8 = n div 8" "8 * (n div 8) + n mod 8 = n" by simp_all
  ultimately show ?thesis by linarith
qed

lemma escaped_octal:
  "escaped_byte (octal_char (of_char c div 64) # octal_char (of_char c div 8 mod 8)
     # octal_char (of_char c mod 8) # s) = Inr (c, 3)"
proof -
  have "(of_char c :: nat) div 64 < 4" using of_char_less [of c] by (simp add: less_mult_imp_div_less)
  then have "(of_char c :: nat) div 64 \<le> 3" by simp
  moreover have "(of_char c :: nat) div 8 mod 8 \<le> 7" "(of_char c :: nat) mod 8 \<le> 7" by simp_all
  moreover have "char_of (64 * (of_char c div 64) + 8 * (of_char c div 8 mod 8) + of_char c mod 8 :: nat) = c"
    by (simp only: octal_digits char_of_char)
  ultimately show ?thesis
    using octal_not_backslash [of "of_char c div 64"] by (simp add: escaped_byte_def octal_value_char)
qed

lemma decode_escape_text: "decode_escape (escape_text printable bs) = Inr bs"
proof (induction bs)
  case Nil
  then show ?case by (simp add: escape_text_def)
next
  case (Cons b bs)
  define s where "s = escape_text printable bs"
  have step: "escape_text printable (b # bs) =
      (if b = backslash then [backslash, backslash]
       else if printable b then [b]
       else [backslash, octal_char (of_char b div 64), octal_char (of_char b div 8 mod 8),
             octal_char (of_char b mod 8)]) @ s"
    by (simp add: escape_text_def s_def Let_def)
  have "escaped_byte (backslash # s) = Inr (backslash, 1)" by (simp add: escaped_byte_def)
  then show ?case
    using Cons.IH escaped_octal [of b s] unfolding step s_def [symmetric]
    by (simp add: decode_escape.simps [of "_ # _"] del: decode_escape.simps)
qed

end
