(* ===== verification/Client_Errors.thy ===== *)
theory Client_Errors
  imports Bytea Catalog
begin

text \<open>
  The errors a client reads, \<open>crates/vairedb-coordinator/src/pgwire_handler/error_enrichment.rs\<close>:
  the code, SQLSTATE and message of a coordinator error with its detail and hint, the code of
  an untyped engine message, and the recovery of errors that crossed the scheduler as text.
  \<open>DataFusionError\<close> and \<open>ArrowError\<close> are types of libraries; the constructors are those the
  classifier matches on.
\<close>

section \<open>Reports\<close>

record error_context =
  ec_table_name :: "string option"
  ec_replication_factor :: "nat option"

definition error_context_default :: error_context where
  "error_context_default = \<lparr>ec_table_name = None, ec_replication_factor = None\<rparr>"

definition for_table :: "string \<Rightarrow> error_context" where
  "for_table name = error_context_default\<lparr>ec_table_name := Some name\<rparr>"

definition with_replication :: "error_context \<Rightarrow> nat \<Rightarrow> error_context" where
  "with_replication ctx factor = ctx\<lparr>ec_replication_factor := Some factor\<rparr>"

record error_info =
  ei_severity :: string
  ei_code :: string
  ei_message :: string
  ei_table :: "string option"
  ei_detail :: "string option"
  ei_hint :: "string option"

definition show_code :: "vdb_error_code \<Rightarrow> string" where
  "show_code code = show_nat (nat (vdb_code_i32 code))"

definition formatted_message :: "vdb_error_code \<Rightarrow> string \<Rightarrow> string" where
  "formatted_message code message = ''[VDB-'' @ show_code code @ ''] '' @ message"

definition reported :: "vdb_error_code \<Rightarrow> string \<Rightarrow> error_info" where
  "reported code message =
     \<lparr>ei_severity = ''ERROR'', ei_code = sqlstate_for_code code,
      ei_message = formatted_message code message, ei_table = None, ei_detail = None, ei_hint = None\<rparr>"

definition make_vdb_error :: "vdb_error_code \<Rightarrow> string \<Rightarrow> error_info" where
  "make_vdb_error code message = reported code message"

section \<open>Untyped messages\<close>

definition is_divide_by_zero :: "string \<Rightarrow> bool" where
  "is_divide_by_zero lower = (contains lower ''divide by zero'' \<or> contains lower ''division by zero'')"

definition classify_plan_message :: "string \<Rightarrow> vdb_error_code" where
  "classify_plan_message msg =
     (let lower = to_lowercase msg in
      if contains lower ''aggregate function calls cannot be nested''
         \<or> contains lower ''aggregate functions cannot be nested'' then V_GroupingError
      else if contains lower ''window function'' \<or> contains lower ''over clause'' then V_WindowingError
      else if contains lower ''no function matches'' \<or> contains lower ''invalid function''
         \<or> contains lower ''not supported'' then V_FeatureNotSupported
      else if contains lower ''no field named'' \<or> contains lower ''ambiguous'' then V_ColumnNotFound
      else if (contains lower ''table'' \<and> contains lower ''not found'')
         \<or> contains lower ''no table named'' then V_TableNotFound
      else if contains lower ''cannot cast'' \<or> contains lower ''type mismatch'' then V_TypeMismatch
      else V_SqlSyntaxError)"

definition classify_execution_message :: "string \<Rightarrow> vdb_error_code" where
  "classify_execution_message msg =
     (let lower = to_lowercase msg in
      if is_divide_by_zero lower then V_DivisionByZero
      else if contains lower ''overflow'' then V_NumericValueOutOfRange
      else if contains lower ''cannot cast string'' \<or> contains lower ''invalid input syntax''
         \<or> contains lower ''error parsing'' then V_InvalidTextRepresentation
      else V_EngineError)"

definition classify_arrow_message :: "string \<Rightarrow> vdb_error_code \<times> string" where
  "classify_arrow_message msg =
     (let lower = to_lowercase msg;
          starts_with_any = (\<lambda>spellings. list_ex (\<lambda>s. prefix s lower) spellings) in
      if starts_with_any [''dividebyzero'', ''divide by zero''] then (V_DivisionByZero, ''division by zero'')
      else if starts_with_any [''arithmeticoverflow'', ''arithmetic overflow'']
        then (V_NumericValueOutOfRange, msg)
      else if starts_with_any [''casterror'', ''cast error'', ''parseerror'', ''parser error'']
        then (V_InvalidTextRepresentation, msg)
      else if starts_with_any [''notyetimplemented'', ''not yet implemented''] then (V_FeatureNotSupported, msg)
      else if starts_with_any [''schemaerror'', ''schema error''] then (V_ColumnNotFound, msg)
      else (V_EngineError, msg))"

definition classify_generic_error_code :: "string \<Rightarrow> vdb_error_code" where
  "classify_generic_error_code msg =
     (let lower = to_lowercase msg; has = contains lower in
      if (has ''table'' \<and> has ''not found'') \<or> has ''no table named'' then V_TableNotFound
      else if has ''shard'' \<and> has ''not found'' then V_ShardNotFound
      else if has ''no field named'' \<or> (has ''column'' \<and> has ''not found'') \<or> has ''ambiguous''
        then V_ColumnNotFound
      else if has ''type mismatch'' \<or> has ''cannot cast'' then V_TypeMismatch
      else if has ''syntax error'' \<or> has ''unexpected token'' then V_SqlSyntaxError
      else if has ''this feature is not implemented'' \<or> has ''not yet implemented'' \<or> has ''not supported''
         \<or> has ''unsupported'' \<or> has ''no function matches'' \<or> has ''invalid function''
        then V_FeatureNotSupported
      else if has ''resources exhausted'' \<or> has ''memory limit'' then V_WriteQueueFull
      else if is_divide_by_zero lower then V_DivisionByZero
      else if has ''overflow'' then V_NumericValueOutOfRange
      else if has ''unique constraint'' \<or> has ''duplicate key'' \<or> has ''primary key constraint''
        then V_WriteConflict
      else if has ''not null constraint'' \<or> has ''null value'' \<or> has ''check constraint'' then V_EngineError
      else if has ''connection'' \<and> (has ''refused'' \<or> has ''unreachable'') then V_NodeUnavailable
      else V_InternalError)"

section \<open>Errors of the query engine\<close>

datatype arrow_error =
  AE_DivideByZero | AE_ArithmeticOverflow string | AE_CastError string | AE_ParseError string
| AE_NotYetImplemented string | AE_SchemaError string | AE_Other string

datatype datafusion_error =
  DContext string datafusion_error | DDiagnostic string datafusion_error
| DShared datafusion_error | DCollection "datafusion_error list"
| DNotImplemented string | DSubstrait string | DSql string | DSchemaError string
| DPlan string | DExecution string | DArrowError arrow_error | DResourcesExhausted string
| DExternal datafusion_error | DExternalText string | DIoError string | DExecutionJoin string
| DInternal string | DConfiguration string | DOther string

fun classify_arrow_error :: "arrow_error \<Rightarrow> vdb_error_code" where
  "classify_arrow_error AE_DivideByZero = V_DivisionByZero"
| "classify_arrow_error (AE_ArithmeticOverflow _) = V_NumericValueOutOfRange"
| "classify_arrow_error (AE_CastError _) = V_InvalidTextRepresentation"
| "classify_arrow_error (AE_ParseError _) = V_InvalidTextRepresentation"
| "classify_arrow_error (AE_NotYetImplemented _) = V_FeatureNotSupported"
| "classify_arrow_error (AE_SchemaError _) = V_ColumnNotFound"
| "classify_arrow_error (AE_Other _) = V_EngineError"

text \<open>\<open>DExternal\<close> is a boxed error that is a \<open>DataFusionError\<close>, \<open>DExternalText\<close> any other.\<close>

fun classify_datafusion_error_code :: "datafusion_error \<Rightarrow> vdb_error_code" where
  "classify_datafusion_error_code (DContext _ inner) = classify_datafusion_error_code inner"
| "classify_datafusion_error_code (DDiagnostic _ inner) = classify_datafusion_error_code inner"
| "classify_datafusion_error_code (DShared inner) = classify_datafusion_error_code inner"
| "classify_datafusion_error_code (DCollection errs) =
     (case errs of [] \<Rightarrow> V_InternalError | first # _ \<Rightarrow> classify_datafusion_error_code first)"
| "classify_datafusion_error_code (DNotImplemented _) = V_FeatureNotSupported"
| "classify_datafusion_error_code (DSubstrait _) = V_FeatureNotSupported"
| "classify_datafusion_error_code (DSql _) = V_SqlSyntaxError"
| "classify_datafusion_error_code (DSchemaError _) = V_ColumnNotFound"
| "classify_datafusion_error_code (DPlan msg) = classify_plan_message msg"
| "classify_datafusion_error_code (DExecution msg) = classify_execution_message msg"
| "classify_datafusion_error_code (DArrowError arrow) = classify_arrow_error arrow"
| "classify_datafusion_error_code (DResourcesExhausted _) = V_WriteQueueFull"
| "classify_datafusion_error_code (DExternal df) = classify_datafusion_error_code df"
| "classify_datafusion_error_code (DExternalText text) = classify_generic_error_code text"
| "classify_datafusion_error_code (DIoError _) = V_EngineError"
| "classify_datafusion_error_code (DExecutionJoin _) = V_EngineError"
| "classify_datafusion_error_code (DInternal _) = V_InternalError"
| "classify_datafusion_error_code (DConfiguration _) = V_InternalError"
| "classify_datafusion_error_code (DOther _) = V_EngineError"

section \<open>Errors that crossed the scheduler\<close>

definition PHYSICAL_EXPR_REFUSAL :: string where
  "PHYSICAL_EXPR_REFUSAL = ''Physical plan does not support logical expression ''"

definition AGGREGATE_NOT_ALLOWED :: string where
  "AGGREGATE_NOT_ALLOWED = ''aggregate functions are not allowed in this context''"

definition WINDOW_NOT_ALLOWED :: string where
  "WINDOW_NOT_ALLOWED = ''window functions are not allowed in this context''"

definition reclassify_physical_expr_refusal :: "string \<Rightarrow> (vdb_error_code \<times> string) option" where
  "reclassify_physical_expr_refusal raw =
     Option.bind (find_sub raw PHYSICAL_EXPR_REFUSAL) (\<lambda>at.
       let expr = drop (at + length PHYSICAL_EXPR_REFUSAL) raw in
       if prefix ''AggregateFunction'' expr then Some (V_GroupingError, AGGREGATE_NOT_ALLOWED)
       else if prefix ''WindowFunction'' expr then Some (V_WindowingError, WINDOW_NOT_ALLOWED)
       else None)"

definition classify_transported :: "transported_error \<Rightarrow> vdb_error_code \<times> string" where
  "classify_transported e =
     (if te_variant e = TV_Arrow then classify_arrow_message (te_message e)
      else
        ((case te_variant e of
            TV_NotImplemented \<Rightarrow> V_FeatureNotSupported
          | TV_Substrait \<Rightarrow> V_FeatureNotSupported
          | TV_Sql \<Rightarrow> V_SqlSyntaxError
          | TV_Schema \<Rightarrow> V_ColumnNotFound
          | TV_Plan \<Rightarrow> classify_plan_message (te_message e)
          | TV_Execution \<Rightarrow> classify_execution_message (te_message e)
          | TV_ResourcesExhausted \<Rightarrow> V_WriteQueueFull
          | TV_Io \<Rightarrow> V_EngineError
          | TV_ExecutionJoin \<Rightarrow> V_EngineError
          | TV_Arrow \<Rightarrow> V_EngineError
          | TV_Internal \<Rightarrow> V_InternalError
          | TV_Configuration \<Rightarrow> V_InternalError), te_message e))"

definition unknown_code :: "vdb_error_code \<Rightarrow> bool" where
  "unknown_code code = (code = V_EngineError \<or> code = V_InternalError)"

definition reclassify_transported_error :: "string \<Rightarrow> vdb_error_code \<Rightarrow> vdb_error_code \<times> string" where
  "reclassify_transported_error raw code =
     (let recovered = recover_transported_error raw;
          innermost = (case recovered of Some r \<Rightarrow> te_message r | None \<Rightarrow> raw);
          from_function =
            (case function_error_code_of_message raw of
               Some function_code \<Rightarrow> (function_code, innermost)
             | None \<Rightarrow> (code, raw))
      in case code_of_tagged_message raw of
           Some tagged \<Rightarrow> (tagged, innermost)
         | None \<Rightarrow>
             (case reclassify_physical_expr_refusal raw of
                Some refusal \<Rightarrow> refusal
              | None \<Rightarrow>
                  if \<not> unknown_code code then (code, raw)
                  else
                    (case recovered of
                       Some r \<Rightarrow>
                         if \<not> unknown_code (fst (classify_transported r)) then classify_transported r
                         else from_function
                     | None \<Rightarrow> from_function)))"

definition enrich_classified :: "string \<Rightarrow> vdb_error_code \<Rightarrow> error_context \<Rightarrow> error_info" where
  "enrich_classified raw code ctx =
     (case reclassify_transported_error raw code of
        (code', message) \<Rightarrow> (reported code' (sanitize_message message))\<lparr>ei_table := ec_table_name ctx\<rparr>)"

definition enrich_generic_error :: "string \<Rightarrow> error_context \<Rightarrow> error_info" where
  "enrich_generic_error raw ctx = enrich_classified raw (classify_generic_error_code raw) ctx"

text \<open>\<open>display\<close> is the text of the error.\<close>

definition enrich_datafusion_error :: "datafusion_error \<Rightarrow> string \<Rightarrow> error_context \<Rightarrow> error_info" where
  "enrich_datafusion_error e display ctx = enrich_classified display (classify_datafusion_error_code e) ctx"

section \<open>Coordinator errors\<close>

definition apostrophe :: char where
  "apostrophe = CHR 0x27"

definition q1 :: "string \<Rightarrow> string" where
  "q1 s = [apostrophe] @ s @ [apostrophe]"

fun error_message :: "coordinator_error \<Rightarrow> string" where
  "error_message (TableNotFound name) = ''table '' @ q1 name @ '' does not exist''"
| "error_message (NodeNotFound i) = ''node '' @ q1 i @ '' not found in cluster''"
| "error_message (ShardNotAssigned msg) = msg"
| "error_message (NullShardKey msg) = msg"
| "error_message (UnroutableShardKey msg) = msg"
| "error_message (QuorumNotReached needed got) =
     ''write quorum not reached: '' @ show_nat got @ ''/'' @ show_nat needed @ '' nodes acknowledged''"
| "error_message (ShardUnavailable pid) = ''shard '' @ q1 pid @ '' unavailable: primary node unreachable''"
| "error_message (Grpc _ message) = ''node execution failed: '' @ sanitize_message message"
| "error_message (GrpcTransport _) = ''failed to communicate with storage node''"
| "error_message (SqlParse e) = e"
| "error_message (Unsupported msg) = msg"
| "error_message (InvalidValue message _) = message"
| "error_message (NodeExecFailed node_err) = ''node execution failed: '' @ sanitize_message (ne_message node_err)"
| "error_message (CatalogTransaction _) = ''catalog transaction failed''"
| "error_message (CatalogStorage _) = ''catalog storage error''"
| "error_message (CatalogCommit _) = ''catalog commit failed''"
| "error_message (ErrCatalog _) = ''catalog error''"
| "error_message (CatalogTable _) = ''catalog table access failed''"
| "error_message NoAliveNodes = ''no alive nodes available for shard assignment''"
| "error_message (Anonymization msg) = msg"
| "error_message (Serialization _) = ''internal serialization error''"
| "error_message (InternalErr _) = ''internal error''"

definition classify_error :: "coordinator_error \<Rightarrow> vdb_error_code \<times> string" where
  "classify_error err = (coordinator_vdb_error_code err, sanitize_message (error_message err))"

definition try_build_detail ::
  "('t, 'b) env \<Rightarrow> 't catalog \<Rightarrow> coordinator_error \<Rightarrow> error_context \<Rightarrow> string option" where
  "try_build_detail E C err ctx =
     (case err of
        QuorumNotReached needed _ \<Rightarrow>
          (case list_alive_nodes E C of
             Inr nodes \<Rightarrow>
               Some (''Alive nodes in cluster: '' @ show_nat (length nodes) @ ''. Required quorum: ''
                     @ show_nat needed @ ''.'')
           | Inl _ \<Rightarrow> None)
      | ShardUnavailable pid \<Rightarrow>
          Option.bind (ec_table_name ctx) (\<lambda>table_name.
            case shards_for_table E C table_name of
              Inr shards \<Rightarrow>
                Option.bind (find (\<lambda>p. sh_shard_id p = pid) shards) (\<lambda>p.
                  case get_node E C (sh_primary_node_id p) of
                    Inr (Some node) \<Rightarrow>
                      Some (''Primary node '' @ q1 (nm_node_id node) @ '' (state: ''
                            @ node_state_str (nm_state node) @ '').'')
                  | _ \<Rightarrow> None)
            | Inl _ \<Rightarrow> None)
      | NodeNotFound _ \<Rightarrow>
          (case list_alive_nodes E C of
             Inr nodes \<Rightarrow>
               if nodes = [] then Some ''No alive nodes in cluster.''
               else Some (''Known alive nodes: '' @ join '', '' (map nm_node_id nodes) @ ''.'')
           | Inl _ \<Rightarrow> None)
      | NodeExecFailed node_err \<Rightarrow>
          Some (''Node '' @ q1 (ne_node_id node_err) @ '' failed on shard ''
                @ q1 (ne_shard_id node_err) @ ''.'')
      | Grpc _ message \<Rightarrow>
          (let sanitized = sanitize_message message in if sanitized = [] then None else Some sanitized)
      | _ \<Rightarrow> None)"

definition metadata_hint :: string where
  "metadata_hint = ''This is an internal metadata storage issue. Check disk space and coordinator logs.''"

definition build_hint :: "coordinator_error \<Rightarrow> error_context \<Rightarrow> string option" where
  "build_hint err ctx =
     (case err of
        TableNotFound _ \<Rightarrow> Some ''Run SELECT * FROM vairedb_catalog.tables to see available tables.''
      | NodeNotFound _ \<Rightarrow> Some ''Check vairedb_catalog.nodes for registered nodes.''
      | ShardNotAssigned _ \<Rightarrow> Some ''Verify the table was created successfully and shards were assigned.''
      | QuorumNotReached _ _ \<Rightarrow>
          Some ((case ec_replication_factor ctx of
                   Some rf \<Rightarrow> ''Replication factor is '' @ show_nat rf @ ''. ''
                 | None \<Rightarrow> [])
                @ ''Check node health: SELECT * FROM vairedb_catalog.nodes WHERE state != ''
                @ q1 ''ALIVE'' @ ''.'')
      | ShardUnavailable _ \<Rightarrow>
          Some ''The primary node may be down. Writes will resume when the shard is reassigned.''
      | GrpcTransport _ \<Rightarrow> Some ''Check that core nodes are running and reachable.''
      | NodeExecFailed node_err \<Rightarrow>
          (case vdb_code_try_from (ne_error_code node_err) of
             Some V_WriteConflict \<Rightarrow> Some ''Retry the transaction.''
           | Some V_NodeShuttingDown \<Rightarrow>
               Some ''The node is shutting down. Retry after cluster rebalancing.''
           | _ \<Rightarrow> None)
      | NoAliveNodes \<Rightarrow>
          Some ''Register at least one storage node before creating tables. Check vairedb_catalog.nodes.''
      | ErrCatalog _ \<Rightarrow> Some metadata_hint
      | CatalogTransaction _ \<Rightarrow> Some metadata_hint
      | CatalogTable _ \<Rightarrow> Some metadata_hint
      | CatalogStorage _ \<Rightarrow> Some metadata_hint
      | CatalogCommit _ \<Rightarrow> Some metadata_hint
      | _ \<Rightarrow> None)"

definition enrich_coordinator_error ::
  "('t, 'b) env \<Rightarrow> 't catalog \<Rightarrow> coordinator_error \<Rightarrow> error_context \<Rightarrow> error_info" where
  "enrich_coordinator_error E C err ctx =
     (case classify_error err of
        (code, message) \<Rightarrow>
          (reported code message)\<lparr>ei_table := ec_table_name ctx,
             ei_detail := try_build_detail E C err ctx, ei_hint := build_hint err ctx\<rparr>)"

definition enrich ::
  "('t, 'b) env \<Rightarrow> 't catalog \<Rightarrow> error_context \<Rightarrow> (coordinator_error, 'a) result
     \<Rightarrow> (error_info, 'a) result" where
  "enrich E C ctx r =
     (case r of Inl e \<Rightarrow> Inl (enrich_coordinator_error E C e ctx) | Inr x \<Rightarrow> Inr x)"

definition require_table ::
  "('t, 'b) env \<Rightarrow> 't catalog \<Rightarrow> string \<Rightarrow> error_context \<Rightarrow> (error_info, table_meta) result" where
  "require_table E C name ctx =
     r_bind (enrich E C ctx (get_table E C name)) (\<lambda>found.
       ok_or (enrich_coordinator_error E C (TableNotFound name) ctx) found)"

definition require_shards ::
  "('t, 'b) env \<Rightarrow> 't catalog \<Rightarrow> table_meta \<Rightarrow> error_context \<Rightarrow> (error_info, shard_meta list) result" where
  "require_shards E C table ctx =
     r_bind (enrich E C ctx (shards_for_table E C (tm_table_name table))) (\<lambda>shards.
       if shards = [] then
         Inl (enrich_coordinator_error E C
                (ShardNotAssigned (''no shards for table '' @ tm_table_name table)) ctx)
       else Inr shards)"

section \<open>Properties\<close>

lemma sublist_skip:
  assumes "sublist (x # xs) (a @ b)" "x \<notin> set a"
  shows "sublist (x # xs) b"
  using assms
proof (induction a)
  case (Cons y a)
  have "sublist (x # xs) (a @ b)"
    using Cons.prems by (simp add: sublist_Cons_right)
  then show ?case using Cons by simp
qed simp

lemma reported_no_http:
  assumes "\<not> sublist ''http://'' message"
  shows "\<not> sublist ''http://'' (formatted_message code message)"
proof
  assume found: "sublist ''http://'' (formatted_message code message)"
  have "CHR ''h'' \<notin> set (show_code code)"
  proof
    assume "CHR ''h'' \<in> set (show_code code)"
    then have "is_ascii_digit (CHR ''h'')" unfolding show_code_def by (rule show_nat_digits)
    then show False by (simp add: is_ascii_digit_def)
  qed
  then have "CHR ''h'' \<notin> set (''[VDB-'' @ show_code code @ ''] '')" by simp
  then have "sublist ''http://'' message"
    using sublist_skip [of "CHR ''h''" "''ttp://''" "''[VDB-'' @ show_code code @ ''] ''" message] found
    by (simp add: formatted_message_def)
  then show False using assms by blast
qed


text \<open>The engine error with a message of its own that a marker stands for.\<close>

fun local_error :: "transported_variant \<Rightarrow> string \<Rightarrow> datafusion_error option" where
  "local_error TV_NotImplemented msg = Some (DNotImplemented msg)"
| "local_error TV_Substrait msg = Some (DSubstrait msg)"
| "local_error TV_Plan msg = Some (DPlan msg)"
| "local_error TV_Execution msg = Some (DExecution msg)"
| "local_error TV_ResourcesExhausted msg = Some (DResourcesExhausted msg)"
| "local_error TV_Internal msg = Some (DInternal msg)"
| "local_error TV_Configuration msg = Some (DConfiguration msg)"
| "local_error _ _ = None"

lemma classify_transported_local:
  assumes "local_error v msg = Some e"
  shows "classify_transported \<lparr>te_variant = v, te_message = msg\<rparr> = (classify_datafusion_error_code e, msg)"
  using assms by (cases v) (auto simp: classify_transported_def)



end
