(* ===== verification/Anonymization.thy ===== *)
theory Anonymization
  imports Write_Sql Client_Errors
begin

text \<open>
  Column pseudonymization, \<open>crates/vairedb-coordinator/src/anonymization\<close>: the digest of a
  plaintext (\<open>secret.rs\<close>) and the rewrite of INSERT and UPDATE statements (\<open>rewrite.rs\<close>). The
  HMAC-SHA256 primitive is the argument \<open>mac\<close>, from a key and a text to the bytes of the
  digest; a resolver looks a secret up by its id.
\<close>

section \<open>Secrets\<close>

definition HMAC_SHA256_ALGO :: string where
  "HMAC_SHA256_ALGO = ''HMAC-SHA256''"

record secret =
  se_algo :: string
  se_secret_key :: string

type_synonym mac = "string \<Rightarrow> string \<Rightarrow> string"
type_synonym resolver = "string \<Rightarrow> secret option"

definition hex_lower :: "char \<Rightarrow> string" where
  "hex_lower b = map ascii_lower_char (hex_byte b)"

definition hmac_sha256_hex :: "mac \<Rightarrow> string \<Rightarrow> string \<Rightarrow> string" where
  "hmac_sha256_hex mac secret_key plaintext = concat (map hex_lower (mac secret_key plaintext))"

definition resolve_secret :: "resolver \<Rightarrow> string \<Rightarrow> (string, secret) result" where
  "resolve_secret resolver secret_id =
     (case resolver secret_id of
        None \<Rightarrow>
          Inl (''anonymization secret '' @ q1 secret_id
               @ '' not found in vairedb_catalog.anonymization_secret'')
      | Some secret \<Rightarrow>
          if se_algo secret \<noteq> HMAC_SHA256_ALGO then
            Inl (''anonymization secret '' @ q1 secret_id @ '' declares unsupported algorithm ''
                 @ q1 (se_algo secret) @ ''; only '' @ HMAC_SHA256_ALGO @ '' is supported'')
          else Inr secret)"

fun resolve_secrets ::
  "resolver \<Rightarrow> string list \<Rightarrow> (string \<rightharpoonup> secret) \<Rightarrow> (string, string \<rightharpoonup> secret) result" where
  "resolve_secrets resolver [] secrets = Inr secrets"
| "resolve_secrets resolver (i # ids) secrets =
     (if secrets i \<noteq> None then resolve_secrets resolver ids secrets
      else r_bind (resolve_secret resolver i) (\<lambda>s. resolve_secrets resolver ids (secrets(i \<mapsto> s))))"

section \<open>Columns and values\<close>

definition column_secret ::
  "sql_lib \<Rightarrow> object_name \<Rightarrow> (string \<times> string) list \<Rightarrow> (string, string option) result" where
  "column_secret L column anonymized_columns =
     (case insert_column_ident column of
        None \<Rightarrow>
          Inl (''unsupported column reference '' @ q1 (sq_object_name L column)
               @ '' on a table with anonymized columns'')
      | Some i \<Rightarrow> Inr (map_of anonymized_columns (to_ascii_lowercase (id_value i))))"

definition literal_plaintext :: "sql_lib \<Rightarrow> sql_value \<Rightarrow> string" where
  "literal_plaintext L v =
     (case v of
        VSingleQuoted s \<Rightarrow> s
      | VDoubleQuoted s \<Rightarrow> s
      | VNumber n _ \<Rightarrow> n
      | VBoolean b \<Rightarrow> if b then ''true'' else ''false''
      | _ \<Rightarrow> sq_value L v)"

definition anonymize_expr :: "sql_lib \<Rightarrow> mac \<Rightarrow> secret \<Rightarrow> expr \<Rightarrow> (string, expr) result" where
  "anonymize_expr L mac secret e =
     (case e of
        EValue VNull \<Rightarrow> Inr e
      | EValue (VPlaceholder _) \<Rightarrow>
          Inl ''anonymized columns cannot be set from a bind parameter; use a literal value''
      | EValue v \<Rightarrow>
          Inr (EValue (VSingleQuoted
            (hmac_sha256_hex mac (se_secret_key secret) (literal_plaintext L v))))
      | _ \<Rightarrow> Inl ''anonymized columns must be set to a literal value, not an expression'')"

section \<open>Statements\<close>

fun target_positions ::
  "sql_lib \<Rightarrow> (string \<times> string) list \<Rightarrow> nat \<Rightarrow> object_name list \<Rightarrow> (string, (nat \<times> string) list) result" where
  "target_positions L anonymized_columns idx [] = Inr []"
| "target_positions L anonymized_columns idx (col # cols) =
     r_bind (column_secret L col anonymized_columns) (\<lambda>sid.
       r_bind (target_positions L anonymized_columns (Suc idx) cols) (\<lambda>rest.
         Inr (case sid of Some s \<Rightarrow> (idx, s) # rest | None \<Rightarrow> rest)))"

fun anonymize_row ::
  "sql_lib \<Rightarrow> mac \<Rightarrow> (string \<rightharpoonup> secret) \<Rightarrow> (nat \<times> string) list \<Rightarrow> expr list \<Rightarrow> (string, expr list) result" where
  "anonymize_row L mac secrets [] row = Inr row"
| "anonymize_row L mac secrets ((idx, secret_id) # targets) row =
     (if idx < length row then
        r_bind (anonymize_expr L mac (the (secrets secret_id)) (row ! idx)) (\<lambda>e.
          anonymize_row L mac secrets targets (row[idx := e]))
      else anonymize_row L mac secrets targets row)"

definition anonymize_insert ::
  "sql_lib \<Rightarrow> mac \<Rightarrow> resolver \<Rightarrow> (string \<times> string) list \<Rightarrow> insert_stmt \<Rightarrow> (string, insert_stmt) result" where
  "anonymize_insert L mac resolver anonymized_columns ins =
     r_bind (target_positions L anonymized_columns 0 (is_columns ins)) (\<lambda>positions.
       if positions = [] then Inr ins
       else
         r_bind (resolve_secrets resolver (map snd positions) Map.empty) (\<lambda>secrets.
           case is_source ins of
             None \<Rightarrow> Inr ins
           | Some source \<Rightarrow>
               (case qu_body source of
                  SValues rows \<Rightarrow>
                    r_bind (collect_results (anonymize_row L mac secrets positions) rows) (\<lambda>rows'.
                      Inr (ins\<lparr>is_source := Some (source\<lparr>qu_body := SValues rows'\<rparr>)\<rparr>))
                | _ \<Rightarrow> Inl ''anonymized columns require an INSERT ... VALUES statement'')))"

fun reject_tuple_targets :: "sql_lib \<Rightarrow> (string \<times> string) list \<Rightarrow> object_name list \<Rightarrow> (string, unit) result" where
  "reject_tuple_targets L anonymized_columns [] = Inr ()"
| "reject_tuple_targets L anonymized_columns (name # names) =
     r_bind (column_secret L name anonymized_columns) (\<lambda>sid.
       if sid \<noteq> None then
         Inl (''anonymized column '' @ q1 (sq_object_name L name)
              @ '' cannot be assigned by a multi-column SET ('' @ ellipsis @ '') = ('' @ ellipsis
              @ ''); assign it in a SET clause of its own'')
       else reject_tuple_targets L anonymized_columns names)"

fun assignment_targets ::
  "sql_lib \<Rightarrow> (string \<times> string) list \<Rightarrow> nat \<Rightarrow> assignment list \<Rightarrow> (string, (nat \<times> string) list) result" where
  "assignment_targets L anonymized_columns idx [] = Inr []"
| "assignment_targets L anonymized_columns idx (a # as) =
     r_bind
       (case ag_target a of
          TColumnName name \<Rightarrow> column_secret L name anonymized_columns
        | TTuple names \<Rightarrow> r_bind (reject_tuple_targets L anonymized_columns names) (\<lambda>_. Inr None))
       (\<lambda>sid. r_bind (assignment_targets L anonymized_columns (Suc idx) as) (\<lambda>rest.
          Inr (case sid of Some s \<Rightarrow> (idx, s) # rest | None \<Rightarrow> rest)))"

fun rewrite_assignments ::
  "sql_lib \<Rightarrow> mac \<Rightarrow> (string \<rightharpoonup> secret) \<Rightarrow> (nat \<times> string) list \<Rightarrow> assignment list
     \<Rightarrow> (string, assignment list) result" where
  "rewrite_assignments L mac secrets [] as = Inr as"
| "rewrite_assignments L mac secrets ((idx, secret_id) # targets) as =
     r_bind (anonymize_expr L mac (the (secrets secret_id)) (ag_value (as ! idx))) (\<lambda>e.
       rewrite_assignments L mac secrets targets (as[idx := (as ! idx)\<lparr>ag_value := e\<rparr>]))"

definition anonymize_assignments ::
  "sql_lib \<Rightarrow> mac \<Rightarrow> resolver \<Rightarrow> (string \<times> string) list \<Rightarrow> assignment list
     \<Rightarrow> (string, assignment list) result" where
  "anonymize_assignments L mac resolver anonymized_columns as =
     r_bind (assignment_targets L anonymized_columns 0 as) (\<lambda>targets.
       if targets = [] then Inr as
       else
         r_bind (resolve_secrets resolver (map snd targets) Map.empty) (\<lambda>secrets.
           rewrite_assignments L mac secrets targets as))"

definition anonymize_statement ::
  "sql_lib \<Rightarrow> mac \<Rightarrow> resolver \<Rightarrow> (string \<times> string) list \<Rightarrow> statement \<Rightarrow> (string, statement) result" where
  "anonymize_statement L mac resolver anonymized_columns stmt =
     (if anonymized_columns = [] then Inr stmt
      else
        (case stmt of
           StInsert ins \<Rightarrow>
             r_bind (anonymize_insert L mac resolver anonymized_columns ins) (\<lambda>ins'. Inr (StInsert ins'))
         | StUpdate update \<Rightarrow>
             r_bind (anonymize_assignments L mac resolver anonymized_columns (us_assignments update))
               (\<lambda>as. Inr (StUpdate (update\<lparr>us_assignments := as\<rparr>)))
         | _ \<Rightarrow> Inr stmt))"

section \<open>What the rewrite does\<close>

definition anonymized_column :: "(string \<times> string) list \<Rightarrow> object_name \<Rightarrow> string option" where
  "anonymized_column anonymized_columns column =
     Option.bind (insert_column_ident column) (\<lambda>i. map_of anonymized_columns (to_ascii_lowercase (id_value i)))"

definition digest_of :: "sql_lib \<Rightarrow> mac \<Rightarrow> resolver \<Rightarrow> string \<Rightarrow> expr \<Rightarrow> expr \<Rightarrow> bool" where
  "digest_of L mac resolver secret_id e e' \<longleftrightarrow>
     (e = EValue VNull \<and> e' = EValue VNull)
   \<or> (\<exists>v secret. e = EValue v \<and> resolver secret_id = Some secret
        \<and> e' = EValue (VSingleQuoted
                 (hmac_sha256_hex mac (se_secret_key secret) (literal_plaintext L v))))"

definition cell_ok ::
  "sql_lib \<Rightarrow> mac \<Rightarrow> resolver \<Rightarrow> (string \<times> string) list \<Rightarrow> object_name \<times> expr \<Rightarrow> object_name \<times> expr \<Rightarrow> bool" where
  "cell_ok L mac resolver anonymized_columns c c' \<longleftrightarrow>
     fst c' = fst c
   \<and> (case anonymized_column anonymized_columns (fst c) of
        Some sid \<Rightarrow> digest_of L mac resolver sid (snd c) (snd c')
      | None \<Rightarrow> snd c' = snd c)"

text \<open>The column and value of everything a statement writes: its rows or its assignments.\<close>

fun named_assignments :: "assignment list \<Rightarrow> (object_name \<times> expr) list" where
  "named_assignments [] = []"
| "named_assignments (a # as) =
     (case ag_target a of
        TColumnName name \<Rightarrow> (name, ag_value a) # named_assignments as
      | TTuple _ \<Rightarrow> named_assignments as)"

fun written_cells :: "statement \<Rightarrow> (object_name \<times> expr) list" where
  "written_cells (StInsert ins) =
     (case values_rows ins of Some rows \<Rightarrow> concat (map (zip (is_columns ins)) rows) | None \<Rightarrow> [])"
| "written_cells (StUpdate update) = named_assignments (us_assignments update)"
| "written_cells _ = []"

lemma anonymize_expr_digest:
  assumes "anonymize_expr L mac secret e = Inr e'" "resolver sid = Some secret"
  shows "digest_of L mac resolver sid e e'"
  using assms by (auto simp: anonymize_expr_def digest_of_def split: expr.splits sql_value.splits)

lemma resolve_secrets_Inr:
  assumes "resolve_secrets resolver ids m = Inr m'" "\<forall>i s. m i = Some s \<longrightarrow> resolver i = Some s"
  shows "(\<forall>i\<in>set ids. m' i \<noteq> None) \<and> (\<forall>i s. m i = Some s \<longrightarrow> m' i = Some s)
       \<and> (\<forall>i s. m' i = Some s \<longrightarrow> resolver i = Some s)"
  using assms
proof (induction resolver ids m rule: resolve_secrets.induct)
  case (1 resolver secrets)
  then show ?case by simp
next
  case (2 resolver i ids m)
  show ?case
  proof (cases "m i")
    case None
    then obtain s where s: "resolve_secret resolver i = Inr s" "resolve_secrets resolver ids (m(i \<mapsto> s)) = Inr m'"
      using "2.prems"(1) by (auto simp: r_bind_eq_Inr)
    have r: "resolver i = Some s"
      using s(1) by (auto simp: resolve_secret_def split: option.splits if_splits)
    have "\<forall>j t. (m(i \<mapsto> s)) j = Some t \<longrightarrow> resolver j = Some t" using "2.prems"(2) r by simp
    from "2.IH"(2) [OF _ s(2) this] None
    have ih: "\<forall>j\<in>set ids. m' j \<noteq> None" "\<forall>j t. (m(i \<mapsto> s)) j = Some t \<longrightarrow> m' j = Some t"
      "\<forall>j t. m' j = Some t \<longrightarrow> resolver j = Some t" by blast+
    have "m' i = Some s" using ih(2) by simp
    moreover have "m' j = Some t" if "m j = Some t" for j t
      using ih(2) that None by (cases "j = i") auto
    ultimately show ?thesis using ih(1,3) by auto
  next
    case (Some s)
    then have r: "resolve_secrets resolver ids m = Inr m'" using "2.prems"(1) by simp
    from "2.IH"(1) [OF _ r "2.prems"(2)] Some show ?thesis by auto
  qed
qed

lemma resolve_secrets_empty:
  assumes "resolve_secrets resolver ids Map.empty = Inr m" "i \<in> set ids"
  shows "resolver i = Some (the (m i))"
  using resolve_secrets_Inr [OF assms(1)] assms(2) by fastforce

lemma column_secret_Inr:
  "column_secret L col ac = Inr sid \<Longrightarrow> sid = anonymized_column ac col"
  by (auto simp: column_secret_def anonymized_column_def split: option.splits)

lemma positions_step:
  fixes ps rest :: "(nat \<times> string) list"
  assumes ps: "ps = (case sid of Some s \<Rightarrow> (idx, s) # rest | None \<Rightarrow> rest)"
    and ge: "\<forall>p\<in>set rest. Suc idx \<le> fst p"
    and d: "distinct (map fst rest)"
    and mem: "\<And>i s. (Suc idx + i, s) \<in> set rest \<longleftrightarrow> i < length xs \<and> f (xs ! i) = Some s"
    and f: "f x = sid"
  shows "\<forall>p\<in>set ps. idx \<le> fst p" "distinct (map fst ps)"
    "(idx + i, s) \<in> set ps \<longleftrightarrow> i < length (x # xs) \<and> f ((x # xs) ! i) = Some s"
proof -
  show "\<forall>p\<in>set ps. idx \<le> fst p" using ps ge by (cases sid) (auto dest: Suc_leD)
  show "distinct (map fst ps)" using ps ge d by (cases sid) (auto dest: bspec)
  show "(idx + i, s) \<in> set ps \<longleftrightarrow> i < length (x # xs) \<and> f ((x # xs) ! i) = Some s"
  proof (cases i)
    case 0
    have "(idx, s) \<notin> set rest" using ge by (auto dest: bspec)
    then show ?thesis using ps f 0 by (cases sid) auto
  next
    case (Suc j)
    then show ?thesis using ps mem [of j s] by (cases sid) auto
  qed
qed

lemma target_positions_Inr:
  assumes "target_positions L ac idx cols = Inr ps"
  shows "\<forall>p\<in>set ps. idx \<le> fst p" "distinct (map fst ps)"
    "(idx + i, s) \<in> set ps \<longleftrightarrow> i < length cols \<and> anonymized_column ac (cols ! i) = Some s"
proof -
  have "(\<forall>p\<in>set ps. idx \<le> fst p) \<and> distinct (map fst ps)
      \<and> (\<forall>i s. (idx + i, s) \<in> set ps \<longleftrightarrow> i < length cols \<and> anonymized_column ac (cols ! i) = Some s)"
    using assms
  proof (induction cols arbitrary: idx ps)
    case (Cons col cols)
    obtain rest where rest: "target_positions L ac (Suc idx) cols = Inr rest"
      "ps = (case anonymized_column ac col of Some s \<Rightarrow> (idx, s) # rest | None \<Rightarrow> rest)"
      using Cons.prems by (auto simp: r_bind_eq_Inr dest: column_secret_Inr)
    note ih = Cons.IH [OF rest(1)]
    have mem: "(Suc idx + i, s) \<in> set rest \<longleftrightarrow> i < length cols \<and> anonymized_column ac (cols ! i) = Some s" for i s
      using ih by (elim conjE allE)
    note step = positions_step [where f = "anonymized_column ac", OF rest(2) conjunct1 [OF ih]
        conjunct1 [OF conjunct2 [OF ih]] mem refl]
    show ?case by (intro conjI allI step)
  qed simp
  then show "\<forall>p\<in>set ps. idx \<le> fst p" "distinct (map fst ps)"
    "(idx + i, s) \<in> set ps \<longleftrightarrow> i < length cols \<and> anonymized_column ac (cols ! i) = Some s"
    by simp_all
qed

lemma anonymize_row_Inr:
  assumes "anonymize_row L mac m ps row = Inr row'" "distinct (map fst ps)"
  shows "length row' = length row"
    and "i < length row \<Longrightarrow> (i, s) \<in> set ps \<Longrightarrow> anonymize_expr L mac (the (m s)) (row ! i) = Inr (row' ! i)"
    and "i < length row \<Longrightarrow> i \<notin> fst ` set ps \<Longrightarrow> row' ! i = row ! i"
proof -
  have "length row' = length row
      \<and> (\<forall>i<length row. (\<forall>s. (i, s) \<in> set ps \<longrightarrow> anonymize_expr L mac (the (m s)) (row ! i) = Inr (row' ! i))
                    \<and> (i \<notin> fst ` set ps \<longrightarrow> row' ! i = row ! i))"
    using assms
  proof (induction L mac m ps row rule: anonymize_row.induct)
    case (1 L mac m row)
    then show ?case by simp
  next
    case (2 L mac m idx sid ps row)
    show ?case
    proof (cases "idx < length row")
      case True
      then obtain e where e: "anonymize_expr L mac (the (m sid)) (row ! idx) = Inr e"
        "anonymize_row L mac m ps (row[idx := e]) = Inr row'"
        using "2.prems"(1) by (auto simp: r_bind_eq_Inr)
      have "distinct (map fst ps)" and idx: "idx \<notin> fst ` set ps" using "2.prems"(2) by simp_all
      note ih = "2.IH"(1) [OF True e(2) this(1)]
      have at_idx: "row' ! idx = e" using ih idx True by simp
      have other: "(row[idx := e]) ! i = row ! i" if "i \<noteq> idx" for i using that by simp
      show ?thesis
      proof (intro conjI allI impI)
        show "length row' = length row" using ih by simp
        fix i s
        assume i: "i < length row" and mem: "(i, s) \<in> set ((idx, sid) # ps)"
        show "anonymize_expr L mac (the (m s)) (row ! i) = Inr (row' ! i)"
        proof (cases "i = idx")
          case True
          then have "s = sid" using mem idx by force
          then show ?thesis using True at_idx e(1) by simp
        next
          case False
          then show ?thesis using ih i mem other [OF False] by force
        qed
      next
        fix i assume i: "i < length row" and out: "i \<notin> fst ` set ((idx, sid) # ps)"
        then have "i \<noteq> idx" by simp
        then show "row' ! i = row ! i" using ih i out other by simp
      qed
    next
      case False
      then have "anonymize_row L mac m ps row = Inr row'" "distinct (map fst ps)" using "2.prems" by simp_all
      from "2.IH"(2) [OF False this] show ?thesis using False by auto
    qed
  qed
  then show "length row' = length row"
    "i < length row \<Longrightarrow> (i, s) \<in> set ps \<Longrightarrow> anonymize_expr L mac (the (m s)) (row ! i) = Inr (row' ! i)"
    "i < length row \<Longrightarrow> i \<notin> fst ` set ps \<Longrightarrow> row' ! i = row ! i"
    by blast+
qed

lemma digest_cell:
  assumes "resolve_secrets resolver (map snd ps) Map.empty = Inr m" "(i, s) \<in> set ps"
    "anonymize_expr L mac (the (m s)) e = Inr e'"
  shows "digest_of L mac resolver s e e'"
proof -
  have "s \<in> set (map snd ps)" using assms(2) by force
  then show ?thesis
    using anonymize_expr_digest [OF assms(3)] resolve_secrets_empty [OF assms(1)] by blast
qed

lemma anonymize_row_cells:
  assumes pos: "target_positions L ac 0 cols = Inr ps"
    and m: "resolve_secrets resolver (map snd ps) Map.empty = Inr m"
    and row: "anonymize_row L mac m ps row = Inr row'"
  shows "list_all2 (cell_ok L mac resolver ac) (zip cols row) (zip cols row')"
proof -
  note spec = anonymize_row_Inr [OF row target_positions_Inr(2) [OF pos]]
  have "cell_ok L mac resolver ac (cols ! i, row ! i) (cols ! i, row' ! i)"
    if i: "i < length cols" "i < length row" for i
  proof (cases "anonymized_column ac (cols ! i)")
    case (Some s)
    then have mem: "(i, s) \<in> set ps" using target_positions_Inr(3) [OF pos, of i s] i by simp
    show ?thesis
      using digest_cell [OF m mem spec(2) [OF i(2) mem]] Some by (simp add: cell_ok_def)
  next
    case None
    then have "i \<notin> fst ` set ps" using target_positions_Inr(3) [OF pos, of i] by force
    then show ?thesis using spec(3) [OF i(2)] None by (simp add: cell_ok_def)
  qed
  then show ?thesis using spec(1) by (simp add: list_all2_conv_all_nth)
qed

lemma concat_cells:
  "list_all2 (\<lambda>r r'. list_all2 R (f r) (f r')) rows rows' \<Longrightarrow>
     list_all2 R (concat (map f rows)) (concat (map f rows'))"
  by (induction rows rows' rule: list_all2_induct) (auto intro: list_all2_appendI)

lemma unchanged_cells:
  "\<forall>c\<in>set cs. anonymized_column ac (fst c) = None \<Longrightarrow> list_all2 (cell_ok L mac resolver ac) cs cs"
  by (induction cs) (auto simp: cell_ok_def)

lemma anonymize_insert_cells:
  assumes "anonymize_insert L mac resolver ac ins = Inr ins'"
  shows "list_all2 (cell_ok L mac resolver ac) (written_cells (StInsert ins)) (written_cells (StInsert ins'))"
    and "is_on ins' = is_on ins" "is_columns ins' = is_columns ins"
proof -
  obtain ps where ps: "target_positions L ac 0 (is_columns ins) = Inr ps"
    using assms by (auto simp: anonymize_insert_def r_bind_eq_Inr)
  have same: "list_all2 (cell_ok L mac resolver ac) (written_cells (StInsert ins)) (written_cells (StInsert ins))"
    if "ps = []"
  proof (intro unchanged_cells ballI)
    fix c assume "c \<in> set (written_cells (StInsert ins))"
    then obtain r where "c \<in> set (zip (is_columns ins) r)" by (auto split: option.splits)
    then have "fst c \<in> set (is_columns ins)" by (metis prod.collapse set_zip_leftD)
    then obtain i where "i < length (is_columns ins)" "fst c = is_columns ins ! i" by (auto simp: in_set_conv_nth)
    then show "anonymized_column ac (fst c) = None"
      using target_positions_Inr(3) [OF ps, of i] that by (cases "anonymized_column ac (fst c)") auto
  qed
  have "list_all2 (cell_ok L mac resolver ac) (written_cells (StInsert ins)) (written_cells (StInsert ins'))
      \<and> is_on ins' = is_on ins \<and> is_columns ins' = is_columns ins"
  proof (cases "ps = []")
    case True
    then show ?thesis using assms ps same by (simp add: anonymize_insert_def)
  next
    case False
    then obtain m where m: "resolve_secrets resolver (map snd ps) Map.empty = Inr m"
      using assms ps by (auto simp: anonymize_insert_def r_bind_eq_Inr)
    show ?thesis
    proof (cases "is_source ins")
      case None
      then show ?thesis using assms ps m False by (simp add: anonymize_insert_def values_rows_def)
    next
      case (Some source)
      then obtain rows rows' where rows: "qu_body source = SValues rows"
        "collect_results (anonymize_row L mac m ps) rows = Inr rows'"
        "ins' = ins\<lparr>is_source := Some (source\<lparr>qu_body := SValues rows'\<rparr>)\<rparr>"
        using assms ps m False by (auto simp: anonymize_insert_def r_bind_eq_Inr split: set_expr.splits)
      have "list_all2 (\<lambda>r r'. list_all2 (cell_ok L mac resolver ac) (zip (is_columns ins) r) (zip (is_columns ins) r')) rows rows'"
        using rows(2) anonymize_row_cells [OF ps m] by (auto simp: collect_results_Inr elim: list_all2_mono)
      then show ?thesis using rows Some concat_cells by (simp add: values_rows_def)
    qed
  qed
  then show "list_all2 (cell_ok L mac resolver ac) (written_cells (StInsert ins)) (written_cells (StInsert ins'))"
    "is_on ins' = is_on ins" "is_columns ins' = is_columns ins" by blast+
qed

definition assignment_secret :: "(string \<times> string) list \<Rightarrow> assignment \<Rightarrow> string option" where
  "assignment_secret ac a =
     (case ag_target a of TColumnName name \<Rightarrow> anonymized_column ac name | TTuple _ \<Rightarrow> None)"

definition tuple_plain :: "(string \<times> string) list \<Rightarrow> assignment \<Rightarrow> bool" where
  "tuple_plain ac a =
     (case ag_target a of
        TTuple names \<Rightarrow> list_all (\<lambda>name. anonymized_column ac name = None) names
      | TColumnName _ \<Rightarrow> True)"

lemma reject_tuple_Inr:
  "reject_tuple_targets L ac names = Inr () \<Longrightarrow> list_all (\<lambda>name. anonymized_column ac name = None) names"
  by (induction names) (auto simp: r_bind_eq_Inr split: if_splits dest: column_secret_Inr)

lemma assignment_targets_Inr:
  assumes "assignment_targets L ac idx as = Inr ps"
  shows "(\<forall>p\<in>set ps. idx \<le> fst p) \<and> distinct (map fst ps)
      \<and> (\<forall>i s. (idx + i, s) \<in> set ps \<longleftrightarrow> i < length as \<and> assignment_secret ac (as ! i) = Some s)
      \<and> list_all (tuple_plain ac) as"
  using assms
proof (induction as arbitrary: idx ps)
  case (Cons a as)
  obtain rest where rest: "assignment_targets L ac (Suc idx) as = Inr rest"
    "ps = (case assignment_secret ac a of Some s \<Rightarrow> (idx, s) # rest | None \<Rightarrow> rest)"
    and plain: "tuple_plain ac a"
    using Cons.prems
    by (cases "ag_target a") (auto simp: r_bind_eq_Inr assignment_secret_def tuple_plain_def
        dest: column_secret_Inr reject_tuple_Inr)
  note ih = Cons.IH [OF rest(1)]
  have mem: "(Suc idx + i, s) \<in> set rest \<longleftrightarrow> i < length as \<and> assignment_secret ac (as ! i) = Some s" for i s
    using ih by (elim conjE allE)
  note step = positions_step [where f = "assignment_secret ac", OF rest(2) conjunct1 [OF ih]
      conjunct1 [OF conjunct2 [OF ih]] mem refl]
  have "list_all (tuple_plain ac) (a # as)" using ih plain by simp
  then show ?case by (intro conjI allI step)
qed simp

lemma rewrite_assignments_row:
  assumes "rewrite_assignments L mac m ps as = Inr as'" "\<forall>p\<in>set ps. fst p < length as"
  shows "length as' = length as" "map ag_target as' = map ag_target as"
    "anonymize_row L mac m ps (map ag_value as) = Inr (map ag_value as')"
proof -
  have "length as' = length as \<and> map ag_target as' = map ag_target as
      \<and> anonymize_row L mac m ps (map ag_value as) = Inr (map ag_value as')"
    using assms
  proof (induction L mac m ps as rule: rewrite_assignments.induct)
    case (2 L mac m idx sid ps as)
    obtain e where e: "anonymize_expr L mac (the (m sid)) (ag_value (as ! idx)) = Inr e"
      "rewrite_assignments L mac m ps (as[idx := (as ! idx)\<lparr>ag_value := e\<rparr>]) = Inr as'"
      using "2.prems"(1) by (auto simp: r_bind_eq_Inr)
    have idx: "idx < length as" "\<forall>p\<in>set ps. fst p < length (as[idx := (as ! idx)\<lparr>ag_value := e\<rparr>])"
      using "2.prems"(2) by simp_all
    have "map ag_target (as[idx := (as ! idx)\<lparr>ag_value := e\<rparr>]) = map ag_target as"
      using idx(1) by (simp add: map_update list_update_same_conv)
    then show ?case
      using "2.IH" [OF e(2) idx(2)] e(1) idx(1) by (simp add: map_update)
  qed simp
  then show "length as' = length as" "map ag_target as' = map ag_target as"
    "anonymize_row L mac m ps (map ag_value as) = Inr (map ag_value as')" by blast+
qed

definition assignment_ok ::
  "sql_lib \<Rightarrow> mac \<Rightarrow> resolver \<Rightarrow> (string \<times> string) list \<Rightarrow> assignment \<Rightarrow> assignment \<Rightarrow> bool" where
  "assignment_ok L mac resolver ac a a' \<longleftrightarrow>
     ag_target a' = ag_target a
   \<and> (case assignment_secret ac a of
        Some s \<Rightarrow> digest_of L mac resolver s (ag_value a) (ag_value a')
      | None \<Rightarrow> ag_value a' = ag_value a)"

lemma assignments_cells:
  "list_all2 (assignment_ok L mac resolver ac) as as' \<Longrightarrow>
     list_all2 (cell_ok L mac resolver ac) (named_assignments as) (named_assignments as')"
  by (induction as as' rule: list_all2_induct)
    (auto simp: assignment_ok_def cell_ok_def assignment_secret_def
        split: assignment_target.splits option.splits)

lemma anonymize_assignments_ok:
  assumes "anonymize_assignments L mac resolver ac as = Inr as'"
  shows "list_all2 (assignment_ok L mac resolver ac) as as'" "list_all (tuple_plain ac) as"
proof -
  obtain ps where ps: "assignment_targets L ac 0 as = Inr ps"
    using assms by (auto simp: anonymize_assignments_def r_bind_eq_Inr)
  note spec = assignment_targets_Inr [OF ps]
  have d: "distinct (map fst ps)"
    and mem: "(i, s) \<in> set ps \<longleftrightarrow> i < length as \<and> assignment_secret ac (as ! i) = Some s" for i s
    using spec by simp_all
  show "list_all (tuple_plain ac) as" using spec by simp
  show "list_all2 (assignment_ok L mac resolver ac) as as'"
  proof (cases "ps = []")
    case True
    then have "assignment_secret ac (as ! i) = None" if "i < length as" for i
      using mem [of i] that by (cases "assignment_secret ac (as ! i)") auto
    moreover have "as' = as" using assms ps True by (simp add: anonymize_assignments_def)
    ultimately show ?thesis by (simp add: list_all2_conv_all_nth assignment_ok_def)
  next
    case False
    then obtain m where m: "resolve_secrets resolver (map snd ps) Map.empty = Inr m"
      "rewrite_assignments L mac m ps as = Inr as'"
      using assms ps by (auto simp: anonymize_assignments_def r_bind_eq_Inr)
    have "\<forall>p\<in>set ps. fst p < length as" using mem by force
    note row = rewrite_assignments_row [OF m(2) this]
    note cells = anonymize_row_Inr [OF row(3) d, simplified]
    have "assignment_ok L mac resolver ac (as ! i) (as' ! i)" if i: "i < length as" for i
    proof -
      have target: "ag_target (as' ! i) = ag_target (as ! i)" using row(1,2) i by (metis nth_map)
      show ?thesis
      proof (cases "assignment_secret ac (as ! i)")
        case (Some s)
        then have in_ps: "(i, s) \<in> set ps" using mem i by simp
        show ?thesis
          using digest_cell [OF m(1) in_ps] cells(2) [OF i in_ps] row(1) i Some target
          by (simp add: assignment_ok_def)
      next
        case None
        then have "i \<notin> fst ` set ps" using mem by force
        then show ?thesis using cells(3) [OF i] row(1) i None target by (simp add: assignment_ok_def)
      qed
    qed
    then show ?thesis using row(1) by (simp add: list_all2_conv_all_nth)
  qed
qed

section \<open>Properties\<close>

definition update_assignments :: "statement \<Rightarrow> assignment list" where
  "update_assignments stmt = (case stmt of StUpdate update \<Rightarrow> us_assignments update | _ \<Rightarrow> [])"


text \<open>A table with the columns id and email, the latter pseudonymized.\<close>

definition name_of :: "string \<Rightarrow> object_name" where
  "name_of s = [NIdentifier (ident_new s)]"

definition demo_insert :: "on_insert option \<Rightarrow> insert_stmt" where
  "demo_insert on =
     \<lparr>is_table = TableName (name_of ''users''), is_columns = [name_of ''id'', name_of ''Email''],
      is_source = Some \<lparr>qu_with = [], qu_body = SValues [[EValue (VNumber ''1'' False), EValue (VSingleQuoted ''a@b'')]],
                        qu_rest = []\<rparr>,
      is_on = on, is_returning = False\<rparr>"

definition demo_columns :: "(string \<times> string) list" where
  "demo_columns = [(''email'', ''s1'')]"

definition demo_resolver :: resolver where
  "demo_resolver i =
     (if i = ''s1'' then Some \<lparr>se_algo = ''HMAC-SHA256'', se_secret_key = ''pepper''\<rparr> else None)"

definition demo_mac :: mac where
  "demo_mac key plain = key @ plain"

definition demo_upsert :: on_insert where
  "demo_upsert =
     OnConflict \<lparr>oc_target = Some (CColumns [ident_new ''id'']),
       oc_action = DoUpdate [\<lparr>ag_target = TColumnName (name_of ''email''),
                             ag_value = EValue (VSingleQuoted ''a@b'')\<rparr>] None\<rparr>"

lemma demo_insert_rewritten:
  "anonymize_statement ref_sql demo_mac demo_resolver demo_columns (StInsert (demo_insert on)) =
     Inr (StInsert ((demo_insert on)\<lparr>is_source := Some
       \<lparr>qu_with = [], qu_body = SValues [[EValue (VNumber ''1'' False),
          EValue (VSingleQuoted (hmac_sha256_hex demo_mac ''pepper'' ''a@b''))]], qu_rest = []\<rparr>\<rparr>))"
proof -
  have "to_ascii_lowercase ''id'' = ''id''" "to_ascii_lowercase ''Email'' = ''email''" by code_simp+
  then show ?thesis
    by (simp add: anonymize_statement_def anonymize_insert_def demo_insert_def demo_columns_def name_of_def
        column_secret_def insert_column_ident_def ident_new_def demo_resolver_def resolve_secret_def
        HMAC_SHA256_ALGO_def anonymize_expr_def literal_plaintext_def)
qed


text \<open>
  C31. The values of ON CONFLICT ... DO UPDATE are not rewritten: an accepted INSERT keeps its
  conflict clause as the client wrote it, and an accepted UPDATE its WHERE clause, so the
  plaintext in them is part of the statement that goes to the shards. The check of the
  conflict clause does not refuse it either.
\<close>

theorem conflict_clause_keeps_plaintext:
  assumes "anonymize_statement L mac resolver anonymized_columns stmt = Inr stmt'"
  shows "(\<forall>ins. stmt = StInsert ins \<longrightarrow>
            (\<exists>ins'. stmt' = StInsert ins' \<and> is_on ins' = is_on ins
               \<and> validate_on_conflict L stmt' shard_key = validate_on_conflict L stmt shard_key))
       \<and> (\<forall>update. stmt = StUpdate update \<longrightarrow>
            (\<exists>update'. stmt' = StUpdate update' \<and> us_selection update' = us_selection update))"
proof (cases "anonymized_columns = []")
  case True
  then show ?thesis using assms by (auto simp: anonymize_statement_def)
next
  case False
  show ?thesis
  proof (cases stmt)
    case (StInsert ins)
    then obtain ins' where "anonymize_insert L mac resolver anonymized_columns ins = Inr ins'" "stmt' = StInsert ins'"
      using assms False by (auto simp: anonymize_statement_def r_bind_eq_Inr)
    then show ?thesis using anonymize_insert_cells(2) StInsert by (auto simp: validate_on_conflict_def)
  qed (use assms False in \<open>auto simp: anonymize_statement_def r_bind_eq_Inr\<close>)
qed

theorem conflict_clause_keeps_plaintext_witness:
  "\<exists>ins'. anonymize_statement ref_sql demo_mac demo_resolver demo_columns (StInsert (demo_insert (Some demo_upsert)))
            = Inr (StInsert ins')
     \<and> is_on ins' = Some demo_upsert \<and> validate_on_conflict ref_sql (StInsert ins') ''id'' = Inr ()"
proof -
  have "validate_on_conflict ref_sql (StInsert (demo_insert (Some demo_upsert))) ''id'' = Inr ()"
    by code_simp
  then show ?thesis
    using conflict_clause_keeps_plaintext [OF demo_insert_rewritten [of "Some demo_upsert"], of "''id''"]
      demo_insert_rewritten [of "Some demo_upsert"] by (auto simp: demo_insert_def)
qed

end
