(* ===== verification/Session.thy ===== *)
theory Session
  imports Client_Errors Write_Sql
begin

text \<open>
  Transaction blocks, \<open>crates/vairedb-coordinator/src/pgwire_handler/session.rs\<close> and
  \<open>transaction.rs\<close>: the block a connection buffers its writes in, the statements that steer
  it, what is allowed inside it, and the shipping of the writes at COMMIT. The transaction is
  behind a mutex of its own; a handler holds it while it changes the block, so each handler
  is one step on the block.
\<close>

section \<open>The buffered block\<close>

datatype transaction_status = Idle | Active | Failed

record buffered_write =
  bw_shard :: shard_meta
  bw_statement :: batch_statement
  bw_quorum_size :: nat
  bw_table_name :: string

record transaction =
  tx_status :: transaction_status
  tx_writes :: "buffered_write list"
  tx_savepoints :: "(string \<times> nat) list"
  tx_read_only :: bool

definition transaction_default :: transaction where
  "transaction_default = \<lparr>tx_status = Idle, tx_writes = [], tx_savepoints = [], tx_read_only = False\<rparr>"

definition is_open :: "transaction \<Rightarrow> bool" where
  "is_open txn = (tx_status txn \<noteq> Idle)"

definition tx_begin :: "bool \<Rightarrow> transaction \<Rightarrow> transaction" where
  "tx_begin read_only txn =
     txn\<lparr>tx_status := Active, tx_writes := [], tx_savepoints := [], tx_read_only := read_only\<rparr>"

definition tx_end :: "transaction \<Rightarrow> transaction" where
  "tx_end txn = txn\<lparr>tx_status := Idle, tx_writes := [], tx_savepoints := [], tx_read_only := False\<rparr>"

definition take_writes :: "transaction \<Rightarrow> buffered_write list \<times> transaction" where
  "take_writes txn = (tx_writes txn, txn\<lparr>tx_savepoints := [], tx_writes := []\<rparr>)"

definition push_write :: "buffered_write \<Rightarrow> transaction \<Rightarrow> transaction" where
  "push_write write txn = txn\<lparr>tx_writes := tx_writes txn @ [write]\<rparr>"

definition mark_failed :: "transaction \<Rightarrow> transaction" where
  "mark_failed txn = (if tx_status txn = Active then txn\<lparr>tx_status := Failed\<rparr> else txn)"

definition tx_savepoint :: "string \<Rightarrow> transaction \<Rightarrow> transaction" where
  "tx_savepoint name txn = txn\<lparr>tx_savepoints := tx_savepoints txn @ [(name, length (tx_writes txn))]\<rparr>"

definition find_savepoint :: "string \<Rightarrow> transaction \<Rightarrow> nat option" where
  "find_savepoint name txn = rposition (\<lambda>(n, _). n = name) (tx_savepoints txn)"

definition rollback_to_savepoint :: "string \<Rightarrow> transaction \<Rightarrow> bool \<times> transaction" where
  "rollback_to_savepoint name txn =
     (case find_savepoint name txn of
        None \<Rightarrow> (False, txn)
      | Some pos \<Rightarrow>
          (let mark = snd (tx_savepoints txn ! pos) in
           (True, txn\<lparr>tx_savepoints := take (pos + 1) (tx_savepoints txn),
                      tx_writes := take mark (tx_writes txn), tx_status := Active\<rparr>)))"

definition tx_release_savepoint :: "string \<Rightarrow> transaction \<Rightarrow> bool \<times> transaction" where
  "tx_release_savepoint name txn =
     (case find_savepoint name txn of
        None \<Rightarrow> (False, txn)
      | Some pos \<Rightarrow> (True, txn\<lparr>tx_savepoints := take pos (tx_savepoints txn)\<rparr>))"

definition has_buffered_writes_for :: "string \<Rightarrow> transaction \<Rightarrow> bool" where
  "has_buffered_writes_for table txn = list_ex (\<lambda>w. bw_table_name w = table) (tx_writes txn)"

section \<open>Groups of writes\<close>

record node_set_group =
  ng_key :: string
  ng_shard :: shard_meta
  ng_quorum_size :: nat
  ng_statements :: "batch_statement list"

definition node_set_key :: "shard_meta \<Rightarrow> string" where
  "node_set_key shard =
     sh_primary_node_id shard @ ''|'' @ join '','' (sort (sh_replica_node_ids shard))"

fun add_to_group :: "buffered_write \<Rightarrow> node_set_group list \<Rightarrow> node_set_group list" where
  "add_to_group write [] =
     [\<lparr>ng_key = node_set_key (bw_shard write), ng_shard = bw_shard write,
       ng_quorum_size = bw_quorum_size write, ng_statements = [bw_statement write]\<rparr>]"
| "add_to_group write (g # groups) =
     (if ng_key g = node_set_key (bw_shard write)
      then g\<lparr>ng_quorum_size := max (ng_quorum_size g) (bw_quorum_size write),
             ng_statements := ng_statements g @ [bw_statement write]\<rparr> # groups
      else g # add_to_group write groups)"

definition group_by_node_set :: "buffered_write list \<Rightarrow> node_set_group list" where
  "group_by_node_set writes = fold add_to_group writes []"

section \<open>Transaction control\<close>

datatype response = TransactionStart string | TransactionEnd string | Execution string nat

definition no_active_transaction :: "string \<Rightarrow> error_info" where
  "no_active_transaction command =
     make_vdb_error V_NoActiveTransaction (command @ '' can only be used in a transaction block'')"

definition unknown_savepoint :: "string \<Rightarrow> error_info" where
  "unknown_savepoint name = make_vdb_error V_InvalidSavepoint (''savepoint '' @ dq name @ '' does not exist'')"

definition reject_chain :: "bool \<Rightarrow> string \<Rightarrow> (error_info, unit) result" where
  "reject_chain chain command =
     (if chain then
        Inl (make_vdb_error V_FeatureNotSupported
          (command @ '' AND CHAIN is not supported; issue '' @ command @ '' followed by BEGIN''))
      else Inr ())"

definition reject_modifier :: "string option \<Rightarrow> string \<Rightarrow> (error_info, unit) result" where
  "reject_modifier modifier command =
     (case modifier of
        Some m \<Rightarrow> Inl (make_vdb_error V_FeatureNotSupported (command @ '' '' @ m @ '' is not supported''))
      | None \<Rightarrow> Inr ())"

definition begin_transaction ::
  "transaction_mode list \<Rightarrow> string option \<Rightarrow> bool \<Rightarrow> transaction \<Rightarrow> (error_info, response) result \<times> transaction" where
  "begin_transaction modes modifier has_inline_block txn =
     (if has_inline_block then
        (Inl (make_vdb_error V_FeatureNotSupported
           (''BEGIN ... END blocks are not supported; send BEGIN, the statements, and COMMIT ''
            @ ''as separate statements'')), txn)
      else
        (case reject_modifier modifier ''BEGIN'' of
           Inl e \<Rightarrow> (Inl e, txn)
         | Inr _ \<Rightarrow>
             (let read_only = ReadOnly \<in> set modes in
              (Inr (TransactionStart ''BEGIN''), if is_open txn then txn else tx_begin read_only txn))))"

definition rollback_transaction ::
  "ident option \<Rightarrow> transaction \<Rightarrow> (error_info, response) result \<times> transaction" where
  "rollback_transaction savepoint txn =
     (case savepoint of
        None \<Rightarrow> (Inr (TransactionEnd ''ROLLBACK''), tx_end txn)
      | Some i \<Rightarrow>
          if \<not> is_open txn then (Inl (no_active_transaction ''ROLLBACK TO SAVEPOINT''), txn)
          else
            (let name = canonicalize_ident i in
             case rollback_to_savepoint name txn of
               (found, txn') \<Rightarrow>
                 if found then (Inr (Execution ''ROLLBACK'' 0), txn')
                 else (Inl (unknown_savepoint name), txn')))"

definition declare_savepoint :: "ident \<Rightarrow> transaction \<Rightarrow> (error_info, response) result \<times> transaction" where
  "declare_savepoint name txn =
     (if \<not> is_open txn then (Inl (no_active_transaction ''SAVEPOINT''), txn)
      else (Inr (Execution ''SAVEPOINT'' 0), tx_savepoint (canonicalize_ident name) txn))"

definition release_savepoint :: "ident \<Rightarrow> transaction \<Rightarrow> (error_info, response) result \<times> transaction" where
  "release_savepoint i txn =
     (if \<not> is_open txn then (Inl (no_active_transaction ''RELEASE SAVEPOINT''), txn)
      else
        (let name = canonicalize_ident i in
         case tx_release_savepoint name txn of
           (found, txn') \<Rightarrow>
             if found then (Inr (Execution ''RELEASE'' 0), txn') else (Inl (unknown_savepoint name), txn')))"

text \<open>
  Shipping the groups, with the schedule of each fan-out in \<open>scheds\<close> and the text of an
  enriched error as \<open>shown\<close>.
\<close>

definition partial_commit :: "nat \<Rightarrow> nat \<Rightarrow> string \<Rightarrow> error_info" where
  "partial_commit idx total_groups cause =
     make_vdb_error V_PartialCommit
       (''COMMIT partially applied: '' @ show_nat idx @ '' of '' @ show_nat total_groups
        @ '' shard groups were written and cannot be undone, then the commit failed. ''
        @ ''Inspect the affected tables before retrying. Cause: '' @ cause)"

fun ship_groups ::
  "('t, 'b) env \<Rightarrow> 't catalog \<Rightarrow> 'w network \<Rightarrow> (error_info \<Rightarrow> string) \<Rightarrow> (nat \<Rightarrow> (nat \<times> bool) list)
     \<Rightarrow> string \<Rightarrow> nat \<Rightarrow> nat \<Rightarrow> node_set_group list \<Rightarrow> retry_queues \<times> 'w comms
     \<Rightarrow> (error_info, unit) result \<times> retry_queues \<times> 'w comms" where
  "ship_groups E C N shown scheds write_id total_groups idx [] rs = (Inr (), rs)"
| "ship_groups E C N shown scheds write_id total_groups idx (g # groups) rs =
     (case execute_transaction_with_quorum E C N (scheds idx) (ng_shard g) (ng_statements g)
             (write_id @ ''-'' @ show_nat idx) (ng_quorum_size g) rs of
        (Inr _, rs') \<Rightarrow> ship_groups E C N shown scheds write_id total_groups (Suc idx) groups rs'
      | (Inl e, rs') \<Rightarrow>
          (let enriched = enrich_coordinator_error E C e (for_table (sh_table_name (ng_shard g))) in
           (Inl (if idx = 0 then enriched else partial_commit idx total_groups (shown enriched)), rs')))"

definition cross_shard_refused :: "nat \<Rightarrow> error_info" where
  "cross_shard_refused n_groups =
     make_vdb_error V_FeatureNotSupported
       (''this transaction wrote to '' @ show_nat n_groups
        @ '' independent shard groups and VaireDB has no cross-shard commit protocol, ''
        @ ''so it cannot be committed atomically; nothing was written. Keep a transaction''
        @ [squote] @ ''s writes on one shard group, or set allow_cross_shard_transactions: true ''
        @ ''in the coordinator config to commit such a transaction non-atomically'')"

definition flush_transaction ::
  "('t, 'b) env \<Rightarrow> 't catalog \<Rightarrow> 'w network \<Rightarrow> (error_info \<Rightarrow> string) \<Rightarrow> (nat \<Rightarrow> (nat \<times> bool) list)
     \<Rightarrow> bool \<Rightarrow> string \<Rightarrow> buffered_write list \<Rightarrow> retry_queues \<times> 'w comms
     \<Rightarrow> (error_info, unit) result \<times> retry_queues \<times> 'w comms" where
  "flush_transaction E C N shown scheds allow_cross_shard write_id writes rs =
     (let groups = group_by_node_set writes in
      if length groups > 1 \<and> \<not> allow_cross_shard then
        (Inl (cross_shard_refused (length groups)), rs)
      else ship_groups E C N shown scheds write_id (length groups) 0 groups rs)"

definition commit_transaction ::
  "('t, 'b) env \<Rightarrow> 't catalog \<Rightarrow> 'w network \<Rightarrow> (error_info \<Rightarrow> string) \<Rightarrow> (nat \<Rightarrow> (nat \<times> bool) list)
     \<Rightarrow> bool \<Rightarrow> string \<Rightarrow> transaction \<times> retry_queues \<times> 'w comms
     \<Rightarrow> (error_info, response) result \<times> transaction \<times> retry_queues \<times> 'w comms" where
  "commit_transaction E C N shown scheds allow_cross_shard write_id st =
     (case st of (txn, rs) \<Rightarrow>
       (case tx_status txn of
          Idle \<Rightarrow> (Inr (TransactionEnd ''COMMIT''), txn, rs)
        | Failed \<Rightarrow> (Inr (TransactionEnd ''ROLLBACK''), tx_end txn, rs)
        | Active \<Rightarrow>
            (case take_writes txn of
               (writes, txn1) \<Rightarrow>
                 (case flush_transaction E C N shown scheds allow_cross_shard write_id writes rs of
                    (Inl e, rs') \<Rightarrow> (Inl e, tx_end txn1, rs')
                  | (Inr _, rs') \<Rightarrow> (Inr (TransactionEnd ''COMMIT''), tx_end txn1, rs')))))"

definition handle_transaction_control ::
  "('t, 'b) env \<Rightarrow> 't catalog \<Rightarrow> 'w network \<Rightarrow> (error_info \<Rightarrow> string) \<Rightarrow> (nat \<Rightarrow> (nat \<times> bool) list)
     \<Rightarrow> bool \<Rightarrow> string \<Rightarrow> statement \<Rightarrow> transaction \<times> retry_queues \<times> 'w comms
     \<Rightarrow> (error_info, response) result \<times> transaction \<times> retry_queues \<times> 'w comms" where
  "handle_transaction_control E C N shown scheds allow_cross_shard write_id stmt st =
     (case st of (txn, rs) \<Rightarrow>
       (case stmt of
          StStartTransaction modes modifier has_inline_block \<Rightarrow>
            (case begin_transaction modes modifier has_inline_block txn of (r, txn') \<Rightarrow> (r, txn', rs))
        | StCommit chain modifier \<Rightarrow>
            (case r_bind (reject_chain chain ''COMMIT'') (\<lambda>_. reject_modifier modifier ''COMMIT'') of
               Inl e \<Rightarrow> (Inl e, txn, rs)
             | Inr _ \<Rightarrow> commit_transaction E C N shown scheds allow_cross_shard write_id (txn, rs))
        | StRollback chain savepoint \<Rightarrow>
            (case reject_chain chain ''ROLLBACK'' of
               Inl e \<Rightarrow> (Inl e, txn, rs)
             | Inr _ \<Rightarrow> (case rollback_transaction savepoint txn of (r, txn') \<Rightarrow> (r, txn', rs)))
        | StSavepoint name \<Rightarrow> (case declare_savepoint name txn of (r, txn') \<Rightarrow> (r, txn', rs))
        | StReleaseSavepoint name \<Rightarrow> (case release_savepoint name txn of (r, txn') \<Rightarrow> (r, txn', rs))
        | _ \<Rightarrow>
            (Inl (make_vdb_error V_InternalError ''unhandled transaction control statement''), txn, rs)))"

section \<open>What a block allows\<close>

definition in_failed_transaction :: error_info where
  "in_failed_transaction =
     make_vdb_error V_InFailedTransaction
       ''current transaction is aborted, commands ignored until end of transaction block''"

definition reads_a_buffered_table :: error_info where
  "reads_a_buffered_table =
     make_vdb_error V_FeatureNotSupported
       (''cannot read a table this transaction block has written to: VaireDB buffers a block''
        @ [squote] @ ''s writes in the coordinator until COMMIT, so the read would silently miss them. ''
        @ ''Read the table before writing it, or after COMMIT'')"

definition read_only_transaction :: "string \<Rightarrow> error_info" where
  "read_only_transaction command =
     make_vdb_error V_ReadOnlyTransaction (''cannot execute '' @ command @ '' in a read-only transaction'')"

definition reject_buffered_reads :: "transaction \<Rightarrow> string list \<Rightarrow> (error_info, unit) result" where
  "reject_buffered_reads txn tables =
     (if list_ex (\<lambda>table. has_buffered_writes_for table txn) tables
      then Inl reads_a_buffered_table else Inr ())"

definition copy_writes_rows :: "statement \<Rightarrow> bool" where
  "copy_writes_rows stmt = (case stmt of StCopy copy \<Rightarrow> \<not> cy_to copy | _ \<Rightarrow> False)"

definition option_list :: "'a option \<Rightarrow> 'a list" where
  "option_list x = (case x of None \<Rightarrow> [] | Some y \<Rightarrow> [y])"

definition copy_source_tables :: "sql_lib \<Rightarrow> statement \<Rightarrow> string list" where
  "copy_source_tables L stmt =
     (case stmt of
        StCopy copy \<Rightarrow>
          if \<not> cy_to copy then []
          else
            (case cy_source copy of
               CopyTable table_name _ \<Rightarrow> option_list (canonical_table_name table_name)
             | CopyQuery query \<Rightarrow> relations_read L query)
      | _ \<Rightarrow> [])"

definition explained_query :: "statement \<Rightarrow> statement option" where
  "explained_query stmt =
     (case stmt of
        StExplain inner \<Rightarrow> (case inner of StQuery _ \<Rightarrow> Some inner | _ \<Rightarrow> None)
      | _ \<Rightarrow> None)"

definition em_dash :: string where
  "em_dash = [CHR 0xE2, CHR 0x80, CHR 0x94]"

definition not_countable :: "string \<Rightarrow> error_info" where
  "not_countable command =
     make_vdb_error V_FeatureNotSupported
       (command @ '' is not supported inside a transaction block: the statement is buffered until ''
        @ ''COMMIT, and how many rows it affects is only known once the shards run it '' @ em_dash
        @ '' so the row count reported now would be a guess, which a client that branches on it ''
        @ ''can act on destructively. Run the '' @ command @ '' outside a transaction block'')"

definition merge_in_block :: error_info where
  "merge_in_block =
     make_vdb_error V_FeatureNotSupported
       (''MERGE is not supported inside a transaction block: it decides row by row whether to ''
        @ ''update, insert or delete, so both the rows it affects and how many there are are only ''
        @ ''known once the shards run it. Run the MERGE outside a transaction block'')"

definition ddl_in_block :: error_info where
  "ddl_in_block =
     make_vdb_error V_FeatureNotSupported
       (''DDL is not supported inside a transaction block: schema changes update the coordinator ''
        @ ''catalog and every shard immediately, so COMMIT could not roll them back. Run the ''
        @ ''statement outside a transaction block'')"

definition view_ddl_in_block :: error_info where
  "view_ddl_in_block =
     make_vdb_error V_FeatureNotSupported
       (''view DDL is not supported inside a transaction block: the definition is written to the ''
        @ ''coordinator catalog immediately, so ROLLBACK could not undo it. Run the statement ''
        @ ''outside a transaction block'')"

definition schema_ddl_in_block :: error_info where
  "schema_ddl_in_block =
     make_vdb_error V_FeatureNotSupported
       (''schema DDL is not supported inside a transaction block: the namespace is written to the ''
        @ ''coordinator catalog immediately, so ROLLBACK could not undo it. Run the statement ''
        @ ''outside a transaction block'')"

definition check_transaction_allows ::
  "sql_lib \<Rightarrow> statement \<Rightarrow> query_type \<Rightarrow> transaction \<Rightarrow> (error_info, unit) result" where
  "check_transaction_allows L stmt query_type txn =
     (if \<not> is_open txn then Inr ()
      else if tx_status txn = Failed then Inl in_failed_transaction
      else
        (case query_type of
           QSelect \<Rightarrow> reject_buffered_reads txn (option_list (extract_select_table_name stmt))
         | QInsert \<Rightarrow>
             if tx_read_only txn then Inl (read_only_transaction ''INSERT'')
             else reject_buffered_reads txn (insert_source_tables L stmt)
         | QUpdate \<Rightarrow>
             Inl (if tx_read_only txn then read_only_transaction ''UPDATE'' else not_countable ''UPDATE'')
         | QDelete \<Rightarrow>
             Inl (if tx_read_only txn then read_only_transaction ''DELETE'' else not_countable ''DELETE'')
         | QMerge \<Rightarrow> Inl (if tx_read_only txn then read_only_transaction ''MERGE'' else merge_in_block)
         | QCopy \<Rightarrow>
             if copy_writes_rows stmt then
               (if tx_read_only txn then Inl (read_only_transaction ''COPY ... FROM'') else Inr ())
             else reject_buffered_reads txn (copy_source_tables L stmt)
         | QCreateTable \<Rightarrow> Inl ddl_in_block
         | QAlterTable \<Rightarrow> Inl ddl_in_block
         | QDropTable \<Rightarrow> Inl ddl_in_block
         | QTruncateTable \<Rightarrow> Inl ddl_in_block
         | QCreateIndex \<Rightarrow> Inl ddl_in_block
         | QDropIndex \<Rightarrow> Inl ddl_in_block
         | QCreateView \<Rightarrow> Inl view_ddl_in_block
         | QAlterView \<Rightarrow> Inl view_ddl_in_block
         | QDropView \<Rightarrow> Inl view_ddl_in_block
         | QCreateSchema \<Rightarrow> Inl schema_ddl_in_block
         | QDropSchema \<Rightarrow> Inl schema_ddl_in_block
         | QAlterSchema \<Rightarrow> Inl schema_ddl_in_block
         | QSessionParam \<Rightarrow> Inr ()
         | QExplain \<Rightarrow>
             reject_buffered_reads txn
               (option_list (Option.bind (explained_query stmt) extract_select_table_name))
         | QTransactionControl \<Rightarrow> Inr ()
         | QOtherType \<Rightarrow> Inr ()))"

section \<open>The invariant of a block\<close>

text \<open>
  An idle connection buffers nothing; the marks of the savepoints are within the buffer and in
  order, so that rolling back only ever shortens it.
\<close>

definition transaction_ok :: "transaction \<Rightarrow> bool" where
  "transaction_ok txn \<longleftrightarrow>
     (tx_status txn = Idle \<longrightarrow> tx_writes txn = [] \<and> tx_savepoints txn = [] \<and> \<not> tx_read_only txn)
   \<and> sorted (map snd (tx_savepoints txn))
   \<and> (\<forall>(n, mark)\<in>set (tx_savepoints txn). mark \<le> length (tx_writes txn))"

lemma sorted_take_marks: "sorted (map snd sps) \<Longrightarrow> sorted (map snd (take n sps))"
  by (simp add: take_map [symmetric] sorted_wrt_take)

lemma transaction_ok_default [wf_intros]: "transaction_ok transaction_default"
  by (simp add: transaction_ok_def transaction_default_def)

lemma transaction_ok_begin [wf_intros]: "transaction_ok (tx_begin ro txn)"
  by (simp add: transaction_ok_def tx_begin_def)

lemma transaction_ok_end [wf_intros]: "transaction_ok (tx_end txn)"
  by (simp add: transaction_ok_def tx_end_def)

lemma transaction_ok_push [wf_intros]:
  "transaction_ok txn \<Longrightarrow> is_open txn \<Longrightarrow> transaction_ok (push_write w txn)"
  by (auto simp: transaction_ok_def push_write_def is_open_def intro: le_SucI)

lemma transaction_ok_mark_failed [wf_intros]: "transaction_ok txn \<Longrightarrow> transaction_ok (mark_failed txn)"
  by (simp add: transaction_ok_def mark_failed_def)

lemma transaction_ok_savepoint [wf_intros]:
  "transaction_ok txn \<Longrightarrow> is_open txn \<Longrightarrow> transaction_ok (tx_savepoint n txn)"
  by (auto simp: transaction_ok_def tx_savepoint_def is_open_def sorted_append)

lemma find_savepoint_Some:
  "find_savepoint n txn = Some pos \<Longrightarrow> pos < length (tx_savepoints txn) \<and> fst (tx_savepoints txn ! pos) = n"
  using rposition_Some_nth by (force simp: find_savepoint_def case_prod_unfold)

lemma transaction_ok_rollback_to [wf_intros]:
  assumes "transaction_ok txn" "rollback_to_savepoint n txn = (found, txn')"
  shows "transaction_ok txn'"
proof (cases "find_savepoint n txn")
  case None
  then show ?thesis using assms by (simp add: rollback_to_savepoint_def)
next
  case (Some pos)
  note pos = find_savepoint_Some [OF Some]
  have sorted: "sorted (map snd (tx_savepoints txn))" using assms(1) by (simp add: transaction_ok_def)
  have below: "snd p \<le> snd (tx_savepoints txn ! pos)" if p: "p \<in> set (take (pos + 1) (tx_savepoints txn))" for p
  proof -
    obtain k where "k < length (take (pos + 1) (tx_savepoints txn))" "take (pos + 1) (tx_savepoints txn) ! k = p"
      using p unfolding in_set_conv_nth by blast
    then have "k \<le> pos" "p = tx_savepoints txn ! k" by simp_all
    then show ?thesis using sorted_nth_mono [OF sorted \<open>k \<le> pos\<close>] pos by simp
  qed
  have mark: "snd (tx_savepoints txn ! pos) \<le> length (tx_writes txn)"
    using assms(1) nth_mem [OF conjunct1 [OF pos]] by (auto simp: transaction_ok_def case_prod_unfold)
  have "txn' = txn\<lparr>tx_savepoints := take (pos + 1) (tx_savepoints txn),
      tx_writes := take (snd (tx_savepoints txn ! pos)) (tx_writes txn), tx_status := Active\<rparr>"
    using assms(2) Some by (simp add: rollback_to_savepoint_def Let_def)
  moreover have "mark \<le> length (take (snd (tx_savepoints txn ! pos)) (tx_writes txn))"
    if "(m, mark) \<in> set (take (pos + 1) (tx_savepoints txn))" for m mark
    using below [OF that] mark by simp
  ultimately show ?thesis
    using sorted_take_marks [OF sorted, of "pos + 1"] by (auto simp: transaction_ok_def)
qed

lemma transaction_ok_release [wf_intros]:
  assumes "transaction_ok txn" "tx_release_savepoint n txn = (found, txn')"
  shows "transaction_ok txn'"
proof (cases "find_savepoint n txn")
  case None
  then show ?thesis using assms by (simp add: tx_release_savepoint_def)
next
  case (Some pos)
  have "\<forall>(m, mark)\<in>set (take pos (tx_savepoints txn)). mark \<le> length (tx_writes txn)"
    using assms(1) set_take_subset [of pos "tx_savepoints txn"] unfolding transaction_ok_def by blast
  moreover have "txn' = txn\<lparr>tx_savepoints := take pos (tx_savepoints txn)\<rparr>"
    using assms(2) Some by (simp add: tx_release_savepoint_def)
  ultimately show ?thesis
    using assms(1) sorted_take_marks [of "tx_savepoints txn" pos] by (simp add: transaction_ok_def)
qed

section \<open>Nested blocks\<close>

text \<open>
  What a block means to a client: the writes since \<open>BEGIN\<close>, cut into the part before the
  first savepoint and one part for each savepoint still established. Rolling back to a
  savepoint forgets its part and the later ones; releasing it keeps the writes and forgets
  only the boundary.
\<close>

record nested =
  nb_base :: "buffered_write list"
  nb_parts :: "(string \<times> buffered_write list) list"

definition nb_writes :: "nested \<Rightarrow> buffered_write list" where
  "nb_writes nb = nb_base nb @ concat (map snd (nb_parts nb))"

definition nb_append :: "buffered_write list \<Rightarrow> nested \<Rightarrow> nested" where
  "nb_append ws nb =
     (case rev (nb_parts nb) of
        [] \<Rightarrow> nb\<lparr>nb_base := nb_base nb @ ws\<rparr>
      | (n, vs) # ps \<Rightarrow> nb\<lparr>nb_parts := rev ps @ [(n, vs @ ws)]\<rparr>)"

definition nb_savepoint :: "string \<Rightarrow> nested \<Rightarrow> nested" where
  "nb_savepoint n nb = nb\<lparr>nb_parts := nb_parts nb @ [(n, [])]\<rparr>"

definition nb_latest :: "string \<Rightarrow> nested \<Rightarrow> nat option" where
  "nb_latest n nb = rposition (\<lambda>m. m = n) (map fst (nb_parts nb))"

definition nb_rollback :: "string \<Rightarrow> nested \<Rightarrow> nested option" where
  "nb_rollback n nb = map_option (\<lambda>pos. nb\<lparr>nb_parts := take pos (nb_parts nb) @ [(n, [])]\<rparr>) (nb_latest n nb)"

definition nb_release :: "string \<Rightarrow> nested \<Rightarrow> nested option" where
  "nb_release n nb =
     map_option (\<lambda>pos. nb_append (concat (map snd (drop pos (nb_parts nb)))) (nb\<lparr>nb_parts := take pos (nb_parts nb)\<rparr>))
       (nb_latest n nb)"

fun marks :: "nat \<Rightarrow> (string \<times> buffered_write list) list \<Rightarrow> (string \<times> nat) list" where
  "marks k [] = []"
| "marks k ((n, ws) # ps) = (n, k) # marks (k + length ws) ps"

definition represents :: "transaction \<Rightarrow> nested \<Rightarrow> bool" where
  "represents txn nb \<longleftrightarrow>
     tx_writes txn = nb_writes nb \<and> tx_savepoints txn = marks (length (nb_base nb)) (nb_parts nb)"

lemma marks_append: "marks k (ps @ qs) = marks k ps @ marks (k + length (concat (map snd ps))) qs"
  by (induction k ps rule: marks.induct) (simp_all add: add.assoc)

lemma length_marks [simp]: "length (marks k ps) = length ps"
  by (induction k ps rule: marks.induct) simp_all

lemma map_fst_marks [simp]: "map fst (marks k ps) = map fst ps"
  by (induction k ps rule: marks.induct) simp_all

lemma take_marks: "take i (marks k ps) = marks k (take i ps)"
  by (induction k ps arbitrary: i rule: marks.induct) (simp_all add: take_Cons' )

lemma nth_marks: "i < length ps \<Longrightarrow> marks k ps ! i = (fst (ps ! i), k + length (concat (map snd (take i ps))))"
proof (induction k ps arbitrary: i rule: marks.induct)
  case (2 k n ws ps)
  then show ?case by (cases i) simp_all
qed simp

lemma rposition_fst: "rposition (\<lambda>(n, _). n = m) xs = rposition (\<lambda>n. n = m) (map fst xs)"
  by (induction xs) auto

lemma find_savepoint_latest: "represents txn nb \<Longrightarrow> find_savepoint n txn = nb_latest n nb"
  by (simp add: represents_def find_savepoint_def nb_latest_def rposition_fst)

lemma nb_latest_Some:
  assumes "nb_latest n nb = Some pos"
  shows "pos < length (nb_parts nb)" "fst (nb_parts nb ! pos) = n"
  using rposition_Some_nth [OF assms [unfolded nb_latest_def]] by auto

lemma writes_append: "nb_writes (nb_append ws nb) = nb_writes nb @ ws"
proof (cases "nb_parts nb" rule: rev_cases)
  case (snoc ps p)
  then show ?thesis by (cases p) (simp add: nb_append_def nb_writes_def)
qed (simp add: nb_append_def nb_writes_def)

lemma marks_of_append:
  "marks (length (nb_base (nb_append ws nb))) (nb_parts (nb_append ws nb)) = marks (length (nb_base nb)) (nb_parts nb)"
proof (cases "nb_parts nb" rule: rev_cases)
  case (snoc ps p)
  then show ?thesis by (cases p) (simp add: nb_append_def marks_append)
qed (simp add: nb_append_def)

lemma represents_append:
  assumes "represents txn nb" "tx_writes txn' = tx_writes txn @ ws" "tx_savepoints txn' = tx_savepoints txn"
  shows "represents txn' (nb_append ws nb)"
  using assms by (simp add: represents_def writes_append marks_of_append)

lemma represents_savepoint: "represents txn nb \<Longrightarrow> represents (tx_savepoint n txn) (nb_savepoint n nb)"
  by (simp add: represents_def tx_savepoint_def nb_savepoint_def nb_writes_def marks_append)

lemma take_writes_at:
  assumes "represents txn nb" "pos < length (nb_parts nb)"
  shows "take (snd (tx_savepoints txn ! pos)) (tx_writes txn) = nb_base nb @ concat (map snd (take pos (nb_parts nb)))"
proof -
  have "nb_parts nb = take pos (nb_parts nb) @ drop pos (nb_parts nb)" by simp
  then have "tx_writes txn = nb_base nb @ concat (map snd (take pos (nb_parts nb))) @ concat (map snd (drop pos (nb_parts nb)))"
    using assms(1) by (metis represents_def nb_writes_def concat_append map_append)
  moreover have "snd (tx_savepoints txn ! pos) = length (nb_base nb) + length (concat (map snd (take pos (nb_parts nb))))"
    using assms by (simp add: represents_def nth_marks)
  ultimately show ?thesis by simp
qed

lemma rollback_represents:
  assumes "represents txn nb"
  shows "(case nb_rollback n nb of
            Some nb' \<Rightarrow> fst (rollback_to_savepoint n txn) \<and> represents (snd (rollback_to_savepoint n txn)) nb'
                        \<and> tx_status (snd (rollback_to_savepoint n txn)) = Active
          | None \<Rightarrow> rollback_to_savepoint n txn = (False, txn))"
proof (cases "nb_latest n nb")
  case None
  then show ?thesis
    using find_savepoint_latest [OF assms, of n] by (simp add: nb_rollback_def rollback_to_savepoint_def)
next
  case (Some pos)
  note pos = nb_latest_Some [OF Some]
  have "marks (length (nb_base nb)) (take (Suc pos) (nb_parts nb))
      = marks (length (nb_base nb)) (take pos (nb_parts nb) @ [(n, [])])"
    using pos by (cases "nb_parts nb ! pos") (simp add: take_Suc_conv_app_nth marks_append)
  then show ?thesis
    using find_savepoint_latest [OF assms, of n] Some take_writes_at [OF assms pos(1)] assms
    by (simp add: nb_rollback_def rollback_to_savepoint_def represents_def Let_def take_marks nb_writes_def)
qed

lemma release_represents:
  assumes "represents txn nb"
  shows "(case nb_release n nb of
            Some nb' \<Rightarrow> fst (tx_release_savepoint n txn) \<and> represents (snd (tx_release_savepoint n txn)) nb'
          | None \<Rightarrow> tx_release_savepoint n txn = (False, txn))"
proof (cases "nb_latest n nb")
  case None
  then show ?thesis
    using find_savepoint_latest [OF assms, of n] by (simp add: nb_release_def tx_release_savepoint_def)
next
  case (Some pos)
  have "nb_writes (nb\<lparr>nb_parts := take pos (nb_parts nb)\<rparr>) @ concat (map snd (drop pos (nb_parts nb))) = nb_writes nb"
    by (simp add: nb_writes_def flip: concat_append map_append)
  then show ?thesis
    using find_savepoint_latest [OF assms, of n] Some assms
    by (simp add: nb_release_def tx_release_savepoint_def represents_def take_marks writes_append marks_of_append)
qed

section \<open>Grouping\<close>

abbreviation key_of :: "buffered_write \<Rightarrow> string" where
  "key_of w \<equiv> node_set_key (bw_shard w)"

definition groups_of :: "node_set_group list \<Rightarrow> buffered_write list \<Rightarrow> bool" where
  "groups_of groups ws \<longleftrightarrow>
     distinct (map ng_key groups) \<and> set (map ng_key groups) = set (map key_of ws)
   \<and> (\<forall>g\<in>set groups.
        ng_statements g = map bw_statement (filter (\<lambda>w. key_of w = ng_key g) ws)
      \<and> node_set_key (ng_shard g) = ng_key g
      \<and> ng_shard g \<in> bw_shard ` set ws
      \<and> (\<forall>w\<in>set ws. key_of w = ng_key g \<longrightarrow> bw_quorum_size w \<le> ng_quorum_size g)
      \<and> (\<exists>w\<in>set ws. key_of w = ng_key g \<and> bw_quorum_size w = ng_quorum_size g))"

lemma add_to_group_keys:
  "map ng_key (add_to_group w groups) =
     (if key_of w \<in> set (map ng_key groups) then map ng_key groups else map ng_key groups @ [key_of w])"
  by (induction groups) auto

definition joined :: "buffered_write \<Rightarrow> node_set_group \<Rightarrow> node_set_group" where
  "joined w g = g\<lparr>ng_quorum_size := max (ng_quorum_size g) (bw_quorum_size w),
                  ng_statements := ng_statements g @ [bw_statement w]\<rparr>"

definition singleton_group :: "buffered_write \<Rightarrow> node_set_group" where
  "singleton_group w = \<lparr>ng_key = key_of w, ng_shard = bw_shard w,
     ng_quorum_size = bw_quorum_size w, ng_statements = [bw_statement w]\<rparr>"

lemma set_add_to_group:
  assumes "distinct (map ng_key groups)" "g \<in> set (add_to_group w groups)"
  shows "(g \<in> set groups \<and> ng_key g \<noteq> key_of w)
       \<or> (\<exists>g0\<in>set groups. ng_key g0 = key_of w \<and> g = joined w g0)
       \<or> (key_of w \<notin> set (map ng_key groups) \<and> g = singleton_group w)"
  using assms
proof (induction groups)
  case Nil
  then show ?case by (simp add: singleton_group_def)
next
  case (Cons h groups)
  show ?case
  proof (cases "ng_key h = key_of w")
    case True
    then have "g = joined w h \<or> g \<in> set groups" using Cons.prems(2) by (auto simp: joined_def)
    moreover have "ng_key g \<noteq> key_of w" if "g \<in> set groups" using Cons.prems(1) True that by force
    ultimately show ?thesis using True by auto
  next
    case False
    then have "g = h \<or> g \<in> set (add_to_group w groups)" using Cons.prems(2) by auto
    then show ?thesis using Cons.IH Cons.prems(1) False by auto
  qed
qed

lemma groups_of_add:
  assumes "groups_of groups ws"
  shows "groups_of (add_to_group w groups) (ws @ [w])"
proof -
  have d: "distinct (map ng_key groups)" and keys: "set (map ng_key groups) = set (map key_of ws)"
    using assms unfolding groups_of_def by blast+
  have old: "ng_statements g = map bw_statement (filter (\<lambda>w. key_of w = ng_key g) ws)
      \<and> node_set_key (ng_shard g) = ng_key g \<and> ng_shard g \<in> bw_shard ` set ws
      \<and> (\<forall>w\<in>set ws. key_of w = ng_key g \<longrightarrow> bw_quorum_size w \<le> ng_quorum_size g)
      \<and> (\<exists>w\<in>set ws. key_of w = ng_key g \<and> bw_quorum_size w = ng_quorum_size g)" if "g \<in> set groups" for g
    using assms that unfolding groups_of_def by blast
  have "ng_statements g = map bw_statement (filter (\<lambda>v. key_of v = ng_key g) (ws @ [w]))
      \<and> node_set_key (ng_shard g) = ng_key g \<and> ng_shard g \<in> bw_shard ` set (ws @ [w])
      \<and> (\<forall>v\<in>set (ws @ [w]). key_of v = ng_key g \<longrightarrow> bw_quorum_size v \<le> ng_quorum_size g)
      \<and> (\<exists>v\<in>set (ws @ [w]). key_of v = ng_key g \<and> bw_quorum_size v = ng_quorum_size g)"
    if g: "g \<in> set (add_to_group w groups)" for g
    using set_add_to_group [OF d g]
  proof (elim disjE conjE bexE)
    assume "g \<in> set groups" "ng_key g \<noteq> key_of w"
    then show ?thesis using old [of g] by auto
  next
    fix g0 assume g0: "g0 \<in> set groups" "ng_key g0 = key_of w" "g = joined w g0"
    then show ?thesis using old [OF g0(1)] by (auto simp: joined_def max_def)
  next
    assume new: "key_of w \<notin> set (map ng_key groups)" "g = singleton_group w"
    then have "\<forall>v\<in>set ws. key_of v \<noteq> key_of w" using keys by (metis image_eqI list.set_map)
    then show ?thesis using new(2) by (simp add: singleton_group_def)
  qed
  moreover have "distinct (map ng_key (add_to_group w groups))"
    using d by (simp add: add_to_group_keys)
  moreover have "set (map ng_key (add_to_group w groups)) = set (map key_of (ws @ [w]))"
    using keys by (auto simp: add_to_group_keys simp del: set_map)
  ultimately show ?thesis unfolding groups_of_def by blast
qed

lemma groups_of_fold: "groups_of groups vs \<Longrightarrow> groups_of (fold add_to_group ws groups) (vs @ ws)"
proof (induction ws arbitrary: groups vs)
  case (Cons w ws)
  then show ?case using Cons.IH [OF groups_of_add [OF Cons.prems, of w]] by simp
qed simp

lemma groups_of_group_by: "groups_of (group_by_node_set ws) ws"
  using groups_of_fold [of "[]" "[]" ws] by (simp add: group_by_node_set_def groups_of_def)

lemma one_key_fold:
  assumes "\<forall>w\<in>set ws. key_of w = ng_key g"
  shows "fold add_to_group ws [g] =
    [g\<lparr>ng_quorum_size := fold (\<lambda>w q. max q (bw_quorum_size w)) ws (ng_quorum_size g),
       ng_statements := ng_statements g @ map bw_statement ws\<rparr>]"
  using assms by (induction ws arbitrary: g) simp_all

lemma one_key_group:
  assumes "ws \<noteq> []" "\<forall>w\<in>set ws. key_of w = key_of (hd ws)"
  shows "group_by_node_set ws =
    [\<lparr>ng_key = key_of (hd ws), ng_shard = bw_shard (hd ws),
      ng_quorum_size = fold (\<lambda>w q. max q (bw_quorum_size w)) (tl ws) (bw_quorum_size (hd ws)),
      ng_statements = map bw_statement ws\<rparr>]"
proof -
  obtain w vs where ws: "ws = w # vs" using assms(1) by (metis list.exhaust)
  have "ng_key (singleton_group w) = key_of w" by (simp add: singleton_group_def)
  then have "\<forall>v\<in>set vs. key_of v = ng_key (singleton_group w)"
    using assms(2) unfolding ws by (metis list.sel(1) list.set_intros(2))
  from one_key_fold [OF this] show ?thesis
    by (simp add: ws group_by_node_set_def singleton_group_def)
qed

lemma fold_max_quorum:
  "fold (\<lambda>w q. max q (bw_quorum_size w)) ws q = Max (insert q (bw_quorum_size ` set ws))"
proof (induction ws arbitrary: q)
  case (Cons w ws)
  have "Max (insert (max q (bw_quorum_size w)) S) = Max (insert q (insert (bw_quorum_size w) S))"
    if "finite S" for S using that by (cases "S = {}") (simp_all add: max.assoc)
  then show ?case using Cons by simp
qed simp

lemma show_nat_0: "show_nat 0 = ''0''"
  by code_simp

lemma several_keys_groups:
  assumes "w \<in> set ws" "key_of w \<noteq> key_of (hd ws)"
  shows "1 < length (group_by_node_set ws)"
proof -
  let ?ks = "map ng_key (group_by_node_set ws)"
  have "hd ws \<in> set ws" using assms(1) by (cases ws) simp_all
  then have two: "key_of w \<in> set ?ks" "key_of (hd ws) \<in> set ?ks"
    using assms(1) groups_of_group_by [of ws] unfolding groups_of_def by (metis image_eqI list.set_map)+
  have "length ?ks \<noteq> 0" using two by force
  moreover have "length ?ks \<noteq> 1"
  proof
    assume "length ?ks = 1"
    then obtain k where "?ks = [k]" by (cases ?ks) simp_all
    then show False using two assms(2) by simp
  qed
  ultimately show ?thesis by (metis length_map less_one linorder_neqE_nat)
qed

section \<open>Properties\<close>

text \<open>C35. A transaction block behaves as nested blocks do: with a buffer and a list of marks
  standing for the writes cut at the established savepoints, buffering a write, declaring a
  savepoint, rolling back to one and releasing one each act as they do on the nested block,
  an unknown savepoint changes nothing, and COMMIT takes exactly the writes of the nested block.\<close>

theorem block_refines_nested_blocks:
  assumes "represents txn nb"
  shows "represents (tx_begin ro txn) \<lparr>nb_base = [], nb_parts = []\<rparr>
       \<and> represents (push_write w txn) (nb_append [w] nb)
       \<and> represents (tx_savepoint n txn) (nb_savepoint n nb)
       \<and> (case nb_rollback n nb of
            Some nb' \<Rightarrow> fst (rollback_to_savepoint n txn) \<and> represents (snd (rollback_to_savepoint n txn)) nb'
                        \<and> tx_status (snd (rollback_to_savepoint n txn)) = Active
          | None \<Rightarrow> rollback_to_savepoint n txn = (False, txn))
       \<and> (case nb_release n nb of
            Some nb' \<Rightarrow> fst (tx_release_savepoint n txn) \<and> represents (snd (tx_release_savepoint n txn)) nb'
          | None \<Rightarrow> tx_release_savepoint n txn = (False, txn))
       \<and> fst (take_writes txn) = nb_writes nb"
proof (intro conjI)
  show "represents (tx_begin ro txn) \<lparr>nb_base = [], nb_parts = []\<rparr>"
    by (simp add: represents_def tx_begin_def nb_writes_def)
  show "represents (push_write w txn) (nb_append [w] nb)"
    by (rule represents_append [OF assms]) (simp_all add: push_write_def)
  show "fst (take_writes txn) = nb_writes nb"
    using assms by (simp add: take_writes_def represents_def)
qed (rule represents_savepoint [OF assms] rollback_represents [OF assms] release_represents [OF assms])+

definition demo_buffered :: "string \<Rightarrow> nat \<Rightarrow> string \<Rightarrow> buffered_write" where
  "demo_buffered primary bucket sql =
     \<lparr>bw_shard = \<lparr>sh_shard_id = ''s'', sh_table_name = ''t'', sh_primary_node_id = primary,
        sh_replica_node_ids = [], sh_hash_bucket = bucket, sh_range_lower = [], sh_range_upper = []\<rparr>,
      bw_statement = \<lparr>bs_sql = sql, bs_params = [], bs_shard_id = ''s'', bs_bulk = None\<rparr>,
      bw_quorum_size = 1, bw_table_name = ''t''\<rparr>"

theorem block_refines_nested_blocks_witness:
  "represents (push_write (demo_buffered ''n1'' 0 ''i1'') (tx_begin False transaction_default))
      \<lparr>nb_base = [demo_buffered ''n1'' 0 ''i1''], nb_parts = []\<rparr>
   \<and> represents (tx_savepoint ''a'' (push_write (demo_buffered ''n1'' 0 ''i1'') (tx_begin False transaction_default)))
      (nb_savepoint ''a'' \<lparr>nb_base = [demo_buffered ''n1'' 0 ''i1''], nb_parts = []\<rparr>)"
proof -
  have r: "represents (push_write (demo_buffered ''n1'' 0 ''i1'') (tx_begin False transaction_default))
      \<lparr>nb_base = [demo_buffered ''n1'' 0 ''i1''], nb_parts = []\<rparr>"
    by (simp add: represents_def push_write_def tx_begin_def nb_writes_def)
  show ?thesis using r block_refines_nested_blocks [OF r, where n = "''a''"] by blast
qed



definition note_failure_in_transaction :: "bool \<Rightarrow> transaction \<Rightarrow> transaction" where
  "note_failure_in_transaction is_err txn = (if is_err then mark_failed txn else txn)"

lemma rposition_last: "P x \<Longrightarrow> rposition P (xs @ [x]) = Some (length xs)"
  by (induction xs) simp_all

text \<open>C37. A failed block can be brought back with everything it had buffered: SAVEPOINT is
  accepted in it, and ROLLBACK TO that savepoint makes the block active again without
  discarding one write, so that COMMIT then ships what PostgreSQL would have thrown away.
  Every other statement of a failed block is refused.\<close>

theorem failed_block_revived_by_new_savepoint:
  assumes "tx_status txn = Failed"
  shows "fst (declare_savepoint s txn) = Inr (Execution ''SAVEPOINT'' 0)
       \<and> rollback_transaction (Some s) (snd (declare_savepoint s txn))
           = (Inr (Execution ''ROLLBACK'' 0), (snd (declare_savepoint s txn))\<lparr>tx_status := Active\<rparr>)
       \<and> tx_writes (snd (declare_savepoint s txn)) = tx_writes txn
       \<and> check_transaction_allows L stmt q txn = Inl in_failed_transaction"
proof -
  let ?txn = "snd (declare_savepoint s txn)"
  have sp: "?txn = txn\<lparr>tx_savepoints := tx_savepoints txn @ [(canonicalize_ident s, length (tx_writes txn))]\<rparr>"
    using assms by (simp add: declare_savepoint_def tx_savepoint_def is_open_def)
  have "find_savepoint (canonicalize_ident s) ?txn = Some (length (tx_savepoints txn))"
    by (simp add: find_savepoint_def sp rposition_last)
  then show ?thesis using assms
    by (simp add: tx_savepoint_def rollback_transaction_def rollback_to_savepoint_def is_open_def declare_savepoint_def
        check_transaction_allows_def Let_def)
qed

definition demo_failed :: transaction where
  "demo_failed = mark_failed (push_write (demo_buffered ''n1'' 0 ''i1'') (tx_begin False transaction_default))"

theorem failed_block_revived_by_new_savepoint_witness:
  "tx_status demo_failed = Failed
   \<and> (\<forall>E C N rs. commit_transaction E C N (\<lambda>_. []) (\<lambda>_. []) True ''w'' (demo_failed, rs)
        = (Inr (TransactionEnd ''ROLLBACK''), transaction_default, rs))
   \<and> (\<exists>txn. snd (rollback_transaction (Some \<lparr>id_value = ''s'', id_quote_style = None\<rparr>)
               (snd (declare_savepoint \<lparr>id_value = ''s'', id_quote_style = None\<rparr> demo_failed))) = txn
        \<and> tx_status txn = Active \<and> map bw_statement (tx_writes txn) = [bw_statement (demo_buffered ''n1'' 0 ''i1'')])"
proof -
  have f: "tx_status demo_failed = Failed" "tx_writes demo_failed = [demo_buffered ''n1'' 0 ''i1'']"
      "tx_end demo_failed = transaction_default"
    by (simp_all add: demo_failed_def mark_failed_def push_write_def tx_begin_def tx_end_def transaction_default_def)
  show ?thesis
    using failed_block_revived_by_new_savepoint [OF f(1), of "\<lparr>id_value = ''s'', id_quote_style = None\<rparr>"] f
    by (simp add: commit_transaction_def)
qed

end
