(* ===== verification/Dml.thy ===== *)
theory Dml
  imports Write_Rows Anonymization Session Catalog_Properties
begin

text \<open>
  INSERT, UPDATE and DELETE, \<open>crates/vairedb-coordinator/src/pgwire_handler/dml.rs\<close>: resolving a
  statement into the shard-local writes that apply it, shipping those writes under quorum or
  buffering them in the open block, the writes that go to the catalog instead, and rows that
  come from a query. The libraries a plan depends on are gathered in \<open>write_libs\<close>. The read
  path is outside: the result of a source query is the argument \<open>collected\<close>. The id of each
  plan is its fresh UUID, an argument too, as is the schedule of each fan-out.
\<close>

record write_libs =
  wl_sql :: sql_lib
  wl_xxh3 :: key_hash
  wl_dialect :: "statement \<Rightarrow> statement"
  wl_mac :: mac

section \<open>The secret table\<close>

definition SECRET_TABLE_SCHEMA :: string where
  "SECRET_TABLE_SCHEMA = ''vairedb_catalog''"

definition SECRET_TABLE_NAME :: string where
  "SECRET_TABLE_NAME = ''anonymization_secret''"

definition eq_ignore_ascii_case :: "string \<Rightarrow> string \<Rightarrow> bool" where
  "eq_ignore_ascii_case s t = (to_ascii_lowercase s = to_ascii_lowercase t)"

definition is_secret_table_name :: "object_name \<Rightarrow> bool" where
  "is_secret_table_name name =
     (case rev (map id_value (List.map_filter as_ident name)) of
        table # schema # _ \<Rightarrow>
          eq_ignore_ascii_case schema SECRET_TABLE_SCHEMA \<and> eq_ignore_ascii_case table SECRET_TABLE_NAME
      | _ \<Rightarrow> False)"

definition factor_name :: "table_factor \<Rightarrow> object_name option" where
  "factor_name f = (case f of FTable name _ _ \<Rightarrow> Some name | _ \<Rightarrow> None)"

definition targets_secret_table :: "statement \<Rightarrow> bool" where
  "targets_secret_table stmt =
     (case
        (case stmt of
           StInsert ins \<Rightarrow> (case is_table ins of TableName name \<Rightarrow> Some name | _ \<Rightarrow> None)
         | StUpdate update \<Rightarrow> factor_name (us_table update)
         | StDelete delete \<Rightarrow> Option.bind (first_of (ds_tables delete)) factor_name
         | _ \<Rightarrow> None)
      of Some name \<Rightarrow> is_secret_table_name name | None \<Rightarrow> False)"

definition catalog_resolver :: "('t, 'b) env \<Rightarrow> 't catalog \<Rightarrow> resolver" where
  "catalog_resolver E C secret_id =
     (case get_anonymization_secret E C secret_id of
        Inr (Some s) \<Rightarrow> Some \<lparr>se_algo = as_algo s, se_secret_key = as_secret_key s\<rparr>
      | _ \<Rightarrow> None)"

definition column_index :: "string list \<Rightarrow> string \<Rightarrow> (error_info, nat) result" where
  "column_index columns name =
     ok_or
       (make_vdb_error V_SqlSyntaxError
          (''INSERT INTO vairedb_catalog.anonymization_secret must include column '' @ dq name))
       (position (\<lambda>c. c = name) columns)"

definition string_literal_at :: "expr list \<Rightarrow> nat \<Rightarrow> string \<Rightarrow> (error_info, string) result" where
  "string_literal_at row idx col =
     (if idx < length row then
        (case row ! idx of
           EValue v \<Rightarrow>
             (case v of
                VSingleQuoted s \<Rightarrow> Inr s
              | VDoubleQuoted s \<Rightarrow> Inr s
              | _ \<Rightarrow> Inl (make_vdb_error V_TypeMismatch (''column '' @ dq col @ '' must be a string literal'')))
         | _ \<Rightarrow> Inl (make_vdb_error V_SqlSyntaxError (''missing value for column '' @ dq col)))
      else Inl (make_vdb_error V_SqlSyntaxError (''missing value for column '' @ dq col)))"

definition parse_secret_row :: "nat \<Rightarrow> nat \<Rightarrow> nat \<Rightarrow> expr list \<Rightarrow> (error_info, anonymization_secret) result" where
  "parse_secret_row id_idx algo_idx secret_idx row =
     r_bind (string_literal_at row id_idx ''id'') (\<lambda>i.
     r_bind (string_literal_at row algo_idx ''algo'') (\<lambda>algo.
     r_bind (string_literal_at row secret_idx ''secret_key'') (\<lambda>secret_key.
       if algo \<noteq> HMAC_SHA256_ALGO then
         Inl (make_vdb_error V_FeatureNotSupported
           (''unsupported anonymization algorithm '' @ [squote] @ algo @ [squote] @ ''; only ''
            @ HMAC_SHA256_ALGO @ '' is supported''))
       else Inr \<lparr>as_id = i, as_algo = algo, as_secret_key = secret_key\<rparr>)))"

definition parse_anonymization_secret_insert :: "statement \<Rightarrow> (error_info, anonymization_secret list) result" where
  "parse_anonymization_secret_insert stmt =
     (case stmt of
        StInsert ins \<Rightarrow>
          (let columns = map (\<lambda>c. case insert_column_ident c of Some i \<Rightarrow> id_value i | None \<Rightarrow> []) (is_columns ins) in
           r_bind (column_index columns ''id'') (\<lambda>id_idx.
           r_bind (column_index columns ''algo'') (\<lambda>algo_idx.
           r_bind (column_index columns ''secret_key'') (\<lambda>secret_idx.
             case is_source ins of
               None \<Rightarrow>
                 Inl (make_vdb_error V_SqlSyntaxError
                   ''INSERT INTO vairedb_catalog.anonymization_secret must specify VALUES'')
             | Some source \<Rightarrow>
                 (case qu_body source of
                    SValues rows \<Rightarrow> collect_results (parse_secret_row id_idx algo_idx secret_idx) rows
                  | _ \<Rightarrow>
                      Inl (make_vdb_error V_FeatureNotSupported
                        ''only INSERT ... VALUES is supported for vairedb_catalog.anonymization_secret''))))))
      | _ \<Rightarrow>
          Inl (make_vdb_error V_SqlSyntaxError ''expected INSERT INTO vairedb_catalog.anonymization_secret''))"

definition handle_anonymization_secret_insert ::
  "('t, 'b) env \<Rightarrow> statement \<Rightarrow> query_type \<Rightarrow> 't catalog \<Rightarrow> (error_info, response) result \<times> 't catalog" where
  "handle_anonymization_secret_insert E stmt query_type C =
     (if query_type \<noteq> QInsert then
        (Inl (make_vdb_error V_FeatureNotSupported
           ''only INSERT is supported on vairedb_catalog.anonymization_secret''), C)
      else
        (case parse_anonymization_secret_insert stmt of
           Inl e \<Rightarrow> (Inl e, C)
         | Inr secrets \<Rightarrow>
             (Inr (Execution ''INSERT'' (length secrets)), fold (put_anonymization_secret E) secrets C)))"

section \<open>Plans\<close>

record planned_write =
  pw_shard :: shard_meta
  pw_statement :: batch_statement
  pw_quorum_size :: nat

record dml_plan =
  dp_writes :: "planned_write list"
  dp_table_name :: string
  dp_static_row_count :: "nat option"
  dp_ctx :: error_context

definition plan_write ::
  "write_libs \<Rightarrow> ('t, 'b) env \<Rightarrow> 't catalog \<Rightarrow> statement \<Rightarrow> scalar list \<Rightarrow> nat \<Rightarrow> error_context \<Rightarrow> shard_meta
     \<Rightarrow> (error_info, planned_write) result" where
  "plan_write W E C stmt params quorum_size ctx shard =
     r_bind (enrich E C ctx (generate_shard_local_sql (wl_sql W) (wl_dialect W) stmt shard params))
       (\<lambda>(shard_sql, shard_params).
          Inr \<lparr>pw_shard = shard,
               pw_statement = \<lparr>bs_sql = shard_sql, bs_params = shard_params,
                 bs_shard_id = shard_table_name (sh_table_name shard) (sh_hash_bucket shard), bs_bulk = None\<rparr>,
               pw_quorum_size = quorum_size\<rparr>)"

definition plan_writes_on_each_shard ::
  "write_libs \<Rightarrow> ('t, 'b) env \<Rightarrow> 't catalog \<Rightarrow> shard_meta list \<Rightarrow> statement \<Rightarrow> scalar list \<Rightarrow> nat \<Rightarrow> error_context
     \<Rightarrow> (error_info, planned_write list) result" where
  "plan_writes_on_each_shard W E C shards stmt params quorum_size ctx =
     collect_results (plan_write W E C stmt params quorum_size ctx) shards"

text \<open>The rows of each bucket, a map ordered by bucket.\<close>

fun push_bucket_row :: "nat \<Rightarrow> nat \<Rightarrow> (nat \<times> nat list) list \<Rightarrow> (nat \<times> nat list) list" where
  "push_bucket_row bucket row_idx [] = [(bucket, [row_idx])]"
| "push_bucket_row bucket row_idx ((b, rows) # shard_rows) =
     (if bucket = b then (b, rows @ [row_idx]) # shard_rows
      else if bucket < b then (bucket, [row_idx]) # (b, rows) # shard_rows
      else (b, rows) # push_bucket_row bucket row_idx shard_rows)"

definition bucket_rows :: "key_hash \<Rightarrow> nat \<Rightarrow> (nat \<times> string) list \<Rightarrow> (nat \<times> nat list) list" where
  "bucket_rows xxh3 shard_count keys =
     fold (\<lambda>(row_idx, key_value). push_bucket_row (compute_shard_index xxh3 key_value shard_count) row_idx) keys []"

definition plan_insert_with_split ::
  "write_libs \<Rightarrow> ('t, 'b) env \<Rightarrow> 't catalog \<Rightarrow> statement \<Rightarrow> table_meta \<Rightarrow> nat \<Rightarrow> scalar list \<Rightarrow> error_context
     \<Rightarrow> (error_info, planned_write list) result" where
  "plan_insert_with_split W E C stmt table_meta quorum_size params insert_ctx =
     r_bind (require_shards E C table_meta insert_ctx) (\<lambda>all_shards.
       case extract_insert_row_shard_keys (wl_sql W) stmt (tm_shard_key table_meta) params of
         Some (k1 # k2 # keys) \<Rightarrow>
           collect_results
             (\<lambda>(bucket, row_indices).
                r_bind (enrich E C insert_ctx (shard_for_bucket all_shards bucket (tm_table_name table_meta))) (\<lambda>shard.
                r_bind (ok_or (enrich_generic_error ''failed to split INSERT by shard'' insert_ctx)
                          (split_insert_by_rows stmt row_indices)) (\<lambda>split_stmt.
                  plan_write W E C split_stmt params quorum_size insert_ctx shard)))
             (bucket_rows (wl_xxh3 W) (length all_shards) (k1 # k2 # keys))
       | _ \<Rightarrow>
           r_bind (enrich E C insert_ctx (resolve_target_shards (wl_sql W) (wl_xxh3 W) E C stmt table_meta params))
             (\<lambda>target_shards. plan_writes_on_each_shard W E C target_shards stmt params quorum_size insert_ctx))"

definition with_code :: "vdb_error_code \<Rightarrow> (string, 'a) result \<Rightarrow> (error_info, 'a) result" where
  "with_code code r = (case r of Inl msg \<Rightarrow> Inl (make_vdb_error code msg) | Inr x \<Rightarrow> Inr x)"

definition check_shard_key ::
  "sql_lib \<Rightarrow> statement \<Rightarrow> query_type \<Rightarrow> string \<Rightarrow> scalar list \<Rightarrow> (error_info, unit) result" where
  "check_shard_key L stmt query_type shard_key params =
     (case query_type of
        QInsert \<Rightarrow>
          r_bind (with_code V_FeatureNotSupported (validate_insert_shard_key L stmt shard_key params)) (\<lambda>_.
            with_code V_FeatureNotSupported (validate_on_conflict L stmt shard_key))
      | QUpdate \<Rightarrow>
          if update_targets_shard_key stmt shard_key then
            Inl (make_vdb_error V_FeatureNotSupported
              (''cannot UPDATE shard key column '' @ dq shard_key
               @ ''; relocating a row to a different shard is not supported in v0.1''))
          else Inr ()
      | _ \<Rightarrow> Inr ())"

definition no_target_table :: error_info where
  "no_target_table = make_vdb_error V_SqlSyntaxError ''could not determine target table''"

definition plan_dml ::
  "write_libs \<Rightarrow> ('t, 'b) env \<Rightarrow> 't catalog \<Rightarrow> query_type \<Rightarrow> scalar list \<Rightarrow> statement \<Rightarrow> (error_info, dml_plan) result" where
  "plan_dml W E C query_type params stmt =
     r_bind (ok_or no_target_table (extract_table_name stmt)) (\<lambda>table_name.
       (let ctx = for_table table_name in
        r_bind (require_table E C table_name ctx) (\<lambda>table_meta.
        r_bind
          (if insert_omits_column_list stmt then
             with_code V_SqlSyntaxError (materialize_insert_columns stmt (map col_name (tm_columns table_meta)))
           else Inr stmt) (\<lambda>stmt.
        r_bind
          (if tm_anonymized_columns table_meta = [] then Inr stmt
           else
             with_code V_FeatureNotSupported
               (anonymize_statement (wl_sql W) (wl_mac W) (catalog_resolver E C) (tm_anonymized_columns table_meta) stmt))
          (\<lambda>stmt.
        r_bind (check_shard_key (wl_sql W) stmt query_type (tm_shard_key table_meta) params) (\<lambda>_.
          (let quorum_size = compute_quorum_size (tm_replication_factor table_meta);
               ctx = with_replication ctx (tm_replication_factor table_meta)
           in r_bind
                (if query_type = QInsert then
                   plan_insert_with_split W E C stmt table_meta quorum_size params ctx
                 else
                   r_bind (enrich E C ctx (resolve_target_shards (wl_sql W) (wl_xxh3 W) E C stmt table_meta params))
                     (\<lambda>target_shards. plan_writes_on_each_shard W E C target_shards stmt params quorum_size ctx))
                (\<lambda>writes.
                  Inr \<lparr>dp_writes = writes, dp_table_name = table_name,
                       dp_static_row_count = insert_values_row_count stmt, dp_ctx = ctx\<rparr>))))))))"

section \<open>Shipping and buffering\<close>

fun execute_writes ::
  "('t, 'b) env \<Rightarrow> 't catalog \<Rightarrow> 'w network \<Rightarrow> (nat \<Rightarrow> (nat \<times> bool) list) \<Rightarrow> string \<Rightarrow> error_context \<Rightarrow> nat \<Rightarrow> nat
     \<Rightarrow> planned_write list \<Rightarrow> retry_queues \<times> 'w comms \<Rightarrow> (error_info, nat) result \<times> retry_queues \<times> 'w comms" where
  "execute_writes E C N scheds write_id ctx idx total_rows [] rs = (Inr total_rows, rs)"
| "execute_writes E C N scheds write_id ctx idx total_rows (write # writes) rs =
     (case execute_statement_with_quorum E C N (scheds idx) (pw_shard write) (pw_statement write)
             (write_id @ ''-'' @ show_nat idx) (pw_quorum_size write) rs of
        (Inl e, rs') \<Rightarrow> (Inl (enrich_coordinator_error E C e ctx), rs')
      | (Inr rows, rs') \<Rightarrow> execute_writes E C N scheds write_id ctx (Suc idx) (total_rows + rows) writes rs')"

definition execute_plan ::
  "('t, 'b) env \<Rightarrow> 't catalog \<Rightarrow> 'w network \<Rightarrow> (nat \<Rightarrow> (nat \<times> bool) list) \<Rightarrow> string \<Rightarrow> dml_plan
     \<Rightarrow> retry_queues \<times> 'w comms \<Rightarrow> (error_info, nat) result \<times> retry_queues \<times> 'w comms" where
  "execute_plan E C N scheds write_id plan rs =
     execute_writes E C N scheds write_id (dp_ctx plan) 0 0 (dp_writes plan) rs"

definition uncounted :: error_info where
  "uncounted =
     make_vdb_error V_FeatureNotSupported
       (''this statement cannot be run inside a transaction block: VaireDB buffers a block'' @ [squote]
        @ ''s writes until COMMIT, and the rows this one affects are only known once the shards run it. ''
        @ ''Only an INSERT ... VALUES (without ON CONFLICT or RETURNING) can be buffered'')"

definition buffered :: "dml_plan \<Rightarrow> planned_write \<Rightarrow> buffered_write" where
  "buffered plan write =
     \<lparr>bw_shard = pw_shard write, bw_statement = pw_statement write,
      bw_quorum_size = pw_quorum_size write, bw_table_name = dp_table_name plan\<rparr>"

definition buffer_plan_rows :: "dml_plan \<Rightarrow> transaction \<Rightarrow> (error_info, nat) result \<times> transaction" where
  "buffer_plan_rows plan txn =
     (case dp_static_row_count plan of
        None \<Rightarrow> (Inl uncounted, txn)
      | Some rows \<Rightarrow> (Inr rows, fold (\<lambda>write. push_write (buffered plan write)) (dp_writes plan) txn))"

definition dml_tag :: "query_type \<Rightarrow> nat \<Rightarrow> response" where
  "dml_tag query_type rows =
     (case query_type of
        QInsert \<Rightarrow> Execution ''INSERT'' rows
      | QUpdate \<Rightarrow> Execution ''UPDATE'' rows
      | QDelete \<Rightarrow> Execution ''DELETE'' rows
      | QMerge \<Rightarrow> Execution ''MERGE'' rows
      | _ \<Rightarrow> Execution ''OK'' 0)"

definition buffer_plan :: "dml_plan \<Rightarrow> query_type \<Rightarrow> transaction \<Rightarrow> (error_info, response) result \<times> transaction" where
  "buffer_plan plan query_type txn =
     (case buffer_plan_rows plan txn of
        (Inl e, txn') \<Rightarrow> (Inl e, txn')
      | (Inr rows, txn') \<Rightarrow> (Inr (dml_tag query_type rows), txn'))"

fun buffer_plans :: "dml_plan list \<Rightarrow> nat \<Rightarrow> transaction \<Rightarrow> (error_info, nat) result \<times> transaction" where
  "buffer_plans [] rows txn = (Inr rows, txn)"
| "buffer_plans (plan # plans) rows txn =
     (case buffer_plan_rows plan txn of
        (Inl e, txn') \<Rightarrow> (Inl e, txn')
      | (Inr n, txn') \<Rightarrow> buffer_plans plans (rows + n) txn')"

fun execute_plans ::
  "('t, 'b) env \<Rightarrow> 't catalog \<Rightarrow> 'w network \<Rightarrow> (error_info \<Rightarrow> string) \<Rightarrow> (nat \<Rightarrow> nat \<Rightarrow> (nat \<times> bool) list)
     \<Rightarrow> (nat \<Rightarrow> string) \<Rightarrow> string \<Rightarrow> string \<Rightarrow> nat \<Rightarrow> nat \<Rightarrow> dml_plan list \<Rightarrow> retry_queues \<times> 'w comms
     \<Rightarrow> (error_info, nat) result \<times> retry_queues \<times> 'w comms" where
  "execute_plans E C N shown scheds ids table_name command idx rows [] rs = (Inr rows, rs)"
| "execute_plans E C N shown scheds ids table_name command idx rows (plan # plans) rs =
     (case execute_plan E C N (scheds idx) (ids idx) plan rs of
        (Inr chunk_rows, rs') \<Rightarrow>
          execute_plans E C N shown scheds ids table_name command (Suc idx) (rows + chunk_rows) plans rs'
      | (Inl e, rs') \<Rightarrow>
          (Inl (if idx > 0 then
                  make_vdb_error V_PartialCommit
                    (command @ '' partially applied: '' @ show_nat rows @ '' row(s) were written to ''
                     @ dq table_name @ '' and cannot be undone, then the write failed. ''
                     @ ''Inspect the table before retrying. Cause: '' @ shown e)
                else e), rs'))"

definition ship_row_plans ::
  "('t, 'b) env \<Rightarrow> 't catalog \<Rightarrow> 'w network \<Rightarrow> (error_info \<Rightarrow> string) \<Rightarrow> (nat \<Rightarrow> nat \<Rightarrow> (nat \<times> bool) list)
     \<Rightarrow> (nat \<Rightarrow> string) \<Rightarrow> string \<Rightarrow> string \<Rightarrow> dml_plan list \<Rightarrow> transaction \<times> retry_queues \<times> 'w comms
     \<Rightarrow> (error_info, nat) result \<times> transaction \<times> retry_queues \<times> 'w comms" where
  "ship_row_plans E C N shown scheds ids table_name command plans st =
     (case st of (txn, rs) \<Rightarrow>
       if is_open txn then (case buffer_plans plans 0 txn of (r, txn') \<Rightarrow> (r, txn', rs))
       else
         (case execute_plans E C N shown scheds ids table_name command 0 0 plans rs of
            (r, rs') \<Rightarrow> (r, txn, rs')))"

definition write_row_statements ::
  "write_libs \<Rightarrow> ('t, 'b) env \<Rightarrow> 't catalog \<Rightarrow> 'w network \<Rightarrow> (error_info \<Rightarrow> string)
     \<Rightarrow> (nat \<Rightarrow> nat \<Rightarrow> (nat \<times> bool) list) \<Rightarrow> (nat \<Rightarrow> string) \<Rightarrow> statement list \<Rightarrow> scalar list \<Rightarrow> string \<Rightarrow> string
     \<Rightarrow> transaction \<times> retry_queues \<times> 'w comms \<Rightarrow> (error_info, nat) result \<times> transaction \<times> retry_queues \<times> 'w comms" where
  "write_row_statements W E C N shown scheds ids statements params table_name command st =
     (case collect_results (plan_dml W E C QInsert params) statements of
        Inl e \<Rightarrow> (Inl e, st)
      | Inr plans \<Rightarrow> ship_row_plans E C N shown scheds ids table_name command plans st)"

section \<open>Rows from a query\<close>

fun reject_hashing_a_digest ::
  "('t, 'b) env \<Rightarrow> 't catalog \<Rightarrow> string \<Rightarrow> string \<Rightarrow> (string \<times> string) list \<Rightarrow> string list \<Rightarrow> (error_info, unit) result" where
  "reject_hashing_a_digest E C command destination destination_anonymized [] = Inr ()"
| "reject_hashing_a_digest E C command destination destination_anonymized (source # sources) =
     (if destination_anonymized = [] then Inr ()
      else
        (case get_table E C source of
           Inr (Some meta) \<Rightarrow>
             if tm_anonymized_columns meta = []
             then reject_hashing_a_digest E C command destination destination_anonymized sources
             else
               Inl (make_vdb_error V_FeatureNotSupported
                 (command @ '' is not supported by VaireDB when '' @ dq destination @ '' and the source ''
                  @ ''table '' @ dq source @ '' both have pseudonymized columns: reading '' @ dq source
                  @ '' yields HMAC digests, which '' @ dq destination @ '' would hash a second time, and ''
                  @ ''the result would match no lookup. Create the destination without ''
                  @ ''anonymized_columns to store the digests as they are, or load it from the ''
                  @ ''original plaintext''))
         | _ \<Rightarrow> reject_hashing_a_digest E C command destination destination_anonymized sources))"

definition check_target_columns :: "nat \<Rightarrow> nat \<Rightarrow> string \<Rightarrow> (error_info, unit) result" where
  "check_target_columns target_columns schema shard_key =
     (if target_columns = 0 then
        Inl (make_vdb_error V_SqlSyntaxError
          (''INSERT must specify an explicit column list including shard key '' @ dq shard_key))
      else if target_columns \<noteq> schema then
        Inl (make_vdb_error V_SqlSyntaxError
          (''INSERT has '' @ show_nat target_columns
           @ '' target column(s) but the source query produces '' @ show_nat schema))
      else Inr ())"

definition insert_columns_count :: "statement \<Rightarrow> nat" where
  "insert_columns_count stmt = (case stmt of StInsert ins \<Rightarrow> length (is_columns ins) | _ \<Rightarrow> 0)"

definition rows_from_query ::
  "write_libs \<Rightarrow> ('t, 'b) env \<Rightarrow> 't catalog \<Rightarrow> statement \<Rightarrow> (error_info, field list \<times> record_batch list) result
     \<Rightarrow> (error_info, string \<times> statement list) result" where
  "rows_from_query W E C stmt collected =
     (case stmt of
        StInsert ins \<Rightarrow>
          if is_returning ins then
            Inl (make_vdb_error V_FeatureNotSupported
              (''RETURNING is not supported on an INSERT whose rows come from a query: the rows are written ''
               @ ''to several shards and VaireDB cannot return them as one result set. Run the SELECT separately''))
          else
            (case is_source ins of
               None \<Rightarrow> Inl (make_vdb_error V_InternalError ''expected an INSERT with a query source'')
             | Some source \<Rightarrow>
                 r_bind (ok_or no_target_table (extract_table_name stmt)) (\<lambda>table_name.
                 r_bind (require_table E C table_name (for_table table_name)) (\<lambda>table_meta.
                 r_bind (reject_hashing_a_digest E C ''INSERT ... SELECT'' table_name
                           (tm_anonymized_columns table_meta) (relations_read (wl_sql W) source)) (\<lambda>_.
                 r_bind collected (\<lambda>(schema, batches).
                 r_bind (with_code V_SqlSyntaxError
                           (materialize_insert_columns_for_arity stmt (map col_name (tm_columns table_meta))
                              (length schema))) (\<lambda>template.
                 r_bind (check_target_columns (insert_columns_count template) (length schema)
                           (tm_shard_key table_meta)) (\<lambda>_.
                 r_bind (with_code V_FeatureNotSupported
                           (insert_statements_from_batches template batches ROWS_PER_STATEMENT)) (\<lambda>statements.
                   Inr (table_name, statements)))))))))
      | _ \<Rightarrow> Inl (make_vdb_error V_InternalError ''expected an INSERT statement''))"

definition handle_insert_from_query ::
  "write_libs \<Rightarrow> ('t, 'b) env \<Rightarrow> 't catalog \<Rightarrow> 'w network \<Rightarrow> (error_info \<Rightarrow> string)
     \<Rightarrow> (nat \<Rightarrow> nat \<Rightarrow> (nat \<times> bool) list) \<Rightarrow> (nat \<Rightarrow> string)
     \<Rightarrow> (statement \<Rightarrow> scalar list \<Rightarrow> (error_info, field list \<times> record_batch list) result)
     \<Rightarrow> statement \<Rightarrow> query_type \<Rightarrow> scalar list \<Rightarrow> transaction \<times> retry_queues \<times> 'w comms
     \<Rightarrow> (error_info, response) result \<times> transaction \<times> retry_queues \<times> 'w comms" where
  "handle_insert_from_query W E C N shown scheds ids collect_query_rows stmt query_type params st =
     (let collected =
        (case stmt of
           StInsert ins \<Rightarrow>
             (case is_source ins of
                Some source \<Rightarrow> collect_query_rows (StQuery source) params
              | None \<Rightarrow> Inr ([], []))
         | _ \<Rightarrow> Inr ([], [])) in
      case rows_from_query W E C stmt collected of
        Inl e \<Rightarrow> (Inl e, st)
      | Inr (table_name, statements) \<Rightarrow>
          (case write_row_statements W E C N shown scheds ids statements params table_name ''INSERT'' st of
             (Inl e, st') \<Rightarrow> (Inl e, st')
           | (Inr rows, st') \<Rightarrow> (Inr (dml_tag query_type rows), st')))"

section \<open>The handler\<close>

definition secret_in_block :: error_info where
  "secret_in_block =
     make_vdb_error V_FeatureNotSupported
       (''writing an anonymization secret inside a transaction block is not supported: the secret is ''
        @ ''stored in the coordinator catalog rather than on a shard, so ROLLBACK could not undo it'')"

definition handle_dml ::
  "write_libs \<Rightarrow> ('t, 'b) env \<Rightarrow> 'w network \<Rightarrow> (error_info \<Rightarrow> string)
     \<Rightarrow> (nat \<Rightarrow> nat \<Rightarrow> (nat \<times> bool) list) \<Rightarrow> (nat \<Rightarrow> string)
     \<Rightarrow> (statement \<Rightarrow> scalar list \<Rightarrow> (error_info, field list \<times> record_batch list) result)
     \<Rightarrow> statement \<Rightarrow> query_type \<Rightarrow> scalar list \<Rightarrow> 't catalog \<times> transaction \<times> retry_queues \<times> 'w comms
     \<Rightarrow> (error_info, response) result \<times> 't catalog \<times> transaction \<times> retry_queues \<times> 'w comms" where
  "handle_dml W E N shown scheds ids collect_query_rows stmt query_type params st =
     (case st of (C, txn, rs) \<Rightarrow>
       if targets_secret_table stmt then
         (if is_open txn then (Inl secret_in_block, C, txn, rs)
          else (case handle_anonymization_secret_insert E stmt query_type C of (r, C') \<Rightarrow> (r, C', txn, rs)))
       else if insert_source_is_query stmt then
         (case handle_insert_from_query W E C N shown scheds ids collect_query_rows stmt query_type params (txn, rs) of
            (r, st') \<Rightarrow> (r, C, st'))
       else
         (case plan_dml W E C query_type params stmt of
            Inl e \<Rightarrow> (Inl e, C, txn, rs)
          | Inr plan \<Rightarrow>
              if is_open txn then (case buffer_plan plan query_type txn of (r, txn') \<Rightarrow> (r, C, txn', rs))
              else
                (case execute_plan E C N (scheds 0) (ids 0) plan rs of
                   (Inl e, rs') \<Rightarrow> (Inl e, C, txn, rs')
                 | (Inr total_rows, rs') \<Rightarrow> (Inr (dml_tag query_type total_rows), C, txn, rs'))))"

section \<open>Rows and their shards\<close>

definition row_bucket :: "sql_lib \<Rightarrow> key_hash \<Rightarrow> nat \<Rightarrow> scalar list \<Rightarrow> nat \<Rightarrow> expr list \<Rightarrow> nat option" where
  "row_bucket L xxh3 shard_count params key_idx row =
     (if key_idx < length row then
        (case expr_routing_value L (row ! key_idx) params of
           RValue v \<Rightarrow> Some (compute_shard_index xxh3 v shard_count) | _ \<Rightarrow> None)
      else None)"

definition with_rows :: "insert_stmt \<Rightarrow> expr list list \<Rightarrow> statement" where
  "with_rows ins rows =
     StInsert (ins\<lparr>is_source := map_option (\<lambda>source. source\<lparr>qu_body := SValues rows\<rparr>) (is_source ins)\<rparr>)"

definition row_key :: "sql_lib \<Rightarrow> nat \<Rightarrow> scalar list \<Rightarrow> expr list \<Rightarrow> string \<Rightarrow> bool" where
  "row_key L key_idx params row v \<longleftrightarrow> key_idx < length row \<and> expr_routing_value L (row ! key_idx) params = RValue v"

lemma validate_rows_keys:
  "validate_rows L key key_idx params rows = Inr () \<Longrightarrow> \<exists>vs. list_all2 (row_key L key_idx params) rows vs"
proof (induction L key key_idx params rows rule: validate_rows.induct)
  case (2 L key key_idx params row rows)
  then obtain v where v: "key_idx < length row" "expr_routing_value L (row ! key_idx) params = RValue v"
    "validate_rows L key key_idx params rows = Inr ()"
    by (auto split: if_splits routed_value.splits)
  then obtain vs where "list_all2 (row_key L key_idx params) rows vs" using "2.IH" by blast
  then have "list_all2 (row_key L key_idx params) (row # rows) (v # vs)" using v by (simp add: row_key_def)
  then show ?case by blast
qed (auto intro: exI [of _ "[]"])

lemma collect_row_keys_enumerate:
  "list_all2 (row_key L key_idx params) rows vs
     \<Longrightarrow> collect_row_keys L key_idx params i rows = Some (enumerate i vs)"
  by (induction rows vs arbitrary: i rule: list_all2_induct) (simp_all add: row_key_def)

lemma row_bucket_key:
  "row_key L key_idx params row v \<Longrightarrow> row_bucket L xxh3 n params key_idx row = Some (compute_shard_index xxh3 v n)"
  by (simp add: row_key_def row_bucket_def)

lemma pick_rows:
  assumes "list_all2 (row_key L key_idx params) rows vs" "length pre = i"
  shows "map (\<lambda>j. (pre @ rows) ! j) (map fst (filter (\<lambda>(j, v). compute_shard_index xxh3 v n = b) (enumerate i vs)))
       = filter (\<lambda>row. row_bucket L xxh3 n params key_idx row = Some b) rows"
  using assms
proof (induction rows vs arbitrary: i pre rule: list_all2_induct)
  case (Cons row rows v vs)
  from Cons.IH [of "pre @ [row]" "Suc i"] Cons.prems Cons.hyps show ?case
    by (simp add: row_bucket_key nth_append)
qed simp

lemma enumerate_fst_less: "p \<in> set (enumerate i vs) \<Longrightarrow> fst p < i + length vs"
  by (auto simp: in_set_enumerate_eq)

lemma split_rows:
  assumes "values_rows ins = Some rows" "list_all2 (row_key L key_idx params) rows vs"
    and "\<exists>row\<in>set rows. row_bucket L xxh3 n params key_idx row = Some b"
  shows "split_insert_by_rows (StInsert ins)
      (map fst (filter (\<lambda>(j, v). compute_shard_index xxh3 v n = b) (enumerate 0 vs)))
    = Some (with_rows ins (filter (\<lambda>row. row_bucket L xxh3 n params key_idx row = Some b) rows))"
proof -
  let ?js = "map fst (filter (\<lambda>(j, v). compute_shard_index xxh3 v n = b) (enumerate 0 vs))"
  let ?picked = "filter (\<lambda>row. row_bucket L xxh3 n params key_idx row = Some b) rows"
  obtain source where source: "is_source ins = Some source" "qu_body source = SValues rows"
    using assms(1) by (auto simp: values_rows_def split: option.splits set_expr.splits)
  have "length rows = length vs" using assms(2) by (rule list_all2_lengthD)
  then have "filter (\<lambda>j. j < length rows) ?js = ?js"
    using enumerate_fst_less [of _ 0 vs] by (auto simp: filter_id_conv)
  moreover have "map (\<lambda>j. rows ! j) ?js = ?picked" using pick_rows [OF assms(2), of "[]" 0] by simp
  moreover have "?picked \<noteq> []" using assms(3) by (auto simp: filter_empty_conv)
  ultimately show ?thesis by (simp add: split_insert_by_rows_def source with_rows_def)
qed

lemma push_bucket_row_keys:
  "set (map fst (push_bucket_row b i m)) = insert b (set (map fst m))"
  by (induction b i m rule: push_bucket_row.induct) auto

lemma push_bucket_row_sorted:
  "sorted_wrt (<) (map fst m) \<Longrightarrow> sorted_wrt (<) (map fst (push_bucket_row b i m))"
proof (induction b i m rule: push_bucket_row.induct)
  case (2 b i c rows m)
  then show ?case using push_bucket_row_keys [of b i m] by auto
qed simp

lemma push_bucket_row_entry:
  "sorted_wrt (<) (map fst m) \<Longrightarrow> (c, is) \<in> set (push_bucket_row b i m) \<Longrightarrow>
     (if c = b then is = (case map_of m b of None \<Rightarrow> [] | Some js \<Rightarrow> js) @ [i] else (c, is) \<in> set m)"
proof (induction b i m rule: push_bucket_row.induct)
  case (2 b i d rows m)
  have "map_of m b = None" if "b \<le> d" using "2.prems"(1) that by (force simp: map_of_eq_None_iff)
  then show ?case using 2 by (auto split: if_splits)
qed (auto split: if_splits)

definition rows_of_bucket :: "key_hash \<Rightarrow> nat \<Rightarrow> (nat \<times> string) list \<Rightarrow> nat \<Rightarrow> nat list" where
  "rows_of_bucket xxh3 n keys b = map fst (filter (\<lambda>(j, v). compute_shard_index xxh3 v n = b) keys)"

definition buckets_of :: "key_hash \<Rightarrow> nat \<Rightarrow> (nat \<times> string) list \<Rightarrow> nat set" where
  "buckets_of xxh3 n keys = (\<lambda>p. compute_shard_index xxh3 (snd p) n) ` set keys"

lemma bucket_rows_fold:
  assumes "sorted_wrt (<) (map fst m)" "set (map fst m) = buckets_of xxh3 n done_keys"
    and "\<forall>(b, is)\<in>set m. is = rows_of_bucket xxh3 n done_keys b"
    and "m' = fold (\<lambda>(j, v). push_bucket_row (compute_shard_index xxh3 v n) j) keys m"
  shows "sorted_wrt (<) (map fst m') \<and> set (map fst m') = buckets_of xxh3 n (done_keys @ keys)
       \<and> (\<forall>(b, is)\<in>set m'. is = rows_of_bucket xxh3 n (done_keys @ keys) b)"
  using assms
proof (induction keys arbitrary: m done_keys)
  case (Cons p keys)
  obtain j v where p: "p = (j, v)" by (cases p)
  let ?b = "compute_shard_index xxh3 v n"
  let ?m = "push_bucket_row ?b j m"
  have absent: "rows_of_bucket xxh3 n done_keys ?b = []" if "map_of m ?b = None"
    using that Cons.prems(2) by (force simp: map_of_eq_None_iff buckets_of_def rows_of_bucket_def filter_empty_conv)
  have present: "js = rows_of_bucket xxh3 n done_keys ?b" if "map_of m ?b = Some js" for js
    using map_of_SomeD [OF that] Cons.prems(3) by blast
  have "is = rows_of_bucket xxh3 n (done_keys @ [p]) b" if "(b, is) \<in> set ?m" for b "is"
    using push_bucket_row_entry [OF Cons.prems(1) that] Cons.prems(3) absent present
    by (auto simp: p rows_of_bucket_def split: if_splits option.splits)
  then have "\<forall>(b, is)\<in>set ?m. is = rows_of_bucket xxh3 n (done_keys @ [p]) b" by blast
  moreover have "set (map fst ?m) = buckets_of xxh3 n (done_keys @ [p])"
    using Cons.prems(2) unfolding push_bucket_row_keys by (auto simp: p buckets_of_def)
  ultimately show ?case
    using Cons.IH [OF push_bucket_row_sorted [OF Cons.prems(1), of ?b j], where done_keys = "done_keys @ [p]"] Cons.prems(4) p by simp
qed simp

lemma bucket_rows_spec:
  "sorted_wrt (<) (map fst (bucket_rows xxh3 n keys)) \<and> set (map fst (bucket_rows xxh3 n keys)) = buckets_of xxh3 n keys
   \<and> (\<forall>(b, is)\<in>set (bucket_rows xxh3 n keys). is = rows_of_bucket xxh3 n keys b)"
  using bucket_rows_fold [of "[]" xxh3 n "[]" "bucket_rows xxh3 n keys" keys]
  by (simp add: bucket_rows_def buckets_of_def)

lemma list_all2_map_right_ex:
  assumes "list_all2 P xs ys" "\<And>x y. x \<in> set xs \<Longrightarrow> P x y \<Longrightarrow> Q (f x) y"
  shows "list_all2 Q (map f xs) ys"
  using assms(1) by (auto simp: list_all2_conv_all_nth intro!: assms(2))

lemma shard_for_bucket_Inr:
  "shard_for_bucket shards b name = Inr s \<Longrightarrow> s \<in> set shards \<and> sh_hash_bucket s = b"
  by (auto simp: shard_for_bucket_def ok_or_def find_Some_iff split: option.splits)

lemma enrich_Inr [simp]: "enrich E C ctx r = Inr x \<longleftrightarrow> r = Inr x"
  by (cases r) (simp_all add: enrich_def)

lemma plan_write_fields:
  "plan_write W E C stmt params q ctx shard = Inr w \<Longrightarrow> pw_shard w = shard \<and> pw_quorum_size w = q"
  by (auto simp: plan_write_def r_bind_eq_Inr)

definition split_plan ::
  "write_libs \<Rightarrow> ('t, 'b) env \<Rightarrow> 't catalog \<Rightarrow> insert_stmt \<Rightarrow> expr list list \<Rightarrow> nat \<Rightarrow> scalar list \<Rightarrow> nat
     \<Rightarrow> error_context \<Rightarrow> shard_meta list \<Rightarrow> nat \<Rightarrow> planned_write \<Rightarrow> bool" where
  "split_plan W E C ins rows key_idx params q ctx shards b w \<longleftrightarrow>
     pw_shard w \<in> set shards \<and> sh_hash_bucket (pw_shard w) = b
   \<and> plan_write W E C
       (with_rows ins (filter (\<lambda>row. row_bucket (wl_sql W) (wl_xxh3 W) (length shards) params key_idx row = Some b) rows))
       params q ctx (pw_shard w) = Inr w"

lemma validated_insert:
  assumes "validate_insert_shard_key L (StInsert ins) key params = Inr ()"
  obtains key_idx rows vs where "shard_key_column_index (is_columns ins) key = Some key_idx"
    "values_rows ins = Some rows" "list_all2 (row_key L key_idx params) rows vs"
proof -
  obtain key_idx rows where k: "shard_key_column_index (is_columns ins) key = Some key_idx" "values_rows ins = Some rows"
    "validate_rows L key key_idx params rows = Inr ()"
    using assms by (auto simp: validate_insert_shard_key_def values_rows_def split: if_splits option.splits set_expr.splits)
  then obtain vs where "list_all2 (row_key L key_idx params) rows vs" using validate_rows_keys by blast
  with k that show thesis by blast
qed

lemma buckets_of_enumerate:
  assumes "list_all2 (row_key L key_idx params) rows vs"
  shows "buckets_of xxh3 n (enumerate i vs) = {b. \<exists>row\<in>set rows. row_bucket L xxh3 n params key_idx row = Some b}"
  using assms
proof (induction rows vs arbitrary: i rule: list_all2_induct)
  case (Cons row rows v vs)
  then show ?case by (auto simp: buckets_of_def row_bucket_key)
qed (simp add: buckets_of_def)

lemma require_shards_Inr:
  "require_shards E C tm ctx = Inr shards \<longleftrightarrow> shards_for_table E C (tm_table_name tm) = Inr shards \<and> shards \<noteq> []"
  by (auto simp: require_shards_def r_bind_eq_Inr split: if_splits)

lemma split_plan_many:
  assumes "values_rows ins = Some rows" "list_all2 (row_key (wl_sql W) key_idx params) rows vs"
    and "collect_results
           (\<lambda>(bucket, row_indices).
              r_bind (enrich E C ctx (shard_for_bucket shards bucket name)) (\<lambda>shard.
              r_bind (ok_or e (split_insert_by_rows (StInsert ins) row_indices)) (\<lambda>split_stmt.
                plan_write W E C split_stmt params q ctx shard)))
           (bucket_rows (wl_xxh3 W) (length shards) (enumerate 0 vs)) = Inr writes"
  shows "list_all2 (split_plan W E C ins rows key_idx params q ctx shards)
           (map fst (bucket_rows (wl_xxh3 W) (length shards) (enumerate 0 vs))) writes"
  using assms(3) unfolding collect_results_Inr
proof (rule list_all2_map_right_ex)
  fix p w
  let ?keys = "enumerate 0 vs" and ?n = "length shards"
  assume p: "p \<in> set (bucket_rows (wl_xxh3 W) ?n ?keys)"
    and w: "(case p of (bucket, row_indices) \<Rightarrow>
              r_bind (enrich E C ctx (shard_for_bucket shards bucket name)) (\<lambda>shard.
              r_bind (ok_or e (split_insert_by_rows (StInsert ins) row_indices)) (\<lambda>split_stmt.
                plan_write W E C split_stmt params q ctx shard))) = Inr w"
  obtain b "is" where bi: "p = (b, is)" by (cases p)
  note spec = bucket_rows_spec [of "wl_xxh3 W" ?n ?keys]
  have "b \<in> buckets_of (wl_xxh3 W) ?n ?keys" using spec p bi by (metis fst_conv image_eqI list.set_map)
  then have ex: "\<exists>row\<in>set rows. row_bucket (wl_sql W) (wl_xxh3 W) ?n params key_idx row = Some b"
    using buckets_of_enumerate [OF assms(2)] by blast
  have "is = rows_of_bucket (wl_xxh3 W) ?n ?keys b" using spec p bi by blast
  then have split: "split_insert_by_rows (StInsert ins) is
      = Some (with_rows ins (filter (\<lambda>row. row_bucket (wl_sql W) (wl_xxh3 W) ?n params key_idx row = Some b) rows))"
    using split_rows [OF assms(1,2) ex] by (simp add: rows_of_bucket_def)
  obtain shard where s: "shard_for_bucket shards b name = Inr shard"
    "plan_write W E C (with_rows ins (filter (\<lambda>row. row_bucket (wl_sql W) (wl_xxh3 W) ?n params key_idx row = Some b) rows))
       params q ctx shard = Inr w"
    using w by (auto simp: bi r_bind_eq_Inr split ok_or_def)
  show "split_plan W E C ins rows key_idx params q ctx shards (fst p) w"
    using shard_for_bucket_Inr [OF s(1)] plan_write_fields [OF s(2)] s(2) by (simp add: split_plan_def bi)
qed

lemma with_rows_same: "values_rows ins = Some rows \<Longrightarrow> with_rows ins rows = StInsert ins"
  by (auto simp: with_rows_def values_rows_def split: option.splits set_expr.splits)

lemma split_plan_one:
  assumes "values_rows ins = Some [row]" "row_key (wl_sql W) key_idx params row v"
    and "shard_key_column_index (is_columns ins) (tm_shard_key tm) = Some key_idx"
    and "shards_for_table E C (tm_table_name tm) = Inr shards" "shards \<noteq> []"
    and "r_bind (enrich E C ctx (resolve_target_shards (wl_sql W) (wl_xxh3 W) E C (StInsert ins) tm params))
           (\<lambda>target_shards. plan_writes_on_each_shard W E C target_shards (StInsert ins) params q ctx) = Inr writes"
  shows "list_all2 (split_plan W E C ins [row] key_idx params q ctx shards)
           [compute_shard_index (wl_xxh3 W) v (length shards)] writes"
proof -
  let ?b = "compute_shard_index (wl_xxh3 W) v (length shards)"
  have "route_target (wl_sql W) (StInsert ins) (tm_shard_key tm) params = RouteOne v"
    using assms(1,2,3) by (simp add: route_target_def row_key_def)
  then obtain shard where shard: "shard_for_bucket shards ?b (tm_table_name tm) = Inr shard"
    "plan_writes_on_each_shard W E C [shard] (StInsert ins) params q ctx = Inr writes"
    using assms(4,5,6) by (auto simp: resolve_target_shards_def r_bind_eq_Inr Let_def)
  then obtain w where w: "writes = [w]" "plan_write W E C (StInsert ins) params q ctx shard = Inr w"
    by (auto simp: plan_writes_on_each_shard_def r_bind_eq_Inr)
  moreover have "row_bucket (wl_sql W) (wl_xxh3 W) (length shards) params key_idx row = Some ?b"
    using row_bucket_key [OF assms(2)] .
  ultimately show ?thesis
    using shard_for_bucket_Inr [OF shard(1)] plan_write_fields [OF w(2)] with_rows_same [OF assms(1)]
    by (simp add: split_plan_def)
qed

lemma r_ok: "\<not> isl r \<Longrightarrow> \<exists>x. r = Inr x"
  by (cases r) simp_all

definition demo_shard :: "nat \<Rightarrow> shard_meta" where
  "demo_shard b =
     \<lparr>sh_shard_id = logical_shard_id b, sh_table_name = ''t'', sh_primary_node_id = ''core-0'',
      sh_replica_node_ids = [], sh_hash_bucket = b, sh_range_lower = [], sh_range_upper = []\<rparr>"

definition demo_table :: table_meta where
  "demo_table =
     \<lparr>tm_table_name = ''t'',
      tm_columns = [\<lparr>col_name = ''id'', col_data_type = ''INT'', col_nullable = False, col_default_expr = []\<rparr>],
      tm_shard_strategy = 1, tm_shard_key = ''id'', tm_shard_count = 2, tm_replication_factor = 1,
      tm_created_at = None, tm_anonymized_columns = [], tm_indexes = [], tm_constraints = []\<rparr>"

definition demo_tables :: "(string \<times> stored) list catalog" where
  "demo_tables =
     put_shard ref_env (demo_shard 1) (put_shard ref_env (demo_shard 0)
       (put_table ref_env demo_table (catalog_open ref_env)))"

definition demo_libs :: write_libs where
  "demo_libs = \<lparr>wl_sql = ref_sql, wl_xxh3 = (\<lambda>s. of_nat (length s)), wl_dialect = (\<lambda>s. s), wl_mac = demo_mac\<rparr>"

definition demo_rows :: "expr list list" where
  "demo_rows = map (\<lambda>n. [EValue (VNumber n False)]) [''1'', ''22'', ''3'']"

definition demo_values :: insert_stmt where
  "demo_values =
     \<lparr>is_table = TableName (name_of ''t''), is_columns = [name_of ''id''],
      is_source = Some \<lparr>qu_with = [], qu_body = SValues demo_rows, qu_rest = []\<rparr>, is_on = None, is_returning = False\<rparr>"

lemma demo_shards: "shards_for_table ref_env demo_tables ''t'' = Inr [demo_shard 0, demo_shard 1]"
  by code_simp

lemma plan_write_no_params: "\<not> isl (plan_write W E C stmt [] q ctx shard)"
  by (simp add: plan_write_def generate_shard_local_sql_def enrich_def Let_def)

lemma demo_planned:
  "\<not> isl (plan_insert_with_split demo_libs ref_env demo_tables (StInsert demo_values) demo_table 1 []
     error_context_default)"
proof -
  have keys: "extract_insert_row_shard_keys (wl_sql demo_libs) (StInsert demo_values) (tm_shard_key demo_table) []
      = Some [(0, ''1''), (1, ''22''), (2, ''3'')]" by code_simp
  have buckets: "bucket_rows (wl_xxh3 demo_libs) 2 [(0, ''1''), (1, ''22''), (2, ''3'')] = [(0, [1]), (1, [0, 2])]"
    by code_simp
  have shards: "require_shards ref_env demo_tables demo_table error_context_default = Inr [demo_shard 0, demo_shard 1]"
    using demo_shards by (simp add: require_shards_Inr demo_table_def)
  have found: "shard_for_bucket [demo_shard 0, demo_shard 1] 0 name = Inr (demo_shard 0)"
    "shard_for_bucket [demo_shard 0, demo_shard 1] 1 name = Inr (demo_shard 1)" for name
    by (simp_all add: shard_for_bucket_def demo_shard_def ok_or_def)
  obtain s0 s1 where split: "split_insert_by_rows (StInsert demo_values) [1] = Some s0"
    "split_insert_by_rows (StInsert demo_values) [0, 2] = Some s1"
    by (simp add: split_insert_by_rows_def demo_values_def demo_rows_def)
  obtain w0 w1 where
    "plan_write demo_libs ref_env demo_tables s0 [] 1 error_context_default (demo_shard 0) = Inr w0"
    "plan_write demo_libs ref_env demo_tables s1 [] 1 error_context_default (demo_shard 1) = Inr w1"
    using r_ok [OF plan_write_no_params] by metis
  then show ?thesis
    using keys buckets shards found split
    by (simp add: plan_insert_with_split_def numeral_2_eq_2 enrich_def ok_or_def)
qed

section \<open>Properties\<close>

text \<open>C32. An INSERT sends every row to the shard that owns it and to no other: the writes planned
  for a validated statement are, bucket by bucket in ascending order, the statement with exactly
  the rows whose shard key hashes to that bucket, in their order, on the shard of that bucket, and
  each bucket that a row hashes to has its write.\<close>

theorem insert_sends_each_row_to_its_shard:
  assumes "validate_insert_shard_key (wl_sql W) (StInsert ins) (tm_shard_key tm) params = Inr ()"
    and "values_rows ins = Some rows" "rows \<noteq> []"
    and "shard_key_column_index (is_columns ins) (tm_shard_key tm) = Some key_idx"
    and "shards_for_table E C (tm_table_name tm) = Inr shards"
    and "plan_insert_with_split W E C (StInsert ins) tm q params ctx = Inr writes"
  shows "\<exists>buckets. sorted_wrt (<) buckets
       \<and> set buckets = {b. \<exists>row\<in>set rows. row_bucket (wl_sql W) (wl_xxh3 W) (length shards) params key_idx row = Some b}
       \<and> (\<forall>row\<in>set rows. row_bucket (wl_sql W) (wl_xxh3 W) (length shards) params key_idx row \<noteq> None)
       \<and> list_all2 (split_plan W E C ins rows key_idx params q ctx shards) buckets writes"
proof -
  let ?xxh3 = "wl_xxh3 W" and ?n = "length shards"
  obtain vs where vs: "list_all2 (row_key (wl_sql W) key_idx params) rows vs"
    using validated_insert [OF assms(1)] assms(2,4) by (metis option.inject)
  then have keys: "extract_insert_row_shard_keys (wl_sql W) (StInsert ins) (tm_shard_key tm) params = Some (enumerate 0 vs)"
    using assms(2,4) by (simp add: extract_insert_row_shard_keys_def collect_row_keys_enumerate)
  have shards: "require_shards E C tm ctx = Inr shards" "shards \<noteq> []"
    using assms(5,6) require_shards_Inr [of E C tm ctx] by (auto simp: plan_insert_with_split_def r_bind_eq_Inr)
  have routed: "row_bucket (wl_sql W) ?xxh3 ?n params key_idx row \<noteq> None" if "row \<in> set rows" for row
    using vs that row_bucket_key [of "wl_sql W" key_idx params row]
    by (auto simp: list_all2_conv_all_nth in_set_conv_nth)
  consider row v where "rows = [row]" "vs = [v]" | k1 k2 ks where "enumerate 0 vs = k1 # k2 # ks"
    using vs assms(3) by (cases rows; cases vs; cases "tl vs") auto
  then show ?thesis
  proof cases
    case 1
    then have "list_all2 (split_plan W E C ins rows key_idx params q ctx shards) [compute_shard_index ?xxh3 v ?n] writes"
      using split_plan_one [of ins row W key_idx params v tm E C shards ctx q writes] vs assms(2,4,5,6) keys shards
      by (simp add: plan_insert_with_split_def)
    moreover have "row_bucket (wl_sql W) ?xxh3 ?n params key_idx row = Some (compute_shard_index ?xxh3 v ?n)"
      using vs 1 row_bucket_key by simp
    ultimately show ?thesis using routed 1 by (intro exI [of _ "[compute_shard_index ?xxh3 v ?n]"]) auto
  next
    case 2
    have "list_all2 (split_plan W E C ins rows key_idx params q ctx shards)
        (map fst (bucket_rows ?xxh3 ?n (enumerate 0 vs))) writes"
      using assms(6) keys shards
      by (intro split_plan_many [OF assms(2) vs]) (simp add: plan_insert_with_split_def 2)
    then show ?thesis
      using bucket_rows_spec [of ?xxh3 ?n "enumerate 0 vs"] buckets_of_enumerate [OF vs] routed by blast
  qed
qed

theorem insert_sends_each_row_to_its_shard_witness:
  "\<exists>w0 w1. plan_insert_with_split demo_libs ref_env demo_tables (StInsert demo_values) demo_table 1 [] error_context_default
     = Inr [w0, w1] \<and> pw_shard w0 = demo_shard 0 \<and> pw_shard w1 = demo_shard 1"
proof -
  obtain writes where w: "plan_insert_with_split demo_libs ref_env demo_tables (StInsert demo_values) demo_table 1 []
      error_context_default = Inr writes"
    using r_ok [OF demo_planned] by blast
  have v: "validate_insert_shard_key (wl_sql demo_libs) (StInsert demo_values) (tm_shard_key demo_table) [] = Inr ()"
    "values_rows demo_values = Some demo_rows" "demo_rows \<noteq> []"
    "shard_key_column_index (is_columns demo_values) (tm_shard_key demo_table) = Some 0"
    "shards_for_table ref_env demo_tables (tm_table_name demo_table) = Inr [demo_shard 0, demo_shard 1]"
    by code_simp+
  obtain bs where bs: "sorted_wrt (<) bs"
    "set bs = {b. \<exists>row\<in>set demo_rows. row_bucket (wl_sql demo_libs) (wl_xxh3 demo_libs)
       (length [demo_shard 0, demo_shard 1]) [] 0 row = Some b}"
    "list_all2 (split_plan demo_libs ref_env demo_tables demo_values demo_rows 0 [] 1 error_context_default
       [demo_shard 0, demo_shard 1]) bs writes"
    using insert_sends_each_row_to_its_shard [OF v w] by blast
  have "map (row_bucket (wl_sql demo_libs) (wl_xxh3 demo_libs) (length [demo_shard 0, demo_shard 1]) [] 0) demo_rows
      = [Some 1, Some 0, Some 1]" by code_simp
  then have "set bs = {0, 1}" unfolding bs(2) demo_rows_def by auto
  then have "bs = [0, 1]" using bs(1) strict_sorted_equal [of bs "[0, 1]"] by simp
  then obtain w0 w1 where ws: "writes = [w0, w1]"
    "pw_shard w0 \<in> {demo_shard 0, demo_shard 1}" "sh_hash_bucket (pw_shard w0) = 0"
    "pw_shard w1 \<in> {demo_shard 0, demo_shard 1}" "sh_hash_bucket (pw_shard w1) = 1"
    using bs(3) by (auto simp only: split_plan_def list_all2_Cons1 list_all2_Nil list.set)
  moreover have "sh_hash_bucket (demo_shard b) = b" for b by (simp add: demo_shard_def)
  ultimately show ?thesis using w by auto
qed

end
