(* ===== verification/Column_Types.thy ===== *)
theory Column_Types
  imports Write_Rows Client_Errors
begin

text \<open>
  Declared column types, \<open>crates/vairedb-coordinator/src/column_types.rs\<close>: the Arrow type a
  declared type is advertised as, the PostgreSQL type it is reported as, and the types that are
  refused because no read could return their values. The case folding of the declared text is
  taken on ASCII. An array type is given as its depth and the type of its elements, one Arrow
  list per level.
\<close>

section \<open>A declaration taken apart\<close>

definition to_uppercase :: "string \<Rightarrow> string" where
  "to_uppercase s = map ascii_upper_char s"

definition array_element :: "string \<Rightarrow> string option" where
  "array_element upper =
     Option.bind (strip_suffix '']'' upper) (\<lambda>inner.
     Option.bind (rposition (\<lambda>c. c = CHR ''['') inner) (\<lambda>opening.
       if list_all is_ascii_digit (drop (opening + 1) inner) then Some (take opening inner) else None))"

definition trim_end :: "string \<Rightarrow> string" where
  "trim_end s = rev (dropWhile is_space (rev s))"

definition split_parameters :: "string \<Rightarrow> string \<times> string option" where
  "split_parameters upper =
     (case (position (\<lambda>c. c = CHR ''('') upper, rposition (\<lambda>c. c = CHR '')'') upper) of
        (Some opening, Some closing) \<Rightarrow>
          if closing < opening then (upper, None)
          else
            (let base = trim_end (take opening upper);
                 trailing = trim (drop (closing + 1) upper)
             in (base @ (if trailing = [] then [] else '' '' @ trailing),
                 Some (drop (opening + 1) (take closing upper))))
      | _ \<Rightarrow> (upper, None))"

record declared_type =
  de_base :: string
  de_parameters :: "string option"
  de_array_depth :: nat

lemma rposition_bound: "rposition P xs = Some i \<Longrightarrow> i < length xs"
  by (induction xs arbitrary: i) (auto split: option.splits if_splits)

lemma array_element_shorter: "array_element upper = Some element \<Longrightarrow> length element < length upper"
  by (auto simp: array_element_def bind_eq_Some_conv strip_suffix_Some dest!: rposition_bound split: if_splits)

function peel_arrays :: "string \<Rightarrow> nat \<Rightarrow> string \<times> nat" where
  "peel_arrays rest array_depth =
     (case array_element rest of
        Some element \<Rightarrow> peel_arrays element (array_depth + 1)
      | None \<Rightarrow> (rest, array_depth))"
  by pat_completeness auto
termination
  by (relation "measure (\<lambda>(rest, _). length rest)") (auto simp: array_element_shorter)

declare peel_arrays.simps [simp del]

definition declared_parse :: "string \<Rightarrow> declared_type" where
  "declared_parse type_str =
     (case peel_arrays (to_uppercase (trim type_str)) 0 of
        (rest, array_depth) \<Rightarrow>
          (case split_parameters rest of
             (base, parameters) \<Rightarrow>
               \<lparr>de_base = base, de_parameters = parameters, de_array_depth = array_depth\<rparr>))"

definition is_array :: "declared_type \<Rightarrow> bool" where
  "is_array declared \<longleftrightarrow> de_array_depth declared > 0"

definition declared_length :: "declared_type \<Rightarrow> int option" where
  "declared_length declared =
     Option.bind (de_parameters declared) (\<lambda>p.
     Option.bind (parse_i32 (trim p)) (\<lambda>len. if len > 0 then Some len else None))"

section \<open>The Arrow type\<close>

definition DEFAULT_DECIMAL :: "nat \<times> int" where
  "DEFAULT_DECIMAL = (18, 3)"

definition DECIMAL128_MAX_PRECISION :: nat where
  "DECIMAL128_MAX_PRECISION = 38"

text \<open>\<open>str::split\<close> at a character.\<close>

fun split_char :: "char \<Rightarrow> string \<Rightarrow> string list" where
  "split_char c [] = [[]]"
| "split_char c (x # xs) =
     (if x = c then [] # split_char c xs
      else (case split_char c xs of h # t \<Rightarrow> (x # h) # t | [] \<Rightarrow> [[x]]))"

text \<open>\<open>str::parse::<i8>\<close>.\<close>

definition parse_i8 :: "string \<Rightarrow> int option" where
  "parse_i8 s = Option.bind (parse_i32 s) (\<lambda>v. if - 128 \<le> v \<and> v < 128 then Some v else None)"

definition decimal_type :: "string option \<Rightarrow> data_type" where
  "decimal_type parameters =
     (let fallback = DDecimal128 (fst DEFAULT_DECIMAL) (snd DEFAULT_DECIMAL) in
      case parameters of
        None \<Rightarrow> fallback
      | Some text \<Rightarrow>
          (let parts = split_char (CHR '','') text;
               precision = parse_unsigned 256 (trim (hd parts));
               scale = (case parts of _ # s # _ \<Rightarrow> parse_i8 (trim s) | _ \<Rightarrow> Some 0)
           in case (precision, scale) of
                (Some p, Some s) \<Rightarrow>
                  if 1 \<le> p \<and> p \<le> DECIMAL128_MAX_PRECISION \<and> 0 \<le> s \<and> s \<le> int p
                  then DDecimal128 p s else fallback
              | _ \<Rightarrow> fallback))"

definition scalar_data_type :: "declared_type \<Rightarrow> data_type" where
  "scalar_data_type declared =
     (let b = de_base declared in
      if b \<in> {''INTEGER'', ''INT'', ''INT4'', ''SIGNED''} then DInt32
      else if b \<in> {''BIGINT'', ''INT8'', ''LONG''} then DInt64
      else if b \<in> {''SMALLINT'', ''INT2'', ''SHORT''} then DInt16
      else if b \<in> {''TINYINT'', ''INT1''} then DInt8
      else if b = ''UTINYINT'' then DUInt8
      else if b = ''USMALLINT'' then DUInt16
      else if b = ''UINTEGER'' then DUInt32
      else if b = ''UBIGINT'' then DDecimal128 20 0
      else if b \<in> {''BOOLEAN'', ''BOOL'', ''LOGICAL''} then DBoolean
      else if b \<in> {''FLOAT'', ''REAL'', ''FLOAT4''} then DFloat32
      else if b \<in> {''DOUBLE'', ''DOUBLE PRECISION'', ''FLOAT8''} then DFloat64
      else if b \<in> {''VARCHAR'', ''TEXT'', ''STRING''} then DUtf8
      else if b \<in> {''BLOB'', ''BYTEA'', ''BINARY'', ''VARBINARY''} then data_type.DOther ''Binary''
      else if b \<in> {''TIMESTAMP'', ''DATETIME'', ''TIMESTAMP WITHOUT TIME ZONE''} then
        DTimestamp ''Microsecond'' None
      else if b \<in> {''TIMESTAMPTZ'', ''TIMESTAMP WITH TIME ZONE''} then
        DTimestamp ''Microsecond'' (Some ''UTC'')
      else if b = ''TIMESTAMP_S'' then DTimestamp ''Second'' None
      else if b = ''TIMESTAMP_MS'' then DTimestamp ''Millisecond'' None
      else if b = ''TIMESTAMP_NS'' then DTimestamp ''Nanosecond'' None
      else if b = ''DATE'' then DDate32
      else if b \<in> {''TIME'', ''TIME WITHOUT TIME ZONE''} then DTime64 ''Microsecond''
      else if b = ''INTERVAL'' then data_type.DOther ''Interval(MonthDayNano)''
      else if b \<in> {''JSON'', ''JSONB''} then DUtf8
      else if b \<in> {''DECIMAL'', ''NUMERIC''} then decimal_type (de_parameters declared)
      else DUtf8)"

definition parse_data_type :: "string \<Rightarrow> nat \<times> data_type" where
  "parse_data_type type_str =
     (let declared = declared_parse type_str in (de_array_depth declared, scalar_data_type declared))"

section \<open>The PostgreSQL type\<close>

datatype pg_declared = PgJson | PgUuid | PgBpChar | PgVarChar

definition pg_type_of :: "declared_type \<Rightarrow> pg_declared option" where
  "pg_type_of declared =
     (let b = de_base declared in
      if b \<in> {''JSON'', ''JSONB''} then Some PgJson
      else if b = ''UUID'' then Some PgUuid
      else if b \<in> {''CHAR'', ''BPCHAR'', ''CHARACTER''} then Some PgBpChar
      else if b \<in> {''VARCHAR'', ''CHARACTER VARYING'', ''CHAR VARYING''} then Some PgVarChar
      else None)"

definition VARHDRSZ :: int where
  "VARHDRSZ = 4"

text \<open>The sum is of Rust's \<open>i32\<close>, so it is taken modulo \<open>2 ^ 32\<close>.\<close>

definition wrap_i32 :: "int \<Rightarrow> int" where
  "wrap_i32 v = (v + 2 ^ 31) mod 2 ^ 32 - 2 ^ 31"

definition pg_declared_type :: "string \<Rightarrow> (pg_declared \<times> int) option" where
  "pg_declared_type type_str =
     (let declared = declared_parse type_str in
      if is_array declared then None
      else
        map_option (\<lambda>pg.
          (pg, if pg = PgBpChar \<or> pg = PgVarChar then
                 (case declared_length declared of None \<Rightarrow> - 1 | Some len \<Rightarrow> wrap_i32 (len + VARHDRSZ))
               else - 1)) (pg_type_of declared))"

definition DECLARED_TYPE_KEY :: string where
  "DECLARED_TYPE_KEY = ''vairedb:declared_type''"

record arrow_field =
  cf_name :: string
  cf_data_type :: "nat \<times> data_type"
  cf_nullable :: bool
  cf_metadata :: "(string \<times> string) list"

definition column_field :: "string \<Rightarrow> string \<Rightarrow> bool \<Rightarrow> arrow_field" where
  "column_field name declared nullable =
     \<lparr>cf_name = name, cf_data_type = parse_data_type declared, cf_nullable = nullable,
      cf_metadata =
        (case pg_declared_type declared of
           None \<Rightarrow> []
         | Some _ \<Rightarrow> [(DECLARED_TYPE_KEY, trim declared)])\<rparr>"

definition field_declared_type :: "arrow_field \<Rightarrow> (pg_declared \<times> int) option" where
  "field_declared_type field =
     Option.bind (map_of (cf_metadata field) DECLARED_TYPE_KEY) pg_declared_type"

definition is_declared_text :: "string \<Rightarrow> bool" where
  "is_declared_text type_str =
     (let declared = declared_parse type_str in
      if is_array declared then False
      else
        (case pg_type_of declared of
           Some pg \<Rightarrow> pg = PgBpChar \<or> pg = PgVarChar
         | None \<Rightarrow> de_base declared \<in> {''TEXT'', ''STRING''}))"

section \<open>Refused types\<close>

definition unserviceable_type_reason :: "string \<Rightarrow> string option" where
  "unserviceable_type_reason type_str =
     (let b = de_base (declared_parse type_str) in
      if b \<in> {''HUGEINT'', ''INT128''} then
        Some (''the shards''
              @ [apostrophe]
              @ '' engine narrows a 128-bit integer to a 38-digit decimal before the''
              @ '' coordinator ever sees it, so the widest values would read back''
              @ '' silently truncated. Use BIGINT, or DECIMAL(38,0) when 38 digits are''
              @ '' enough'')
      else if b \<in> {''UHUGEINT'', ''UINT128''} then
        Some (''the shards''
              @ [apostrophe]
              @ '' engine narrows a 128-bit integer to a 38-digit decimal before the''
              @ '' coordinator ever sees it, so the widest values would read back''
              @ '' silently wrong ''
              @ [CHR 0xE2, CHR 0x80, CHR 0x94]
              @ '' the unsigned maximum comes back as -1. Use UBIGINT, or DECIMAL(38,0)''
              @ '' when 38 digits are enough'')
      else if b \<in> {''BIT'', ''BITSTRING'', ''VARBIT'', ''BIT VARYING''} then
        Some (''the shards return a bit string as raw bytes that are not valid text,''
              @ '' and the conversion turns every one of them into NULL. Use BOOLEAN for''
              @ '' a single flag, or VARCHAR to keep the ''
              @ [apostrophe]
              @ ''0''
              @ [apostrophe]
              @ ''/''
              @ [apostrophe]
              @ ''1''
              @ [apostrophe]
              @ '' spelling'')
      else if b \<in> {''BIGNUM'', ''VARINT''} then
        Some (''the shards return an arbitrary-precision number as raw bytes that are''
              @ '' not valid text, and the conversion turns every one of them into NULL.''
              @ '' Use DECIMAL(38,s), which is the widest exact number the shards can''
              @ '' store'')
      else if b = ''UNION'' then
        Some (''a tagged union has no PostgreSQL wire type, so there is nothing to''
              @ '' describe the column as to a client. Use one nullable column per''
              @ '' member, or JSON'')
      else if b = ''VARIANT'' then
        Some (''the shards''
              @ [apostrophe]
              @ '' storage format cannot hold a VARIANT column, and their driver cannot''
              @ '' decode one. Use JSON'')
      else if b = ''MAP'' then
        Some (''a map has no PostgreSQL wire type, so there is nothing to describe the''
              @ '' column as to a client. Use JSON, or a pair of array columns'')
      else if b \<in> {''TIMETZ'', ''TIME WITH TIME ZONE''} then
        Some (''the shards''
              @ [apostrophe]
              @ '' engine drops the UTC offset when it returns a time with time zone, so''
              @ '' the value would come back as a different time than the one stored.''
              @ '' Use TIMESTAMPTZ, which keeps its offset, or TIME with the offset in''
              @ '' its own column'')
      else None)"

section \<open>What the types promise\<close>

lemma dropWhile_rev_dropWhile:
  assumes "dropWhile P xs = xs"
  shows "dropWhile P (rev (dropWhile P (rev xs))) = rev (dropWhile P (rev xs))"
proof (cases xs)
  case (Cons x ys)
  then have x: "\<not> P x" using assms by (auto split: if_splits) (metis dropWhile_eq_Cons_conv not_Cons_self2)
  have "dropWhile P (rev ys @ [x]) = dropWhile P (rev ys) @ [x]"
    using x by (induction "rev ys") (auto simp: dropWhile_append)
  then show ?thesis using Cons x by simp
qed simp

lemma trim_idem [simp]: "trim (trim s) = trim s"
proof -
  let ?t = "dropWhile is_space s"
  have "dropWhile is_space ?t = ?t" by simp
  then have "dropWhile is_space (trim s) = trim s"
    unfolding trim_def by (rule dropWhile_rev_dropWhile)
  then show ?thesis by (metis trim_def dropWhile_idem rev_rev_ident)
qed

lemma declared_parse_trim [simp]: "declared_parse (trim s) = declared_parse s"
  by (simp add: declared_parse_def)

text \<open>The declared type read back out of a field is the one the column was declared with.\<close>

lemma declared_type_round_trip:
  "field_declared_type (column_field name declared nullable) = pg_declared_type declared"
  by (auto simp: field_declared_type_def column_field_def pg_declared_type_def split: option.splits)

text \<open>A decimal column is advertised with a precision and a scale that Arrow can represent.\<close>

lemma decimal_in_range:
  assumes "scalar_data_type d = DDecimal128 p s"
  shows "1 \<le> p \<and> p \<le> DECIMAL128_MAX_PRECISION \<and> 0 \<le> s \<and> s \<le> int p"
  using assms
  by (auto simp: scalar_data_type_def decimal_type_def DEFAULT_DECIMAL_def DECIMAL128_MAX_PRECISION_def
      Let_def split: if_splits option.splits list.splits)

text \<open>The header is added to a length without looking at the bound of the integer.\<close>

lemma parse_i32_bound: "parse_i32 s = Some v \<Longrightarrow> v < 2 ^ 31"
  by (cases s) (auto simp: parse_i32_def Let_def split: if_splits)

lemma longest_lengths_wrap:
  assumes "\<not> is_array (declared_parse t)" "pg_type_of (declared_parse t) = Some PgVarChar"
    and "declared_length (declared_parse t) = Some len" "2 ^ 31 - 4 \<le> len"
  shows "\<exists>modifier. pg_declared_type t = Some (PgVarChar, modifier) \<and> modifier < - 1"
proof -
  have "len < 2 ^ 31"
    using assms(3) by (auto simp: declared_length_def bind_eq_Some_conv dest: parse_i32_bound split: if_splits)
  then have "(len + 4 + 2 ^ 31) mod 2 ^ 32 = len + 4 + 2 ^ 31 - 2 ^ 32"
    using assms(4) by (intro int_mod_pos_eq [where q = 1]) simp_all
  then have "wrap_i32 (len + VARHDRSZ) = len + 4 - 2 ^ 32"
    by (simp add: wrap_i32_def VARHDRSZ_def)
  then show ?thesis using assms \<open>len < 2 ^ 31\<close> by (simp add: pg_declared_type_def Let_def)
qed

end
