(* ===== verification/Schemas.thy ===== *)
theory Schemas
  imports Session Catalog_Properties
begin

text \<open>
  Schemas, \<open>crates/vairedb-coordinator/src/pgwire_handler/schemas.rs\<close>: CREATE, ALTER and
  DROP SCHEMA over the catalog, the check that a relation's schema exists, and the check that
  no other relation has the same per-shard name. The refusals shared by the statements that
  define objects are those of \<open>ddl.rs\<close>. The clock is an argument. The token-level respelling of
  \<open>ALTER TABLE ... SET SCHEMA\<close> is not modelled: it works on sqlparser's tokens.
\<close>

section \<open>Refusals\<close>

definition already_exists :: "string \<Rightarrow> error_info" where
  "already_exists table_name =
     make_vdb_error V_TableAlreadyExists (''relation '' @ dq table_name @ '' already exists'')"

definition no_table_name :: error_info where
  "no_table_name = make_vdb_error V_SqlSyntaxError ''could not determine table name''"

definition first_word :: "string \<Rightarrow> string" where
  "first_word s = takeWhile (\<lambda>c. \<not> is_space c) (dropWhile is_space s)"

definition one_object_at_a_time :: "string \<Rightarrow> string \<Rightarrow> error_info" where
  "one_object_at_a_time statement noun =
     (let verb = to_ascii_lowercase (if first_word statement = [] then statement else first_word statement) in
      make_vdb_error V_FeatureNotSupported
        (statement @ '' with more than one '' @ noun @ '' is not supported by VaireDB; ''
         @ verb @ '' each '' @ noun @ '' with its own statement''))"

definition no_referential_actions :: "string \<Rightarrow> error_info" where
  "no_referential_actions statement =
     make_vdb_error V_FeatureNotSupported
       (statement @ '' ... CASCADE/RESTRICT is not supported by VaireDB; the catalog''
        @ '' tracks no dependent objects'')"

section \<open>Reserved schemas\<close>

definition METADATA_SCHEMAS :: "string list" where
  "METADATA_SCHEMAS = [''pg_catalog'', ''information_schema'', ''vairedb_catalog'']"

definition reserved_schema :: "string \<Rightarrow> bool" where
  "reserved_schema name \<longleftrightarrow> name = DEFAULT_SCHEMA \<or> name \<in> set METADATA_SCHEMAS"

definition reject_reserved_schema :: "string \<Rightarrow> string \<Rightarrow> (error_info, unit) result" where
  "reject_reserved_schema name verb =
     (if name = DEFAULT_SCHEMA then
        Inl (make_vdb_error V_FeatureNotSupported
          (''schema '' @ dq DEFAULT_SCHEMA @ '' is the default namespace and cannot be ''
           @ verb @ '': every relation with no schema qualifier lives in it''))
      else if name \<in> set METADATA_SCHEMAS then
        Inl (make_vdb_error V_FeatureNotSupported
          (''schema '' @ dq name @ '' holds VaireDB'' @ [apostrophe]
           @ ''s own metadata and cannot be '' @ verb))
      else Inr ())"

definition schema_already_exists :: "string \<Rightarrow> error_info" where
  "schema_already_exists name =
     make_vdb_error V_SchemaAlreadyExists (''schema '' @ dq name @ '' already exists'')"

definition schema_not_found :: "string \<Rightarrow> error_info" where
  "schema_not_found name =
     make_vdb_error V_SchemaNotFound (''schema '' @ dq name @ '' does not exist'')"

section \<open>What a statement asks for\<close>

definition single_schema_ident :: "object_name \<Rightarrow> string \<Rightarrow> (error_info, string) result" where
  "single_schema_ident name command =
     (case name of
        [part] \<Rightarrow>
          (case as_ident part of
             Some i \<Rightarrow> Inr (canonicalize_ident i)
           | None \<Rightarrow>
               Inl (make_vdb_error V_SqlSyntaxError (''could not determine the schema name in '' @ command)))
      | _ \<Rightarrow>
          Inl (make_vdb_error V_SqlSyntaxError (''the schema name in '' @ command @ '' must be a single identifier'')))"

definition rename_within_schema :: "string \<Rightarrow> string \<Rightarrow> string" where
  "rename_within_schema key new_relation = qualified_name (schema_of key) (relation_of new_relation)"

record create_schema_request =
  rq_name :: string
  rq_if_not_exists :: bool

definition refused_schema_clause :: "create_schema \<Rightarrow> string option" where
  "refused_schema_clause create =
     map_option snd (find fst
       [(cs_with create, ''WITH (...)''), (cs_options create, ''OPTIONS (...)''),
        (cs_default_collate create, ''DEFAULT COLLATE''), (cs_clone create, ''CLONE'')])"

definition plan_create_schema :: "statement \<Rightarrow> (error_info, create_schema_request) result" where
  "plan_create_schema stmt =
     (case stmt of
        StCreateSchema create \<Rightarrow>
          (case cs_name create of
             SimpleSchema name \<Rightarrow>
               (case refused_schema_clause create of
                  Some clause \<Rightarrow>
                    Inl (make_vdb_error V_FeatureNotSupported
                      (''CREATE SCHEMA ... '' @ clause
                       @ '' is not supported by VaireDB: a schema is a namespace and carries''
                       @ '' no properties of its own''))
                | None \<Rightarrow>
                    r_bind (single_schema_ident name ''CREATE SCHEMA'') (\<lambda>name.
                      Inr \<lparr>rq_name = name, rq_if_not_exists = cs_if_not_exists create\<rparr>))
           | _ \<Rightarrow>
               Inl (make_vdb_error V_FeatureNotSupported
                 (''CREATE SCHEMA ... AUTHORIZATION is not supported by VaireDB: a''
                  @ '' schema has no owner, because VaireDB has no roles'')))
      | _ \<Rightarrow> Inl (make_vdb_error V_SqlSyntaxError ''expected a CREATE SCHEMA statement''))"

record drop_schema_request =
  dq_name :: string
  dq_if_exists :: bool

definition plan_drop_schema :: "statement \<Rightarrow> (error_info, drop_schema_request) result" where
  "plan_drop_schema stmt =
     (case stmt of
        StDrop d \<Rightarrow>
          if dr_object d \<noteq> OSchema then
            Inl (make_vdb_error V_SqlSyntaxError ''expected a DROP SCHEMA statement'')
          else if dr_cascade d then
            Inl (make_vdb_error V_FeatureNotSupported
              (''DROP SCHEMA ... CASCADE is not supported by VaireDB: dropping the''
               @ '' relations inside the schema is one shard fan-out per table and''
               @ '' cannot be undone part-way. Drop them first, then drop the schema''))
          else if length (dr_names d) > 1 then Inl (one_object_at_a_time ''DROP SCHEMA'' ''schema'')
          else
            r_bind (ok_or (make_vdb_error V_SqlSyntaxError ''DROP SCHEMA names no schema'') (first_of (dr_names d)))
              (\<lambda>name. r_bind (single_schema_ident name ''DROP SCHEMA'') (\<lambda>name.
                 r_bind (reject_reserved_schema name ''dropped'') (\<lambda>_.
                   Inr \<lparr>dq_name = name, dq_if_exists = dr_if_exists d\<rparr>)))
      | _ \<Rightarrow> Inl (make_vdb_error V_SqlSyntaxError ''expected a DROP SCHEMA statement''))"

record alter_schema_request =
  aq_name :: string
  aq_new_name :: string
  aq_if_exists :: bool

definition unsupported_alter_schema :: "string \<Rightarrow> string \<Rightarrow> error_info" where
  "unsupported_alter_schema clause why =
     make_vdb_error V_FeatureNotSupported (''ALTER SCHEMA ... '' @ clause @ '' is not supported by VaireDB: '' @ why)"

definition namespace_only :: string where
  "namespace_only = ''a schema is a namespace and carries no properties of its own''"

definition alter_schema_new_name :: "alter_schema_operation \<Rightarrow> (error_info, string) result" where
  "alter_schema_new_name operation =
     (case operation of
        AsRename name \<Rightarrow> single_schema_ident name ''ALTER SCHEMA''
      | AsOwnerTo \<Rightarrow>
          Inl (unsupported_alter_schema ''OWNER TO''
            ''a schema has no owner, because VaireDB has no roles'')
      | AsSetDefaultCollate \<Rightarrow>
          Inl (unsupported_alter_schema ''SET DEFAULT COLLATE''
            (''VaireDB compares and orders text by byte value, so a default''
             @ '' collation would be ignored rather than applied''))
      | AsAddReplica \<Rightarrow> Inl (unsupported_alter_schema ''ADD REPLICA'' namespace_only)
      | AsDropReplica \<Rightarrow> Inl (unsupported_alter_schema ''DROP REPLICA'' namespace_only)
      | AsSetOptionsParens \<Rightarrow> Inl (unsupported_alter_schema ''SET OPTIONS (...)'' namespace_only))"

definition plan_alter_schema :: "statement \<Rightarrow> (error_info, alter_schema_request) result" where
  "plan_alter_schema stmt =
     (case stmt of
        StAlterSchema alter \<Rightarrow>
          (case ah_operations alter of
             [operation] \<Rightarrow>
               r_bind (alter_schema_new_name operation) (\<lambda>new_name.
               r_bind (single_schema_ident (ah_name alter) ''ALTER SCHEMA'') (\<lambda>name.
               r_bind (reject_reserved_schema name ''renamed'') (\<lambda>_.
                 Inr \<lparr>aq_name = name, aq_new_name = new_name, aq_if_exists = ah_if_exists alter\<rparr>)))
           | _ \<Rightarrow>
               Inl (make_vdb_error V_SqlSyntaxError
                 ''ALTER SCHEMA takes exactly one action; apply them one statement at a time''))
      | _ \<Rightarrow> Inl (make_vdb_error V_SqlSyntaxError ''expected an ALTER SCHEMA statement''))"

section \<open>Schemas and the relations in them\<close>

definition schema_is_recorded ::
  "('t, 'b) env \<Rightarrow> 't catalog \<Rightarrow> string \<Rightarrow> error_context \<Rightarrow> (error_info, bool) result" where
  "schema_is_recorded E C name ctx =
     r_bind (enrich E C ctx (get_schema E C name)) (\<lambda>found. Inr (found \<noteq> None))"

definition relations_in_schema ::
  "('t, 'b) env \<Rightarrow> 't catalog \<Rightarrow> string \<Rightarrow> error_context \<Rightarrow> (error_info, string list) result" where
  "relations_in_schema E C schema ctx =
     r_bind (enrich E C ctx (list_tables E C)) (\<lambda>tables.
     r_bind (enrich E C ctx (list_views E C)) (\<lambda>views.
       Inr (sort (filter (\<lambda>key. schema_of key = schema)
              (map tm_table_name tables @ map vm_view_name views)))))"

definition require_schema_exists ::
  "('t, 'b) env \<Rightarrow> 't catalog \<Rightarrow> string \<Rightarrow> error_context \<Rightarrow> (error_info, unit) result" where
  "require_schema_exists E C key ctx =
     (let schema = schema_of key in
      if schema = DEFAULT_SCHEMA then Inr ()
      else if schema \<in> set METADATA_SCHEMAS then
        Inl (make_vdb_error V_FeatureNotSupported
          (''schema '' @ dq schema @ '' holds VaireDB'' @ [apostrophe]
           @ ''s own metadata; a relation cannot be created in it''))
      else
        r_bind (schema_is_recorded E C schema ctx) (\<lambda>recorded.
          if recorded then Inr () else Inl (schema_not_found schema)))"

text \<open>The names a table puts on the shards: its own, its indexes', its index-backed constraints'.\<close>

definition physical_owners :: "table_meta \<Rightarrow> (string \<times> string) list" where
  "physical_owners table =
     (''table'', tm_table_name table)
     # map (\<lambda>i. (''index'', ix_name i)) (tm_indexes table)
     @ map (\<lambda>c. (''constraint'', cn_name c)) (filter cn_index_backed (tm_constraints table))"

definition physical_name_conflict :: "string \<Rightarrow> string \<Rightarrow> string \<times> string \<Rightarrow> error_info" where
  "physical_name_conflict key physical owner =
     (case owner of (kind, name) \<Rightarrow>
        make_vdb_error V_TableAlreadyExists
          (dq key @ '' cannot be created: its per-shard tables would be named ''
           @ [dquote] @ physical @ ''_shard<n>'' @ [dquote] @ '', which the '' @ kind @ '' ''
           @ dq name @ '' already uses. A schema qualifier becomes part of the physical''
           @ '' name, so '' @ dq key @ '' and '' @ dq name @ '' cannot both exist''))"

definition reject_physical_name_conflict ::
  "('t, 'b) env \<Rightarrow> 't catalog \<Rightarrow> string \<Rightarrow> error_context \<Rightarrow> (error_info, unit) result" where
  "reject_physical_name_conflict E C key ctx =
     (let physical = physical_base_name key in
      r_bind (enrich E C ctx (list_tables E C)) (\<lambda>tables.
        case find (\<lambda>(kind, name). name \<noteq> key \<and> physical_base_name name = physical)
               (concat (map physical_owners tables)) of
          Some owner \<Rightarrow> Inl (physical_name_conflict key physical owner)
        | None \<Rightarrow> Inr ()))"

section \<open>The handlers\<close>

definition seconds_timestamp :: "nat \<Rightarrow> timestamp" where
  "seconds_timestamp now_secs = \<lparr>ts_seconds = as_i64 now_secs, ts_nanos = 0\<rparr>"

definition handle_create_schema ::
  "('t, 'b) env \<Rightarrow> nat \<Rightarrow> statement \<Rightarrow> 't catalog \<Rightarrow> (error_info, response) result \<times> 't catalog" where
  "handle_create_schema E now_secs stmt C =
     (case plan_create_schema stmt of
        Inl e \<Rightarrow> (Inl e, C)
      | Inr request \<Rightarrow>
          if reserved_schema (rq_name request) then
            (if rq_if_not_exists request then Inr (Execution ''CREATE SCHEMA'' 0)
             else Inl (schema_already_exists (rq_name request)), C)
          else
            (case create_schema_if_absent E
                    \<lparr>sm_schema_name = rq_name request, sm_created_at = Some (seconds_timestamp now_secs)\<rparr> C of
               (claimed, C') \<Rightarrow>
                 (if \<not> claimed \<and> \<not> rq_if_not_exists request
                  then Inl (schema_already_exists (rq_name request))
                  else Inr (Execution ''CREATE SCHEMA'' 0), C')))"

definition others_in_schema :: "string list \<Rightarrow> string" where
  "others_in_schema contents =
     (if length contents = 1 then [] else ('' and '' @ show_nat (length contents - 1) @ '' other relation(s)''))"

definition handle_alter_schema ::
  "('t, 'b) env \<Rightarrow> statement \<Rightarrow> 't catalog \<Rightarrow> (error_info, response) result \<times> 't catalog" where
  "handle_alter_schema E stmt C =
     (let ctx = error_context_default in
      case plan_alter_schema stmt of
        Inl e \<Rightarrow> (Inl e, C)
      | Inr request \<Rightarrow>
          (case enrich E C ctx (get_schema E C (aq_name request)) of
             Inl e \<Rightarrow> (Inl e, C)
           | Inr None \<Rightarrow>
               (if aq_if_exists request then Inr (Execution ''ALTER SCHEMA'' 0)
                else Inl (schema_not_found (aq_name request)), C)
           | Inr (Some meta) \<Rightarrow>
               (case relations_in_schema E C (aq_name request) ctx of
                  Inl e \<Rightarrow> (Inl e, C)
                | Inr (relation # rest) \<Rightarrow>
                    (Inl (make_vdb_error V_DependentObjectsExist
                       (''schema '' @ dq (aq_name request) @ '' cannot be renamed because it still holds ''
                        @ dq relation @ others_in_schema (relation # rest)
                        @ '': the schema is part of every relation'' @ [apostrophe]
                        @ ''s per-shard table names, so renaming it is one shard fan-out per''
                        @ '' relation and cannot be undone part-way. Move the relations with''
                        @ '' ALTER TABLE ... SET SCHEMA, then rename the empty schema'')), C)
                | Inr [] \<Rightarrow>
                    if reserved_schema (aq_new_name request) then
                      (Inl (schema_already_exists (aq_new_name request)), C)
                    else
                      (case create_schema_if_absent E (meta\<lparr>sm_schema_name := aq_new_name request\<rparr>) C of
                         (claimed, C') \<Rightarrow>
                           if \<not> claimed then (Inl (schema_already_exists (aq_new_name request)), C')
                           else (Inr (Execution ''ALTER SCHEMA'' 0), delete_schema E (aq_name request) C')))))"

definition handle_drop_schema ::
  "('t, 'b) env \<Rightarrow> statement \<Rightarrow> 't catalog \<Rightarrow> (error_info, response) result \<times> 't catalog" where
  "handle_drop_schema E stmt C =
     (let ctx = error_context_default in
      case plan_drop_schema stmt of
        Inl e \<Rightarrow> (Inl e, C)
      | Inr request \<Rightarrow>
          (case schema_is_recorded E C (dq_name request) ctx of
             Inl e \<Rightarrow> (Inl e, C)
           | Inr recorded \<Rightarrow>
               if \<not> recorded then
                 (if dq_if_exists request then Inr (Execution ''DROP SCHEMA'' 0)
                  else Inl (schema_not_found (dq_name request)), C)
               else
                 (case relations_in_schema E C (dq_name request) ctx of
                    Inl e \<Rightarrow> (Inl e, C)
                  | Inr (relation # rest) \<Rightarrow>
                      (Inl (make_vdb_error V_DependentObjectsExist
                         (''schema '' @ dq (dq_name request) @ '' is not empty: it still holds ''
                         @ dq relation @ others_in_schema (relation # rest)
                         @ ''. Drop the relations it contains first'')), C)
                  | Inr [] \<Rightarrow> (Inr (Execution ''DROP SCHEMA'' 0), delete_schema E (dq_name request) C))))"

end
