(* ===== verification/Constraints.thy ===== *)
theory Constraints
  imports Column_Types Schemas "HOL-Library.AList"
begin

text \<open>
  The constraints of a table as metadata, the part of
  \<open>crates/vairedb-coordinator/src/pgwire_handler/constraints.rs\<close> that reads no catalog: what a
  CREATE TABLE or an ADD CONSTRAINT declares, the names of unnamed constraints, and what a
  change of a column does to the constraints on it. Every uniqueness that is accepted covers
  the shard key. Walking an expression is modelled; parsing one is sqlparser's.
\<close>

section \<open>Expressions\<close>

text \<open>The nodes of an expression in the order sqlparser's visitor meets them.\<close>

fun expr_nodes :: "expr \<Rightarrow> expr list" where
  "expr_nodes (ENested e) = ENested e # expr_nodes e"
| "expr_nodes (EUnaryOp op e) = EUnaryOp op e # expr_nodes e"
| "expr_nodes (EBinaryOp l op r) = EBinaryOp l op r # expr_nodes l @ expr_nodes r"
| "expr_nodes (EFunction f args) = EFunction f args # concat (map expr_nodes args)"
| "expr_nodes (EArray es) = EArray es # concat (map expr_nodes es)"
| "expr_nodes (EOther s es) = EOther s es # concat (map expr_nodes es)"
| "expr_nodes e = [e]"

definition named_column :: "expr \<Rightarrow> string option" where
  "named_column e =
     (case e of
        EIdentifier i \<Rightarrow> Some (canonicalize_ident i)
      | ECompoundIdentifier parts \<Rightarrow> if parts = [] then None else Some (canonicalize_ident (last parts))
      | _ \<Rightarrow> None)"

definition is_column_of :: "column_def list \<Rightarrow> string \<Rightarrow> bool" where
  "is_column_of columns name \<longleftrightarrow> list_ex (\<lambda>c. col_name c = name) columns"

definition check_columns :: "expr \<Rightarrow> column_def list \<Rightarrow> string list" where
  "check_columns e table_columns =
     fold (\<lambda>inner found.
       case named_column inner of
         Some name \<Rightarrow>
           if is_column_of table_columns name \<and> name \<notin> set found then found @ [name] else found
       | None \<Rightarrow> found) (expr_nodes e) []"

definition renamed_ident :: "string \<Rightarrow> ident" where
  "renamed_ident name =
     (if list_ex is_ascii_uppercase name then ident_with_quote dquote name else ident_new name)"

fun rename_in_expr :: "string \<Rightarrow> string \<Rightarrow> expr \<Rightarrow> expr" where
  "rename_in_expr old new (EIdentifier i) =
     (if canonicalize_ident i = old then EIdentifier (renamed_ident new) else EIdentifier i)"
| "rename_in_expr old new (ECompoundIdentifier parts) =
     (if parts \<noteq> [] \<and> canonicalize_ident (last parts) = old
      then ECompoundIdentifier (butlast parts @ [renamed_ident new]) else ECompoundIdentifier parts)"
| "rename_in_expr old new (ENested e) = ENested (rename_in_expr old new e)"
| "rename_in_expr old new (EUnaryOp op e) = EUnaryOp op (rename_in_expr old new e)"
| "rename_in_expr old new (EBinaryOp l op r) =
     EBinaryOp (rename_in_expr old new l) op (rename_in_expr old new r)"
| "rename_in_expr old new (EFunction f args) = EFunction f (map (rename_in_expr old new) args)"
| "rename_in_expr old new (EArray es) = EArray (map (rename_in_expr old new) es)"
| "rename_in_expr old new (EOther s es) = EOther s (map (rename_in_expr old new) es)"
| "rename_in_expr old new e = e"

section \<open>Declarations\<close>

datatype constraint_kind = CkUnspecified | CkCheck | CkUnique | CkPrimaryKey

fun constraint_kind_i32 :: "constraint_kind \<Rightarrow> int" where
  "constraint_kind_i32 CkUnspecified = 0"
| "constraint_kind_i32 CkCheck = 1"
| "constraint_kind_i32 CkUnique = 2"
| "constraint_kind_i32 CkPrimaryKey = 3"

record declared_constraint =
  dc_name :: "string option"
  dc_kind :: constraint_kind
  dc_columns :: "string list"
  dc_definition :: string

definition rendered_column_list :: "string list \<Rightarrow> string" where
  "rendered_column_list columns = join '', '' (map quoted_if_folded columns)"

definition deferrable_refusal :: "string \<Rightarrow> error_info" where
  "deferrable_refusal kind =
     make_vdb_error V_FeatureNotSupported
       (''a DEFERRABLE '' @ kind
        @ '' constraint is not supported by VaireDB: each shard checks its own''
        @ '' rows as they are written, and there is no cluster-wide moment at''
        @ '' which a deferred check could run'')"

definition index_decoration_refusal :: "string \<Rightarrow> error_info" where
  "index_decoration_refusal kind =
     make_vdb_error V_FeatureNotSupported
       (''index decorations on a '' @ kind
        @ '' constraint (an index name, USING, or an index option) are not''
        @ '' supported by VaireDB; write it as a plain '' @ kind
        @ '' (<columns>) constraint'')"

definition foreign_key_refusal :: "string \<Rightarrow> error_info" where
  "foreign_key_refusal foreign_table =
     make_vdb_error V_FeatureNotSupported
       (''FOREIGN KEY is not supported by VaireDB: a referencing row and the''
        @ '' row it references in '' @ dq foreign_table
        @ '' are routed by their own tables'' @ [apostrophe]
        @ '' shard keys, so the referenced row generally lives on another''
        @ '' shard and no shard can check a reference it cannot see. Enforce''
        @ '' the relationship in the application'')"

definition reject_unique_decorations :: "unique_constraint \<Rightarrow> (error_info, unit) result" where
  "reject_unique_decorations unique =
     (if uq_nulls_not_distinct unique then
        Inl (make_vdb_error V_FeatureNotSupported
          (''UNIQUE ... NULLS NOT DISTINCT is not supported by VaireDB: the'' @ '' shards''
           @ [apostrophe] @ '' engine treats NULLs as distinct, so the extra rows it would''
           @ '' reject cannot be rejected''))
      else if uq_characteristics unique then Inl (deferrable_refusal ''UNIQUE'')
      else if uq_index_name unique \<or> uq_index_type unique \<or> uq_index_options unique \<or> uq_index_display unique
      then Inl (index_decoration_refusal ''UNIQUE'')
      else Inr ())"

definition reject_primary_key_decorations :: "primary_key_constraint \<Rightarrow> (error_info, unit) result" where
  "reject_primary_key_decorations primary_key =
     (if pk_characteristics primary_key then Inl (deferrable_refusal ''PRIMARY KEY'')
      else if pk_index_name primary_key \<or> pk_index_type primary_key \<or> pk_index_options primary_key
      then Inl (index_decoration_refusal ''PRIMARY KEY'')
      else Inr ())"

definition reject_check_decorations :: "check_constraint \<Rightarrow> (error_info, unit) result" where
  "reject_check_decorations check =
     (if ck_enforced check = Some False then
        Inl (make_vdb_error V_FeatureNotSupported
          (''a NOT ENFORCED CHECK constraint is not supported by VaireDB: the'' @ '' shards''
           @ [apostrophe]
           @ '' engine enforces every CHECK it is given, so the constraint would''
           @ '' reject rows the statement said to admit''))
      else Inr ())"

definition index_column_names :: "expr list \<Rightarrow> (error_info, string list) result" where
  "index_column_names columns =
     collect_results (\<lambda>column.
       case column of
         EIdentifier i \<Rightarrow> Inr (canonicalize_ident i)
       | _ \<Rightarrow>
           Inl (make_vdb_error V_FeatureNotSupported
             (''a UNIQUE or PRIMARY KEY constraint over an expression is not''
              @ '' supported by VaireDB; constrain a column instead'')))
       columns"

definition check_definition :: "sql_lib \<Rightarrow> expr \<Rightarrow> string" where
  "check_definition L e = ''CHECK ('' @ sq_expr L e @ '')''"

definition declared_from_column_option ::
  "sql_lib \<Rightarrow> string \<Rightarrow> column_def list \<Rightarrow> column_option_def
     \<Rightarrow> (error_info, declared_constraint option) result" where
  "declared_from_column_option L column table_columns option =
     (let name = map_option canonicalize_ident (od_name option) in
      case od_option option of
        CoUnique unique \<Rightarrow>
          r_bind (reject_unique_decorations unique) (\<lambda>_.
            Inr (Some \<lparr>dc_name = name, dc_kind = CkUnique, dc_columns = [column],
                       dc_definition = ''UNIQUE ('' @ quoted_if_folded column @ '')''\<rparr>))
      | CoPrimaryKey primary_key \<Rightarrow>
          r_bind (reject_primary_key_decorations primary_key) (\<lambda>_.
            Inr (Some \<lparr>dc_name = name, dc_kind = CkPrimaryKey, dc_columns = [column],
                       dc_definition = ''PRIMARY KEY ('' @ quoted_if_folded column @ '')''\<rparr>))
      | CoCheck check \<Rightarrow>
          r_bind (reject_check_decorations check) (\<lambda>_.
            Inr (Some \<lparr>dc_name = name, dc_kind = CkCheck,
                       dc_columns = check_columns (ck_expr check) table_columns,
                       dc_definition = check_definition L (ck_expr check)\<rparr>))
      | CoForeignKey foreign_table \<Rightarrow> Inl (foreign_key_refusal (sq_object_name L foreign_table))
      | _ \<Rightarrow> Inr None)"

definition declared_from_table_constraint ::
  "sql_lib \<Rightarrow> column_def list \<Rightarrow> table_constraint \<Rightarrow> (error_info, declared_constraint) result" where
  "declared_from_table_constraint L table_columns cnstr =
     (case cnstr of
        TcUnique unique \<Rightarrow>
          r_bind (reject_unique_decorations unique) (\<lambda>_.
          r_bind (index_column_names (uq_columns unique)) (\<lambda>columns.
            Inr \<lparr>dc_name = map_option canonicalize_ident (uq_name unique), dc_kind = CkUnique,
                 dc_columns = columns, dc_definition = ''UNIQUE ('' @ rendered_column_list columns @ '')''\<rparr>))
      | TcPrimaryKey primary_key \<Rightarrow>
          r_bind (reject_primary_key_decorations primary_key) (\<lambda>_.
          r_bind (index_column_names (pk_columns primary_key)) (\<lambda>columns.
            Inr \<lparr>dc_name = map_option canonicalize_ident (pk_name primary_key), dc_kind = CkPrimaryKey,
                 dc_columns = columns,
                 dc_definition = ''PRIMARY KEY ('' @ rendered_column_list columns @ '')''\<rparr>))
      | TcCheck check \<Rightarrow>
          r_bind (reject_check_decorations check) (\<lambda>_.
            Inr \<lparr>dc_name = map_option canonicalize_ident (ck_name check), dc_kind = CkCheck,
                 dc_columns = check_columns (ck_expr check) table_columns,
                 dc_definition = check_definition L (ck_expr check)\<rparr>)
      | TcForeignKey foreign_table \<Rightarrow> Inl (foreign_key_refusal (sq_object_name L foreign_table))
      | TcIndex \<Rightarrow>
          Inl (make_vdb_error V_FeatureNotSupported
            (''declaring an index inside CREATE TABLE is not supported by''
             @ '' VaireDB; create it afterwards with CREATE INDEX''))
      | TcFulltextOrSpatial \<Rightarrow>
          Inl (make_vdb_error V_FeatureNotSupported
            (''declaring an index inside CREATE TABLE is not supported by''
             @ '' VaireDB; create it afterwards with CREATE INDEX''))
      | TcPrimaryKeyUsingIndex \<Rightarrow>
          Inl (make_vdb_error V_FeatureNotSupported
            (''PRIMARY KEY / UNIQUE USING INDEX is not supported by VaireDB;''
             @ '' declare the constraint on its columns instead''))
      | TcUniqueUsingIndex \<Rightarrow>
          Inl (make_vdb_error V_FeatureNotSupported
            (''PRIMARY KEY / UNIQUE USING INDEX is not supported by VaireDB;''
             @ '' declare the constraint on its columns instead'')))"

section \<open>Names\<close>

definition local_name_taken :: "constraint_meta list \<Rightarrow> string \<Rightarrow> bool" where
  "local_name_taken existing name \<longleftrightarrow> list_ex (\<lambda>c. relation_of (cn_name c) = name) existing"

text \<open>
  The source tries \<open>base1\<close>, \<open>base2\<close>, ... without end. One of the first \<open>length existing + 1\<close>
  is free (\<open>generated_name_fresh\<close>), so the search here stops there.
\<close>

definition generated_name :: "string \<Rightarrow> constraint_kind \<Rightarrow> string list \<Rightarrow> constraint_meta list \<Rightarrow> string" where
  "generated_name table_name kind columns existing =
     (let relation = relation_of table_name;
          base = (case kind of
                    CkPrimaryKey \<Rightarrow> relation @ ''_pkey''
                  | CkUnique \<Rightarrow> relation @ ''_'' @ join ''_'' columns @ ''_key''
                  | _ \<Rightarrow>
                      (case columns of
                         [column] \<Rightarrow> relation @ ''_'' @ column @ ''_check''
                       | _ \<Rightarrow> relation @ ''_check''))
      in if \<not> local_name_taken existing base then base
         else
           (case find (\<lambda>candidate. \<not> local_name_taken existing candidate)
                   (map (\<lambda>n. base @ show_nat n) [1..<length existing + 2]) of
              Some candidate \<Rightarrow> candidate
            | None \<Rightarrow> base))"

definition into_meta ::
  "string \<Rightarrow> string \<Rightarrow> column_def list \<Rightarrow> bool \<Rightarrow> constraint_meta list \<Rightarrow> declared_constraint
     \<Rightarrow> (error_info, constraint_meta) result" where
  "into_meta table_name shard_key table_columns index_backed existing declared =
     (case find (\<lambda>column. \<not> is_column_of table_columns column) (dc_columns declared) of
        Some column \<Rightarrow>
          Inl (make_vdb_error V_ColumnNotFound
            (''column '' @ dq column @ '' does not exist in relation '' @ dq table_name))
      | None \<Rightarrow>
          if (dc_kind declared = CkUnique \<or> dc_kind declared = CkPrimaryKey)
             \<and> shard_key \<notin> set (dc_columns declared) then
            (let kind = (if dc_kind declared = CkPrimaryKey then ''PRIMARY KEY'' else ''UNIQUE'') in
             Inl (make_vdb_error V_FeatureNotSupported
               (''a '' @ kind @ '' constraint must include the shard key '' @ dq shard_key
                @ '' of relation '' @ dq table_name
                @ '': uniqueness is enforced by each shard on its own rows, and only''
                @ '' equal shard keys are guaranteed to land on the same shard '' @ em_dash
                @ '' off the shard key VaireDB would report a constraint it cannot''
                @ '' enforce. Add '' @ dq shard_key
                @ '' to the constraint, or drop the constraint from the statement'')))
          else
            r_bind
              (case dc_name declared of
                 Some name \<Rightarrow>
                   if local_name_taken existing (relation_of name) then
                     Inl (make_vdb_error V_TableAlreadyExists
                       (''constraint '' @ dq name @ '' of relation '' @ dq table_name @ '' already exists''))
                   else Inr name
               | None \<Rightarrow>
                   Inr (generated_name table_name (dc_kind declared) (dc_columns declared) existing))
              (\<lambda>name.
                 Inr \<lparr>cn_name = (if index_backed then qualified_name (schema_of table_name) (relation_of name)
                                 else name),
                      cn_kind = constraint_kind_i32 (dc_kind declared),
                      cn_columns = dc_columns declared,
                      cn_definition = dc_definition declared,
                      cn_index_backed = index_backed\<rparr>))"

section \<open>CREATE TABLE and ADD CONSTRAINT\<close>

fun record_all ::
  "string \<Rightarrow> string \<Rightarrow> column_def list \<Rightarrow> constraint_meta list \<Rightarrow> declared_constraint list
     \<Rightarrow> (error_info, constraint_meta list) result" where
  "record_all table_name shard_key columns recorded [] = Inr recorded"
| "record_all table_name shard_key columns recorded (one # declared) =
     r_bind (into_meta table_name shard_key columns False recorded one) (\<lambda>meta.
       record_all table_name shard_key columns (recorded @ [meta]) declared)"

definition constraints_from_create ::
  "sql_lib \<Rightarrow> create_table \<Rightarrow> string \<Rightarrow> string \<Rightarrow> column_def list
     \<Rightarrow> (error_info, constraint_meta list) result" where
  "constraints_from_create L create table_name shard_key columns =
     r_bind
       (collect_results
          (\<lambda>(column, option). declared_from_column_option L column columns option)
          (concat (map (\<lambda>column. map (Pair (canonicalize_ident (ac_name column))) (ac_options column))
             (cr_columns create))))
       (\<lambda>of_columns.
     r_bind (collect_results (declared_from_table_constraint L columns) (cr_constraints create))
       (\<lambda>of_table.
         record_all table_name shard_key columns [] (List.map_filter id of_columns @ of_table)))"

definition plan_add_constraint ::
  "sql_lib \<Rightarrow> table_meta \<Rightarrow> table_constraint \<Rightarrow> bool \<Rightarrow> (error_info, constraint_meta) result" where
  "plan_add_constraint L table_meta cnstr not_valid =
     (case cnstr of
        TcCheck _ \<Rightarrow>
          Inl (make_vdb_error V_FeatureNotSupported
            (''ALTER TABLE ... ADD CONSTRAINT ... CHECK is not supported by''
             @ '' VaireDB: the shards'' @ [apostrophe]
             @ '' engine cannot add a CHECK to a table that already exists. Declare''
             @ '' the CHECK in CREATE TABLE, where it is enforced on every shard''))
      | TcPrimaryKey _ \<Rightarrow>
          Inl (make_vdb_error V_FeatureNotSupported
            (''ALTER TABLE ... ADD PRIMARY KEY is not supported by VaireDB: the'' @ '' shards''
             @ [apostrophe]
             @ '' engine accepts it only once per table and cannot drop it again,''
             @ '' so a broadcast that reached some shards and not others could''
             @ '' neither be retried nor undone. Declare the primary key in CREATE''
             @ '' TABLE, or add a droppable equivalent with ALTER TABLE ''
             @ tm_table_name table_meta @ '' ADD CONSTRAINT <name> UNIQUE (''
             @ tm_shard_key table_meta @ '')''))
      | _ \<Rightarrow>
          if not_valid then
            Inl (make_vdb_error V_FeatureNotSupported
              (''ALTER TABLE ... ADD CONSTRAINT ... NOT VALID is not supported by''
               @ '' VaireDB: each shard enforces the constraint with an index that''
               @ '' validates the rows already stored, so the rows cannot be exempted''))
          else
            r_bind (declared_from_table_constraint L (tm_columns table_meta) cnstr) (\<lambda>declared.
              if dc_name declared = None then
                Inl (make_vdb_error V_FeatureNotSupported
                  (''ALTER TABLE ... ADD CONSTRAINT without a name is not supported by''
                   @ '' VaireDB: the constraint is enforced by one index per shard, named''
                   @ '' after it, and DROP CONSTRAINT resolves that name back. Name the''
                   @ '' constraint''))
              else
                into_meta (tm_table_name table_meta) (tm_shard_key table_meta) (tm_columns table_meta) True
                  (tm_constraints table_meta) declared))"

definition refused_alter_operation :: "sql_lib \<Rightarrow> alter_operation \<Rightarrow> error_info option" where
  "refused_alter_operation L op =
     (case op of
        AoDropPrimaryKey \<Rightarrow>
          Some (make_vdb_error V_FeatureNotSupported
            (''ALTER TABLE ... DROP PRIMARY KEY is not supported by VaireDB: a''
             @ '' primary key is part of the table'' @ [apostrophe]
             @ ''s definition on every shard, and the shards'' @ [apostrophe]
             @ '' engine cannot remove it. Recreate the table without it''))
      | AoDropForeignKey \<Rightarrow>
          Some (make_vdb_error V_FeatureNotSupported
            (''ALTER TABLE ... DROP FOREIGN KEY is not supported by VaireDB,''
             @ '' which has no foreign keys to drop: a reference cannot be enforced''
             @ '' across shards, so FOREIGN KEY is refused when it is declared''))
      | AoDropIndex name \<Rightarrow>
          Some (make_vdb_error V_FeatureNotSupported
            (''ALTER TABLE ... DROP INDEX is not supported by VaireDB; drop the''
             @ '' index with DROP INDEX '' @ sq_object_name L [NIdentifier name]))
      | _ \<Rightarrow> None)"

section \<open>Changes of a column\<close>

definition declared_covering :: "table_meta \<Rightarrow> string \<Rightarrow> constraint_kind list \<Rightarrow> constraint_meta list" where
  "declared_covering table_meta column kinds =
     filter (\<lambda>c. \<not> cn_index_backed c
                 \<and> list_ex (\<lambda>kind. cn_kind c = constraint_kind_i32 kind) kinds
                 \<and> column \<in> set (cn_columns c)) (tm_constraints table_meta)"

definition reject_if_constrained ::
  "table_meta \<Rightarrow> string \<Rightarrow> string \<Rightarrow> constraint_kind list \<Rightarrow> (error_info, unit) result" where
  "reject_if_constrained table_meta column op kinds =
     (case declared_covering table_meta column kinds of
        [] \<Rightarrow> Inr ()
      | blocking # _ \<Rightarrow>
          Inl (make_vdb_error V_FeatureNotSupported
            (''cannot '' @ op @ '' column '' @ dq column @ '' because constraint ''
             @ dq (cn_name blocking) @ '' of relation '' @ dq (tm_table_name table_meta)
             @ '' covers it: '' @ cn_definition blocking @ '', declared in the table''
             @ [apostrophe] @ ''s definition on every shard, and the shards'' @ [apostrophe]
             @ '' engine cannot remove it; recreate the table without the'' @ '' constraint'')))"

definition reject_drop_of_constrained_column :: "table_meta \<Rightarrow> string \<Rightarrow> (error_info, unit) result" where
  "reject_drop_of_constrained_column table_meta column =
     reject_if_constrained table_meta column ''drop'' [CkUnique, CkPrimaryKey]"

definition reject_retype_of_constrained_column :: "table_meta \<Rightarrow> string \<Rightarrow> (error_info, unit) result" where
  "reject_retype_of_constrained_column table_meta column =
     reject_if_constrained table_meta column ''change the type of'' [CkUnique, CkPrimaryKey, CkCheck]"

definition reject_nullable_primary_key_column :: "table_meta \<Rightarrow> string \<Rightarrow> (error_info, unit) result" where
  "reject_nullable_primary_key_column table_meta column =
     reject_if_constrained table_meta column ''drop NOT NULL on'' [CkPrimaryKey]"

definition forget_constraints_on_dropped_column :: "string \<Rightarrow> table_meta \<Rightarrow> table_meta" where
  "forget_constraints_on_dropped_column column table_meta =
     table_meta\<lparr>tm_constraints :=
       filter (\<lambda>c. cn_index_backed c \<or> column \<notin> set (cn_columns c)) (tm_constraints table_meta)\<rparr>"

definition rename_column_in_check :: "sql_lib \<Rightarrow> string \<Rightarrow> string \<Rightarrow> string \<Rightarrow> string option" where
  "rename_column_in_check L definition old new =
     Option.bind (strip_prefix ''CHECK ('' definition) (\<lambda>rest.
     Option.bind (strip_suffix '')'' rest) (\<lambda>inner.
     Option.bind (sq_parse_expr L inner) (\<lambda>e.
       Some (check_definition L (rename_in_expr old new e)))))"

definition rename_in_list :: "string \<Rightarrow> string \<Rightarrow> string list \<Rightarrow> string list" where
  "rename_in_list old new columns = map (\<lambda>covered. if covered = old then new else covered) columns"

definition rename_in_constraint :: "sql_lib \<Rightarrow> string \<Rightarrow> string \<Rightarrow> constraint_meta \<Rightarrow> constraint_meta" where
  "rename_in_constraint L old new c =
     (if old \<notin> set (cn_columns c) then c
      else
        (let columns = rename_in_list old new (cn_columns c);
             rendered = rendered_column_list columns
         in c\<lparr>cn_columns := columns,
              cn_definition :=
                (if cn_kind c = constraint_kind_i32 CkUnique then ''UNIQUE ('' @ rendered @ '')''
                 else if cn_kind c = constraint_kind_i32 CkPrimaryKey then ''PRIMARY KEY ('' @ rendered @ '')''
                 else if cn_kind c = constraint_kind_i32 CkCheck then
                   (case rename_column_in_check L (cn_definition c) old new of
                      Some definition \<Rightarrow> definition | None \<Rightarrow> cn_definition c)
                 else cn_definition c)\<rparr>))"

definition rename_column_in_constraints :: "sql_lib \<Rightarrow> string \<Rightarrow> string \<Rightarrow> table_meta \<Rightarrow> table_meta" where
  "rename_column_in_constraints L old new table_meta =
     table_meta\<lparr>tm_constraints := map (rename_in_constraint L old new) (tm_constraints table_meta)\<rparr>"

section \<open>Every recorded constraint can be enforced\<close>

definition is_uniqueness :: "constraint_meta \<Rightarrow> bool" where
  "is_uniqueness c \<longleftrightarrow>
     cn_kind c = constraint_kind_i32 CkUnique \<or> cn_kind c = constraint_kind_i32 CkPrimaryKey"

text \<open>
  A constraint fits a table with the given shard key and columns: it is on columns of the
  table, a uniqueness covers the shard key, and one kept by an index is a UNIQUE.
\<close>

definition constraint_ok :: "string \<Rightarrow> column_def list \<Rightarrow> constraint_meta \<Rightarrow> bool" where
  "constraint_ok shard_key columns c \<longleftrightarrow>
     list_all (is_column_of columns) (cn_columns c)
   \<and> (is_uniqueness c \<longrightarrow> shard_key \<in> set (cn_columns c))
   \<and> (cn_index_backed c \<longrightarrow> cn_kind c = constraint_kind_i32 CkUnique)"

lemma collect_results_memD:
  assumes "collect_results f xs = Inr ys"
  shows "y \<in> set ys \<Longrightarrow> \<exists>x\<in>set xs. f x = Inr y" "x \<in> set xs \<Longrightarrow> \<exists>y\<in>set ys. f x = Inr y"
  using assms by (auto simp: collect_results_Inr list_all2_conv_all_nth in_set_conv_nth) (metis nth_mem)+

lemma find_None_all: "find (\<lambda>x. \<not> P x) xs = None \<longleftrightarrow> list_all P xs"
  by (auto simp: find_None_iff list_all_iff)

lemma into_meta_ok:
  assumes "into_meta t key columns index_backed existing d = Inr c" "index_backed \<Longrightarrow> dc_kind d = CkUnique"
  shows "constraint_ok key columns c"
  using assms
  by (cases "dc_kind d")
    (auto simp: into_meta_def constraint_ok_def is_uniqueness_def find_None_all r_bind_eq_Inr Let_def
      split: option.splits if_splits)

lemma record_all_ok:
  assumes "record_all t key columns recorded declared = Inr cs" "list_all (constraint_ok key columns) recorded"
  shows "list_all (constraint_ok key columns) cs"
  using assms
proof (induction t key columns recorded declared rule: record_all.induct)
  case (2 t key columns recorded one declared)
  then obtain c where c: "into_meta t key columns False recorded one = Inr c"
    and rest: "record_all t key columns (recorded @ [c]) declared = Inr cs"
    by (auto simp: r_bind_eq_Inr)
  have "constraint_ok key columns c" by (rule into_meta_ok [OF c]) simp
  then show ?case using "2.IH" rest "2.prems" by simp
qed simp

lemma constraints_from_create_ok:
  assumes "constraints_from_create L create t key columns = Inr cs"
  shows "list_all (constraint_ok key columns) cs"
  using assms record_all_ok [of t key columns "[]"]
  by (auto simp: constraints_from_create_def r_bind_eq_Inr)

lemma plan_add_constraint_ok:
  assumes "plan_add_constraint L t cnstr not_valid = Inr c"
  shows "constraint_ok (tm_shard_key t) (tm_columns t) c \<and> cn_index_backed c"
proof -
  obtain d where d: "declared_from_table_constraint L (tm_columns t) cnstr = Inr d"
    and c: "into_meta (tm_table_name t) (tm_shard_key t) (tm_columns t) True (tm_constraints t) d = Inr c"
    and kind: "\<forall>check. cnstr \<noteq> TcCheck check" "\<forall>key. cnstr \<noteq> TcPrimaryKey key"
    using assms by (auto simp: plan_add_constraint_def r_bind_eq_Inr split: table_constraint.splits if_splits)
  have "dc_kind d = CkUnique"
    using d kind by (auto simp: declared_from_table_constraint_def r_bind_eq_Inr split: table_constraint.splits)
  then show ?thesis
    using into_meta_ok [OF c] c by (auto simp: into_meta_def r_bind_eq_Inr Let_def split: option.splits if_splits)
qed

text \<open>The bounded search for a free name finds one.\<close>

lemma candidate_free:
  "\<exists>n\<in>set [1..<length existing + 2]. \<not> local_name_taken existing (base @ show_nat n)"
proof (rule ccontr)
  assume taken: "\<not> ?thesis"
  have "base @ show_nat n \<in> (relation_of \<circ> cn_name) ` set existing" if "n \<in> set [1..<length existing + 2]" for n
  proof -
    have "local_name_taken existing (base @ show_nat n)" using taken that by blast
    then show ?thesis unfolding local_name_taken_def list_ex_iff image_iff comp_def by metis
  qed
  then have "(\<lambda>n. base @ show_nat n) ` set [1..<length existing + 2] \<subseteq> (relation_of \<circ> cn_name) ` set existing"
    by blast
  then have "card ((\<lambda>n. base @ show_nat n) ` set [1..<length existing + 2]) \<le> card ((relation_of \<circ> cn_name) ` set existing)"
    by (intro card_mono) auto
  moreover have "card ((\<lambda>n. base @ show_nat n) ` set [1..<length existing + 2]) = card (set [1..<length existing + 2])"
    by (rule card_image) (auto simp: inj_on_def)
  moreover have "card (set [1..<length existing + 2]) = length existing + 1"
    unfolding set_upt card_atLeastLessThan by simp
  ultimately show False
    using card_image_le [of "set existing" "relation_of \<circ> cn_name"] card_length [of existing] by simp
qed

lemma generated_name_fresh: "\<not> local_name_taken existing (generated_name t kind columns existing)"
proof -
  have "\<not> local_name_taken existing
      (if \<not> local_name_taken existing base then base
       else (case find (\<lambda>c. \<not> local_name_taken existing c) (map (\<lambda>n. base @ show_nat n) [1..<length existing + 2]) of
               Some c \<Rightarrow> c | None \<Rightarrow> base))" (is "\<not> _ (if _ then _ else case ?f of Some c \<Rightarrow> c | None \<Rightarrow> base)") for base
  proof (cases ?f)
    case None
    then show ?thesis using candidate_free [of existing base] by (auto simp: find_None_iff)
  next
    case (Some c)
    then have "\<not> local_name_taken existing c" by (auto dest: find_SomeD)
    then show ?thesis using Some by auto
  qed
  then show ?thesis unfolding generated_name_def Let_def .
qed

end
