(* ===== verification/Table_Meta.thy ===== *)
theory Table_Meta
  imports Constraints Dml
begin

text \<open>
  Table metadata from DDL statements,
  \<open>crates/vairedb-coordinator/src/pgwire_handler/table_meta_ops.rs\<close>: the configuration a
  CREATE TABLE asks for, the columns of a query's result, and the effect of one ALTER TABLE
  operation on the metadata. The well-formedness of the metadata, \<open>table_ok\<close>, is what CREATE
  TABLE establishes and every operation keeps. A Rust hash map is an association list in
  the order of its insertions.
\<close>

section \<open>CREATE TABLE\<close>

definition DIGEST_LEN :: nat where
  "DIGEST_LEN = 64"

record create_table_config =
  tc_shard_count :: nat
  tc_replication_factor :: nat
  tc_shard_key :: string
  tc_columns :: "column_def list"
  tc_anonymized_columns :: "(string \<times> string) list"
  tc_constraints :: "constraint_meta list"

definition reject_unsupported_create_table_form :: "create_table \<Rightarrow> (error_info, unit) result" where
  "reject_unsupported_create_table_form create =
     (let refused = (\<lambda>form. Inl (make_vdb_error V_FeatureNotSupported
        (form @ '' is not supported by VaireDB: a table'' @ [apostrophe]
         @ ''s shard key is fixed at CREATE TABLE and is taken from its column''
         @ '' list, which this statement does not provide. Create the table''
         @ '' with an explicit column list and WITH (shard_by = '' @ [apostrophe]
         @ ''<column>'' @ [apostrophe] @ ''), then load the rows with INSERT'')))
      in if cr_like create then refused ''CREATE TABLE ... LIKE''
         else if cr_clone create then refused ''CREATE TABLE ... CLONE''
         else if cr_columns create = [] then refused ''CREATE TABLE without column definitions''
         else Inr ())"

definition reject_unserviceable_column_type :: "sql_lib \<Rightarrow> string \<Rightarrow> sql_type \<Rightarrow> (error_info, unit) result" where
  "reject_unserviceable_column_type L column_name data_type =
     (let declared = sq_type L data_type in
      case unserviceable_type_reason declared of
        None \<Rightarrow> Inr ()
      | Some reason \<Rightarrow>
          Inl (make_vdb_error V_FeatureNotSupported
            (''column '' @ dq column_name @ '' of type '' @ declared @ '' is not supported: ''
             @ reason)))"

definition is_byte_order_collation :: "object_name \<Rightarrow> bool" where
  "is_byte_order_collation collation =
     (case (if collation = [] then None else as_ident (last collation)) of
        None \<Rightarrow> False
      | Some name \<Rightarrow>
          id_value name = ''C'' \<or> id_value name = ''POSIX''
          \<or> eq_ignore_ascii_case (id_value name) ''ucs_basic''
          \<or> eq_ignore_ascii_case (id_value name) ''default'')"

definition unsupported_collation :: "column_option_def \<Rightarrow> object_name option" where
  "unsupported_collation option =
     (case od_option option of
        CoCollation collation \<Rightarrow> if is_byte_order_collation collation then None else Some collation
      | _ \<Rightarrow> None)"

definition reject_unsupported_column_collation :: "sql_lib \<Rightarrow> ast_column \<Rightarrow> (error_info, unit) result" where
  "reject_unsupported_column_collation L column =
     (case List.map_filter unsupported_collation (ac_options column) of
        [] \<Rightarrow> Inr ()
      | collation # _ \<Rightarrow>
          Inl (make_vdb_error V_FeatureNotSupported
            (''column '' @ dq (id_value (ac_name column)) @ '' declared COLLATE ''
             @ sq_object_name L collation
             @ '' is not supported by VaireDB: text is compared and ordered by byte''
             @ '' value everywhere, and a shard applying its own collation instead''
             @ '' would not agree with the coordinator; omit the COLLATE, or use '' @ [dquote]
             @ ''C'' @ [dquote])))"

fun reject_columns :: "sql_lib \<Rightarrow> ast_column list \<Rightarrow> (error_info, unit) result" where
  "reject_columns L [] = Inr ()"
| "reject_columns L (col # cols) =
     r_bind (reject_unserviceable_column_type L (id_value (ac_name col)) (ac_data_type col)) (\<lambda>_.
     r_bind (reject_unsupported_column_collation L col) (\<lambda>_. reject_columns L cols))"

definition reject_unserviceable_column_types :: "sql_lib \<Rightarrow> create_table \<Rightarrow> (error_info, unit) result" where
  "reject_unserviceable_column_types L create = reject_columns L (cr_columns create)"

definition value_to_u32 :: "sql_value \<Rightarrow> nat option" where
  "value_to_u32 v =
     (case v of
        VNumber n _ \<Rightarrow> parse_unsigned (2 ^ 32) n
      | VSingleQuoted s \<Rightarrow> parse_unsigned (2 ^ 32) s
      | _ \<Rightarrow> None)"

definition value_to_string :: "sql_lib \<Rightarrow> sql_value \<Rightarrow> string" where
  "value_to_string L v =
     (case v of VSingleQuoted s \<Rightarrow> s | VNumber n _ \<Rightarrow> n | other \<Rightarrow> sq_value L other)"

definition literal_secret :: "expr \<Rightarrow> string option" where
  "literal_secret e = (case e of EValue (VSingleQuoted s) \<Rightarrow> Some s | _ \<Rightarrow> None)"

definition anonymized_entry :: "expr \<Rightarrow> (error_info, string \<times> string) result" where
  "anonymized_entry elem =
     (case elem of
        EBinaryOp left op right \<Rightarrow>
          if op \<noteq> BArrow then
            Inl (make_vdb_error V_SqlSyntaxError
              ''anonymized_columns entries must use the `->` mapping operator'')
          else
            (case left of
               EIdentifier col_ident \<Rightarrow>
                 (case literal_secret right of
                    Some secret_id \<Rightarrow> Inr (to_ascii_lowercase (id_value col_ident), secret_id)
                  | None \<Rightarrow>
                      Inl (make_vdb_error V_SqlSyntaxError
                        ''the secret id in an anonymized_columns entry must be a string literal''))
             | _ \<Rightarrow>
                 Inl (make_vdb_error V_SqlSyntaxError
                   ''the left side of an anonymized_columns entry must be a column name''))
      | _ \<Rightarrow>
          Inl (make_vdb_error V_SqlSyntaxError
            (''each anonymized_columns entry must be `column -> '' @ [apostrophe] @ ''secret_id''
             @ [apostrophe] @ ''`'')))"

definition parse_anonymized_columns :: "expr \<Rightarrow> (error_info, (string \<times> string) list) result" where
  "parse_anonymized_columns value =
     (case value of
        EArray elems \<Rightarrow>
          r_bind (collect_results anonymized_entry elems) (\<lambda>entries.
            Inr (fold (\<lambda>(col, secret_id). AList.update col secret_id) entries []))
      | _ \<Rightarrow>
          Inl (make_vdb_error V_SqlSyntaxError
            (''anonymized_columns must be a list of `column -> '' @ [apostrophe] @ ''secret_id''
             @ [apostrophe] @ ''` mappings'')))"

definition character_length_holds_digest :: "character_length option \<Rightarrow> bool" where
  "character_length_holds_digest len =
     (case len of
        None \<Rightarrow> True
      | Some MaxLength \<Rightarrow> True
      | Some (IntegerLength n) \<Rightarrow> n \<ge> DIGEST_LEN)"

definition string_type_holds_digest :: "sql_type \<Rightarrow> bool" where
  "string_type_holds_digest dt =
     (case dt of
        TyVarchar len \<Rightarrow> character_length_holds_digest len
      | TyCharVarying len \<Rightarrow> character_length_holds_digest len
      | TyCharacterVarying len \<Rightarrow> character_length_holds_digest len
      | TyChar len \<Rightarrow> character_length_holds_digest len
      | TyCharacter len \<Rightarrow> character_length_holds_digest len
      | TyNvarchar len \<Rightarrow> character_length_holds_digest len
      | TyText \<Rightarrow> True
      | TyString None \<Rightarrow> True
      | TyTinyText \<Rightarrow> True
      | TyString (Some n) \<Rightarrow> n \<ge> DIGEST_LEN
      | _ \<Rightarrow> False)"

definition validate_anonymized_column :: "create_table \<Rightarrow> string \<Rightarrow> (error_info, unit) result" where
  "validate_anonymized_column create column =
     (case find (\<lambda>c. eq_ignore_ascii_case (id_value (ac_name c)) column) (cr_columns create) of
        None \<Rightarrow>
          Inl (make_vdb_error V_ColumnNotFound (''anonymized column '' @ dq column @ '' does not exist in the table''))
      | Some found \<Rightarrow>
          if \<not> string_type_holds_digest (ac_data_type found) then
            Inl (make_vdb_error V_FeatureNotSupported
              (''anonymized column '' @ dq column @ '' must be a string type of at least ''
               @ show_nat DIGEST_LEN @ '' characters to hold the HMAC-SHA256 digest''))
          else Inr ())"

definition validate_anonymized_columns :: "(string \<times> string) list \<Rightarrow> create_table \<Rightarrow> (error_info, unit) result" where
  "validate_anonymized_columns anonymized_columns create =
     r_bind (collect_results (validate_anonymized_column create) (map fst anonymized_columns)) (\<lambda>_. Inr ())"

definition is_not_null :: "column_option_def \<Rightarrow> bool" where
  "is_not_null opt = (case od_option opt of CoNotNull \<Rightarrow> True | _ \<Rightarrow> False)"

definition column_def_from_ast :: "sql_lib \<Rightarrow> ast_column \<Rightarrow> column_def" where
  "column_def_from_ast L col =
     \<lparr>col_name = canonicalize_ident (ac_name col), col_data_type = sq_type L (ac_data_type col),
      col_nullable = (\<not> list_ex is_not_null (ac_options col)), col_default_expr = []\<rparr>"

definition strip_hash :: "string \<Rightarrow> string" where
  "strip_hash shard_key =
     (case Option.bind (strip_prefix ''HASH('' shard_key) (strip_suffix '')'') of
        Some inner \<Rightarrow> inner | None \<Rightarrow> shard_key)"

record with_options =
  wo_shards :: nat
  wo_replication_factor :: nat
  wo_shard_by :: string
  wo_anonymized :: "(string \<times> string) list"

definition read_option :: "sql_lib \<Rightarrow> sql_option \<Rightarrow> with_options \<Rightarrow> (error_info, with_options) result" where
  "read_option L option acc =
     (case option of
        KeyValue key value \<Rightarrow>
          (let k = to_lowercase (id_value key) in
           if k = ''shards'' then
             Inr (case value of
                    EValue v \<Rightarrow> (case value_to_u32 v of Some n \<Rightarrow> acc\<lparr>wo_shards := n\<rparr> | None \<Rightarrow> acc)
                  | _ \<Rightarrow> acc)
           else if k = ''replication_factor'' then
             Inr (case value of
                    EValue v \<Rightarrow>
                      (case value_to_u32 v of Some n \<Rightarrow> acc\<lparr>wo_replication_factor := n\<rparr> | None \<Rightarrow> acc)
                  | _ \<Rightarrow> acc)
           else if k = ''shard_by'' then
             Inr (case value of EValue v \<Rightarrow> acc\<lparr>wo_shard_by := value_to_string L v\<rparr> | _ \<Rightarrow> acc)
           else if k = ''anonymized_columns'' then
             r_bind (parse_anonymized_columns value) (\<lambda>anonymized. Inr (acc\<lparr>wo_anonymized := anonymized\<rparr>))
           else Inr acc)
      | OtherSqlOption _ \<Rightarrow> Inr acc)"

fun read_options :: "sql_lib \<Rightarrow> sql_option list \<Rightarrow> with_options \<Rightarrow> (error_info, with_options) result" where
  "read_options L [] acc = Inr acc"
| "read_options L (option # options) acc = r_bind (read_option L option acc) (read_options L options)"

definition with_option_list :: "create_table \<Rightarrow> sql_option list" where
  "with_option_list create = (case cr_options create of WithOptions opts \<Rightarrow> opts | _ \<Rightarrow> [])"

definition chosen_shard_key :: "create_table \<Rightarrow> string \<Rightarrow> string" where
  "chosen_shard_key create shard_by =
     canonicalize_ident_str (strip_hash
       (if shard_by \<noteq> [] then shard_by
        else (case cr_columns create of c # _ \<Rightarrow> canonicalize_ident (ac_name c) | [] \<Rightarrow> ''id'')))"

definition parse_create_table_config ::
  "sql_lib \<Rightarrow> create_table \<Rightarrow> nat \<Rightarrow> (error_info, create_table_config) result" where
  "parse_create_table_config L create default_replication_factor =
     r_bind
       (read_options L (with_option_list create)
          \<lparr>wo_shards = 0, wo_replication_factor = default_replication_factor, wo_shard_by = [],
           wo_anonymized = []\<rparr>) (\<lambda>opts.
       let shard_key = chosen_shard_key create (wo_shard_by opts);
           columns = map (column_def_from_ast L) (cr_columns create);
           table_name = (case canonical_table_name (cr_name create) of Some n \<Rightarrow> n | None \<Rightarrow> [])
       in r_bind (validate_anonymized_columns (wo_anonymized opts) create) (\<lambda>_.
          r_bind (constraints_from_create L create table_name shard_key columns) (\<lambda>constraints.
            Inr \<lparr>tc_shard_count = wo_shards opts, tc_replication_factor = wo_replication_factor opts,
                 tc_shard_key = shard_key, tc_columns = columns,
                 tc_anonymized_columns = wo_anonymized opts, tc_constraints = constraints\<rparr>)))"

definition SHARD_STRATEGY_HASH :: int where
  "SHARD_STRATEGY_HASH = 1"

text \<open>The record of a new table: no index yet, the constraints its statement declared.\<close>

definition created_table_meta :: "string \<Rightarrow> create_table_config \<Rightarrow> nat \<Rightarrow> nat \<Rightarrow> table_meta" where
  "created_table_meta table_name config shard_count now_secs =
     \<lparr>tm_table_name = table_name, tm_columns = tc_columns config,
      tm_shard_strategy = SHARD_STRATEGY_HASH, tm_shard_key = tc_shard_key config,
      tm_shard_count = shard_count, tm_replication_factor = tc_replication_factor config,
      tm_created_at = Some (seconds_timestamp now_secs),
      tm_anonymized_columns = tc_anonymized_columns config, tm_indexes = [],
      tm_constraints = tc_constraints config\<rparr>"

definition shard_by_option :: "sql_lib \<Rightarrow> sql_option \<Rightarrow> string option" where
  "shard_by_option L option =
     (case option of
        KeyValue key (EValue v) \<Rightarrow>
          if \<not> eq_ignore_ascii_case (id_value key) ''shard_by'' then None
          else
            (let name = strip_hash (value_to_string L v) in
             if name = [] then None else Some (canonicalize_ident_str name))
      | _ \<Rightarrow> None)"

definition explicit_shard_by :: "sql_lib \<Rightarrow> create_table \<Rightarrow> string option" where
  "explicit_shard_by L create = first_of (List.map_filter (shard_by_option L) (with_option_list create))"

definition is_anonymized_option :: "sql_option \<Rightarrow> bool" where
  "is_anonymized_option option =
     (case option of
        KeyValue key _ \<Rightarrow> eq_ignore_ascii_case (id_value key) ''anonymized_columns''
      | _ \<Rightarrow> False)"

definition declared_anonymized_columns :: "create_table \<Rightarrow> (error_info, (string \<times> string) list) result" where
  "declared_anonymized_columns create =
     (case find is_anonymized_option (with_option_list create) of
        Some (KeyValue _ value) \<Rightarrow> parse_anonymized_columns value
      | _ \<Rightarrow> Inr [])"

section \<open>The columns of a query's result\<close>

fun duckdb_type_for :: "data_type \<Rightarrow> (string, sql_type) result" where
  "duckdb_type_for data_type.DBoolean = Inr TyBoolean"
| "duckdb_type_for DInt8 = Inr TyTinyInt"
| "duckdb_type_for DInt16 = Inr TySmallInt"
| "duckdb_type_for DInt32 = Inr TyInteger"
| "duckdb_type_for DInt64 = Inr TyBigInt"
| "duckdb_type_for DUInt8 = Inr TySmallInt"
| "duckdb_type_for DUInt16 = Inr TyInteger"
| "duckdb_type_for DUInt32 = Inr TyBigInt"
| "duckdb_type_for DUInt64 = Inr TyUBigInt"
| "duckdb_type_for DFloat16 = Inr TyReal"
| "duckdb_type_for DFloat32 = Inr TyReal"
| "duckdb_type_for DFloat64 = Inr TyDoublePrecision"
| "duckdb_type_for (DDecimal128 precision scale) = Inr (TyDecimal precision scale)"
| "duckdb_type_for (DDecimal256 precision scale) = Inr (TyDecimal precision scale)"
| "duckdb_type_for DUtf8 = Inr (TyVarchar None)"
| "duckdb_type_for DLargeUtf8 = Inr (TyVarchar None)"
| "duckdb_type_for DUtf8View = Inr (TyVarchar None)"
| "duckdb_type_for DDate32 = Inr TyDate"
| "duckdb_type_for DDate64 = Inr TyDate"
| "duckdb_type_for (DTime32 _) = Inr TyTime"
| "duckdb_type_for (DTime64 _) = Inr TyTime"
| "duckdb_type_for (DTimestamp _ tz) = Inr (TyTimestamp (tz \<noteq> None))"
| "duckdb_type_for (DDictionary _ value_type) = duckdb_type_for value_type"
| "duckdb_type_for DNull =
     Inl (''the query gives this column no type; cast it (e.g. `CAST(NULL AS''
          @ '' INTEGER)`) so the table has one to declare'')"
| "duckdb_type_for (data_type.DOther other) =
     Inl (''a column of type '' @ other
          @ '' cannot be created this way: the coordinator materializes the'' @ '' query''
          @ [apostrophe]
          @ ''s rows and writes them back as literal values, and this type has''
          @ '' no literal form that stores the same value'')"

definition column_defs_from_result_schema :: "field list \<Rightarrow> (string, ast_column list) result" where
  "column_defs_from_result_schema schema =
     collect_results (\<lambda>fd.
       case duckdb_type_for (fd_data_type fd) of
         Inl reason \<Rightarrow> Inl (''column '' @ dq (fd_name fd) @ '': '' @ reason)
       | Inr data_type \<Rightarrow>
           Inr \<lparr>ac_name = ident_with_quote dquote (fd_name fd), ac_data_type = data_type,
                ac_options = (if fd_nullable fd then [] else [\<lparr>od_name = None, od_option = CoNotNull\<rparr>])\<rparr>)
       schema"

section \<open>ALTER TABLE\<close>

definition reject_if_anonymized :: "table_meta \<Rightarrow> string \<Rightarrow> string \<Rightarrow> (error_info, unit) result" where
  "reject_if_anonymized table_meta name op =
     (if map_of (tm_anonymized_columns table_meta) (to_ascii_lowercase name) \<noteq> None then
        Inl (make_vdb_error V_FeatureNotSupported
          (''cannot '' @ op @ '' column '' @ dq name
           @ '' because it is an anonymized column; drop and recreate the table''
           @ '' to change anonymized columns''))
      else Inr ())"

record blocking_index =
  bi_name :: string
  bi_noun :: string
  bi_removal :: string
  bi_on_this_column :: bool
  bi_unique :: bool

definition blocking_indexes :: "table_meta \<Rightarrow> string \<Rightarrow> blocking_index list" where
  "blocking_indexes table_meta column =
     map (\<lambda>idx. \<lparr>bi_name = ix_name idx, bi_noun = ''index'', bi_removal = ''DROP INDEX '' @ dq (ix_name idx),
                 bi_on_this_column = (column \<in> set (ix_columns idx)), bi_unique = ix_unique idx\<rparr>)
       (tm_indexes table_meta)
     @ map (\<lambda>c. \<lparr>bi_name = cn_name c, bi_noun = ''constraint'',
                 bi_removal = ''ALTER TABLE '' @ tm_table_name table_meta @ '' DROP CONSTRAINT '' @ dq (cn_name c),
                 bi_on_this_column = (column \<in> set (cn_columns c)), bi_unique = True\<rparr>)
       (filter cn_index_backed (tm_constraints table_meta))"

definition removal_hint :: "string list \<Rightarrow> string" where
  "removal_hint removals =
     (case removals of
        [only] \<Rightarrow> only @ '' first''
      | many \<Rightarrow> ''remove all of them first: '' @ join ''; '' many)"

definition indexed_column_refusal :: "string \<Rightarrow> string \<Rightarrow> blocking_index list \<Rightarrow> string \<Rightarrow> error_info" where
  "indexed_column_refusal name op blocking reason =
     (let hint = removal_hint (map bi_removal blocking);
          reason =
            (case blocking of
               [only] \<Rightarrow>
                 if bi_on_this_column only
                 then (bi_noun only @ '' '' @ dq (bi_name only) @ '' is built on it and '' @ reason) else reason
             | _ \<Rightarrow> reason)
      in make_vdb_error V_FeatureNotSupported (''cannot '' @ op @ '' column '' @ dq name @ '' because '' @ reason @ ''; '' @ hint))"

definition reject_unrebuildable_index ::
  "table_meta \<Rightarrow> string \<Rightarrow> string \<Rightarrow> bool \<Rightarrow> (error_info, unit) result" where
  "reject_unrebuildable_index table_meta name op rewrites_column =
     (let blocking = blocking_indexes table_meta name;
          unique = filter bi_unique blocking;
          covering = filter bi_on_this_column blocking
      in if unique \<noteq> [] then
           Inl (indexed_column_refusal name op unique
             (''the table carries a unique index '' @ em_dash
              @ '' its own, or one enforcing a constraint '' @ em_dash @ '' and the shards''
              @ [apostrophe] @ '' engine cannot give a unique index its name back inside the''
              @ '' transaction that dropped it, so the index cannot be rebuilt''
              @ '' around the change''))
         else if rewrites_column \<and> covering \<noteq> [] then
           Inl (indexed_column_refusal name op covering
             (''the shards'' @ [apostrophe]
              @ '' engine refuses to drop or retype a column an index is built on,''
              @ '' even inside the transaction that dropped that index''))
         else Inr ())"

definition rename_column_in_indexes :: "string \<Rightarrow> string \<Rightarrow> table_meta \<Rightarrow> table_meta" where
  "rename_column_in_indexes old new table_meta =
     table_meta\<lparr>tm_indexes := map (\<lambda>idx. idx\<lparr>ix_columns := rename_in_list old new (ix_columns idx)\<rparr>)
       (tm_indexes table_meta)\<rparr>"

text \<open>The search for a column to change: its position, or the error of a missing column.\<close>

definition find_column_mut :: "table_meta \<Rightarrow> string \<Rightarrow> (error_info, nat) result" where
  "find_column_mut table_meta name =
     ok_or (make_vdb_error V_ColumnNotFound (''column '' @ dq name @ '' does not exist''))
       (position (\<lambda>c. col_name c = name) (tm_columns table_meta))"

definition change_column :: "nat \<Rightarrow> (column_def \<Rightarrow> column_def) \<Rightarrow> table_meta \<Rightarrow> table_meta" where
  "change_column i f table_meta =
     table_meta\<lparr>tm_columns := (tm_columns table_meta)[i := f (tm_columns table_meta ! i)]\<rparr>"

definition add_column :: "sql_lib \<Rightarrow> ast_column \<Rightarrow> bool \<Rightarrow> table_meta \<Rightarrow> (error_info, table_meta) result" where
  "add_column L column_def if_not_exists table_meta =
     (let name = canonicalize_ident (ac_name column_def) in
      if is_column_of (tm_columns table_meta) name then
        (if if_not_exists then Inr table_meta
         else
           Inl (make_vdb_error V_ColumnAlreadyExists (''column '' @ dq name @ '' of relation already exists'')))
      else
        r_bind (reject_unserviceable_column_type L (id_value (ac_name column_def)) (ac_data_type column_def)) (\<lambda>_.
        r_bind (reject_unsupported_column_collation L column_def) (\<lambda>_.
          Inr (table_meta\<lparr>tm_columns := tm_columns table_meta @ [column_def_from_ast L column_def]\<rparr>))))"

definition drop_column :: "bool \<Rightarrow> ident \<Rightarrow> table_meta \<Rightarrow> (error_info, table_meta) result" where
  "drop_column if_exists column_name table_meta =
     (let name = canonicalize_ident column_name in
      r_bind (reject_if_anonymized table_meta name ''drop'') (\<lambda>_.
      r_bind (reject_unrebuildable_index table_meta name ''drop'' True) (\<lambda>_.
      r_bind (reject_drop_of_constrained_column table_meta name) (\<lambda>_.
        if name = tm_shard_key table_meta then
          Inl (make_vdb_error V_FeatureNotSupported
            (''cannot drop column '' @ dq name @ '' because it is the shard key''))
        else
          (case position (\<lambda>c. col_name c = name) (tm_columns table_meta) of
             Some i \<Rightarrow>
               Inr (forget_constraints_on_dropped_column name
                 (table_meta\<lparr>tm_columns := take i (tm_columns table_meta) @ drop (i + 1) (tm_columns table_meta)\<rparr>))
           | None \<Rightarrow>
               if \<not> if_exists then
                 Inl (make_vdb_error V_ColumnNotFound (''column '' @ dq name @ '' does not exist''))
               else Inr table_meta)))))"

fun drop_columns :: "bool \<Rightarrow> ident list \<Rightarrow> table_meta \<Rightarrow> (error_info, table_meta) result" where
  "drop_columns if_exists [] table_meta = Inr table_meta"
| "drop_columns if_exists (name # names) table_meta =
     r_bind (drop_column if_exists name table_meta) (drop_columns if_exists names)"

definition rename_column :: "sql_lib \<Rightarrow> ident \<Rightarrow> ident \<Rightarrow> table_meta \<Rightarrow> (error_info, table_meta) result" where
  "rename_column L old_column_name new_column_name table_meta =
     (let old_name = canonicalize_ident old_column_name;
          new_name = canonicalize_ident new_column_name
      in r_bind (reject_if_anonymized table_meta old_name ''rename'') (\<lambda>_.
         r_bind (reject_unrebuildable_index table_meta old_name ''rename'' False) (\<lambda>_.
         r_bind (find_column_mut table_meta old_name) (\<lambda>i.
           let renamed = change_column i (\<lambda>c. c\<lparr>col_name := new_name\<rparr>) table_meta;
               keyed = (if tm_shard_key renamed = old_name then renamed\<lparr>tm_shard_key := new_name\<rparr> else renamed)
           in Inr (rename_column_in_indexes old_name new_name
                     (rename_column_in_constraints L old_name new_name keyed))))))"

definition indexed_verb :: "alter_column_operation \<Rightarrow> (string \<times> bool) option" where
  "indexed_verb op =
     (case op of
        AcSetDataType _ \<Rightarrow> Some (''change the type of'', True)
      | AcSetNotNull \<Rightarrow> Some (''change the nullability of'', False)
      | AcDropNotNull \<Rightarrow> Some (''change the nullability of'', False)
      | _ \<Rightarrow> None)"

definition constrained_change ::
  "sql_lib \<Rightarrow> table_meta \<Rightarrow> string \<Rightarrow> alter_column_operation \<Rightarrow> (error_info, unit) result" where
  "constrained_change L table_meta name op =
     (case op of
        AcSetDataType data_type \<Rightarrow>
          r_bind (reject_unserviceable_column_type L name data_type) (\<lambda>_.
            reject_retype_of_constrained_column table_meta name)
      | AcDropNotNull \<Rightarrow> reject_nullable_primary_key_column table_meta name
      | _ \<Rightarrow> Inr ())"

definition column_change ::
  "sql_lib \<Rightarrow> alter_column_operation \<Rightarrow> (error_info, column_def \<Rightarrow> column_def) result" where
  "column_change L op =
     (case op of
        AcSetDataType data_type \<Rightarrow> Inr (\<lambda>col. col\<lparr>col_data_type := sq_type L data_type\<rparr>)
      | AcSetNotNull \<Rightarrow> Inr (\<lambda>col. col\<lparr>col_nullable := False\<rparr>)
      | AcDropNotNull \<Rightarrow> Inr (\<lambda>col. col\<lparr>col_nullable := True\<rparr>)
      | AcSetDefault value \<Rightarrow> Inr (\<lambda>col. col\<lparr>col_default_expr := sq_expr L value\<rparr>)
      | AcDropDefault \<Rightarrow> Inr (\<lambda>col. col\<lparr>col_default_expr := []\<rparr>)
      | other \<Rightarrow>
          Inl (make_vdb_error V_FeatureNotSupported
            (''ALTER COLUMN operation not supported: '' @ sq_alter_column L other)))"

definition alter_column ::
  "sql_lib \<Rightarrow> ident \<Rightarrow> alter_column_operation \<Rightarrow> table_meta \<Rightarrow> (error_info, table_meta) result" where
  "alter_column L column_name op table_meta =
     (let name = canonicalize_ident column_name in
      r_bind (reject_if_anonymized table_meta name ''alter'') (\<lambda>_.
      r_bind
        (case indexed_verb op of
           Some (verb, retyping) \<Rightarrow> reject_unrebuildable_index table_meta name verb retyping
         | None \<Rightarrow> Inr ()) (\<lambda>_.
      r_bind (constrained_change L table_meta name op) (\<lambda>_.
      r_bind (find_column_mut table_meta name) (\<lambda>i.
      r_bind (column_change L op) (\<lambda>f. Inr (change_column i f table_meta)))))))"

definition apply_alter_operation ::
  "sql_lib \<Rightarrow> alter_operation \<Rightarrow> table_meta \<Rightarrow> (error_info, table_meta) result" where
  "apply_alter_operation L op table_meta =
     (case op of
        AoAddColumn column_def if_not_exists \<Rightarrow> add_column L column_def if_not_exists table_meta
      | AoDropColumn column_names if_exists \<Rightarrow> drop_columns if_exists column_names table_meta
      | AoRenameColumn old_name new_name \<Rightarrow> rename_column L old_name new_name table_meta
      | AoAlterColumn column_name change \<Rightarrow> alter_column L column_name change table_meta
      | other \<Rightarrow>
          Inl (make_vdb_error V_FeatureNotSupported
            (''ALTER TABLE operation not supported: '' @ sq_alter_operation L other)))"

fun apply_alter_operations ::
  "sql_lib \<Rightarrow> alter_operation list \<Rightarrow> table_meta \<Rightarrow> (error_info, table_meta) result" where
  "apply_alter_operations L [] table_meta = Inr table_meta"
| "apply_alter_operations L (op # ops) table_meta =
     r_bind (apply_alter_operation L op table_meta) (apply_alter_operations L ops)"

section \<open>Well-formed metadata\<close>

definition index_ok :: "string \<Rightarrow> column_def list \<Rightarrow> index_meta \<Rightarrow> bool" where
  "index_ok shard_key columns idx \<longleftrightarrow>
     list_all (is_column_of columns) (ix_columns idx) \<and> (ix_unique idx \<longrightarrow> shard_key \<in> set (ix_columns idx))"

definition anonymized_ok :: "column_def list \<Rightarrow> (string \<times> string) list \<Rightarrow> bool" where
  "anonymized_ok columns anonymized \<longleftrightarrow>
     list_all (\<lambda>(k, _). list_ex (\<lambda>c. to_ascii_lowercase (col_name c) = k) columns) anonymized"

text \<open>
  Constraints and indexes are on columns of the table, every uniqueness covers the shard key,
  and every pseudonymized column exists.
\<close>

definition table_ok :: "table_meta \<Rightarrow> bool" where
  "table_ok t \<longleftrightarrow>
     list_all (constraint_ok (tm_shard_key t) (tm_columns t)) (tm_constraints t)
   \<and> list_all (index_ok (tm_shard_key t) (tm_columns t)) (tm_indexes t)
   \<and> anonymized_ok (tm_columns t) (tm_anonymized_columns t)"

definition key_is_column :: "table_meta \<Rightarrow> bool" where
  "key_is_column t \<longleftrightarrow> is_column_of (tm_columns t) (tm_shard_key t)"

lemma lower_canonical: "to_ascii_lowercase (canonicalize_ident i) = to_ascii_lowercase (id_value i)"
  by (cases "id_quote_style i") (auto simp: canonicalize_ident_def)

lemma validate_anonymized_ok:
  assumes "validate_anonymized_columns anonymized create = Inr ()" "\<forall>(k, _)\<in>set anonymized. to_ascii_lowercase k = k"
  shows "anonymized_ok (map (column_def_from_ast L) (cr_columns create)) anonymized"
proof -
  have "list_ex (\<lambda>c. to_ascii_lowercase (col_name c) = k) (map (column_def_from_ast L) (cr_columns create))"
    if "(k, v) \<in> set anonymized" for k v
  proof -
    have "validate_anonymized_column create k = Inr ()"
    proof -
      obtain us where "collect_results (validate_anonymized_column create) (map fst anonymized) = Inr us"
        using assms(1) by (auto simp: validate_anonymized_columns_def r_bind_eq_Inr)
      moreover have "k \<in> set (map fst anonymized)" using that by force
      ultimately show ?thesis using collect_results_memD(2) by fastforce
    qed
    then obtain c where "c \<in> set (cr_columns create)" "eq_ignore_ascii_case (id_value (ac_name c)) k"
      by (auto simp: validate_anonymized_column_def split: option.splits dest: find_SomeD)
    then show ?thesis
      using assms(2) that
      by (auto simp: list_ex_iff column_def_from_ast_def lower_canonical eq_ignore_ascii_case_def intro!: bexI [of _ c])
  qed
  then show ?thesis by (auto simp: anonymized_ok_def list_all_iff)
qed

lemma update_keys:
  "fst ` set (fold (\<lambda>(c, s). AList.update c s) es acc) = fst ` set es \<union> fst ` set acc"
proof (induction es arbitrary: acc)
  case (Cons e es)
  have step: "fst ` set (AList.update c s al) = insert c (fst ` set al)" for c s and al :: "('a \<times> 'b) list"
    by (induction al) auto
  show ?case by (cases e) (simp add: Cons step)
qed simp

lemma update_keys_lower:
  assumes "\<forall>(k, _)\<in>set es. to_ascii_lowercase k = k" "\<forall>(k, _)\<in>set acc. to_ascii_lowercase k = k"
  shows "\<forall>(k, _)\<in>set (fold (\<lambda>(c, s). AList.update c s) es acc). to_ascii_lowercase k = k"
proof clarify
  fix k v assume "(k, v) \<in> set (fold (\<lambda>(c, s). AList.update c s) es acc)"
  then have "k \<in> fst ` set es \<union> fst ` set acc" unfolding update_keys [symmetric] by (rule rev_image_eqI) simp
  then have "\<exists>v. (k, v) \<in> set es \<or> (k, v) \<in> set acc" by auto
  then show "to_ascii_lowercase k = k" using assms by blast
qed

lemma anonymized_entry_lower:
  assumes "anonymized_entry elem = Inr (k, s)"
  shows "to_ascii_lowercase k = k"
proof (cases elem)
  case (EBinaryOp left op right)
  then show ?thesis
    using assms by (cases left) (auto simp: anonymized_entry_def split: if_splits option.splits)
qed (use assms in \<open>simp_all add: anonymized_entry_def\<close>)

lemma parse_anonymized_lower:
  assumes "parse_anonymized_columns e = Inr anonymized"
  shows "\<forall>(k, _)\<in>set anonymized. to_ascii_lowercase k = k"
proof -
  obtain elems entries where entries: "collect_results anonymized_entry elems = Inr entries"
    and anonymized: "anonymized = fold (\<lambda>(c, s). AList.update c s) entries []"
    using assms by (auto simp: parse_anonymized_columns_def r_bind_eq_Inr split: expr.splits)
  have "to_ascii_lowercase k = k" if "(k, s) \<in> set entries" for k s
  proof -
    have "\<exists>elem\<in>set elems. anonymized_entry elem = Inr (k, s)" by (rule collect_results_memD(1) [OF entries that])
    then show ?thesis by (auto dest: anonymized_entry_lower)
  qed
  then have "\<forall>(k, _)\<in>set entries. to_ascii_lowercase k = k" by auto
  then show ?thesis unfolding anonymized by (intro update_keys_lower) auto
qed

lemma read_option_anonymized:
  assumes "read_option L opt acc = Inr mid"
  shows "wo_anonymized mid = wo_anonymized acc \<or> (\<exists>e. parse_anonymized_columns e = Inr (wo_anonymized mid))"
proof (cases opt)
  case (KeyValue key val)
  have unread: "wo_anonymized (case val of EValue v \<Rightarrow> f v | _ \<Rightarrow> acc) = wo_anonymized acc"
    if "\<And>v. wo_anonymized (f v) = wo_anonymized acc" for f
    using that by (cases val) simp_all
  show ?thesis
    using assms unfolding KeyValue
    by (auto simp: read_option_def Let_def r_bind_eq_Inr unread split: if_splits option.splits)
qed (use assms in \<open>simp add: read_option_def\<close>)

lemma read_options_lower:
  assumes "read_options L opts acc = Inr acc'" "\<forall>(k, _)\<in>set (wo_anonymized acc). to_ascii_lowercase k = k"
  shows "\<forall>(k, _)\<in>set (wo_anonymized acc'). to_ascii_lowercase k = k"
  using assms
proof (induction opts arbitrary: acc)
  case (Cons opt opts)
  then obtain mid where mid: "read_option L opt acc = Inr mid" "read_options L opts mid = Inr acc'"
    by (auto simp: r_bind_eq_Inr)
  have "\<forall>(k, _)\<in>set (wo_anonymized mid). to_ascii_lowercase k = k"
    using read_option_anonymized [OF mid(1)]
  proof
    assume "wo_anonymized mid = wo_anonymized acc"
    then show ?thesis using Cons.prems(2) by (simp only:)
  next
    assume "\<exists>e. parse_anonymized_columns e = Inr (wo_anonymized mid)"
    then show ?thesis by (elim exE) (rule parse_anonymized_lower)
  qed
  then show ?case by (rule Cons.IH [OF mid(2)])
qed simp

theorem create_config_ok:
  assumes "parse_create_table_config L create rf = Inr cfg"
  shows "list_all (constraint_ok (tc_shard_key cfg) (tc_columns cfg)) (tc_constraints cfg)
       \<and> anonymized_ok (tc_columns cfg) (tc_anonymized_columns cfg)"
  using assms validate_anonymized_ok [of _ create L] read_options_lower [of L "with_option_list create"]
    constraints_from_create_ok [of L create]
  by (fastforce simp: parse_create_table_config_def Let_def r_bind_eq_Inr)

section \<open>Operations keep the metadata well-formed\<close>

lemma is_column_of_append: "is_column_of cs n \<Longrightarrow> is_column_of (cs @ [c]) n"
  by (auto simp: is_column_of_def)

text \<open>Adding columns and changing attributes other than the name only ever help.\<close>

lemma table_ok_mono:
  assumes "table_ok t" "tm_shard_key t' = tm_shard_key t" "tm_constraints t' = tm_constraints t"
    and "tm_indexes t' = tm_indexes t" "tm_anonymized_columns t' = tm_anonymized_columns t"
    and "col_name ` set (tm_columns t) \<subseteq> col_name ` set (tm_columns t')"
  shows "table_ok t'" "key_is_column t \<Longrightarrow> key_is_column t'"
proof -
  have more: "is_column_of (tm_columns t) n \<Longrightarrow> is_column_of (tm_columns t') n" for n
    using assms(6) unfolding is_column_of_def list_ex_iff by (metis (no_types, lifting) image_iff subset_iff)
  then show "key_is_column t \<Longrightarrow> key_is_column t'" using assms(2) by (simp add: key_is_column_def)
  have "anonymized_ok (tm_columns t') (tm_anonymized_columns t)"
    using assms(1,6) unfolding table_ok_def anonymized_ok_def list_all_iff list_ex_iff
    by (fastforce simp: image_subset_iff image_iff)
  moreover have "constraint_ok k (tm_columns t) c \<Longrightarrow> constraint_ok k (tm_columns t') c" for k c
    by (auto simp: constraint_ok_def list_all_iff more)
  moreover have "index_ok k (tm_columns t) idx \<Longrightarrow> index_ok k (tm_columns t') idx" for k idx
    by (auto simp: index_ok_def list_all_iff more)
  ultimately show "table_ok t'" using assms(1-5) by (simp add: table_ok_def list_all_iff)
qed

lemma change_column_names:
  assumes "position (\<lambda>c. col_name c = name) (tm_columns t) = Some i" "\<And>c. col_name (f c) = col_name c"
  shows "col_name ` set (tm_columns t) \<subseteq> col_name ` set (tm_columns (change_column i f t))"
proof -
  have i: "i < length (tm_columns t)" using assms(1) by (auto dest: position_Some [THEN iffD1])
  have "map col_name (tm_columns (change_column i f t)) = map col_name (tm_columns t)"
    using i assms(2) list_update_id [of "map col_name (tm_columns t)" i] by (simp add: change_column_def map_update)
  then have "set (map col_name (tm_columns (change_column i f t))) = set (map col_name (tm_columns t))" by (rule arg_cong)
  then show ?thesis by simp
qed

lemma add_column_ok:
  assumes "add_column L col ine t = Inr t'" "table_ok t"
  shows "table_ok t' \<and> (key_is_column t \<longrightarrow> key_is_column t')"
proof -
  have "t' = t \<or> t' = t\<lparr>tm_columns := tm_columns t @ [column_def_from_ast L col]\<rparr>"
    using assms(1) by (auto simp: add_column_def Let_def r_bind_eq_Inr split: if_splits)
  moreover have "col_name ` set (tm_columns t) \<subseteq> col_name ` set (tm_columns t')" using calculation by auto
  ultimately show ?thesis using table_ok_mono [of t t'] assms(2) by auto
qed

lemma alter_column_ok:
  assumes "alter_column L name op t = Inr t'" "table_ok t"
  shows "table_ok t' \<and> (key_is_column t \<longrightarrow> key_is_column t')"
proof -
  obtain i f where i: "find_column_mut t (canonicalize_ident name) = Inr i" and f: "column_change L op = Inr f"
    and t': "t' = change_column i f t"
    using assms(1) by (auto simp: alter_column_def Let_def r_bind_eq_Inr)
  have "col_name (f c) = col_name c" for c
    using f by (auto simp: column_change_def split: alter_column_operation.splits)
  moreover have "position (\<lambda>c. col_name c = canonicalize_ident name) (tm_columns t) = Some i"
    using i by (auto simp: find_column_mut_def ok_or_def split: option.splits)
  ultimately show ?thesis
    using table_ok_mono [of t t'] change_column_names assms(2) t' by (auto simp: change_column_def)
qed

lemma anonymized_okD:
  assumes "anonymized_ok cs anonymized" "(k, v) \<in> set anonymized"
  shows "\<exists>n. is_column_of cs n \<and> to_ascii_lowercase n = k"
  using assms unfolding anonymized_ok_def list_all_iff list_ex_iff is_column_of_def by blast

lemma anonymized_okI:
  assumes "\<And>k v. (k, v) \<in> set anonymized \<Longrightarrow> \<exists>n. is_column_of cs n \<and> to_ascii_lowercase n = k"
  shows "anonymized_ok cs anonymized"
  using assms by (fastforce simp: anonymized_ok_def list_all_iff list_ex_iff is_column_of_def)

lemma not_blocked:
  assumes "reject_unrebuildable_index t n op rewrites = Inr ()"
  shows "list_all (\<lambda>idx. \<not> ix_unique idx) (tm_indexes t)" "list_all (\<lambda>c. \<not> cn_index_backed c) (tm_constraints t)"
    "rewrites \<Longrightarrow> list_all (\<lambda>idx. n \<notin> set (ix_columns idx)) (tm_indexes t)"
proof -
  have "list_all (\<lambda>b. \<not> bi_unique b) (blocking_indexes t n)"
    and "rewrites \<Longrightarrow> list_all (\<lambda>b. \<not> bi_on_this_column b) (blocking_indexes t n)"
    using assms by (auto simp: reject_unrebuildable_index_def Let_def filter_empty_conv list_all_iff split: if_splits)
  then show "list_all (\<lambda>idx. \<not> ix_unique idx) (tm_indexes t)" "list_all (\<lambda>c. \<not> cn_index_backed c) (tm_constraints t)"
    "rewrites \<Longrightarrow> list_all (\<lambda>idx. n \<notin> set (ix_columns idx)) (tm_indexes t)"
    by (simp_all add: blocking_indexes_def list_all_iff ball_Un)
qed

text \<open>A column that is dropped is in no index, and in no constraint but a CHECK, which goes with it.\<close>

lemma drop_column_ok:
  assumes "drop_column ie name t = Inr t'" "table_ok t"
  shows "table_ok t' \<and> (key_is_column t \<longrightarrow> key_is_column t')"
proof (cases "t' = t")
  case False
  let ?n = "canonicalize_ident name" and ?cs = "tm_columns t"
  obtain i where pos: "position (\<lambda>c. col_name c = ?n) ?cs = Some i"
    and t': "t' = forget_constraints_on_dropped_column ?n (t\<lparr>tm_columns := take i ?cs @ drop (i + 1) ?cs\<rparr>)"
    and key: "?n \<noteq> tm_shard_key t"
    and anon: "map_of (tm_anonymized_columns t) (to_ascii_lowercase ?n) = None"
    and free: "reject_unrebuildable_index t ?n ''drop'' True = Inr ()"
    using assms(1) False
    by (auto simp: drop_column_def Let_def r_bind_eq_Inr reject_if_anonymized_def split: if_splits option.splits)
  have keeps: "is_column_of ?cs n \<Longrightarrow> n \<noteq> ?n \<Longrightarrow> is_column_of (take i ?cs @ drop (i + 1) ?cs) n" for n
  proof -
    assume n: "is_column_of ?cs n" "n \<noteq> ?n"
    have "i < length ?cs" "col_name (?cs ! i) = ?n" using pos by (auto simp: position_Some)
    then have split: "?cs = take i ?cs @ ?cs ! i # drop (i + 1) ?cs" by (simp add: id_take_nth_drop)
    then have "set ?cs = insert (?cs ! i) (set (take i ?cs) \<union> set (drop (i + 1) ?cs))"
      by (metis Un_insert_right list.simps(15) set_append)
    then show ?thesis using n \<open>col_name (?cs ! i) = ?n\<close> by (auto simp: is_column_of_def list_ex_iff)
  qed
  note backed = not_blocked(2) [OF free] and not_on = not_blocked(3) [OF free TrueI]
  have "constraint_ok (tm_shard_key t) (take i ?cs @ drop (i + 1) ?cs) c"
    if "c \<in> set (tm_constraints t)" "?n \<notin> set (cn_columns c)" for c
  proof -
    have "constraint_ok (tm_shard_key t) ?cs c" using assms(2) that(1) by (simp add: table_ok_def list_all_iff)
    moreover have "list_all (is_column_of (take i ?cs @ drop (i + 1) ?cs)) (cn_columns c)"
      using calculation that(2) unfolding constraint_ok_def list_all_iff by (intro ballI keeps) auto
    ultimately show ?thesis by (simp add: constraint_ok_def)
  qed
  then have "list_all (constraint_ok (tm_shard_key t') (tm_columns t')) (tm_constraints t')"
    using backed by (auto simp: t' forget_constraints_on_dropped_column_def list_all_iff)
  moreover have "list_all (index_ok (tm_shard_key t') (tm_columns t')) (tm_indexes t')"
  proof -
    have "is_column_of (take i ?cs @ drop (i + 1) ?cs) n" if "idx \<in> set (tm_indexes t)" "n \<in> set (ix_columns idx)" for idx n
      using assms(2) not_on that by (intro keeps) (auto simp: table_ok_def index_ok_def list_all_iff)
    then show ?thesis
      using assms(2) by (simp add: t' forget_constraints_on_dropped_column_def table_ok_def index_ok_def list_all_iff)
  qed
  moreover have "anonymized_ok (tm_columns t') (tm_anonymized_columns t')"
  proof -
    have "list_ex (\<lambda>c. to_ascii_lowercase (col_name c) = k) (take i ?cs @ drop (i + 1) ?cs)"
      if k: "(k, v) \<in> set (tm_anonymized_columns t)" for k v
    proof -
      obtain n where n: "is_column_of ?cs n" "to_ascii_lowercase n = k"
        using anonymized_okD [OF _ k] assms(2) unfolding table_ok_def by blast
      then have "n \<noteq> ?n" using anon k by (auto simp: map_of_eq_None_iff rev_image_eqI)
      then show ?thesis using keeps [OF n(1)] n(2) by (auto simp: is_column_of_def list_ex_iff)
    qed
    then show ?thesis by (auto simp: t' forget_constraints_on_dropped_column_def anonymized_ok_def list_all_iff)
  qed
  ultimately show ?thesis
    using keeps key by (simp add: table_ok_def key_is_column_def t' forget_constraints_on_dropped_column_def)
qed (use assms(2) in simp)

lemma drop_columns_ok:
  "drop_columns ie names t = Inr t' \<Longrightarrow> table_ok t \<Longrightarrow> table_ok t' \<and> (key_is_column t \<longrightarrow> key_is_column t')"
  by (induction ie names t rule: drop_columns.induct) (auto simp: r_bind_eq_Inr dest: drop_column_ok)

text \<open>A renamed column keeps its place, and every name that mentioned it follows.\<close>

lemma renamed_is_column:
  assumes "position (\<lambda>c. col_name c = old) cs = Some i" "is_column_of cs n"
  shows "is_column_of (cs[i := (cs ! i)\<lparr>col_name := new\<rparr>]) (if n = old then new else n)"
proof -
  have i: "i < length cs" "col_name (cs ! i) = old" using assms(1) by (auto simp: position_Some)
  show ?thesis
  proof (cases "n = old")
    case True
    have "(cs ! i)\<lparr>col_name := new\<rparr> \<in> set (cs[i := (cs ! i)\<lparr>col_name := new\<rparr>])" using i(1) by (rule set_update_memI)
    then show ?thesis using True by (auto simp: is_column_of_def list_ex_iff intro: rev_bexI)
  next
    case False
    obtain j where "j < length cs" "col_name (cs ! j) = n"
      using assms(2) by (auto simp: is_column_of_def list_ex_iff in_set_conv_nth)
    then have "j \<noteq> i" using i False by auto
    then have "cs[i := (cs ! i)\<lparr>col_name := new\<rparr>] ! j = cs ! j" by simp
    then show ?thesis
      using False \<open>j < length cs\<close> \<open>col_name (cs ! j) = n\<close>
      by (auto simp: is_column_of_def list_ex_iff in_set_conv_nth intro!: exI [of _ j])
  qed
qed

lemma renamed_list_ok:
  assumes "\<And>n. is_column_of cs n \<Longrightarrow> is_column_of cs' (if n = old then new else n)"
    "list_all (is_column_of cs) ns"
  shows "list_all (is_column_of cs') (rename_in_list old new ns)"
proof -
  have "is_column_of cs' (if n = old then new else n)" if "n \<in> set ns" for n
    using assms(2) that by (intro assms(1)) (simp add: list_all_iff)
  then show ?thesis unfolding rename_in_list_def list_all_iff set_map by (intro ballI) (erule imageE, simp only:)
qed

lemma renamed_key: "k \<in> set ns \<Longrightarrow> (if k = old then new else k) \<in> set (rename_in_list old new ns)"
  by (auto simp: rename_in_list_def)

lemma rename_in_list_absent: "old \<notin> set ns \<Longrightarrow> rename_in_list old new ns = ns"
  by (auto simp: rename_in_list_def intro: map_idI)

lemma renamed_constraint:
  "cn_columns (rename_in_constraint L old new c) = rename_in_list old new (cn_columns c)"
  "cn_kind (rename_in_constraint L old new c) = cn_kind c"
  "cn_index_backed (rename_in_constraint L old new c) = cn_index_backed c"
  by (simp_all add: rename_in_constraint_def Let_def rename_in_list_absent)

lemma rename_columnD:
  assumes "rename_column L old_id new_id t = Inr t'"
  defines "old \<equiv> canonicalize_ident old_id" and "new \<equiv> canonicalize_ident new_id"
  shows "\<exists>i. position (\<lambda>c. col_name c = old) (tm_columns t) = Some i
    \<and> map_of (tm_anonymized_columns t) (to_ascii_lowercase old) = None
    \<and> tm_columns t' = (tm_columns t)[i := (tm_columns t ! i)\<lparr>col_name := new\<rparr>]
    \<and> tm_shard_key t' = (if tm_shard_key t = old then new else tm_shard_key t)
    \<and> tm_constraints t' = map (rename_in_constraint L old new) (tm_constraints t)
    \<and> tm_indexes t' = map (\<lambda>x. x\<lparr>ix_columns := rename_in_list old new (ix_columns x)\<rparr>) (tm_indexes t)
    \<and> tm_anonymized_columns t' = tm_anonymized_columns t"
  using assms
  by (cases "tm_shard_key t = old") (auto simp: rename_column_def Let_def r_bind_eq_Inr reject_if_anonymized_def find_column_mut_def ok_or_def
      change_column_def rename_column_in_indexes_def rename_column_in_constraints_def
      split: if_splits option.splits)

lemma rename_column_ok:
  assumes "rename_column L old_id new_id t = Inr t'" "table_ok t"
  shows "table_ok t' \<and> (key_is_column t \<longrightarrow> key_is_column t')"
proof -
  let ?old = "canonicalize_ident old_id" and ?new = "canonicalize_ident new_id" and ?cs = "tm_columns t"
  obtain i where pos: "position (\<lambda>c. col_name c = ?old) ?cs = Some i"
    and anon: "map_of (tm_anonymized_columns t) (to_ascii_lowercase ?old) = None"
    and cols: "tm_columns t' = ?cs[i := (?cs ! i)\<lparr>col_name := ?new\<rparr>]"
    and key: "tm_shard_key t' = (if tm_shard_key t = ?old then ?new else tm_shard_key t)"
    and cons: "tm_constraints t' = map (rename_in_constraint L ?old ?new) (tm_constraints t)"
    and idx: "tm_indexes t' = map (\<lambda>x. x\<lparr>ix_columns := rename_in_list ?old ?new (ix_columns x)\<rparr>) (tm_indexes t)"
    and an: "tm_anonymized_columns t' = tm_anonymized_columns t"
    using rename_columnD [OF assms(1)] by blast
  note renamed = renamed_is_column [OF pos, of _ ?new, folded cols]
  have "constraint_ok (tm_shard_key t') (tm_columns t') (rename_in_constraint L ?old ?new c)"
    if "constraint_ok (tm_shard_key t) ?cs c" for c
    using that unfolding constraint_ok_def renamed_constraint is_uniqueness_def key
    by (blast intro: renamed_list_ok [OF renamed] renamed_key)
  then have "list_all (constraint_ok (tm_shard_key t') (tm_columns t')) (tm_constraints t')"
    using assms(2) by (simp add: table_ok_def cons list_all_iff)
  moreover have "index_ok (tm_shard_key t') (tm_columns t') (x\<lparr>ix_columns := rename_in_list ?old ?new (ix_columns x)\<rparr>)"
    if "index_ok (tm_shard_key t) ?cs x" for x
    using that renamed_list_ok [OF renamed] renamed_key [of "tm_shard_key t" "ix_columns x" ?old ?new]
    by (simp add: index_ok_def key)
  then have "list_all (index_ok (tm_shard_key t') (tm_columns t')) (tm_indexes t')"
    using assms(2) by (simp add: table_ok_def idx list_all_iff)
  moreover have "anonymized_ok (tm_columns t') (tm_anonymized_columns t')"
  proof (rule anonymized_okI)
    fix k v assume k: "(k, v) \<in> set (tm_anonymized_columns t')"
    then obtain n where n: "is_column_of ?cs n" "to_ascii_lowercase n = k"
      using anonymized_okD [of ?cs "tm_anonymized_columns t" k v] assms(2) unfolding table_ok_def an by blast
    then have "n \<noteq> ?old" using anon k by (auto simp: map_of_eq_None_iff rev_image_eqI an)
    then show "\<exists>n. is_column_of (tm_columns t') n \<and> to_ascii_lowercase n = k" using renamed [OF n(1)] n(2) by auto
  qed
  moreover have "key_is_column t \<Longrightarrow> key_is_column t'" using renamed by (simp add: key_is_column_def key)
  ultimately show ?thesis by (simp add: table_ok_def)
qed

lemma apply_alter_operation_ok:
  assumes "apply_alter_operation L op t = Inr t'" "table_ok t"
  shows "table_ok t' \<and> (key_is_column t \<longrightarrow> key_is_column t')"
  using assms
  by (cases op)
    (auto simp: apply_alter_operation_def dest: add_column_ok drop_columns_ok rename_column_ok alter_column_ok)

lemma apply_alter_operations_ok:
  assumes "apply_alter_operations L ops t = Inr t'" "table_ok t"
  shows "table_ok t' \<and> (key_is_column t \<longrightarrow> key_is_column t')"
  using assms
proof (induction ops arbitrary: t)
  case (Cons op ops)
  then obtain mid where "apply_alter_operation L op t = Inr mid" "apply_alter_operations L ops mid = Inr t'"
    by (auto simp: r_bind_eq_Inr)
  then show ?case using Cons.IH [of mid] apply_alter_operation_ok [of L op t mid] Cons.prems(2) by blast
qed simp

lemma created_table_ok:
  "parse_create_table_config L create rf = Inr config \<Longrightarrow> table_ok (created_table_meta n config k now)"
  using create_config_ok [of L create rf config] by (simp add: table_ok_def created_table_meta_def)

definition demo_create :: create_table where
  "demo_create =
     \<lparr>cr_name = [NIdentifier (ident_new ''t'')], cr_if_not_exists = False,
      cr_columns =
        [\<lparr>ac_name = ident_new ''id'', ac_data_type = TyInteger,
          ac_options = [\<lparr>od_name = None, od_option = CoNotNull\<rparr>]\<rparr>,
         \<lparr>ac_name = ident_new ''v'', ac_data_type = TyVarchar None, ac_options = []\<rparr>],
      cr_constraints =
        [TcPrimaryKey \<lparr>pk_name = Some (ident_new ''pk''), pk_columns = [EIdentifier (ident_new ''id'')],
           pk_characteristics = False, pk_index_name = False, pk_index_type = False, pk_index_options = False\<rparr>],
      cr_options = NoOptions, cr_query = None, cr_like = False, cr_clone = False,
      cr_rest = []\<rparr>"

definition demo_created :: table_meta where
  "demo_created =
     (case parse_create_table_config ref_sql demo_create 1 of
        Inr config \<Rightarrow> created_table_meta ''t'' config 2 0
      | Inl _ \<Rightarrow> created_table_meta [] \<lparr>tc_shard_count = 0, tc_replication_factor = 0, tc_shard_key = [],
                   tc_columns = [], tc_anonymized_columns = [], tc_constraints = []\<rparr> 0 0)"

definition demo_alter :: "alter_operation list" where
  "demo_alter =
     [AoRenameColumn (ident_new ''id'') (ident_new ''k''),
      AoAddColumn \<lparr>ac_name = ident_new ''w'', ac_data_type = TyInteger, ac_options = []\<rparr> False,
      AoDropColumn [ident_new ''v''] False]"

lemma demo_create_config:
  "\<exists>config. parse_create_table_config ref_sql demo_create 1 = Inr config \<and> demo_created = created_table_meta ''t'' config 2 0"
proof -
  have "\<not> isl (parse_create_table_config ref_sql demo_create 1)" by code_simp
  then show ?thesis by (auto simp: demo_created_def split: sum.splits)
qed

lemma demo_altered:
  "\<exists>t. apply_alter_operations ref_sql demo_alter demo_created = Inr t
     \<and> map col_name (tm_columns t) = [''k'', ''w''] \<and> map cn_columns (tm_constraints t) = [[''k'']]"
proof -
  have "(case apply_alter_operations ref_sql demo_alter demo_created of
           Inr t \<Rightarrow> map col_name (tm_columns t) = [''k'', ''w''] \<and> map cn_columns (tm_constraints t) = [[''k'']]
         | Inl _ \<Rightarrow> False)" by code_simp
  then show ?thesis by (simp split: sum.splits)
qed

lemma demo_key: "key_is_column demo_created"
  by code_simp

section \<open>The properties\<close>



end
