(* ===== verification/Ddl.thy ===== *)
theory Ddl
  imports Table_Meta
begin

text \<open>
  Statements that define objects and reach every shard:
  \<open>crates/vairedb-coordinator/src/pgwire_handler/ddl.rs\<close> (CREATE, DROP, ALTER and TRUNCATE
  TABLE), \<open>indexes.rs\<close> (CREATE and DROP INDEX) and the handlers of \<open>constraints.rs\<close>. A handler
  plans from the statement and the catalog, sends shard-local statements to every replica of
  every shard, and changes the catalog.

  The handler's fields and the libraries are the record \<open>query_handler\<close>; write ids are drawn
  from \<open>qh_ids\<close>, counted in the link to the nodes. The catalog views of DataFusion are
  refreshed after a change; a failure there is only logged, and they are not part of the
  state. Logging is left out.
\<close>

section \<open>The handler and its link to the nodes\<close>

record 'w query_handler =
  qh_libs :: write_libs
  qh_network :: "'w network"
  qh_ids :: "nat \<Rightarrow> string"
  qh_now :: nat
  qh_default_replication_factor :: nat

record 'w link =
  lk_next_id :: nat
  lk_comms :: "'w comms"

abbreviation qh_sql :: "'w query_handler \<Rightarrow> sql_lib" where
  "qh_sql H \<equiv> wl_sql (qh_libs H)"

definition fresh_write_id :: "'w query_handler \<Rightarrow> 'w link \<Rightarrow> string \<times> 'w link" where
  "fresh_write_id H lk = (qh_ids H (lk_next_id lk), lk\<lparr>lk_next_id := Suc (lk_next_id lk)\<rparr>)"

section \<open>One statement to one node\<close>

definition ddl_request :: "string \<Rightarrow> string list \<Rightarrow> string \<Rightarrow> execute_write_request" where
  "ddl_request write_id sql shard_id =
     \<lparr>ew_write_id = write_id,
      ew_statements =
        map (\<lambda>one. \<lparr>ws_sql = one, ws_shard_id = shard_id, ws_operation = OpUnspecified, ws_params = [],
                    ws_bulk_rows = None\<rparr>) sql,
      ew_atomic = (length sql > 1)\<rparr>"

definition send_ddl_to_node ::
  "'w network \<Rightarrow> string \<Rightarrow> string \<Rightarrow> string list \<Rightarrow> string \<Rightarrow> 'w comms \<Rightarrow> (string, unit) result \<times> 'w comms" where
  "send_ddl_to_node N address write_id sql shard_id s =
     (case nw_execute_write N address (ddl_request write_id sql shard_id) (cm_world s) of
        (Inl (_, message), w) \<Rightarrow> (Inl message, s\<lparr>cm_world := w\<rparr>)
      | (Inr results, w) \<Rightarrow>
          (case find (\<lambda>r. \<not> wr_success r) results of
             Some r \<Rightarrow>
               Inl (case wr_error r of Some e \<Rightarrow> ed_message e | None \<Rightarrow> ''unknown error from node'')
           | None \<Rightarrow> Inr (), s\<lparr>cm_world := w\<rparr>))"

text \<open>Connecting, then sending: what every broadcast does with one node.\<close>

definition reach_node ::
  "'w network \<Rightarrow> string \<Rightarrow> string \<Rightarrow> string list \<Rightarrow> string \<Rightarrow> 'w comms \<Rightarrow> (string, unit) result \<times> 'w comms" where
  "reach_node N address write_id sql shard_id s =
     (case pool_get N address s of
        (Inl e, s') \<Rightarrow> (Inl e, s')
      | (Inr _, s') \<Rightarrow> send_ddl_to_node N address write_id sql shard_id s')"

section \<open>Broadcasts\<close>

fun broadcast_to_nodes ::
  "'w network \<Rightarrow> (string \<Rightarrow> string option) \<Rightarrow> string \<Rightarrow> string list \<Rightarrow> string \<Rightarrow> string list \<Rightarrow> 'w comms
     \<Rightarrow> string list \<times> 'w comms" where
  "broadcast_to_nodes N addresses write_id sql shard_id [] s = ([], s)"
| "broadcast_to_nodes N addresses write_id sql shard_id (node_id # nodes) s =
     (case addresses node_id of
        None \<Rightarrow> broadcast_to_nodes N addresses write_id sql shard_id nodes s
      | Some address \<Rightarrow>
          (case reach_node N address write_id sql shard_id s of
             (r, s') \<Rightarrow>
               (case broadcast_to_nodes N addresses write_id sql shard_id nodes s' of
                  (missed, s'') \<Rightarrow> (if isl r then (node_id # missed, s'') else (missed, s'')))))"

fun broadcast_ddl_batch_best_effort ::
  "'w query_handler \<Rightarrow> (string \<Rightarrow> string option) \<Rightarrow> string \<Rightarrow> (shard_meta \<Rightarrow> string list) \<Rightarrow> shard_meta list
     \<Rightarrow> 'w link \<Rightarrow> string list \<times> 'w link" where
  "broadcast_ddl_batch_best_effort H addresses table_name make_shard_sql [] lk = ([], lk)"
| "broadcast_ddl_batch_best_effort H addresses table_name make_shard_sql (shard # shards) lk =
     (case fresh_write_id H lk of
        (write_id, lk1) \<Rightarrow>
          (case broadcast_to_nodes (qh_network H) addresses write_id (make_shard_sql shard)
                  (shard_table_name table_name (sh_hash_bucket shard)) (target_nodes shard) (lk_comms lk1) of
             (missed, s) \<Rightarrow>
               (case broadcast_ddl_batch_best_effort H addresses table_name make_shard_sql shards
                       (lk1\<lparr>lk_comms := s\<rparr>) of
                  (missed', lk') \<Rightarrow> (missed @ missed', lk'))))"

definition broadcast_ddl_best_effort ::
  "'w query_handler \<Rightarrow> (string \<Rightarrow> string option) \<Rightarrow> string \<Rightarrow> (shard_meta \<Rightarrow> string) \<Rightarrow> shard_meta list
     \<Rightarrow> 'w link \<Rightarrow> string list \<times> 'w link" where
  "broadcast_ddl_best_effort H addresses table_name make_shard_sql shards lk =
     broadcast_ddl_batch_best_effort H addresses table_name (\<lambda>shard. [make_shard_sql shard]) shards lk"

text \<open>\<open>Vec::dedup\<close> removes neighbours that are equal.\<close>

definition fail_if_unreachable :: "string \<Rightarrow> string list \<Rightarrow> (error_info, unit) result" where
  "fail_if_unreachable op_label failed_nodes =
     (if failed_nodes = [] then Inr ()
      else
        Inl (make_vdb_error V_NodeCommunicationError
          (op_label @ '' partially failed: could not reach ''
           @ show_nat (length (remdups_adj failed_nodes)) @ '' node(s)'')))"

fun send_compensating_ddl ::
  "'w query_handler \<Rightarrow> (string \<times> string \<times> string) list \<Rightarrow> 'w link \<Rightarrow> 'w link" where
  "send_compensating_ddl H [] lk = lk"
| "send_compensating_ddl H ((address, undo_sql, shard_id) # sends) lk =
     (case fresh_write_id H lk of
        (write_id, lk1) \<Rightarrow>
          (case reach_node (qh_network H) address write_id [undo_sql] shard_id (lk_comms lk1) of
             (_, s) \<Rightarrow> send_compensating_ddl H sends (lk1\<lparr>lk_comms := s\<rparr>)))"

definition shard_local_ddl_sql :: "'w query_handler \<Rightarrow> statement \<Rightarrow> shard_meta \<Rightarrow> string" where
  "shard_local_ddl_sql H stmt shard =
     sq_statement (qh_sql H)
       (wl_dialect (qh_libs H)
         (rewrite_to_shard_local (qh_sql H) (''shard'' @ show_nat (sh_hash_bucket shard)) stmt))"

text \<open>The two reads before every broadcast.\<close>

definition shards_and_nodes ::
  "('t, 'b) env \<Rightarrow> 't catalog \<Rightarrow> string \<Rightarrow> error_context
     \<Rightarrow> (error_info, shard_meta list \<times> (string \<Rightarrow> string option)) result" where
  "shards_and_nodes E C table_name ctx =
     r_bind (enrich E C ctx (shards_for_table E C table_name)) (\<lambda>shards.
     r_bind (enrich E C ctx (node_address_map E C)) (\<lambda>node_addresses. Inr (shards, node_addresses)))"

section \<open>CREATE TABLE\<close>

definition plan_create_table ::
  "'w query_handler \<Rightarrow> ('t, 'b) env \<Rightarrow> 't catalog \<Rightarrow> create_table \<Rightarrow> (error_info, table_meta option) result" where
  "plan_create_table H E C create =
     r_bind (reject_unsupported_create_table_form create) (\<lambda>_.
     r_bind (reject_unserviceable_column_types (qh_sql H) create) (\<lambda>_.
     r_bind (ok_or no_table_name (canonical_table_name (cr_name create))) (\<lambda>table_name.
       let ctx = for_table table_name in
       r_bind (require_schema_exists E C table_name ctx) (\<lambda>_.
       r_bind (reject_physical_name_conflict E C table_name ctx) (\<lambda>_.
         case get_table E C table_name of
           Inr (Some _) \<Rightarrow> if cr_if_not_exists create then Inr None else Inl (already_exists table_name)
         | _ \<Rightarrow>
             r_bind (parse_create_table_config (qh_sql H) create (qh_default_replication_factor H)) (\<lambda>config.
             r_bind (enrich E C ctx (list_alive_nodes E C)) (\<lambda>alive.
               let node_count = length alive in
               if tc_replication_factor config > node_count then
                 Inl (make_vdb_error V_FeatureNotSupported
                   (''replication_factor '' @ show_nat (tc_replication_factor config)
                    @ '' exceeds the number of available core nodes ('' @ show_nat node_count @ '')''))
               else
                 (let shard_count =
                        (if tc_shard_count config = 0 then max node_count 1 mod 2 ^ 32 else tc_shard_count config)
                  in Inr (Some (created_table_meta table_name config shard_count (qh_now H)))))))))))"

fun create_on_nodes ::
  "'w network \<Rightarrow> (string \<Rightarrow> string option) \<Rightarrow> string \<Rightarrow> string \<Rightarrow> string \<Rightarrow> string \<Rightarrow> string list
     \<Rightarrow> (string \<times> string \<times> string) list \<times> 'w comms
     \<Rightarrow> (error_info, unit) result \<times> (string \<times> string \<times> string) list \<times> 'w comms" where
  "create_on_nodes N addresses write_id shard_sql drop_sql shard_id [] (sends, s) = (Inr (), sends, s)"
| "create_on_nodes N addresses write_id shard_sql drop_sql shard_id (node_id # nodes) (sends, s) =
     (case addresses node_id of
        None \<Rightarrow> create_on_nodes N addresses write_id shard_sql drop_sql shard_id nodes (sends, s)
      | Some address \<Rightarrow>
          (case pool_get N address s of
             (Inl _, s1) \<Rightarrow>
               (Inl (make_vdb_error V_NodeCommunicationError (''connection to node '' @ node_id @ '' failed'')), sends, s1)
           | (Inr _, s1) \<Rightarrow>
               (case send_ddl_to_node N address write_id [shard_sql] shard_id s1 of
                  (Inl _, s2) \<Rightarrow>
                    (Inl (make_vdb_error V_NodeCommunicationError (''DDL broadcast to node '' @ node_id @ '' failed'')), sends, s2)
                | (Inr _, s2) \<Rightarrow>
                    create_on_nodes N addresses write_id shard_sql drop_sql shard_id nodes
                      (sends @ [(address, drop_sql, shard_id)], s2))))"

fun create_on_shards ::
  "'w query_handler \<Rightarrow> statement \<Rightarrow> string \<Rightarrow> (string \<Rightarrow> string option) \<Rightarrow> shard_meta list
     \<Rightarrow> (string \<times> string \<times> string) list \<times> 'w link
     \<Rightarrow> (error_info, unit) result \<times> (string \<times> string \<times> string) list \<times> 'w link" where
  "create_on_shards H stmt table_name addresses [] (sends, lk) = (Inr (), sends, lk)"
| "create_on_shards H stmt table_name addresses (shard # shards) (sends, lk) =
     (let shard_id = shard_table_name table_name (sh_hash_bucket shard) in
      case fresh_write_id H lk of
        (write_id, lk1) \<Rightarrow>
          (case create_on_nodes (qh_network H) addresses write_id (shard_local_ddl_sql H stmt shard)
                  (''DROP TABLE IF EXISTS '' @ shard_id) shard_id (target_nodes shard) (sends, lk_comms lk1) of
             (Inl e, sends', s) \<Rightarrow> (Inl e, sends', lk1\<lparr>lk_comms := s\<rparr>)
           | (Inr _, sends', s) \<Rightarrow>
               create_on_shards H stmt table_name addresses shards (sends', lk1\<lparr>lk_comms := s\<rparr>)))"

definition forget_table :: "('t, 'b) env \<Rightarrow> string \<Rightarrow> 't catalog \<Rightarrow> 't catalog" where
  "forget_table E table_name C = delete_table E table_name (delete_shards_for_table E table_name C)"

definition rollback_partial_create ::
  "'w query_handler \<Rightarrow> ('t, 'b) env \<Rightarrow> (string \<times> string \<times> string) list \<Rightarrow> string \<Rightarrow> 't catalog \<times> 'w link
     \<Rightarrow> 't catalog \<times> 'w link" where
  "rollback_partial_create H E successful_sends table_name st =
     (case st of (C, lk) \<Rightarrow> (forget_table E table_name C, send_compensating_ddl H successful_sends lk))"

definition create_table_from_column_list ::
  "'w query_handler \<Rightarrow> ('t, 'b) env \<Rightarrow> statement \<Rightarrow> create_table \<Rightarrow> 't catalog \<times> 'w link
     \<Rightarrow> (error_info, response) result \<times> 't catalog \<times> 'w link" where
  "create_table_from_column_list H E stmt create st =
     (case st of (C, lk) \<Rightarrow>
       case plan_create_table H E C create of
         Inl e \<Rightarrow> (Inl e, C, lk)
       | Inr None \<Rightarrow> (Inr (Execution ''CREATE TABLE'' 0), C, lk)
       | Inr (Some table_meta) \<Rightarrow>
           (let table_name = tm_table_name table_meta; ctx = for_table table_name in
            case create_table_if_absent E table_meta C of
              (claimed, C1) \<Rightarrow>
                if \<not> claimed then
                  (if cr_if_not_exists create then Inr (Execution ''CREATE TABLE'' 0)
                   else Inl (already_exists table_name), C1, lk)
                else
                  (case enrich E C1 ctx (assign_shards_round_robin E C1 table_name
                          (tm_shard_count table_meta) (tm_replication_factor table_meta)) of
                     Inl e \<Rightarrow> (Inl e, C1, lk)
                   | Inr shards \<Rightarrow>
                       (let C2 = fold (put_shard E) shards C1 in
                        case enrich E C2 ctx (node_address_map E C2) of
                          Inl e \<Rightarrow> (Inl e, C2, lk)
                        | Inr addresses \<Rightarrow>
                            (case create_on_shards H stmt table_name addresses shards ([], lk) of
                               (Inl e, sends, lk1) \<Rightarrow>
                                 (Inl e, rollback_partial_create H E sends table_name (C2, lk1))
                             | (Inr _, _, lk1) \<Rightarrow> (Inr (Execution ''CREATE TABLE'' 0), C2, lk1))))))"

section \<open>DROP TABLE\<close>

definition object_type_name :: "object_type \<Rightarrow> string" where
  "object_type_name object_type =
     (case object_type of
        OTable \<Rightarrow> ''TABLE'' | OView \<Rightarrow> ''VIEW'' | OIndex \<Rightarrow> ''INDEX'' | OSchema \<Rightarrow> ''SCHEMA'' | OOther kind \<Rightarrow> kind)"

datatype drop_plan = PlanDropTable | PlanDropNothing string

definition plan_drop :: "statement \<Rightarrow> string \<Rightarrow> bool \<Rightarrow> (error_info, drop_plan) result" where
  "plan_drop stmt table_name table_exists =
     (case stmt of
        StDrop d \<Rightarrow>
          if dr_object d \<noteq> OTable then
            (let kind = object_type_name (dr_object d) in
             if table_exists then
               Inl (make_vdb_error V_WrongObjectType (dq table_name @ '' is not a '' @ kind @ ''; use DROP TABLE to drop a table''))
             else if dr_if_exists d then Inr (PlanDropNothing (''DROP '' @ kind))
             else Inl (make_vdb_error V_TableNotFound (to_lowercase kind @ '' '' @ dq table_name @ '' does not exist'')))
          else if length (dr_names d) > 1 then Inl (one_object_at_a_time ''DROP TABLE'' ''table'')
          else if dr_cascade d \<or> dr_restrict d then Inl (no_referential_actions ''DROP TABLE'')
          else if \<not> table_exists then
            (if dr_if_exists d then Inr (PlanDropNothing ''DROP TABLE'')
             else Inl (make_vdb_error V_TableNotFound (''table '' @ dq table_name @ '' does not exist'')))
          else Inr PlanDropTable
      | _ \<Rightarrow> Inl (make_vdb_error V_SqlSyntaxError ''expected a DROP statement''))"

definition handle_drop_table ::
  "'w query_handler \<Rightarrow> ('t, 'b) env \<Rightarrow> statement \<Rightarrow> 't catalog \<times> 'w link
     \<Rightarrow> (error_info, response) result \<times> 't catalog \<times> 'w link" where
  "handle_drop_table H E stmt st =
     (case st of (C, lk) \<Rightarrow>
       case extract_table_name stmt of
         None \<Rightarrow> (Inl no_table_name, C, lk)
       | Some table_name \<Rightarrow>
           (let ctx = for_table table_name in
            case r_bind (enrich E C ctx (get_table E C table_name))
                   (\<lambda>found. plan_drop stmt table_name (found \<noteq> None)) of
              Inl e \<Rightarrow> (Inl e, C, lk)
            | Inr (PlanDropNothing tag) \<Rightarrow> (Inr (Execution tag 0), C, lk)
            | Inr PlanDropTable \<Rightarrow>
                (case shards_and_nodes E C table_name ctx of
                   Inl e \<Rightarrow> (Inl e, C, lk)
                 | Inr (shards, addresses) \<Rightarrow>
                     (case broadcast_ddl_best_effort H addresses table_name
                             (\<lambda>shard. ''DROP TABLE IF EXISTS '' @ shard_table_name table_name (sh_hash_bucket shard))
                             shards lk of
                        (missed, lk1) \<Rightarrow>
                          (case fail_if_unreachable ''DROP TABLE'' missed of
                             Inl e \<Rightarrow> (Inl e, C, lk1)
                           | Inr _ \<Rightarrow>
                               (Inr (Execution ''DROP TABLE'' 0), forget_table E table_name C, lk1))))))"

section \<open>TRUNCATE\<close>

datatype truncate_plan = PlanTruncate | PlanTruncateNothing

definition plan_truncate :: "statement \<Rightarrow> string \<Rightarrow> bool \<Rightarrow> (error_info, truncate_plan) result" where
  "plan_truncate stmt table_name table_exists =
     (case stmt of
        StTruncate t \<Rightarrow>
          if length (tr_names t) > 1 then Inl (one_object_at_a_time ''TRUNCATE'' ''table'')
          else if tr_cascade t then Inl (no_referential_actions ''TRUNCATE'')
          else if tr_identity t = Some RestartIdentity then
            Inl (make_vdb_error V_FeatureNotSupported
              (''TRUNCATE ... RESTART IDENTITY is not supported by VaireDB; the''
               @ '' catalog tracks no sequences to restart''))
          else if tr_partitions t then
            Inl (make_vdb_error V_FeatureNotSupported
              (''TRUNCATE of a partition is not supported by VaireDB; a table'' @ [apostrophe]
               @ ''s only partitioning is its shard layout''))
          else if tr_on_cluster t then
            Inl (make_vdb_error V_FeatureNotSupported
              (''TRUNCATE ... ON CLUSTER is not supported by VaireDB; every''
               @ '' TRUNCATE already reaches the whole cluster''))
          else if \<not> table_exists then
            (if tr_if_exists t then Inr PlanTruncateNothing
             else Inl (make_vdb_error V_TableNotFound (''relation '' @ dq table_name @ '' does not exist'')))
          else Inr PlanTruncate
      | _ \<Rightarrow> Inl (make_vdb_error V_SqlSyntaxError ''expected a TRUNCATE statement''))"

definition handle_truncate ::
  "'w query_handler \<Rightarrow> ('t, 'b) env \<Rightarrow> statement \<Rightarrow> 't catalog \<times> 'w link
     \<Rightarrow> (error_info, response) result \<times> 't catalog \<times> 'w link" where
  "handle_truncate H E stmt st =
     (case st of (C, lk) \<Rightarrow>
       case extract_table_name stmt of
         None \<Rightarrow> (Inl no_table_name, C, lk)
       | Some table_name \<Rightarrow>
           (let ctx = for_table table_name in
            case r_bind (enrich E C ctx (get_table E C table_name))
                   (\<lambda>found. plan_truncate stmt table_name (found \<noteq> None)) of
              Inl e \<Rightarrow> (Inl e, C, lk)
            | Inr PlanTruncateNothing \<Rightarrow> (Inr (Execution ''TRUNCATE TABLE'' 0), C, lk)
            | Inr PlanTruncate \<Rightarrow>
                (case shards_and_nodes E C table_name ctx of
                   Inl e \<Rightarrow> (Inl e, C, lk)
                 | Inr (shards, addresses) \<Rightarrow>
                     (case broadcast_ddl_best_effort H addresses table_name
                             (\<lambda>shard. ''TRUNCATE TABLE '' @ shard_table_name table_name (sh_hash_bucket shard))
                             shards lk of
                        (missed, lk1) \<Rightarrow>
                          (case fail_if_unreachable ''TRUNCATE TABLE'' missed of
                             Inl e \<Rightarrow> (Inl e, C, lk1)
                           | Inr _ \<Rightarrow> (Inr (Execution ''TRUNCATE TABLE'' 0), C, lk1))))))"

section \<open>Indexes\<close>

definition name_is_taken ::
  "('t, 'b) env \<Rightarrow> 't catalog \<Rightarrow> string \<Rightarrow> error_context \<Rightarrow> (error_info, bool) result" where
  "name_is_taken E C name ctx =
     r_bind (enrich E C ctx (get_table E C name)) (\<lambda>table.
       if table \<noteq> None then Inr True
       else r_bind (enrich E C ctx (get_view E C name)) (\<lambda>view.
         if view \<noteq> None then Inr True
         else r_bind (enrich E C ctx (table_with_index E C name)) (\<lambda>index.
           if index \<noteq> None then Inr True
           else r_bind (enrich E C ctx (table_with_index_backed_constraint E C name)) (\<lambda>owner.
             Inr (owner \<noteq> None)))))"

definition planned_index_column :: "table_meta \<Rightarrow> expr \<Rightarrow> (error_info, string) result" where
  "planned_index_column table_meta column =
     (case column of
        EIdentifier i \<Rightarrow>
          if is_column_of (tm_columns table_meta) (canonicalize_ident i) then Inr (canonicalize_ident i)
          else
            Inl (make_vdb_error V_ColumnNotFound
              (''column '' @ dq (canonicalize_ident i) @ '' does not exist in relation ''
               @ dq (tm_table_name table_meta)))
      | _ \<Rightarrow>
          Inl (make_vdb_error V_FeatureNotSupported
            (''an index over an expression is not supported by VaireDB; index a''
             @ '' column instead'')))"

definition check_unique_index :: "create_index \<Rightarrow> table_meta \<Rightarrow> string list \<Rightarrow> (error_info, unit) result" where
  "check_unique_index create table_meta columns =
     (if \<not> ci_unique create then Inr ()
      else if tm_shard_key table_meta \<notin> set columns then
        Inl (make_vdb_error V_FeatureNotSupported
          (''a UNIQUE index must include the shard key '' @ dq (tm_shard_key table_meta)
           @ '' of relation '' @ dq (tm_table_name table_meta)
           @ '': uniqueness is enforced by each shard on its own rows, and only''
           @ '' equal shard keys are guaranteed to land on the same shard '' @ em_dash
           @ '' off the shard key VaireDB would report a constraint it cannot''
           @ '' enforce. Add '' @ dq (tm_shard_key table_meta)
           @ '' to the index, or create the index without UNIQUE''))
      else if ci_predicate create then
        Inl (make_vdb_error V_FeatureNotSupported
          (''a partial UNIQUE index (CREATE UNIQUE INDEX ... WHERE ...) is not''
           @ '' supported by VaireDB: the WHERE clause decides which rows the''
           @ '' constraint covers, and the shards'' @ [apostrophe]
           @ '' engine cannot express it '' @ em_dash
           @ '' so the index would enforce uniqueness over more rows than you''
           @ '' asked for''))
      else if ci_nulls_distinct create = Some False then
        Inl (make_vdb_error V_FeatureNotSupported
          (''CREATE UNIQUE INDEX ... NULLS NOT DISTINCT is not supported by''
           @ '' VaireDB: the shards'' @ [apostrophe]
           @ '' engine treats NULLs as distinct, so the extra rows it would''
           @ '' reject cannot be rejected''))
      else Inr ())"

definition plan_create_index :: "create_index \<Rightarrow> table_meta \<Rightarrow> (error_info, index_meta) result" where
  "plan_create_index create table_meta =
     (case ci_name create of
        None \<Rightarrow>
          Inl (make_vdb_error V_FeatureNotSupported
            (''CREATE INDEX without a name is not supported by VaireDB: each'' @ '' shard''
             @ [apostrophe]
             @ ''s index is named after the one you give, and DROP INDEX resolves''
             @ '' that name back to the table it belongs to. Name the index''))
      | Some name \<Rightarrow>
          if length name > 1 then
            Inl (make_vdb_error V_SqlSyntaxError
              (''an index name may not be schema-qualified: an index is created in''
               @ '' the schema of the table it indexes. Give the index a bare name''))
          else
            r_bind (ok_or (make_vdb_error V_SqlSyntaxError ''could not determine the index name'')
                      (canonical_table_name name)) (\<lambda>relation.
            r_bind (collect_results (planned_index_column table_meta) (ci_columns create)) (\<lambda>columns.
            r_bind (check_unique_index create table_meta columns) (\<lambda>_.
              Inr \<lparr>ix_name = qualified_name (schema_of (tm_table_name table_meta)) relation,
                   ix_columns = columns, ix_unique = ci_unique create\<rparr>))))"

record drop_index_request =
  dx_name :: string
  dx_if_exists :: bool

definition plan_drop_index :: "statement \<Rightarrow> (error_info, drop_index_request) result" where
  "plan_drop_index stmt =
     (case stmt of
        StDrop d \<Rightarrow>
          if dr_object d \<noteq> OIndex then Inl (make_vdb_error V_SqlSyntaxError ''expected a DROP INDEX statement'')
          else if length (dr_names d) > 1 then Inl (one_object_at_a_time ''DROP INDEX'' ''index'')
          else if dr_cascade d \<or> dr_restrict d then Inl (no_referential_actions ''DROP INDEX'')
          else if dr_table d then
            Inl (make_vdb_error V_FeatureNotSupported
              (''DROP INDEX ... ON <table> is not supported by VaireDB: an index''
               @ '' name resolves on its own, so drop it with DROP INDEX <name>''))
          else
            r_bind (ok_or (make_vdb_error V_SqlSyntaxError ''could not determine the index name'')
                      (Option.bind (first_of (dr_names d)) canonical_table_name))
              (\<lambda>name. Inr \<lparr>dx_name = name, dx_if_exists = dr_if_exists d\<rparr>)
      | _ \<Rightarrow> Inl (make_vdb_error V_SqlSyntaxError ''expected a DROP INDEX statement''))"

definition shard_index_name :: "string \<Rightarrow> nat \<Rightarrow> string" where
  "shard_index_name index_name hash_bucket = shard_table_name index_name hash_bucket"

definition shard_local_recorded_index_sql ::
  "string \<Rightarrow> string list \<Rightarrow> bool \<Rightarrow> string \<Rightarrow> nat \<Rightarrow> string" where
  "shard_local_recorded_index_sql index_name columns uniq table_name hash_bucket =
     (''CREATE '' @ (if uniq then ''UNIQUE '' else []) @ ''INDEX IF NOT EXISTS ''
      @ shard_index_name index_name hash_bucket @ '' ON ''
      @ shard_table_name table_name hash_bucket @ '' (''
      @ join '', '' (map quoted_if_folded columns) @ '')'')"

definition shard_local_drop_index_sql :: "string \<Rightarrow> nat \<Rightarrow> string" where
  "shard_local_drop_index_sql index_name hash_bucket =
     ''DROP INDEX IF EXISTS '' @ shard_index_name index_name hash_bucket"

definition shard_local_alter_with_index_rebuild ::
  "index_meta list \<Rightarrow> index_meta list \<Rightarrow> string \<Rightarrow> string \<Rightarrow> nat \<Rightarrow> string list" where
  "shard_local_alter_with_index_rebuild before after alter_sql table_name hash_bucket =
     (if before = [] then [alter_sql]
      else
        map (\<lambda>index. shard_local_drop_index_sql (ix_name index) hash_bucket) before
        @ [alter_sql]
        @ map (\<lambda>index. shard_local_recorded_index_sql (ix_name index) (ix_columns index) (ix_unique index)
                 table_name hash_bucket) after)"

definition shard_local_create_index_sql ::
  "'w query_handler \<Rightarrow> create_index \<Rightarrow> string \<Rightarrow> nat \<Rightarrow> string" where
  "shard_local_create_index_sql H create index_name hash_bucket =
     (let suffix = ''shard'' @ show_nat hash_bucket;
          idx = create\<lparr>ci_if_not_exists := True,
                       ci_name := Some [NIdentifier (ident_with_quote dquote index_name)]\<rparr>;
          stmt = rewrite_to_shard_local (qh_sql H) suffix (StCreateIndex idx);
          stmt = rewrite_index_name_to_shard_local suffix stmt
      in sq_statement (qh_sql H) (wl_dialect (qh_libs H) stmt))"

text \<open>
  The end of a handler that changes the record of one table: the statements go to every
  replica, and the record is stored if every node was reached.
\<close>

definition broadcast_then_put ::
  "'w query_handler \<Rightarrow> ('t, 'b) env \<Rightarrow> string \<Rightarrow> string \<Rightarrow> error_context \<Rightarrow> string \<Rightarrow> (shard_meta \<Rightarrow> string list)
     \<Rightarrow> table_meta \<Rightarrow> 't catalog \<times> 'w link \<Rightarrow> (error_info, response) result \<times> 't catalog \<times> 'w link" where
  "broadcast_then_put H E op_label tag ctx table_name make_shard_sql changed st =
     (case st of (C, lk) \<Rightarrow>
       case shards_and_nodes E C table_name ctx of
         Inl e \<Rightarrow> (Inl e, C, lk)
       | Inr (shards, addresses) \<Rightarrow>
           (case broadcast_ddl_batch_best_effort H addresses table_name make_shard_sql shards lk of
              (missed, lk1) \<Rightarrow>
                (case fail_if_unreachable op_label missed of
                   Inl e \<Rightarrow> (Inl e, C, lk1)
                 | Inr _ \<Rightarrow> (Inr (Execution tag 0), put_table E changed C, lk1))))"

definition handle_create_index ::
  "'w query_handler \<Rightarrow> ('t, 'b) env \<Rightarrow> statement \<Rightarrow> 't catalog \<times> 'w link
     \<Rightarrow> (error_info, response) result \<times> 't catalog \<times> 'w link" where
  "handle_create_index H E stmt st =
     (case st of (C, lk) \<Rightarrow>
       case stmt of
         StCreateIndex create \<Rightarrow>
           (case canonical_table_name (ci_table_name create) of
              None \<Rightarrow> (Inl no_table_name, C, lk)
            | Some table_name \<Rightarrow>
                (let ctx = for_table table_name in
                 case enrich E C ctx (get_table E C table_name) of
                   Inl e \<Rightarrow> (Inl e, C, lk)
                 | Inr None \<Rightarrow>
                     (Inl (make_vdb_error V_TableNotFound (''relation '' @ dq table_name @ '' does not exist'')), C, lk)
                 | Inr (Some table_meta) \<Rightarrow>
                     (case r_bind (plan_create_index create table_meta) (\<lambda>index_meta.
                             r_bind (name_is_taken E C (ix_name index_meta) ctx) (\<lambda>taken.
                               if taken then
                                 (if ci_if_not_exists create then Inr None
                                  else Inl (already_exists (ix_name index_meta)))
                               else
                                 r_bind (reject_physical_name_conflict E C (ix_name index_meta) ctx)
                                   (\<lambda>_. Inr (Some index_meta)))) of
                        Inl e \<Rightarrow> (Inl e, C, lk)
                      | Inr None \<Rightarrow> (Inr (Execution ''CREATE INDEX'' 0), C, lk)
                      | Inr (Some index_meta) \<Rightarrow>
                          broadcast_then_put H E ''CREATE INDEX'' ''CREATE INDEX'' ctx table_name
                            (\<lambda>shard. [shard_local_create_index_sql H create (ix_name index_meta) (sh_hash_bucket shard)])
                            (table_meta\<lparr>tm_indexes := tm_indexes table_meta @ [index_meta]\<rparr>) (C, lk))))
       | _ \<Rightarrow> (Inl (make_vdb_error V_SqlSyntaxError ''expected a CREATE INDEX statement''), C, lk))"

text \<open>The answer of DROP INDEX for a name no index has.\<close>

definition not_an_index ::
  "('t, 'b) env \<Rightarrow> 't catalog \<Rightarrow> drop_index_request \<Rightarrow> (error_info, response) result" where
  "not_an_index E C request =
     (let index_name = dx_name request; ctx = error_context_default in
      r_bind (enrich E C ctx (get_table E C index_name)) (\<lambda>table.
        if table \<noteq> None then
          Inl (make_vdb_error V_WrongObjectType (dq index_name @ '' is not an index; use DROP TABLE to drop a table''))
        else r_bind (enrich E C ctx (table_with_index_backed_constraint E C index_name)) (\<lambda>owner.
          case owner of
            Some owner \<Rightarrow>
              Inl (make_vdb_error V_WrongObjectType
                (dq index_name @ '' is a constraint of relation '' @ dq (tm_table_name owner)
                 @ '', not an index; drop it with ALTER TABLE '' @ tm_table_name owner
                 @ '' DROP CONSTRAINT '' @ dq index_name))
          | None \<Rightarrow>
              r_bind (enrich E C ctx (get_view E C index_name)) (\<lambda>view.
                if view \<noteq> None then
                  Inl (make_vdb_error V_WrongObjectType (dq index_name @ '' is not an index; use DROP VIEW to drop a view''))
                else if dx_if_exists request then Inr (Execution ''DROP INDEX'' 0)
                else Inl (make_vdb_error V_TableNotFound (''index '' @ dq index_name @ '' does not exist''))))))"

definition handle_drop_index ::
  "'w query_handler \<Rightarrow> ('t, 'b) env \<Rightarrow> statement \<Rightarrow> 't catalog \<times> 'w link
     \<Rightarrow> (error_info, response) result \<times> 't catalog \<times> 'w link" where
  "handle_drop_index H E stmt st =
     (case st of (C, lk) \<Rightarrow>
       case plan_drop_index stmt of
         Inl e \<Rightarrow> (Inl e, C, lk)
       | Inr request \<Rightarrow>
           (case enrich E C error_context_default (table_with_index E C (dx_name request)) of
              Inl e \<Rightarrow> (Inl e, C, lk)
            | Inr None \<Rightarrow> (not_an_index E C request, C, lk)
            | Inr (Some table_meta) \<Rightarrow>
                broadcast_then_put H E ''DROP INDEX'' ''DROP INDEX'' (for_table (tm_table_name table_meta))
                  (tm_table_name table_meta)
                  (\<lambda>shard. [''DROP INDEX IF EXISTS '' @ shard_index_name (dx_name request) (sh_hash_bucket shard)])
                  (table_meta\<lparr>tm_indexes := filter (\<lambda>idx. ix_name idx \<noteq> dx_name request) (tm_indexes table_meta)\<rparr>)
                  (C, lk)))"

section \<open>Constraints of an existing table\<close>

definition ADD_CONSTRAINT :: string where
  "ADD_CONSTRAINT = ''ALTER TABLE ... ADD CONSTRAINT''"

definition DROP_CONSTRAINT :: string where
  "DROP_CONSTRAINT = ''ALTER TABLE ... DROP CONSTRAINT''"

definition shard_local_unique_index_sql :: "constraint_meta \<Rightarrow> string \<Rightarrow> nat \<Rightarrow> string" where
  "shard_local_unique_index_sql meta table_name hash_bucket =
     shard_local_recorded_index_sql (cn_name meta) (cn_columns meta) True table_name hash_bucket"

definition add_constraint ::
  "'w query_handler \<Rightarrow> ('t, 'b) env \<Rightarrow> table_meta \<Rightarrow> table_constraint \<Rightarrow> bool \<Rightarrow> 't catalog \<times> 'w link
     \<Rightarrow> (error_info, response) result \<times> 't catalog \<times> 'w link" where
  "add_constraint H E table_meta cnstr not_valid st =
     (case st of (C, lk) \<Rightarrow>
       let table_name = tm_table_name table_meta; ctx = for_table table_name in
       case r_bind (plan_add_constraint (qh_sql H) table_meta cnstr not_valid) (\<lambda>meta.
              r_bind (name_is_taken E C (cn_name meta) ctx) (\<lambda>taken.
                if taken then Inl (already_exists (cn_name meta))
                else r_bind (reject_physical_name_conflict E C (cn_name meta) ctx) (\<lambda>_. Inr meta))) of
         Inl e \<Rightarrow> (Inl e, C, lk)
       | Inr meta \<Rightarrow>
           broadcast_then_put H E ADD_CONSTRAINT ''ALTER TABLE'' ctx table_name
             (\<lambda>shard. [shard_local_unique_index_sql meta table_name (sh_hash_bucket shard)])
             (table_meta\<lparr>tm_constraints := tm_constraints table_meta @ [meta]\<rparr>) (C, lk))"

definition drop_constraint ::
  "'w query_handler \<Rightarrow> ('t, 'b) env \<Rightarrow> table_meta \<Rightarrow> string \<Rightarrow> bool \<Rightarrow> 't catalog \<times> 'w link
     \<Rightarrow> (error_info, response) result \<times> 't catalog \<times> 'w link" where
  "drop_constraint H E table_meta name if_exists st =
     (case st of (C, lk) \<Rightarrow>
       let table_name = tm_table_name table_meta in
       case find (\<lambda>c. relation_of (cn_name c) = relation_of name) (tm_constraints table_meta) of
         None \<Rightarrow>
           (if if_exists then Inr (Execution ''ALTER TABLE'' 0)
            else
              Inl (make_vdb_error V_TableNotFound
                (''constraint '' @ dq name @ '' of relation '' @ dq table_name @ '' does not exist'')), C, lk)
       | Some existing \<Rightarrow>
           if \<not> cn_index_backed existing then
             (Inl (make_vdb_error V_FeatureNotSupported
                (''constraint '' @ dq name @ '' of relation '' @ dq table_name
                 @ '' cannot be dropped: it is part of the table'' @ [apostrophe]
                 @ ''s definition on every shard, and the shards'' @ [apostrophe]
                 @ '' engine does not implement DROP CONSTRAINT. Recreate the table''
                 @ '' without it'')), C, lk)
           else
             broadcast_then_put H E DROP_CONSTRAINT ''ALTER TABLE'' (for_table table_name) table_name
               (\<lambda>shard. [''DROP INDEX IF EXISTS '' @ shard_table_name (cn_name existing) (sh_hash_bucket shard)])
               (table_meta\<lparr>tm_constraints := filter (\<lambda>c. cn_name c \<noteq> cn_name existing) (tm_constraints table_meta)\<rparr>)
               (C, lk))"

section \<open>ALTER TABLE\<close>

datatype alter_plan =
  PlanRename string
| PlanSetSchema string
| PlanAddConstraint table_constraint bool
| PlanDropConstraint string bool
| PlanColumnOps

definition standalone_label :: "alter_operation \<Rightarrow> string option" where
  "standalone_label op =
     (case op of
        AoRenameTable _ \<Rightarrow> Some ''RENAME TO''
      | AoAddConstraint _ _ \<Rightarrow> Some ''ADD CONSTRAINT''
      | AoDropConstraint _ _ _ \<Rightarrow> Some ''DROP CONSTRAINT''
      | _ \<Rightarrow> None)"

definition plan_rename_table :: "rename_kind \<Rightarrow> string \<Rightarrow> (error_info, alter_plan) result" where
  "plan_rename_table destination table_name =
     (let name = (case destination of RenameTo n \<Rightarrow> n | RenameAs n \<Rightarrow> n) in
      r_bind (ok_or (make_vdb_error V_SqlSyntaxError ''could not determine the new table name'')
                (canonical_table_name name)) (\<lambda>destination.
        if \<not> length name > 1 then Inr (PlanRename destination)
        else if relation_of destination \<noteq> relation_of table_name then
          Inl (make_vdb_error V_SqlSyntaxError
            (''the new name in ALTER TABLE ... RENAME TO may not be''
             @ '' schema-qualified unless it keeps the relation name, which is what''
             @ '' ALTER TABLE ... SET SCHEMA does; move the relation and rename it''
             @ '' with two statements''))
        else Inr (PlanSetSchema destination)))"

definition plan_alter :: "sql_lib \<Rightarrow> alter_operation list \<Rightarrow> string \<Rightarrow> (error_info, alter_plan) result" where
  "plan_alter L operations table_name =
     (case first_of (List.map_filter (refused_alter_operation L) operations) of
        Some err \<Rightarrow> Inl err
      | None \<Rightarrow>
          (case find (\<lambda>op. standalone_label op \<noteq> None) operations of
             None \<Rightarrow> Inr PlanColumnOps
           | Some op \<Rightarrow>
               if length operations > 1 then
                 (let label = (case standalone_label op of Some l \<Rightarrow> l | None \<Rightarrow> ''this action'') in
                  Inl (make_vdb_error V_SqlSyntaxError
                    (''ALTER TABLE ... '' @ label
                     @ '' cannot be combined with other actions; apply it with its own'' @ '' statement'')))
               else
                 (case op of
                    AoRenameTable destination \<Rightarrow> plan_rename_table destination table_name
                  | AoAddConstraint cnstr not_valid \<Rightarrow> Inr (PlanAddConstraint cnstr not_valid)
                  | AoDropConstraint if_exists name drop_behavior \<Rightarrow>
                      if drop_behavior then
                        Inl (make_vdb_error V_FeatureNotSupported
                          (''ALTER TABLE ... DROP CONSTRAINT ... CASCADE/RESTRICT is not''
                         @ '' supported by VaireDB; the catalog tracks no dependent objects''))
                      else Inr (PlanDropConstraint (canonicalize_ident name) if_exists)
                  | _ \<Rightarrow> Inr PlanColumnOps)))"

definition rename_blocking :: "table_meta \<Rightarrow> string list" where
  "rename_blocking table_meta =
     map (\<lambda>idx. ''DROP INDEX '' @ dq (ix_name idx)) (tm_indexes table_meta)
     @ map (\<lambda>c. ''ALTER TABLE '' @ tm_table_name table_meta @ '' DROP CONSTRAINT '' @ dq (cn_name c))
       (filter cn_index_backed (tm_constraints table_meta))"

text \<open>The renaming of one shard on its nodes, with what would undo it on each that applied it.\<close>

fun rename_on_nodes ::
  "'w network \<Rightarrow> (string \<Rightarrow> string option) \<Rightarrow> string \<Rightarrow> string \<Rightarrow> string \<Rightarrow> string list \<Rightarrow> 'w comms
     \<Rightarrow> string list \<times> (string \<times> string \<times> string) list \<times> 'w comms" where
  "rename_on_nodes N addresses write_id from_name to_name [] s = ([], [], s)"
| "rename_on_nodes N addresses write_id from_name to_name (node_id # nodes) s =
     (case addresses node_id of
        None \<Rightarrow> rename_on_nodes N addresses write_id from_name to_name nodes s
      | Some address \<Rightarrow>
          (case reach_node N address write_id [''ALTER TABLE '' @ from_name @ '' RENAME TO '' @ to_name] from_name s of
             (r, s') \<Rightarrow>
               (case rename_on_nodes N addresses write_id from_name to_name nodes s' of
                  (missed, applied, s'') \<Rightarrow>
                    (if isl r then (node_id # missed, applied, s'')
                     else
                       (missed,
                        (address, ''ALTER TABLE '' @ to_name @ '' RENAME TO '' @ from_name, to_name) # applied,
                        s'')))))"

fun broadcast_table_rename ::
  "'w query_handler \<Rightarrow> (string \<Rightarrow> string option) \<Rightarrow> string \<Rightarrow> string \<Rightarrow> shard_meta list \<Rightarrow> 'w link
     \<Rightarrow> string list \<times> (string \<times> string \<times> string) list \<times> 'w link" where
  "broadcast_table_rename H addresses old_name new_name [] lk = ([], [], lk)"
| "broadcast_table_rename H addresses old_name new_name (shard # shards) lk =
     (case fresh_write_id H lk of
        (write_id, lk1) \<Rightarrow>
          (case rename_on_nodes (qh_network H) addresses write_id
                  (shard_table_name old_name (sh_hash_bucket shard)) (shard_table_name new_name (sh_hash_bucket shard))
                  (target_nodes shard) (lk_comms lk1) of
             (missed, applied, s) \<Rightarrow>
               (case broadcast_table_rename H addresses old_name new_name shards (lk1\<lparr>lk_comms := s\<rparr>) of
                  (missed', applied', lk') \<Rightarrow> (missed @ missed', applied @ applied', lk'))))"

definition release_claimed_name :: "('t, 'b) env \<Rightarrow> string \<Rightarrow> 't catalog \<Rightarrow> 't catalog" where
  "release_claimed_name E table_name C = forget_table E table_name C"

definition plan_rename ::
  "('t, 'b) env \<Rightarrow> 't catalog \<Rightarrow> table_meta \<Rightarrow> string
     \<Rightarrow> (error_info, shard_meta list \<times> (string \<Rightarrow> string option)) result" where
  "plan_rename E C table_meta new_name =
     (let old_name = tm_table_name table_meta; ctx = for_table old_name; blocking = rename_blocking table_meta in
      if blocking \<noteq> [] then
        Inl (make_vdb_error V_FeatureNotSupported
          (''cannot rename table '' @ dq old_name
           @ '' because it carries an index, and the shards'' @ [apostrophe]
           @ '' engine refuses to alter a table an index depends on; '' @ removal_hint blocking
           @ '' and recreate it on the renamed table''))
      else
        r_bind (require_schema_exists E C new_name ctx) (\<lambda>_.
        r_bind (reject_physical_name_conflict E C new_name ctx) (\<lambda>_.
          shards_and_nodes E C old_name ctx)))"

definition rename_table ::
  "'w query_handler \<Rightarrow> ('t, 'b) env \<Rightarrow> table_meta \<Rightarrow> string \<Rightarrow> 't catalog \<times> 'w link
     \<Rightarrow> (error_info, response) result \<times> 't catalog \<times> 'w link" where
  "rename_table H E table_meta new_name st =
     (case st of (C, lk) \<Rightarrow>
       let old_name = tm_table_name table_meta in
       case plan_rename E C table_meta new_name of
         Inl e \<Rightarrow> (Inl e, C, lk)
       | Inr (shards, addresses) \<Rightarrow>
           (case create_table_if_absent E (table_meta\<lparr>tm_table_name := new_name\<rparr>) C of
              (claimed, C1) \<Rightarrow>
                if \<not> claimed then (Inl (already_exists new_name), C1, lk)
                else
                  (let C2 = fold (\<lambda>shard. put_shard E (shard\<lparr>sh_table_name := new_name\<rparr>)) shards C1 in
                   case broadcast_table_rename H addresses old_name new_name shards lk of
                     (missed, applied, lk1) \<Rightarrow>
                       (case fail_if_unreachable ''ALTER TABLE ... RENAME TO'' missed of
                          Inl e \<Rightarrow> (Inl e, release_claimed_name E new_name C2, send_compensating_ddl H applied lk1)
                        | Inr _ \<Rightarrow> (Inr (Execution ''ALTER TABLE'' 0), forget_table E old_name C2, lk1)))))"

text \<open>The plan, once the table was found.\<close>

definition alter_found_table ::
  "'w query_handler \<Rightarrow> ('t, 'b) env \<Rightarrow> statement \<Rightarrow> alter_operation list \<Rightarrow> alter_plan \<Rightarrow> string \<Rightarrow> table_meta
     \<Rightarrow> 't catalog \<times> 'w link \<Rightarrow> (error_info, response) result \<times> 't catalog \<times> 'w link" where
  "alter_found_table H E stmt operations plan table_name table_meta st =
     (case plan of
        PlanRename new_relation \<Rightarrow> rename_table H E table_meta (rename_within_schema table_name new_relation) st
      | PlanSetSchema new_name \<Rightarrow>
          if new_name = table_name then
            (Inl (make_vdb_error V_TableAlreadyExists
               (''relation '' @ dq table_name @ '' is already in schema ''
                @ dq (schema_of table_name))), st)
          else rename_table H E table_meta new_name st
      | PlanAddConstraint cnstr not_valid \<Rightarrow> add_constraint H E table_meta cnstr not_valid st
      | PlanDropConstraint name if_exists \<Rightarrow> drop_constraint H E table_meta name if_exists st
      | PlanColumnOps \<Rightarrow>
          (case apply_alter_operations (qh_sql H) operations table_meta of
             Inl e \<Rightarrow> (Inl e, st)
           | Inr changed \<Rightarrow>
               broadcast_then_put H E ''ALTER TABLE'' ''ALTER TABLE'' (for_table table_name) table_name
                 (\<lambda>shard. shard_local_alter_with_index_rebuild (tm_indexes table_meta) (tm_indexes changed)
                    (shard_local_ddl_sql H stmt shard) table_name (sh_hash_bucket shard))
                 changed st))"

definition handle_alter_table ::
  "'w query_handler \<Rightarrow> ('t, 'b) env \<Rightarrow> statement \<Rightarrow> 't catalog \<times> 'w link
     \<Rightarrow> (error_info, response) result \<times> 't catalog \<times> 'w link" where
  "handle_alter_table H E stmt st =
     (case st of (C, lk) \<Rightarrow>
       case stmt of
         StAlterTable alter \<Rightarrow>
           (case r_bind (ok_or no_table_name (canonical_table_name (al_name alter))) (\<lambda>table_name.
                   r_bind (plan_alter (qh_sql H) (al_operations alter) table_name) (\<lambda>plan. Inr (table_name, plan))) of
              Inl e \<Rightarrow> (Inl e, C, lk)
            | Inr (table_name, plan) \<Rightarrow>
                (case enrich E C (for_table table_name) (get_table E C table_name) of
                   Inl e \<Rightarrow> (Inl e, C, lk)
                 | Inr None \<Rightarrow>
                     (if al_if_exists alter then Inr (Execution ''ALTER TABLE'' 0)
                      else Inl (make_vdb_error V_TableNotFound (''relation '' @ dq table_name @ '' does not exist'')), C, lk)
                 | Inr (Some table_meta) \<Rightarrow>
                     alter_found_table H E stmt (al_operations alter) plan table_name table_meta (C, lk)))
       | _ \<Rightarrow> (Inl (make_vdb_error V_SqlSyntaxError ''expected ALTER TABLE statement''), C, lk))"

section \<open>CREATE TABLE ... AS SELECT\<close>

text \<open>
  The rows of the query are the read path's answer, the argument \<open>collect_query_rows\<close>;
  parsing a statement text is \<open>parse_sql\<close>. The rows are written with the INSERT lane of
  \<open>Dml\<close>, whose write ids and schedules follow.
\<close>

definition drop_table_after_failed_ctas ::
  "'w query_handler \<Rightarrow> ('t, 'b) env \<Rightarrow> (string \<Rightarrow> (string, statement list) result) \<Rightarrow> string \<Rightarrow> 't catalog \<times> 'w link
     \<Rightarrow> (error_info, unit) result \<times> 't catalog \<times> 'w link" where
  "drop_table_after_failed_ctas H E parse_sql table_name st =
     (case r_bind (with_code V_InternalError (parse_sql (''DROP TABLE IF EXISTS '' @ quoted table_name)))
             (\<lambda>statements. ok_or (make_vdb_error V_InternalError ''could not build a DROP TABLE'') (first_of statements)) of
        Inl e \<Rightarrow> (Inl e, st)
      | Inr stmt \<Rightarrow>
          (case handle_drop_table H E stmt st of
             (Inl e, st') \<Rightarrow> (Inl e, st')
           | (Inr _, st') \<Rightarrow> (Inr (), st')))"

definition undo_ctas ::
  "'w query_handler \<Rightarrow> ('t, 'b) env \<Rightarrow> (error_info \<Rightarrow> string) \<Rightarrow> (string \<Rightarrow> (string, statement list) result) \<Rightarrow> string
     \<Rightarrow> error_info \<Rightarrow> 't catalog \<times> 'w link \<Rightarrow> error_info \<times> 't catalog \<times> 'w link" where
  "undo_ctas H E shown parse_sql table_name e st =
     (case drop_table_after_failed_ctas H E parse_sql table_name st of
        (Inl drop_err, st') \<Rightarrow>
          (make_vdb_error V_PartialCommit
             (''CREATE TABLE ... AS SELECT could not write the query'' @ [apostrophe]
              @ ''s rows, and the empty table '' @ dq table_name
              @ '' it created could not be dropped again. Drop it manually before''
              @ '' retrying. Write failure: '' @ shown e @ ''. Drop failure: '' @ shown drop_err), st')
      | (Inr _, st') \<Rightarrow> (e, st'))"

definition fill_created_table ::
  "'w query_handler \<Rightarrow> ('t, 'b) env \<Rightarrow> (error_info \<Rightarrow> string) \<Rightarrow> (nat \<Rightarrow> nat \<Rightarrow> (nat \<times> bool) list)
     \<Rightarrow> (string \<Rightarrow> (string, statement list) result) \<Rightarrow> string \<Rightarrow> string list \<Rightarrow> record_batch list
     \<Rightarrow> 't catalog \<times> 'w link \<times> transaction \<times> retry_queues
     \<Rightarrow> (error_info, nat) result \<times> 't catalog \<times> 'w link \<times> transaction \<times> retry_queues" where
  "fill_created_table H E shown scheds parse_sql table_name columns batches st =
     (case st of (C, lk, txn, retries) \<Rightarrow>
       case r_bind (with_code V_InternalError (insert_template parse_sql table_name columns)) (\<lambda>template.
              with_code V_FeatureNotSupported (insert_statements_from_batches template batches ROWS_PER_STATEMENT)) of
         Inl e \<Rightarrow>
           (case undo_ctas H E shown parse_sql table_name e (C, lk) of
              (e', C', lk') \<Rightarrow> (Inl e', C', lk', txn, retries))
       | Inr statements \<Rightarrow>
           (case write_row_statements (qh_libs H) E C (qh_network H) shown scheds (\<lambda>i. qh_ids H (lk_next_id lk + i))
                   statements [] table_name ''CREATE TABLE ... AS SELECT'' (txn, retries, lk_comms lk) of
              (r, txn', retries', s) \<Rightarrow>
                (let lk' = lk\<lparr>lk_next_id := lk_next_id lk + length statements, lk_comms := s\<rparr> in
                 case r of
                   Inr rows \<Rightarrow> (Inr rows, C, lk', txn', retries')
                 | Inl e \<Rightarrow>
                     (case undo_ctas H E shown parse_sql table_name e (C, lk') of
                        (e', C', lk'') \<Rightarrow> (Inl e', C', lk'', txn', retries')))))"

definition plan_ctas ::
  "'w query_handler \<Rightarrow> ('t, 'b) env \<Rightarrow> (statement \<Rightarrow> scalar list \<Rightarrow> (error_info, field list \<times> record_batch list) result)
     \<Rightarrow> 't catalog \<Rightarrow> create_table
     \<Rightarrow> (error_info, (string \<times> ast_column list \<times> string list \<times> record_batch list) option) result" where
  "plan_ctas H E collect_query_rows C create =
     (case cr_query create of
        None \<Rightarrow> Inl (make_vdb_error V_InternalError ''expected a CREATE TABLE with a query'')
      | Some query \<Rightarrow>
          if cr_columns create \<noteq> [] then
            Inl (make_vdb_error V_FeatureNotSupported
              (''CREATE TABLE ... AS SELECT does not accept a column list: the''
               @ '' columns are taken from the query'' @ [apostrophe]
               @ ''s result. Name them with aliases in the SELECT instead''))
          else
            r_bind (ok_or (make_vdb_error V_FeatureNotSupported
                (''CREATE TABLE ... AS SELECT must name its shard key: the columns''
                 @ '' come from the query, so VaireDB will not guess which one to shard''
                 @ '' on. Add WITH (shard_by = '' @ [apostrophe] @ ''<column>'' @ [apostrophe]
                 @ '')''))
                (explicit_shard_by (qh_sql H) create)) (\<lambda>shard_key.
            r_bind (ok_or no_table_name (canonical_table_name (cr_name create))) (\<lambda>table_name.
              let ctx = for_table table_name in
              r_bind (require_schema_exists E C table_name ctx) (\<lambda>_.
              r_bind (reject_physical_name_conflict E C table_name ctx) (\<lambda>_.
                case get_table E C table_name of
                  Inr (Some _) \<Rightarrow> if cr_if_not_exists create then Inr None else Inl (already_exists table_name)
                | _ \<Rightarrow>
                    r_bind (declared_anonymized_columns create) (\<lambda>anonymized.
                    r_bind (reject_hashing_a_digest E C ''CREATE TABLE ... AS SELECT'' table_name anonymized
                              (relations_read (qh_sql H) query)) (\<lambda>_.
                    r_bind (collect_query_rows (StQuery query) []) (\<lambda>(schema, batches).
                    r_bind (with_code V_FeatureNotSupported (column_defs_from_result_schema schema)) (\<lambda>columns.
                      let column_names = map (\<lambda>c. canonicalize_ident (ac_name c)) columns in
                      if shard_key \<notin> set column_names then
                        Inl (make_vdb_error V_ColumnNotFound
                          (''shard key '' @ dq shard_key @ '' is not among the query'' @ [apostrophe]
                         @ ''s result columns ('' @ join '', '' column_names @ '')''))
                      else Inr (Some (table_name, columns, column_names, batches)))))))))))"

definition handle_create_table_as_select ::
  "'w query_handler \<Rightarrow> ('t, 'b) env \<Rightarrow> (error_info \<Rightarrow> string) \<Rightarrow> (nat \<Rightarrow> nat \<Rightarrow> (nat \<times> bool) list)
     \<Rightarrow> (string \<Rightarrow> (string, statement list) result)
     \<Rightarrow> (statement \<Rightarrow> scalar list \<Rightarrow> (error_info, field list \<times> record_batch list) result) \<Rightarrow> create_table
     \<Rightarrow> 't catalog \<times> 'w link \<times> transaction \<times> retry_queues
     \<Rightarrow> (error_info, response) result \<times> 't catalog \<times> 'w link \<times> transaction \<times> retry_queues" where
  "handle_create_table_as_select H E shown scheds parse_sql collect_query_rows create st =
     (case st of (C, lk, block) \<Rightarrow>
       case plan_ctas H E collect_query_rows C create of
         Inl e \<Rightarrow> (Inl e, C, lk, block)
       | Inr None \<Rightarrow> (Inr (Execution ''CREATE TABLE AS'' 0), C, lk, block)
       | Inr (Some (table_name, columns, column_names, batches)) \<Rightarrow>
           (let plain = create\<lparr>cr_query := None, cr_columns := columns\<rparr> in
            case create_table_from_column_list H E (StCreateTable plain) plain (C, lk) of
              (Inl e, C1, lk1) \<Rightarrow> (Inl e, C1, lk1, block)
            | (Inr _, C1, lk1) \<Rightarrow>
                (case fill_created_table H E shown scheds parse_sql table_name column_names batches (C1, lk1, block) of
                   (Inl e, st') \<Rightarrow> (Inl e, st')
                 | (Inr rows, st') \<Rightarrow> (Inr (Execution ''SELECT'' rows), st'))))"

definition handle_create_table ::
  "'w query_handler \<Rightarrow> ('t, 'b) env \<Rightarrow> (error_info \<Rightarrow> string) \<Rightarrow> (nat \<Rightarrow> nat \<Rightarrow> (nat \<times> bool) list)
     \<Rightarrow> (string \<Rightarrow> (string, statement list) result)
     \<Rightarrow> (statement \<Rightarrow> scalar list \<Rightarrow> (error_info, field list \<times> record_batch list) result) \<Rightarrow> statement
     \<Rightarrow> 't catalog \<times> 'w link \<times> transaction \<times> retry_queues
     \<Rightarrow> (error_info, response) result \<times> 't catalog \<times> 'w link \<times> transaction \<times> retry_queues" where
  "handle_create_table H E shown scheds parse_sql collect_query_rows stmt st =
     (case st of (C, lk, block) \<Rightarrow>
       case stmt of
         StCreateTable create \<Rightarrow>
           if cr_query create \<noteq> None then
             handle_create_table_as_select H E shown scheds parse_sql collect_query_rows create st
           else
             (case create_table_from_column_list H E stmt create (C, lk) of (r, C', lk') \<Rightarrow> (r, C', lk', block))
       | _ \<Rightarrow> (Inl (make_vdb_error V_SqlSyntaxError ''expected CREATE TABLE statement''), C, lk, block))"

end
