(* ===== verification/Spec2Isabelle.thy ===== *)
theory Spec2Isabelle
  imports Cluster Write_Routing Ddl
begin

text \<open>
  Verification of VaireDB, a sharded SQL database. A coordinator
  (\<open>crates/vairedb-coordinator\<close>) speaks the PostgreSQL protocol, keeps the metadata of
  tables, shards and nodes in an embedded key/value store, splits every write by the hash of
  the shard key and replicates it to the nodes of a shard by quorum. Core nodes
  (\<open>crates/vairedb-core\<close>) apply the writes to a DuckDB database each. Both share
  \<open>crates/vairedb-common\<close> and the messages of \<open>proto/vairedb/v1\<close>.

  \<^bold>\<open>The parts and the theories.\<close> Source paths are relative to \<open>src\<close>; \<open>co\<close> stands for
  \<open>crates/vairedb-coordinator/src\<close> and \<open>pg\<close> for \<open>co/pgwire_handler\<close>.

  \<^item> \<open>Prelude\<close>: the result type and its \<open>r_bind\<close>, the functions of Rust's standard library
    the sources use on strings, slices and options.
  \<^item> \<open>Names\<close>: \<open>pg/query_router.rs\<close> (identifier folding and catalog keys), \<open>co/util.rs\<close> and
    \<open>co/write_sql_cl/mod.rs\<close> (physical and shard-local names).
  \<^item> \<open>Error_Codes\<close>, \<open>Error_Text\<close>, \<open>Client_Errors\<close>: the error enumerations of both crates,
    \<open>crates/vairedb-common/src/error\<close> (tags, sanitizing, recovery of errors that crossed the
    wire as text) and \<open>pg/error_enrichment.rs\<close> (what a client is told).
  \<^item> \<open>Record_Store\<close>, \<open>Catalog\<close>, \<open>Placement\<close>, \<open>Reference_Env\<close>, \<open>Catalog_Properties\<close>:
    \<open>co/catalog/catalog.rs\<close> over the key/value store redb and the codec prost.
  \<^item> \<open>Config\<close>, \<open>Membership\<close>: the configuration files, \<open>co/node_service\<close> (registration,
    heartbeats, failure detector).
  \<^item> \<open>Write_Node\<close>: \<open>crates/vairedb-core/src/write_service\<close> and \<open>write_queue\<close> (the
    deduplication cache, atomic batches, bulk rows).
  \<^item> \<open>Replication\<close>, \<open>Cluster\<close>: \<open>co/replication\<close>, \<open>co/channel_pool\<close>, \<open>co/write_router\<close>, and
    the composition of the coordinator with the nodes it writes to.
  \<^item> \<open>Sql_Ast\<close>, \<open>Decimal\<close>, \<open>Routing_Value\<close>, \<open>Bytea\<close>, \<open>Write_Sql\<close>, \<open>Write_Rows\<close>,
    \<open>Write_Routing\<close>: \<open>co/write_sql_cl\<close> (routing values, statement inspection and splitting,
    shard routing, shard-local statements, rows written back as literals) and
    \<open>crates/vairedb-common/src/bytea_in.rs\<close>.
  \<^item> \<open>Anonymization\<close>: \<open>co/anonymization\<close>.
  \<^item> \<open>Session\<close>: \<open>pg/session.rs\<close> and \<open>pg/transaction.rs\<close>.
  \<^item> \<open>Dml\<close>: \<open>pg/dml.rs\<close>.
  \<^item> \<open>Column_Types\<close>, \<open>Schemas\<close>, \<open>Constraints\<close>, \<open>Table_Meta\<close>: \<open>co/column_types.rs\<close>,
    \<open>pg/schemas.rs\<close>, \<open>pg/constraints.rs\<close> and \<open>pg/table_meta_ops.rs\<close>.

  \<^bold>\<open>State and operations.\<close> A struct is a record with its fields, a message of the proto files
  likewise; an operation that changes state returns the new state beside its answer, in the
  order the code makes its calls, and every early return of an error is a branch that returns
  \<open>Inl\<close>. The catalog is a record of redb tables; an environment record \<open>('t, 'b) env\<close> holds
  what redb and prost do, \<open>env_ok\<close> states what is relied on (a read returns the last write,
  decoding inverts encoding) and \<open>Reference_Env\<close> satisfies it. The network is a record of a
  dial and a write call over an arbitrary world, instantiated in \<open>Cluster\<close> with the modelled
  nodes. What sqlparser and DataFusion do with syntax trees and bind values is the record
  \<open>sql_lib\<close>, with \<open>sql_lib_ok\<close> and the instance \<open>ref_sql\<close>. Hashes (xxh3, HMAC), the clock and
  fresh identifiers are arguments.

  \<^bold>\<open>What the lemmas show.\<close>
  \<^item> Catalog: every reachable catalog is well-formed and refines six finite maps; claims take
    free names only; shards are placed on distinct live nodes, evenly, and read back; dropping
    a table removes its own shards and no other's.
  \<^item> Membership: a scan gives each node the state its silence calls for; a validated
    configuration never demotes a node that was just heard from; a silent node is buried; the
    two-transaction update of a node record can undo a registration.
  \<^item> Core node: a repeated write id is answered from the cache and changes nothing, an atomic
    batch applies all or nothing. The contract of the cache is the locale \<open>replay_cache\<close>,
    interpreted on the deduplication cache of the code.
  \<^item> Replication: the answer of a quorum write under every schedule of the replies, what an
    acknowledged write means for the nodes, that retries are not lost and reach a live node,
    and what a failed quorum leaves behind.
  \<^item> Writes: equal numeric keys route together in every notation, an INSERT sends each row to
    its shard and no other, an UPDATE or DELETE reaches the shard of every row it may change,
    shard-local statements bind the values the client bound, pseudonymized columns receive
    digests only (with the exception that is proved, too).
  \<^item> Blocks: the buffer with savepoint marks refines nested blocks, COMMIT ships one batch to
    one node set or refuses.
  \<^item> Table metadata: \<open>table_ok\<close> holds from CREATE TABLE through every ALTER TABLE.
  \<^item> Errors: no client message shows a node address, a code survives its way through text.

  \<^bold>\<open>Bounds and termination.\<close> No definition uses fuel. Recursions that are not structural have
  termination proofs: prefix stripping and the unwrapping of transport layers end because
  every round shortens the text or consumes one of the \<open>MAX_TRANSPORT_LAYERS\<close> layers the code
  allows. Integers that can overflow are kept at their width (\<open>word\<close>, or the bound written
  out); \<open>usize\<close> is 64 bits. The retry loop runs forever in the code; it is a step relation,
  and liveness is stated for a number of cycles.

  \<^bold>\<open>Not modelled.\<close>
  \<^item> The read path: \<open>co/scheduler\<close>, \<open>co/catalog/schema_provider.rs\<close>, \<open>pg/pg_*.rs\<close>,
    \<open>pg/compat_rewrite.rs\<close>, \<open>pg/column_labels.rs\<close>, \<open>pg/encoding.rs\<close>, \<open>pg/wire_types.rs\<close>,
    \<open>pg/anonymized_reads.rs\<close>, \<open>crates/vairedb-core/src/table_provider\<close> and \<open>ballista_exec\<close>.
    They transform DataFusion plans and Arrow arrays, whose types and meaning are third-party.
  \<^item> The functions of \<open>crates/vairedb-common/src\<close> registered with DataFusion (aggregates,
    date/time, JSON, formatting): array kernels over Arrow types.
  \<^item> \<open>pg/parser.rs\<close> and the token-level recognition in \<open>pg/schemas.rs\<close>: they work on
    sqlparser's tokens. The translation to DuckDB's dialect, \<open>duckdb_compat.rs\<close>, is the
    argument \<open>dialect\<close>, since it rewrites parts of the tree that are opaque here.
  \<^item> The shard fan-out of DDL (\<open>pg/ddl.rs\<close>, \<open>pg/indexes.rs\<close>), COPY, views, session
    parameters and MERGE: only the metadata they compute, and the helpers other parts share,
    are modelled.
  \<^item> Startup, logging, the gRPC and pgwire servers: wiring and I/O.
\<close>

end
